(* ===== verification/Prelude.thy ===== *)
theory Prelude
  imports Main "HOL-Library.Sublist"
begin

text \<open>
  Vocabulary and automation shared by every theory of the PayMux development.

  \<^item> Go values: \<open>int64\<close> arithmetic with its wrap-around, byte strings with the
    \<open>strings\<close> and \<open>strconv\<close> functions the code calls, JSON objects, times and
    durations in nanoseconds.
  \<^item> Go methods as state transformers: a method that reads or writes shared state and returns
    \<open>(value, error)\<close> is an \<open>op\<close>, a function from the state to an error or a value,
    and the new state. \<open>bindE\<close> is \<open>if err != nil { return nil, err }\<close>,
    \<open>catchE\<close> is a branch on the error, \<open>mapE\<close> is a \<open>for\<close> loop that
    stops at the first error.
  \<^item> Relational reasoning about such methods: the locale \<open>evolution\<close> states once
    how a reflexive and transitive relation between the state before and the state after passes
    through the combinators, whichever branch was taken and whatever error was returned.
\<close>

named_theorems op_simps \<open>equations that run the combinators of a method\<close>

subsection \<open>Machine integers\<close>

text \<open>A Go \<open>int64\<close> is an integer in the signed 64-bit range; \<open>wrap64\<close> is what
  an arithmetic operation stores when its exact result leaves that range.\<close>

definition max_int64 :: int where "max_int64 = 9223372036854775807"

definition min_int64 :: int where "min_int64 = -9223372036854775808"

definition is_int64 :: "int \<Rightarrow> bool" where
  "is_int64 x \<longleftrightarrow> min_int64 \<le> x \<and> x \<le> max_int64"

definition wrap64 :: "int \<Rightarrow> int" where
  "wrap64 x = (x - min_int64) mod 18446744073709551616 + min_int64"

lemmas int64_defs = max_int64_def min_int64_def is_int64_def wrap64_def

lemma wrap64_id [simp]: "is_int64 x \<Longrightarrow> wrap64 x = x"
  by (simp add: int64_defs)

lemma is_int64_wrap64 [simp]: "is_int64 (wrap64 x)"
proof -
  have "0 \<le> (x - min_int64) mod 18446744073709551616"
    and "(x - min_int64) mod 18446744073709551616 < 18446744073709551616"
    by simp_all
  then show ?thesis by (simp add: int64_defs)
qed

text \<open>Go's integer division and remainder truncate towards zero.\<close>

definition go_quot :: "int \<Rightarrow> int \<Rightarrow> int" where
  "go_quot a b = sgn a * sgn b * (\<bar>a\<bar> div \<bar>b\<bar>)"

definition go_rem :: "int \<Rightarrow> int \<Rightarrow> int" where
  "go_rem a b = a - b * go_quot a b"

lemma go_quot_nonneg: "0 \<le> a \<Longrightarrow> 0 < b \<Longrightarrow> go_quot a b = a div b"
  by (cases "a = 0") (simp_all add: go_quot_def)

lemma go_rem_nonneg: "0 \<le> a \<Longrightarrow> 0 < b \<Longrightarrow> go_rem a b = a mod b"
  by (simp add: go_rem_def go_quot_nonneg minus_mult_div_eq_mod)

subsection \<open>Byte strings\<close>

text \<open>A Go \<open>string\<close> is a sequence of bytes. \<open>strings.ToUpper\<close>, \<open>ToLower\<close>
  and \<open>TrimSpace\<close> are modelled on the ASCII range, which is what the identifiers, codes and
  statuses they are applied to are written in.\<close>

definition char_upper :: "char \<Rightarrow> char" where
  "char_upper c = (let n = (of_char c :: nat) in if 97 \<le> n \<and> n \<le> 122 then char_of (n - 32) else c)"

definition char_lower :: "char \<Rightarrow> char" where
  "char_lower c = (let n = (of_char c :: nat) in if 65 \<le> n \<and> n \<le> 90 then char_of (n + 32) else c)"

definition to_upper :: "string \<Rightarrow> string" where "to_upper = map char_upper"

definition to_lower :: "string \<Rightarrow> string" where "to_lower = map char_lower"

definition is_space :: "char \<Rightarrow> bool" where
  "is_space c \<longleftrightarrow> (let n = (of_char c :: nat) in n = 32 \<or> (9 \<le> n \<and> n \<le> 13))"

definition trim_left :: "(char \<Rightarrow> bool) \<Rightarrow> string \<Rightarrow> string" where
  "trim_left p s = dropWhile p s"

definition trim_both :: "(char \<Rightarrow> bool) \<Rightarrow> string \<Rightarrow> string" where
  "trim_both p s = rev (dropWhile p (rev (dropWhile p s)))"

definition trim_space :: "string \<Rightarrow> string" where
  "trim_space = trim_both is_space"

text \<open>\<open>strings.Cut(s, sep)\<close> for a one-byte separator: the text before and after its
  first occurrence, and whether it occurs.\<close>

definition cut :: "char \<Rightarrow> string \<Rightarrow> string \<times> string \<times> bool" where
  "cut sep s = (takeWhile (\<lambda>c. c \<noteq> sep) s, drop 1 (dropWhile (\<lambda>c. c \<noteq> sep) s), sep \<in> set s)"

text \<open>\<open>strings.Split(s, sep)\<close> for a one-byte separator.\<close>

fun split_on :: "char \<Rightarrow> string \<Rightarrow> string list" where
  "split_on sep [] = [[]]"
| "split_on sep (c # cs) =
     (if c = sep then [] # split_on sep cs
      else (case split_on sep cs of [] \<Rightarrow> [[c]] | w # ws \<Rightarrow> (c # w) # ws))"

definition clip_text :: "string \<Rightarrow> nat \<Rightarrow> string" where
  "clip_text s n = (if length s \<le> n then s else take n s)"

lemma length_clip_text: "length (clip_text s n) = min (length s) n"
  by (simp add: clip_text_def)

lemma dropWhile_none: "(\<forall>c \<in> set s. \<not> p c) \<Longrightarrow> dropWhile p s = s"
  by (cases s) simp_all

lemma trim_both_id: "(\<forall>c \<in> set s. \<not> p c) \<Longrightarrow> trim_both p s = s"
  by (simp add: trim_both_def dropWhile_none)

lemma trim_space_id: "(\<forall>c \<in> set s. \<not> is_space c) \<Longrightarrow> trim_space s = s"
  by (simp add: trim_space_def trim_both_id)

lemma trim_both_eq_Nil: "trim_both p s = [] \<longleftrightarrow> (\<forall>c \<in> set s. p c)"
proof
  assume "\<forall>c \<in> set s. p c"
  then show "trim_both p s = []" by (auto simp: trim_both_def dest: set_dropWhileD)
next
  assume "trim_both p s = []"
  then have "dropWhile p (rev (dropWhile p s)) = []" by (simp add: trim_both_def)
  then have h: "\<forall>c \<in> set (dropWhile p s). p c" by (simp only: dropWhile_eq_Nil_conv set_rev)
  show "\<forall>c \<in> set s. p c"
  proof
    fix c
    assume "c \<in> set s"
    then have "c \<in> set (takeWhile p s @ dropWhile p s)" by simp
    then show "p c" using h by (auto simp del: takeWhile_dropWhile_id dest: set_takeWhileD)
  qed
qed

lemma cut_absent: "sep \<notin> set s \<Longrightarrow> cut sep s = (s, [], False)"
  by (induction s) (auto simp: cut_def)

lemma cut_append: "sep \<notin> set a \<Longrightarrow> cut sep (a @ sep # b) = (a, b, True)"
proof -
  assume h: "sep \<notin> set a"
  have "takeWhile (\<lambda>c. c \<noteq> sep) (a @ sep # b) = a"
    using h by (induction a) auto
  moreover have "dropWhile (\<lambda>c. c \<noteq> sep) (a @ sep # b) = sep # b"
    using h by (induction a) auto
  ultimately show ?thesis by (simp add: cut_def)
qed

lemma split_on_absent: "sep \<notin> set s \<Longrightarrow> split_on sep s = [s]"
  by (induction s) auto

lemma split_on_append: "sep \<notin> set a \<Longrightarrow> split_on sep (a @ sep # b) = a # split_on sep b"
  by (induction a) auto

text \<open>Where a separator occurs in neither of two prefixes, the text on both sides of it is
  determined: the argument behind every composed key of the program.\<close>

lemma sep_inject:
  assumes "sep \<notin> set a" "sep \<notin> set a'" "a @ sep # b = a' @ sep # b'"
  shows "a = a' \<and> b = b'"
  using assms
proof (induction a arbitrary: a')
  case Nil
  then show ?case by (cases a') auto
next
  case (Cons x xs)
  then show ?case by (cases a') auto
qed

subsection \<open>Decimal numbers\<close>

text \<open>\<open>strconv.FormatInt(_, 10)\<close> and the value \<open>strconv.ParseInt(_, 10, 64)\<close>
  assigns to a string of digits.\<close>

definition digit_char :: "nat \<Rightarrow> char" where "digit_char d = char_of (48 + d)"

definition is_digit :: "char \<Rightarrow> bool" where
  "is_digit c \<longleftrightarrow> (let n = (of_char c :: nat) in 48 \<le> n \<and> n \<le> 57)"

definition digit_val :: "char \<Rightarrow> nat" where "digit_val c = of_char c - 48"

fun dec_nat :: "nat \<Rightarrow> string" where
  "dec_nat n = (if n < 10 then [digit_char n] else dec_nat (n div 10) @ [digit_char (n mod 10)])"

declare dec_nat.simps [simp del]

definition format_int :: "int \<Rightarrow> string" where
  "format_int i = (if i < 0 then CHR ''-'' # dec_nat (nat (- i)) else dec_nat (nat i))"

fun dec_acc :: "nat \<Rightarrow> string \<Rightarrow> nat" where
  "dec_acc a [] = a"
| "dec_acc a (c # cs) = dec_acc (10 * a + digit_val c) cs"

definition dec_val :: "string \<Rightarrow> nat" where "dec_val s = dec_acc 0 s"

lemma of_char_digit_char [simp]: "d < 10 \<Longrightarrow> (of_char (digit_char d) :: nat) = 48 + d"
  by (simp add: digit_char_def)

lemma is_digit_digit_char [simp]: "d < 10 \<Longrightarrow> is_digit (digit_char d)"
  by (simp add: is_digit_def)

lemma digit_val_digit_char [simp]: "d < 10 \<Longrightarrow> digit_val (digit_char d) = d"
  by (simp add: digit_val_def)

lemma digit_val_less [simp]: "is_digit c \<Longrightarrow> digit_val c < 10"
  by (auto simp: is_digit_def digit_val_def Let_def)

lemma dec_acc_append: "dec_acc a (s @ t) = dec_acc (dec_acc a s) t"
  by (induction s arbitrary: a) simp_all

lemma dec_acc_shift: "dec_acc a s = a * 10 ^ length s + dec_val s"
proof (induction s arbitrary: a)
  case Nil
  show ?case by (simp add: dec_val_def)
next
  case (Cons c cs)
  have "dec_acc a (c # cs) = (10 * a + digit_val c) * 10 ^ length cs + dec_val cs"
    using Cons.IH[of "10 * a + digit_val c"] by simp
  moreover have "dec_val (c # cs) = digit_val c * 10 ^ length cs + dec_val cs"
    using Cons.IH[of "digit_val c"] by (simp add: dec_val_def)
  ultimately show ?case by (simp add: algebra_simps)
qed

lemma dec_val_append: "dec_val (s @ t) = dec_val s * 10 ^ length t + dec_val t"
  using dec_acc_append[of 0 s t] dec_acc_shift[of "dec_acc 0 s" t] by (simp add: dec_val_def)

lemma dec_val_dec_nat [simp]: "dec_val (dec_nat n) = n"
proof (induction n rule: dec_nat.induct)
  case (1 n)
  show ?case
  proof (cases "n < 10")
    case True
    then show ?thesis by (simp add: dec_nat.simps[of n] dec_val_def)
  next
    case False
    then have "dec_val (dec_nat n) = n div 10 * 10 + dec_val [digit_char (n mod 10)]"
      using 1 by (simp add: dec_nat.simps[of n] dec_val_append)
    then show ?thesis by (simp add: dec_val_def)
  qed
qed

lemma dec_nat_digits: "c \<in> set (dec_nat n) \<Longrightarrow> is_digit c"
proof (induction n arbitrary: c rule: dec_nat.induct)
  case (1 n)
  then show ?case
    by (cases "n < 10") (auto simp: dec_nat.simps[of n])
qed

lemma dec_nat_nonempty [simp]: "dec_nat n \<noteq> []"
  by (simp add: dec_nat.simps[of n])

lemma dec_nat_inject: "dec_nat m = dec_nat n \<longleftrightarrow> m = n"
  by (metis dec_val_dec_nat)

lemma is_digit_not_space: "is_digit c \<Longrightarrow> \<not> is_space c"
  by (auto simp: is_digit_def is_space_def Let_def)

lemma dec_val_less: "(\<forall>c \<in> set s. is_digit c) \<Longrightarrow> dec_val s < 10 ^ length s"
proof (induction s)
  case Nil
  show ?case by (simp add: dec_val_def)
next
  case (Cons c cs)
  have "dec_val (c # cs) = digit_val c * 10 ^ length cs + dec_val cs"
    using dec_val_append[of "[c]" cs] by (simp add: dec_val_def)
  also have "\<dots> < digit_val c * 10 ^ length cs + 10 ^ length cs"
    using Cons by simp
  also have "\<dots> = Suc (digit_val c) * 10 ^ length cs" by simp
  also have "\<dots> \<le> 10 * 10 ^ length cs"
    using Cons.prems digit_val_less[of c] by (intro mult_le_mono1) (simp add: Suc_le_eq)
  finally show ?case by simp
qed

lemma dec_val_zeros [simp]: "dec_val (replicate n (CHR ''0'')) = 0"
proof (induction n)
  case (Suc n)
  have "dec_val (CHR ''0'' # replicate n (CHR ''0'')) = dec_val (replicate n (CHR ''0''))"
    using dec_val_append[of "[CHR ''0'']" "replicate n (CHR ''0'')"]
    by (simp add: dec_val_def digit_val_def)
  with Suc show ?case by simp
qed (simp add: dec_val_def)

subsection \<open>JSON, times and the empty string\<close>

datatype json = JNull | JBool bool | JNum int | JStr string | JArr "json list"
  | JObj "(string \<times> json) list"

text \<open>A \<open>map[string]any\<close>; \<open>None\<close> where the code distinguishes a nil map.\<close>

type_synonym jmap = "(string \<times> json) list"

text \<open>Nanoseconds since Go's zero time, so that \<open>IsZero\<close> is \<open>= 0\<close>.\<close>

type_synonym time = int

type_synonym duration = int

definition second :: duration where "second = 1000000000"

definition minute :: duration where "minute = 60 * second"

definition hour :: duration where "hour = 60 * minute"

lemmas duration_defs = second_def minute_def hour_def

text \<open>SQL's \<open>nullif(v, '')\<close> and \<open>coalesce(nullif(v, ''), old)\<close>.\<close>

definition nullif :: "string \<Rightarrow> string option" where
  "nullif v = (if v = [] then None else Some v)"

definition keep_unless :: "string \<Rightarrow> string \<Rightarrow> string" where
  "keep_unless v old = (if v = [] then old else v)"

definition coalesce :: "'a option \<Rightarrow> 'a \<Rightarrow> 'a" where
  "coalesce v old = (case v of None \<Rightarrow> old | Some x \<Rightarrow> x)"

subsection \<open>Methods that read and write state\<close>

type_synonym ('s, 'e, 'a) op = "'s \<Rightarrow> ('e + 'a) \<times> 's"

definition succeed :: "'a \<Rightarrow> ('s, 'e, 'a) op" where "succeed x s = (Inr x, s)"

definition throw :: "'e \<Rightarrow> ('s, 'e, 'a) op" where "throw e s = (Inl e, s)"

definition lift_result :: "'e + 'a \<Rightarrow> ('s, 'e, 'a) op" where "lift_result r s = (r, s)"

definition gets :: "('s \<Rightarrow> 'a) \<Rightarrow> ('s, 'e, 'a) op" where "gets f s = (Inr (f s), s)"

definition modify :: "('s \<Rightarrow> 's) \<Rightarrow> ('s, 'e, unit) op" where "modify f s = (Inr (), f s)"

definition catchE ::
  "('s, 'e, 'a) op \<Rightarrow> ('e \<Rightarrow> ('s, 'd, 'b) op) \<Rightarrow> ('a \<Rightarrow> ('s, 'd, 'b) op) \<Rightarrow> ('s, 'd, 'b) op" where
  "catchE m h f s = (case m s of (Inl e, t) \<Rightarrow> h e t | (Inr x, t) \<Rightarrow> f x t)"

definition bindE :: "('s, 'e, 'a) op \<Rightarrow> ('a \<Rightarrow> ('s, 'e, 'b) op) \<Rightarrow> ('s, 'e, 'b) op" where
  "bindE m f = catchE m throw f"

primrec mapE :: "('a \<Rightarrow> ('s, 'e, 'b) op) \<Rightarrow> 'a list \<Rightarrow> ('s, 'e, 'b list) op" where
  "mapE f [] = succeed []"
| "mapE f (x # xs) = bindE (f x) (\<lambda>y. bindE (mapE f xs) (\<lambda>ys. succeed (y # ys)))"

lemma succeed_run [op_simps]: "succeed x s = (Inr x, s)" by (simp add: succeed_def)

lemma throw_run [op_simps]: "throw e s = (Inl e, s)" by (simp add: throw_def)

lemma lift_result_run [op_simps]: "lift_result r s = (r, s)" by (simp add: lift_result_def)

lemma gets_run [op_simps]: "gets f s = (Inr (f s), s)" by (simp add: gets_def)

lemma modify_run [op_simps]: "modify f s = (Inr (), f s)" by (simp add: modify_def)

lemma catchE_Inl [op_simps]: "m s = (Inl e, t) \<Longrightarrow> catchE m h f s = h e t"
  by (simp add: catchE_def)

lemma catchE_Inr [op_simps]: "m s = (Inr x, t) \<Longrightarrow> catchE m h f s = f x t"
  by (simp add: catchE_def)

lemma bindE_Inl [op_simps]: "m s = (Inl e, t) \<Longrightarrow> bindE m f s = (Inl e, t)"
  by (simp add: bindE_def catchE_def throw_def)

lemma bindE_Inr [op_simps]: "m s = (Inr x, t) \<Longrightarrow> bindE m f s = f x t"
  by (simp add: bindE_def catchE_def)

lemma bindE_run: "bindE m f s = (case m s of (Inl e, t) \<Rightarrow> (Inl e, t) | (Inr x, t) \<Rightarrow> f x t)"
  by (auto simp: bindE_def catchE_def throw_def split: prod.splits sum.splits)

lemma bindE_Inr_E:
  assumes "bindE m f s = (Inr y, u)"
  obtains x t where "m s = (Inr x, t)" and "f x t = (Inr y, u)"
  using assms by (auto simp: bindE_run split: prod.splits sum.splits)

subsection \<open>Relations between the state before and after a method\<close>

locale evolution =
  fixes R :: "'s \<Rightarrow> 's \<Rightarrow> bool"
  assumes R_refl: "R s s"
    and R_trans: "R s t \<Longrightarrow> R t u \<Longrightarrow> R s u"
begin

definition evolves :: "('s, 'e, 'a) op \<Rightarrow> bool" where
  "evolves m \<longleftrightarrow> (\<forall>s. R s (snd (m s)))"

lemma evolvesI: "(\<And>s. R s (snd (m s))) \<Longrightarrow> evolves m"
  by (simp add: evolves_def)

lemma evolvesD: "evolves m \<Longrightarrow> m s = (r, t) \<Longrightarrow> R s t"
  by (metis evolves_def snd_conv)

lemma evolves_succeed: "evolves (succeed x)"
  by (simp add: evolves_def succeed_def R_refl)

lemma evolves_throw: "evolves (throw e)"
  by (simp add: evolves_def throw_def R_refl)

lemma evolves_lift_result: "evolves (lift_result r)"
  by (simp add: evolves_def lift_result_def R_refl)

lemma evolves_gets: "evolves (gets f)"
  by (simp add: evolves_def gets_def R_refl)

lemma evolves_modify: "(\<And>s. R s (f s)) \<Longrightarrow> evolves (modify f)"
  by (simp add: evolves_def modify_def)

lemma evolves_catchE:
  assumes "evolves m" "\<And>e. evolves (h e)" "\<And>x. evolves (f x)"
  shows "evolves (catchE m h f)"
proof (rule evolvesI)
  fix s
  obtain r t where m: "m s = (r, t)" by (cases "m s")
  with assms(1) have "R s t" by (rule evolvesD)
  moreover have "R t (snd (h e t))" for e using assms(2) by (simp add: evolves_def)
  moreover have "R t (snd (f x t))" for x using assms(3) by (simp add: evolves_def)
  ultimately show "R s (snd (catchE m h f s))"
    by (cases r) (auto simp: catchE_def m intro: R_trans)
qed

lemma evolves_bindE: "evolves m \<Longrightarrow> (\<And>x. evolves (f x)) \<Longrightarrow> evolves (bindE m f)"
  by (simp add: bindE_def evolves_catchE evolves_throw)

text \<open>The same where what follows matters only for the values the first method can return.\<close>

lemma evolves_bind_of:
  assumes "evolves m" "\<And>s x t. m s = (Inr x, t) \<Longrightarrow> evolves (f x)"
  shows "evolves (bindE m f)"
proof (rule evolvesI)
  fix s
  obtain r t where m: "m s = (r, t)" by (cases "m s")
  with assms(1) have "R s t" by (rule evolvesD)
  moreover have "R t (snd (f x t))" if "r = Inr x" for x
    using assms(2)[of s x t] m that by (simp add: evolves_def)
  ultimately show "R s (snd (bindE m f s))"
    by (cases r) (auto simp: bindE_run m intro: R_trans)
qed

lemma evolves_mapE: "(\<And>x. evolves (f x)) \<Longrightarrow> evolves (mapE f xs)"
  by (induction xs) (simp_all add: evolves_succeed evolves_bindE)

lemma evolves_mapE_in: "(\<And>x. x \<in> set xs \<Longrightarrow> evolves (f x)) \<Longrightarrow> evolves (mapE f xs)"
  by (induction xs) (simp_all add: evolves_succeed evolves_bindE)

lemma evolves_if: "(b \<Longrightarrow> evolves m) \<Longrightarrow> (\<not> b \<Longrightarrow> evolves n) \<Longrightarrow> evolves (if b then m else n)"
  by simp

lemma evolves_case_option:
  "(x = None \<Longrightarrow> evolves m) \<Longrightarrow> (\<And>y. x = Some y \<Longrightarrow> evolves (f y)) \<Longrightarrow>
   evolves (case x of None \<Rightarrow> m | Some y \<Rightarrow> f y)"
  by (cases x) simp_all

lemma evolves_case_sum:
  "(\<And>y. x = Inl y \<Longrightarrow> evolves (f y)) \<Longrightarrow> (\<And>y. x = Inr y \<Longrightarrow> evolves (g y)) \<Longrightarrow>
   evolves (case x of Inl y \<Rightarrow> f y | Inr y \<Rightarrow> g y)"
  by (cases x) simp_all

lemma evolves_case_prod:
  "(\<And>y z. x = (y, z) \<Longrightarrow> evolves (f y z)) \<Longrightarrow> evolves (case x of (y, z) \<Rightarrow> f y z)"
  by (cases x) simp

lemmas evolves_intros = evolves_succeed evolves_throw evolves_lift_result evolves_gets
  evolves_catchE evolves_bindE evolves_mapE evolves_if evolves_case_option evolves_case_sum
  evolves_case_prod

end

text \<open>Keeping an invariant is the special case of a relation that says nothing about the
  state before unless the invariant held there.\<close>

definition keeps_rel :: "('s \<Rightarrow> bool) \<Rightarrow> 's \<Rightarrow> 's \<Rightarrow> bool" where
  "keeps_rel I s t \<longleftrightarrow> (I s \<longrightarrow> I t)"

interpretation keeps: evolution "keeps_rel I" for I
  by unfold_locales (auto simp: keeps_rel_def)

end
