(* ===== verification/Status.thy ===== *)
theory Status
  imports Prelude
begin

text \<open>
  The status machines of package \<open>internal/gateway\<close>: the payment status and its rank order
  (\<open>status.go\<close>) and the payout status and its allow-list (\<open>payout.go\<close>). Both are
  guarded machines: a repository moves a row with a compare-and-set
  \<open>UPDATE ... WHERE status = ANY(PredecessorsOf(next))\<close>. The locale states the contract of
  that guard and what follows from it for every sequence of writers, whichever order they reach
  the database in; both machines are instances.

  A Go status is a string, so each enumeration keeps a constructor for values outside it.
\<close>

subsection \<open>Compare-and-set machines\<close>

locale guarded_machine =
  fixes can :: "'s \<Rightarrow> 's \<Rightarrow> bool" and preds :: "'s \<Rightarrow> 's list"
  assumes preds_iff: "s \<in> set (preds next) \<longleftrightarrow> can s next"
    and can_irrefl: "\<not> can s s"
begin

text \<open>One guarded write, and a sequence of them; a refused write leaves the row alone.\<close>

definition advance :: "'s \<Rightarrow> 's \<Rightarrow> 's" where
  "advance s next = (if s \<in> set (preds next) then next else s)"

definition reaches :: "'s \<Rightarrow> 's \<Rightarrow> bool" where "reaches = can\<^sup>*\<^sup>*"

lemma reaches_refl: "reaches s s" by (simp add: reaches_def)

lemma reaches_trans: "reaches s t \<Longrightarrow> reaches t u \<Longrightarrow> reaches s u"
  by (simp add: reaches_def)

lemma can_reaches: "can s t \<Longrightarrow> reaches s t" by (simp add: reaches_def)

lemma advance_reaches: "reaches s (advance s t)"
  by (simp add: advance_def preds_iff can_reaches reaches_refl)

lemma writers_reach: "reaches s (foldl advance s ts)"
  by (induction ts rule: rev_induct) (auto intro: reaches_refl reaches_trans advance_reaches)

lemma invariant_reaches:
  assumes "reaches s t" "P s" "\<And>u v. can u v \<Longrightarrow> P u \<Longrightarrow> P v"
  shows "P t"
  using assms(1,2) unfolding reaches_def by (induction rule: rtranclp_induct) (auto intro: assms(3))

lemma final_reaches: "reaches s t \<Longrightarrow> (\<And>u. \<not> can s u) \<Longrightarrow> t = s"
  unfolding reaches_def by (erule converse_rtranclpE) auto

lemma repeat_refused: "advance (advance s t) t = advance s t"
  by (simp add: advance_def preds_iff can_irrefl)

end

text \<open>A machine whose moves all increase a measure visits no status twice.\<close>

locale measured_machine = guarded_machine can preds
  for can :: "'s \<Rightarrow> 's \<Rightarrow> bool" and preds :: "'s \<Rightarrow> 's list" +
  fixes rank_of :: "'s \<Rightarrow> nat"
  assumes can_increases: "can s t \<Longrightarrow> rank_of s < rank_of t"
begin

lemma reaches_increases: "reaches s t \<Longrightarrow> s = t \<or> rank_of s < rank_of t"
  unfolding reaches_def by (induction rule: rtranclp_induct) (auto dest: can_increases)

lemma never_returns: "can s t \<Longrightarrow> \<not> reaches t s"
  using reaches_increases can_increases by (metis can_irrefl less_asym)

end

subsection \<open>Payment status\<close>

datatype status = Pending | Authorized | Paid | Failed | Canceled | Expired
  | Refunded | PartiallyRefunded | OtherStatus string

fun status_text :: "status \<Rightarrow> string" where
  "status_text Pending = ''PENDING''"
| "status_text Authorized = ''AUTHORIZED''"
| "status_text Paid = ''PAID''"
| "status_text Failed = ''FAILED''"
| "status_text Canceled = ''CANCELED''"
| "status_text Expired = ''EXPIRED''"
| "status_text Refunded = ''REFUNDED''"
| "status_text PartiallyRefunded = ''PARTIALLY_REFUNDED''"
| "status_text (OtherStatus v) = v"

text \<open>The order of the list is by lifecycle rank.\<close>

definition all_statuses :: "status list" where
  "all_statuses = [Pending, Authorized, Failed, Canceled, Expired, Paid, PartiallyRefunded, Refunded]"

definition status_ranks :: "(status \<times> nat) list" where
  "status_ranks = [(Pending, 10), (Authorized, 20), (Failed, 30), (Canceled, 30), (Expired, 30),
     (Paid, 40), (PartiallyRefunded, 50), (Refunded, 60)]"

definition status_valid :: "status \<Rightarrow> bool" where
  "status_valid s \<longleftrightarrow> map_of status_ranks s \<noteq> None"

definition status_rank :: "status \<Rightarrow> nat" where
  "status_rank s = (case map_of status_ranks s of None \<Rightarrow> 0 | Some r \<Rightarrow> r)"

fun terminal :: "status \<Rightarrow> bool" where
  "terminal Failed = True"
| "terminal Canceled = True"
| "terminal Expired = True"
| "terminal Refunded = True"
| "terminal _ = False"

fun settled :: "status \<Rightarrow> bool" where
  "settled Paid = True"
| "settled Refunded = True"
| "settled PartiallyRefunded = True"
| "settled _ = False"

definition can_transition :: "status \<Rightarrow> status \<Rightarrow> bool" where
  "can_transition s next =
     (if \<not> status_valid s \<or> \<not> status_valid next then False
      else if s = next then False
      else if settled s then next = PartiallyRefunded \<or> next = Refunded
      else if terminal s then False
      else status_rank s < status_rank next)"

text \<open>\<open>ParseStatus\<close>: the known status a string spells, or the error.\<close>

definition status_of :: "string \<Rightarrow> status" where
  "status_of v = (case List.find (\<lambda>s. status_text s = v) all_statuses of
     Some s \<Rightarrow> s | None \<Rightarrow> OtherStatus v)"

definition parse_status :: "string \<Rightarrow> string + status" where
  "parse_status v = (let s = status_of v in if status_valid s then Inr s else Inl v)"

definition predecessors_of :: "status \<Rightarrow> status list" where
  "predecessors_of next = filter (\<lambda>s. can_transition s next) all_statuses"

datatype refund_status = RefundPending | RefundSucceeded | RefundFailed | OtherRefund string

datatype subscription_status = SubActive | SubInactive | SubCanceled | OtherSub string

lemma status_valid_iff: "status_valid s \<longleftrightarrow> s \<in> set all_statuses"
  by (cases s) (simp_all add: status_valid_def status_ranks_def all_statuses_def)

lemmas status_machine_defs = can_transition_def status_valid_def status_rank_def status_ranks_def

interpretation payment_status: guarded_machine can_transition predecessors_of
proof
  show "s \<in> set (predecessors_of next) \<longleftrightarrow> can_transition s next" for s "next"
    by (auto simp: predecessors_of_def can_transition_def status_valid_iff)
  show "\<not> can_transition s s" for s by (simp add: can_transition_def)
qed

lemma settled_step: "can_transition s t \<Longrightarrow> settled s \<Longrightarrow> settled t"
  by (auto simp: can_transition_def split: if_splits)

lemma status_text_of: "status_text (status_of v) = v"
proof (cases "List.find (\<lambda>s. status_text s = v) all_statuses")
  case (Some s)
  then have "status_text s = v" by (auto simp: find_Some_iff)
  with Some show ?thesis by (simp add: status_of_def)
qed (simp add: status_of_def)

text \<open>C3. The guard a payment update carries into SQL is the transition rule, and under it any
  number of writers, in any order, leave a payment in a status reachable from the one it had:
  money once captured stays captured, and a payment that failed, was canceled or expired never
  moves again, whatever notifications arrive late or twice.\<close>

theorem payment_status_forward:
  "(s \<in> set (predecessors_of t) \<longleftrightarrow> can_transition s t) \<and>
   (settled s \<longrightarrow> settled (foldl payment_status.advance s ts)) \<and>
   (s \<in> {Failed, Canceled, Expired} \<longrightarrow> foldl payment_status.advance s ts = s)"
proof (intro conjI impI)
  show "s \<in> set (predecessors_of t) \<longleftrightarrow> can_transition s t" by (rule payment_status.preds_iff)
  show "settled (foldl payment_status.advance s ts)" if "settled s"
    by (rule payment_status.invariant_reaches[where P = settled, OF payment_status.writers_reach that])
      (rule settled_step)
  show "foldl payment_status.advance s ts = s" if "s \<in> {Failed, Canceled, Expired}"
    by (rule payment_status.final_reaches[OF payment_status.writers_reach])
      (use that in \<open>auto simp: can_transition_def\<close>)
qed

theorem payment_status_forward_witness:
  "settled Paid \<and> settled (foldl payment_status.advance Paid [Pending, Refunded, Expired]) \<and>
   foldl payment_status.advance Expired [Paid, Pending] = Expired"
  using payment_status_forward[of Paid Paid "[Pending, Refunded, Expired]"]
    payment_status_forward[of Expired Paid "[Paid, Pending]"] by simp

text \<open>The rank of a payment increases with every allowed move but one: the rule also lets
  a fully refunded payment fall back to partially refunded, although it is documented as never
  moving backwards and never leaving a terminal status.\<close>

theorem payment_rank_exception:
  "(\<forall>s t. can_transition s t \<longrightarrow>
      status_rank s < status_rank t \<and> \<not> terminal s \<or> (s = Refunded \<and> t = PartiallyRefunded)) \<and>
   can_transition Refunded PartiallyRefunded \<and> terminal Refunded \<and>
   status_rank PartiallyRefunded < status_rank Refunded"
proof (intro conjI allI impI)
  fix s t
  assume "can_transition s t"
  then show "status_rank s < status_rank t \<and> \<not> terminal s \<or> (s = Refunded \<and> t = PartiallyRefunded)"
    by (cases s; cases t) (simp_all add: status_machine_defs)
qed (simp_all add: status_machine_defs)

theorem payment_rank_exception_witness:
  "can_transition Pending Paid \<and> status_rank Pending < status_rank Paid"
proof -
  have "can_transition Pending Paid" by code_simp
  then show ?thesis using payment_rank_exception by blast
qed

subsection \<open>Payout status\<close>

datatype payout_status = Requested | Approved | Submitted | Unresolved | Completed
  | PayoutFailed | Rejected | OtherPayout string

fun payout_status_text :: "payout_status \<Rightarrow> string" where
  "payout_status_text Requested = ''REQUESTED''"
| "payout_status_text Approved = ''APPROVED''"
| "payout_status_text Submitted = ''SUBMITTED''"
| "payout_status_text Unresolved = ''UNRESOLVED''"
| "payout_status_text Completed = ''COMPLETED''"
| "payout_status_text PayoutFailed = ''FAILED''"
| "payout_status_text Rejected = ''REJECTED''"
| "payout_status_text (OtherPayout v) = v"

text \<open>The map \<open>payoutSuccessors\<close>; the order of a Go map is unspecified and nothing
  depends on it.\<close>

definition payout_successor_table :: "(payout_status \<times> payout_status list) list" where
  "payout_successor_table =
    [(Requested, [Approved, Rejected, PayoutFailed]),
     (Approved, [Submitted, PayoutFailed, Unresolved]),
     (Submitted, [Completed, PayoutFailed]),
     (Unresolved, [Submitted, Completed, PayoutFailed]),
     (Completed, []), (PayoutFailed, []), (Rejected, [])]"

definition payout_successors :: "payout_status \<Rightarrow> payout_status list" where
  "payout_successors s = (case map_of payout_successor_table s of None \<Rightarrow> [] | Some l \<Rightarrow> l)"

definition payout_ranks :: "(payout_status \<times> nat) list" where
  "payout_ranks = [(Requested, 10), (Approved, 20), (Submitted, 30), (Unresolved, 35),
     (Completed, 40), (PayoutFailed, 40), (Rejected, 40)]"

definition payout_valid :: "payout_status \<Rightarrow> bool" where
  "payout_valid s \<longleftrightarrow> map_of payout_ranks s \<noteq> None"

definition payout_rank :: "payout_status \<Rightarrow> nat" where
  "payout_rank s = (case map_of payout_ranks s of None \<Rightarrow> 0 | Some r \<Rightarrow> r)"

definition payout_terminal :: "payout_status \<Rightarrow> bool" where
  "payout_terminal s \<longleftrightarrow> payout_successors s = [] \<and> payout_valid s"

fun payout_settled :: "payout_status \<Rightarrow> bool" where
  "payout_settled Submitted = True"
| "payout_settled Completed = True"
| "payout_settled _ = False"

fun in_flight :: "payout_status \<Rightarrow> bool" where
  "in_flight Approved = True"
| "in_flight Submitted = True"
| "in_flight Unresolved = True"
| "in_flight _ = False"

definition payout_can_transition :: "payout_status \<Rightarrow> payout_status \<Rightarrow> bool" where
  "payout_can_transition s next \<longleftrightarrow>
     payout_valid s \<and> payout_valid next \<and> s \<noteq> next \<and> next \<in> set (payout_successors s)"

definition payout_predecessors_of :: "payout_status \<Rightarrow> payout_status list" where
  "payout_predecessors_of next =
     concat (map (\<lambda>(from, successors). map (\<lambda>_. from) (filter (\<lambda>allowed. allowed = next) successors))
       payout_successor_table)"

definition payout_status_of :: "string \<Rightarrow> payout_status" where
  "payout_status_of v = (case List.find (\<lambda>s. payout_status_text s = v) (map fst payout_ranks) of
     Some s \<Rightarrow> s | None \<Rightarrow> OtherPayout v)"

definition parse_payout_status :: "string \<Rightarrow> string + payout_status" where
  "parse_payout_status v = (let s = payout_status_of v in if payout_valid s then Inr s else Inl v)"

lemmas payout_machine_defs = payout_can_transition_def payout_valid_def payout_rank_def
  payout_ranks_def payout_successors_def payout_successor_table_def

text \<open>A measure under which every move of the allow-list is an increase; it is not the code's
  \<open>Rank\<close>, which puts \<open>UNRESOLVED\<close> above \<open>SUBMITTED\<close>.\<close>

fun payout_depth :: "payout_status \<Rightarrow> nat" where
  "payout_depth Requested = 0"
| "payout_depth Approved = 1"
| "payout_depth Unresolved = 2"
| "payout_depth Submitted = 3"
| "payout_depth _ = 4"

lemma payout_predecessors_iff: "s \<in> set (payout_predecessors_of next) \<longleftrightarrow> payout_can_transition s next"
  by (cases s; cases "next") (simp_all add: payout_predecessors_of_def payout_machine_defs)

lemma payout_depth_increases: "payout_can_transition s t \<Longrightarrow> payout_depth s < payout_depth t"
  by (cases s; cases t) (simp_all add: payout_machine_defs)

interpretation payout_machine: measured_machine payout_can_transition payout_predecessors_of payout_depth
proof
  show "s \<in> set (payout_predecessors_of next) \<longleftrightarrow> payout_can_transition s next" for s "next"
    by (rule payout_predecessors_iff)
  show "\<not> payout_can_transition s s" for s by (simp add: payout_can_transition_def)
  show "payout_depth s < payout_depth t" if "payout_can_transition s t" for s t
    using that by (rule payout_depth_increases)
qed

text \<open>The statuses a payout can have only after it was released.\<close>

definition released :: "payout_status \<Rightarrow> bool" where
  "released s \<longleftrightarrow> s \<in> {Approved, Submitted, Unresolved, Completed}"

lemma unreleased_step:
  "payout_can_transition s t \<Longrightarrow> \<not> released s \<Longrightarrow> t \<noteq> Approved \<Longrightarrow> \<not> released t"
  by (cases s; cases t) (simp_all add: payout_machine_defs released_def)

lemma payout_terminal_final: "payout_terminal s \<Longrightarrow> \<not> payout_can_transition s t"
  by (simp add: payout_terminal_def payout_can_transition_def)

lemma unreleased_without_approval:
  "\<not> released s \<Longrightarrow> Approved \<notin> set ts \<Longrightarrow> \<not> released (foldl payout_machine.advance s ts)"
proof (induction ts arbitrary: s)
  case (Cons t ts)
  then have "\<not> released (payout_machine.advance s t)"
    by (auto simp: payout_machine.advance_def payout_machine.preds_iff dest: unreleased_step)
  with Cons show ?case by simp
qed simp

text \<open>C5. The payout allow-list is a finite ascent: the SQL guard is exactly the list, no
  status is ever returned to, completed, failed and rejected are final, and a requested payout
  that nobody approves never becomes submitted, unresolved or completed, whatever writes are
  attempted on it.\<close>

theorem payout_status_ascends:
  "(s \<in> set (payout_predecessors_of t) \<longleftrightarrow> payout_can_transition s t) \<and>
   (payout_can_transition s t \<longrightarrow> \<not> payout_machine.reaches t s) \<and>
   (payout_terminal s \<longrightarrow> foldl payout_machine.advance s ts = s) \<and>
   (Approved \<notin> set ts \<longrightarrow> \<not> released (foldl payout_machine.advance Requested ts))"
proof (intro conjI impI)
  show "s \<in> set (payout_predecessors_of t) \<longleftrightarrow> payout_can_transition s t"
    by (rule payout_predecessors_iff)
  show "\<not> payout_machine.reaches t s" if "payout_can_transition s t"
    using that by (rule payout_machine.never_returns)
  show "foldl payout_machine.advance s ts = s" if "payout_terminal s"
    by (rule payout_machine.final_reaches[OF payout_machine.writers_reach])
      (rule payout_terminal_final[OF that])
  show "\<not> released (foldl payout_machine.advance Requested ts)" if "Approved \<notin> set ts"
    by (rule unreleased_without_approval[OF _ that]) (simp add: released_def)
qed

theorem payout_status_ascends_witness:
  "foldl payout_machine.advance Rejected [Approved, Completed] = Rejected \<and>
   \<not> released (foldl payout_machine.advance Requested [Submitted, PayoutFailed, Completed]) \<and>
   \<not> payout_machine.reaches Submitted Unresolved"
proof -
  have "payout_terminal Rejected" "payout_can_transition Unresolved Submitted" by code_simp+
  then show ?thesis
    using payout_status_ascends[of Rejected Completed "[Approved, Completed]"]
      payout_status_ascends[of Unresolved Submitted "[Submitted, PayoutFailed, Completed]"]
    by simp
qed

end
