(* ===== verification/Schema.thy ===== *)
theory Schema
  imports Status
begin

text \<open>
  The data model: the structs of \<open>internal/*/model.go\<close>, \<open>internal/gateway/gateway.go\<close> and
  \<open>internal/gateway/payout.go\<close>, the event types, and the rows of \<open>migrations/*.sql\<close>. One
  record serves as both the struct and the row it is scanned from.

  \<^item> A nullable text column is the empty string where the code reads it with
    \<open>coalesce(_, '')\<close> and writes it with \<open>nullif(_, '')\<close>, and an \<open>option\<close> where the
    struct has a pointer.
  \<^item> A \<open>map[string]any\<close> column is an association list, a \<open>json.RawMessage\<close> an optional
    JSON value; encoding and decoding of \<open>jsonb\<close> columns is the identity.
  \<^item> Sealed credentials are held opened; sealing them is the subject of theory
    \<open>Password\<close>.
\<close>

subsection \<open>Event types\<close>

datatype etype = PaymentCreated | PaymentPending | PaymentAuthorized | PaymentPaid
  | PaymentFailed | PaymentCanceled | PaymentExpired | PaymentRefunded | PaymentPartiallyRefunded
  | EvRefundCreated | EvRefundCompleted | EvRefundFailed
  | SubscriptionCreated | SubscriptionUpdated | SubscriptionEnabled | SubscriptionDisabled
  | SubscriptionCanceled
  | EvPayoutRequested | EvPayoutApproved | EvPayoutRejected | EvPayoutSubmitted
  | EvPayoutCompleted | EvPayoutFailed

fun type_name :: "etype \<Rightarrow> string" where
  "type_name PaymentCreated = ''payment.created''"
| "type_name PaymentPending = ''payment.pending''"
| "type_name PaymentAuthorized = ''payment.authorized''"
| "type_name PaymentPaid = ''payment.paid''"
| "type_name PaymentFailed = ''payment.failed''"
| "type_name PaymentCanceled = ''payment.canceled''"
| "type_name PaymentExpired = ''payment.expired''"
| "type_name PaymentRefunded = ''payment.refunded''"
| "type_name PaymentPartiallyRefunded = ''payment.partially_refunded''"
| "type_name EvRefundCreated = ''refund.created''"
| "type_name EvRefundCompleted = ''refund.completed''"
| "type_name EvRefundFailed = ''refund.failed''"
| "type_name SubscriptionCreated = ''subscription.created''"
| "type_name SubscriptionUpdated = ''subscription.updated''"
| "type_name SubscriptionEnabled = ''subscription.enabled''"
| "type_name SubscriptionDisabled = ''subscription.disabled''"
| "type_name SubscriptionCanceled = ''subscription.canceled''"
| "type_name EvPayoutRequested = ''payout.requested''"
| "type_name EvPayoutApproved = ''payout.approved''"
| "type_name EvPayoutRejected = ''payout.rejected''"
| "type_name EvPayoutSubmitted = ''payout.submitted''"
| "type_name EvPayoutCompleted = ''payout.completed''"
| "type_name EvPayoutFailed = ''payout.failed''"

definition all_types :: "etype list" where
  "all_types = [PaymentCreated, PaymentPending, PaymentAuthorized, PaymentPaid, PaymentFailed,
     PaymentCanceled, PaymentExpired, PaymentRefunded, PaymentPartiallyRefunded, EvRefundCreated,
     EvRefundCompleted, EvRefundFailed, SubscriptionCreated, SubscriptionUpdated,
     SubscriptionEnabled, SubscriptionDisabled, SubscriptionCanceled, EvPayoutRequested,
     EvPayoutApproved, EvPayoutRejected, EvPayoutSubmitted, EvPayoutCompleted, EvPayoutFailed]"

subsection \<open>Applications, destinations and gateway accounts\<close>

record application =
  app_id :: string
  app_name :: string
  app_slug :: string
  app_gateway_account_id :: string
  app_disabled_at :: "time option"
  app_payout_enabled :: bool
  app_payout_requires_approval :: bool
  app_payout_max_amount :: "int option"
  app_payout_daily_limit :: "int option"
  app_description :: string
  app_metadata :: jmap
  app_created_at :: time
  app_updated_at :: time

record destination =
  ds_id :: string
  ds_application_id :: string
  ds_url :: string
  ds_secret :: string
  ds_event_types :: "string list"
  ds_enabled :: bool
  ds_description :: string
  ds_created_at :: time
  ds_updated_at :: time

datatype environment = Sandbox | Production | OtherEnvironment string

datatype key_mode = KeyModeLive | KeyModeTest | OtherKeyMode string

record api_key =
  ak_id :: string
  ak_application_id :: string
  ak_name :: string
  ak_mode :: key_mode
  ak_hash :: string
  ak_display_prefix :: string
  ak_last_used_at :: "time option"
  ak_expires_at :: "time option"
  ak_revoked_at :: "time option"
  ak_created_at :: time

record capabilities =
  cap_checkout :: bool
  cap_refund :: bool
  cap_partial_refund :: bool
  cap_subscriptions :: bool
  cap_cancel :: bool
  cap_expire :: bool
  cap_disbursement :: bool

record account =
  acc_id :: string
  acc_gateway :: string
  acc_name :: string
  acc_environment :: environment
  acc_merchant_id :: string
  acc_client_key :: string
  acc_server_key :: string
  acc_creator_key :: string
  acc_approver_key :: string
  acc_enabled :: bool
  acc_is_default :: bool
  acc_capabilities :: capabilities
  acc_last_checked_at :: "time option"
  acc_last_check_ok :: "bool option"
  acc_last_check_error :: string
  acc_created_at :: time
  acc_updated_at :: time

subsection \<open>Payments, refunds, idempotency keys\<close>

record address =
  ad_first_name :: string
  ad_last_name :: string
  ad_phone :: string
  ad_address :: string
  ad_city :: string
  ad_postal_code :: string
  ad_country_code :: string

record customer =
  cu_first_name :: string
  cu_last_name :: string
  cu_email :: string
  cu_phone :: string
  cu_billing :: "address option"
  cu_shipping :: "address option"

record item =
  it_id :: string
  it_sku :: string
  it_name :: string
  it_price :: int
  it_quantity :: int
  it_category :: string
  it_merchant :: string
  it_url :: string
  it_position :: nat

record payment =
  pay_id :: string
  pay_application_id :: string
  pay_gateway_account_id :: string
  pay_gateway :: string
  pay_application_order_id :: string
  pay_gateway_order_id :: string
  pay_gateway_transaction_id :: string
  pay_amount :: int
  pay_currency :: string
  pay_status :: status
  pay_status_rank :: nat
  pay_gateway_status :: string
  pay_fraud_status :: string
  pay_method :: string
  pay_type :: string
  pay_snap_token :: string
  pay_snap_redirect_url :: string
  pay_refunded_amount :: int
  pay_metadata :: jmap
  pay_gateway_options :: jmap
  pay_gateway_data :: jmap
  pay_customer :: "customer option"
  pay_items :: "item list"
  pay_expires_at :: "time option"
  pay_paid_at :: "time option"
  pay_canceled_at :: "time option"
  pay_expired_at :: "time option"
  pay_refunded_at :: "time option"
  pay_last_synced_at :: "time option"
  pay_created_at :: time
  pay_updated_at :: time

record refund =
  rf_id :: string
  rf_payment_id :: string
  rf_application_id :: string
  rf_gateway_refund_id :: string
  rf_key :: string
  rf_amount :: int
  rf_currency :: string
  rf_reason :: string
  rf_status :: refund_status
  rf_gateway_status :: string
  rf_failure_reason :: string
  rf_raw :: jmap
  rf_created_at :: time
  rf_updated_at :: time

datatype idem_state = InProgress | IdemCompleted

record idem =
  ik_id :: string
  ik_application_id :: string
  ik_key :: string
  ik_endpoint :: string
  ik_hash :: string
  ik_state :: idem_state
  ik_payment_id :: string
  ik_response_status :: int
  ik_response_body :: "json option"
  ik_created_at :: time
  ik_completed_at :: "time option"
  ik_expires_at :: time

subsection \<open>Gateway messages\<close>

record gw_item =
  gi_sku :: string
  gi_name :: string
  gi_price :: int
  gi_quantity :: int
  gi_category :: string
  gi_merchant :: string
  gi_url :: string

record create_payment_request =
  cr_order_id :: string
  cr_amount :: int
  cr_currency :: string
  cr_customer :: customer
  cr_items :: "gw_item list"
  cr_enabled_methods :: "string list"
  cr_expires_at :: "time option"
  cr_callback_url :: string
  cr_custom_fields :: "string list"
  cr_options :: "json option"

record gw_payment =
  gp_token :: string
  gp_redirect_url :: string
  gp_status :: string
  gp_expires_at :: "time option"

text \<open>The status is \<open>None\<close> for the empty string an adapter returns when it does not map
  the gateway's own status. The expiry of a transaction, which nothing reads, is left out.\<close>

record gw_transaction =
  gt_order_id :: string
  gt_transaction_id :: string
  gt_status :: string
  gt_fraud_status :: string
  gt_normalized :: "status option"
  gt_payment_type :: string
  gt_gross_amount :: int
  gt_currency :: string
  gt_transaction_time :: "time option"
  gt_settlement_time :: "time option"
  gt_raw :: "jmap option"

record webhook =
  wh_headers :: "(string \<times> string) list"
  wh_body :: string

record gw_notification =
  gn_transaction :: gw_transaction
  gn_dedupe_key :: string

record refund_request =
  rr_order_id :: string
  rr_transaction_id :: string
  rr_amount :: int
  rr_reason :: string
  rr_key :: string

record gw_refund =
  gr_refund_id :: string
  gr_amount :: int
  gr_status :: string
  gr_payment_status :: "status option"
  gr_refunded_amount :: int
  gr_raw :: "jmap option"

text \<open>\<open>gateway.Error\<close>: a failure the gateway reported, or one of reaching it.\<close>

record gw_fault =
  gf_gateway :: string
  gf_status :: int
  gf_code :: string
  gf_message :: string
  gf_retryable :: bool

record create_subscription_request =
  cs_name :: string
  cs_amount :: int
  cs_currency :: string
  cs_payment_type :: string
  cs_payment_token :: string
  cs_interval_unit :: string
  cs_interval_count :: int
  cs_max_interval :: int
  cs_start_time :: "time option"
  cs_customer :: customer
  cs_metadata :: "jmap option"

record update_subscription_request =
  us_name :: "string option"
  us_amount :: "int option"
  us_interval_unit :: "string option"
  us_interval_count :: "int option"
  us_payment_token :: "string option"

record gw_subscription =
  gs_id :: string
  gs_name :: string
  gs_amount :: int
  gs_currency :: string
  gs_status :: string
  gs_normalized :: subscription_status
  gs_payment_type :: string
  gs_interval_unit :: string
  gs_interval_count :: int
  gs_raw :: "jmap option"

record payout_request =
  pr_idempotency_key :: string
  pr_amount :: int
  pr_currency :: string
  pr_beneficiary_name :: string
  pr_beneficiary_account :: string
  pr_beneficiary_bank :: string
  pr_beneficiary_email :: string
  pr_notes :: string

record payout_result =
  ps_reference_no :: string
  ps_status :: payout_status
  ps_gateway_status :: string
  ps_amount :: int
  ps_failure_code :: string
  ps_failure_reason :: string
  ps_updated_at :: time
  ps_raw :: "json option"

subsection \<open>Events, deliveries, notifications\<close>

record payload =
  pl_id :: string
  pl_type :: etype
  pl_gateway :: string
  pl_application_id :: string
  pl_payment_id :: string
  pl_refund_id :: string
  pl_subscription_id :: string
  pl_payout_id :: string
  pl_application_order_id :: string
  pl_application_payout_id :: string
  pl_gateway_order_id :: string
  pl_gateway_transaction_id :: string
  pl_reference_no :: string
  pl_status :: string
  pl_gateway_status :: string
  pl_fraud_status :: string
  pl_payment_type :: string
  pl_amount :: int
  pl_refunded_amount :: int
  pl_currency :: string
  pl_beneficiary_name :: string
  pl_beneficiary_account :: string
  pl_beneficiary_bank :: string
  pl_notes :: string
  pl_failure_code :: string
  pl_failure_reason :: string
  pl_reject_reason :: string
  pl_metadata :: jmap
  pl_created_at :: time
  pl_completed_at :: "time option"
  pl_gateway_data :: jmap

record event =
  ev_id :: string
  ev_sequence :: int
  ev_application_id :: string
  ev_type :: etype
  ev_gateway :: string
  ev_payment_id :: string
  ev_refund_id :: string
  ev_subscription_id :: string
  ev_payout_id :: string
  ev_gateway_event_id :: string
  ev_dedupe_key :: string
  ev_payload :: payload
  ev_created_at :: time

datatype dstate = DPending | Delivering | DSucceeded | DFailed | DDead | DCanceled

record delivery =
  dl_id :: string
  dl_event_id :: string
  dl_application_id :: string
  dl_destination_id :: string
  dl_url :: string
  dl_state :: dstate
  dl_attempt_count :: int
  dl_max_attempts :: int
  dl_next_attempt_at :: time
  dl_last_attempt_at :: "time option"
  dl_last_status_code :: "int option"
  dl_last_error :: string
  dl_last_duration_ms :: "int option"
  dl_locked_at :: "time option"
  dl_locked_by :: string
  dl_succeeded_at :: "time option"
  dl_created_at :: time
  dl_updated_at :: time

record attempt =
  at_id :: string
  at_delivery_id :: string
  at_number :: int
  at_status_code :: "int option"
  at_error :: string
  at_duration_ms :: int
  at_response_body :: string
  at_created_at :: time

datatype routing = Routed | Duplicate | Unrouted | RoutingRejected | Ignored

record gateway_event =
  ge_id :: string
  ge_gateway :: string
  ge_gateway_account_id :: string
  ge_payment_id :: string
  ge_application_id :: string
  ge_gateway_order_id :: string
  ge_gateway_transaction_id :: string
  ge_gateway_status :: string
  ge_fraud_status :: string
  ge_dedupe_key :: string
  ge_signature_verified :: bool
  ge_routing :: routing
  ge_routing_error :: string
  ge_payload :: jmap
  ge_received_at :: time
  ge_processed_at :: "time option"

subsection \<open>Subscriptions\<close>

record subscription =
  sb_id :: string
  sb_application_id :: string
  sb_gateway_account_id :: string
  sb_gateway :: string
  sb_gateway_subscription_id :: string
  sb_name :: string
  sb_amount :: int
  sb_currency :: string
  sb_status :: subscription_status
  sb_gateway_status :: string
  sb_interval_unit :: string
  sb_interval_count :: int
  sb_max_interval :: "int option"
  sb_start_time :: "time option"
  sb_payment_type :: string
  sb_payment_token :: string
  sb_metadata :: jmap
  sb_gateway_data :: jmap
  sb_created_at :: time
  sb_updated_at :: time

subsection \<open>Payouts\<close>

record beneficiary =
  bn_id :: string
  bn_application_id :: string
  bn_alias :: string
  bn_name :: string
  bn_account :: string
  bn_bank :: string
  bn_email :: string
  bn_verified_at :: "time option"
  bn_verified_name :: string
  bn_disabled_at :: "time option"
  bn_metadata :: "json option"
  bn_created_at :: time
  bn_updated_at :: time

record payout =
  po_id :: string
  po_application_id :: string
  po_gateway_account_id :: string
  po_gateway :: string
  po_application_payout_id :: string
  po_idempotency_key :: string
  po_reference_no :: "string option"
  po_beneficiary_id :: "string option"
  po_beneficiary_name :: string
  po_beneficiary_account :: string
  po_beneficiary_bank :: string
  po_beneficiary_email :: string
  po_amount :: int
  po_currency :: string
  po_notes :: string
  po_status :: payout_status
  po_status_rank :: nat
  po_gateway_status :: string
  po_failure_code :: string
  po_failure_reason :: string
  po_requested_by :: "string option"
  po_approved_by :: "string option"
  po_approved_at :: "time option"
  po_rejected_by :: "string option"
  po_rejected_at :: "time option"
  po_reject_reason :: string
  po_submitted_at :: "time option"
  po_completed_at :: "time option"
  po_failed_at :: "time option"
  po_last_synced_at :: "time option"
  po_idempotency_expires_at :: "time option"
  po_gateway_data :: "json option"
  po_metadata :: "json option"
  po_created_at :: time
  po_updated_at :: time

record transition =
  tr_id :: string
  tr_payout_id :: string
  tr_from :: "payout_status option"
  tr_to :: payout_status
  tr_actor_kind :: string
  tr_actor_id :: string
  tr_reason :: string
  tr_gateway_data :: "json option"
  tr_created_at :: time

subsection \<open>Zero values\<close>

text \<open>The zero value of each struct, from which the struct literals of the code are built. An
  enumeration whose zero value is the empty string outside it gets its first constructor where
  every literal sets the field.\<close>

definition zero_application :: application where
  "zero_application = \<lparr>app_id = [], app_name = [], app_slug = [],
     app_gateway_account_id = [], app_disabled_at = None, app_payout_enabled = False,
     app_payout_requires_approval = False, app_payout_max_amount = None,
     app_payout_daily_limit = None, app_description = [], app_metadata = [],
     app_created_at = 0, app_updated_at = 0\<rparr>"

definition zero_destination :: destination where
  "zero_destination = \<lparr>ds_id = [], ds_application_id = [], ds_url = [], ds_secret = [],
     ds_event_types = [], ds_enabled = False, ds_description = [], ds_created_at = 0,
     ds_updated_at = 0\<rparr>"

definition zero_api_key :: api_key where
  "zero_api_key = \<lparr>ak_id = [], ak_application_id = [], ak_name = [], ak_mode = OtherKeyMode [],
     ak_hash = [], ak_display_prefix = [], ak_last_used_at = None, ak_expires_at = None,
     ak_revoked_at = None, ak_created_at = 0\<rparr>"

definition zero_capabilities :: capabilities where
  "zero_capabilities = \<lparr>cap_checkout = False, cap_refund = False, cap_partial_refund = False,
     cap_subscriptions = False, cap_cancel = False, cap_expire = False, cap_disbursement = False\<rparr>"

definition zero_account :: account where
  "zero_account = \<lparr>acc_id = [], acc_gateway = [], acc_name = [],
     acc_environment = OtherEnvironment [], acc_merchant_id = [], acc_client_key = [],
     acc_server_key = [], acc_creator_key = [], acc_approver_key = [], acc_enabled = False,
     acc_is_default = False, acc_capabilities = zero_capabilities, acc_last_checked_at = None,
     acc_last_check_ok = None, acc_last_check_error = [], acc_created_at = 0,
     acc_updated_at = 0\<rparr>"

definition zero_address :: address where
  "zero_address = \<lparr>ad_first_name = [], ad_last_name = [], ad_phone = [], ad_address = [],
     ad_city = [], ad_postal_code = [], ad_country_code = []\<rparr>"

definition zero_customer :: customer where
  "zero_customer = \<lparr>cu_first_name = [], cu_last_name = [], cu_email = [], cu_phone = [],
     cu_billing = None, cu_shipping = None\<rparr>"

definition zero_item :: item where
  "zero_item = \<lparr>it_id = [], it_sku = [], it_name = [], it_price = 0, it_quantity = 0,
     it_category = [], it_merchant = [], it_url = [], it_position = 0\<rparr>"

definition zero_payment :: payment where
  "zero_payment = \<lparr>pay_id = [], pay_application_id = [], pay_gateway_account_id = [],
     pay_gateway = [], pay_application_order_id = [], pay_gateway_order_id = [],
     pay_gateway_transaction_id = [], pay_amount = 0, pay_currency = [],
     pay_status = OtherStatus [], pay_status_rank = 0, pay_gateway_status = [],
     pay_fraud_status = [], pay_method = [], pay_type = [], pay_snap_token = [],
     pay_snap_redirect_url = [], pay_refunded_amount = 0, pay_metadata = [],
     pay_gateway_options = [], pay_gateway_data = [], pay_customer = None, pay_items = [],
     pay_expires_at = None, pay_paid_at = None, pay_canceled_at = None, pay_expired_at = None,
     pay_refunded_at = None, pay_last_synced_at = None, pay_created_at = 0,
     pay_updated_at = 0\<rparr>"

definition zero_refund :: refund where
  "zero_refund = \<lparr>rf_id = [], rf_payment_id = [], rf_application_id = [],
     rf_gateway_refund_id = [], rf_key = [], rf_amount = 0, rf_currency = [], rf_reason = [],
     rf_status = OtherRefund [], rf_gateway_status = [], rf_failure_reason = [], rf_raw = [],
     rf_created_at = 0, rf_updated_at = 0\<rparr>"

definition zero_idem :: idem where
  "zero_idem = \<lparr>ik_id = [], ik_application_id = [], ik_key = [], ik_endpoint = [],
     ik_hash = [], ik_state = InProgress, ik_payment_id = [], ik_response_status = 0,
     ik_response_body = None, ik_created_at = 0, ik_completed_at = None,
     ik_expires_at = 0\<rparr>"

definition zero_gw_item :: gw_item where
  "zero_gw_item = \<lparr>gi_sku = [], gi_name = [], gi_price = 0, gi_quantity = 0,
     gi_category = [], gi_merchant = [], gi_url = []\<rparr>"

definition zero_create_payment_request :: create_payment_request where
  "zero_create_payment_request = \<lparr>cr_order_id = [], cr_amount = 0, cr_currency = [],
     cr_customer = zero_customer, cr_items = [], cr_enabled_methods = [], cr_expires_at = None,
     cr_callback_url = [], cr_custom_fields = [], cr_options = None\<rparr>"

definition zero_gw_payment :: gw_payment where
  "zero_gw_payment = \<lparr>gp_token = [], gp_redirect_url = [], gp_status = [],
     gp_expires_at = None\<rparr>"

definition zero_gw_transaction :: gw_transaction where
  "zero_gw_transaction = \<lparr>gt_order_id = [], gt_transaction_id = [], gt_status = [],
     gt_fraud_status = [], gt_normalized = None, gt_payment_type = [], gt_gross_amount = 0,
     gt_currency = [], gt_transaction_time = None, gt_settlement_time = None, gt_raw = None\<rparr>"

definition zero_webhook :: webhook where
  "zero_webhook = \<lparr>wh_headers = [], wh_body = []\<rparr>"

definition zero_gw_notification :: gw_notification where
  "zero_gw_notification = \<lparr>gn_transaction = zero_gw_transaction,
     gn_dedupe_key = []\<rparr>"

definition zero_refund_request :: refund_request where
  "zero_refund_request = \<lparr>rr_order_id = [], rr_transaction_id = [], rr_amount = 0,
     rr_reason = [], rr_key = []\<rparr>"

definition zero_gw_refund :: gw_refund where
  "zero_gw_refund = \<lparr>gr_refund_id = [], gr_amount = 0, gr_status = [],
     gr_payment_status = None, gr_refunded_amount = 0, gr_raw = None\<rparr>"

definition zero_payout_request :: payout_request where
  "zero_payout_request = \<lparr>pr_idempotency_key = [], pr_amount = 0, pr_currency = [],
     pr_beneficiary_name = [], pr_beneficiary_account = [], pr_beneficiary_bank = [],
     pr_beneficiary_email = [], pr_notes = []\<rparr>"

definition zero_payout_result :: payout_result where
  "zero_payout_result = \<lparr>ps_reference_no = [], ps_status = OtherPayout [],
     ps_gateway_status = [], ps_amount = 0, ps_failure_code = [], ps_failure_reason = [], ps_updated_at = 0,
     ps_raw = None\<rparr>"

definition zero_payload :: payload where
  "zero_payload = \<lparr>pl_id = [], pl_type = PaymentCreated, pl_gateway = [],
     pl_application_id = [], pl_payment_id = [], pl_refund_id = [], pl_subscription_id = [], pl_payout_id = [],
     pl_application_order_id = [], pl_application_payout_id = [], pl_gateway_order_id = [],
     pl_gateway_transaction_id = [], pl_reference_no = [], pl_status = [],
     pl_gateway_status = [], pl_fraud_status = [], pl_payment_type = [], pl_amount = 0,
     pl_refunded_amount = 0, pl_currency = [], pl_beneficiary_name = [],
     pl_beneficiary_account = [], pl_beneficiary_bank = [], pl_notes = [], pl_failure_code = [],
     pl_failure_reason = [], pl_reject_reason = [], pl_metadata = [], pl_created_at = 0,
     pl_completed_at = None, pl_gateway_data = []\<rparr>"

definition zero_event :: event where
  "zero_event = \<lparr>ev_id = [], ev_sequence = 0, ev_application_id = [],
     ev_type = PaymentCreated, ev_gateway = [], ev_payment_id = [], ev_refund_id = [],
     ev_subscription_id = [], ev_payout_id = [], ev_gateway_event_id = [], ev_dedupe_key = [],
     ev_payload = zero_payload, ev_created_at = 0\<rparr>"

definition zero_delivery :: delivery where
  "zero_delivery = \<lparr>dl_id = [], dl_event_id = [], dl_application_id = [],
     dl_destination_id = [], dl_url = [], dl_state = DPending, dl_attempt_count = 0,
     dl_max_attempts = 0, dl_next_attempt_at = 0, dl_last_attempt_at = None,
     dl_last_status_code = None, dl_last_error = [], dl_last_duration_ms = None,
     dl_locked_at = None, dl_locked_by = [], dl_succeeded_at = None, dl_created_at = 0,
     dl_updated_at = 0\<rparr>"

definition zero_attempt :: attempt where
  "zero_attempt = \<lparr>at_id = [], at_delivery_id = [], at_number = 0, at_status_code = None,
     at_error = [], at_duration_ms = 0, at_response_body = [], at_created_at = 0\<rparr>"

definition zero_gateway_event :: gateway_event where
  "zero_gateway_event = \<lparr>ge_id = [], ge_gateway = [], ge_gateway_account_id = [],
     ge_payment_id = [], ge_application_id = [], ge_gateway_order_id = [],
     ge_gateway_transaction_id = [], ge_gateway_status = [], ge_fraud_status = [],
     ge_dedupe_key = [], ge_signature_verified = False, ge_routing = Routed,
     ge_routing_error = [], ge_payload = [], ge_received_at = 0, ge_processed_at = None\<rparr>"

definition zero_gw_subscription :: gw_subscription where
  "zero_gw_subscription = \<lparr>gs_id = [], gs_name = [], gs_amount = 0, gs_currency = [],
     gs_status = [], gs_normalized = OtherSub [], gs_payment_type = [], gs_interval_unit = [],
     gs_interval_count = 0, gs_raw = None\<rparr>"

definition zero_subscription :: subscription where
  "zero_subscription = \<lparr>sb_id = [], sb_application_id = [], sb_gateway_account_id = [],
     sb_gateway = [], sb_gateway_subscription_id = [], sb_name = [], sb_amount = 0,
     sb_currency = [], sb_status = OtherSub [], sb_gateway_status = [], sb_interval_unit = [],
     sb_interval_count = 0, sb_max_interval = None, sb_start_time = None, sb_payment_type = [],
     sb_payment_token = [], sb_metadata = [], sb_gateway_data = [], sb_created_at = 0,
     sb_updated_at = 0\<rparr>"

definition zero_beneficiary :: beneficiary where
  "zero_beneficiary = \<lparr>bn_id = [], bn_application_id = [], bn_alias = [], bn_name = [],
     bn_account = [], bn_bank = [], bn_email = [], bn_verified_at = None, bn_verified_name = [],
     bn_disabled_at = None, bn_metadata = None, bn_created_at = 0, bn_updated_at = 0\<rparr>"

definition zero_payout :: payout where
  "zero_payout = \<lparr>po_id = [], po_application_id = [], po_gateway_account_id = [],
     po_gateway = [], po_application_payout_id = [], po_idempotency_key = [],
     po_reference_no = None, po_beneficiary_id = None, po_beneficiary_name = [],
     po_beneficiary_account = [], po_beneficiary_bank = [], po_beneficiary_email = [],
     po_amount = 0, po_currency = [], po_notes = [], po_status = OtherPayout [],
     po_status_rank = 0, po_gateway_status = [], po_failure_code = [], po_failure_reason = [],
     po_requested_by = None, po_approved_by = None, po_approved_at = None, po_rejected_by = None,
     po_rejected_at = None, po_reject_reason = [], po_submitted_at = None,
     po_completed_at = None, po_failed_at = None, po_last_synced_at = None,
     po_idempotency_expires_at = None, po_gateway_data = None, po_metadata = None,
     po_created_at = 0, po_updated_at = 0\<rparr>"

definition zero_transition :: transition where
  "zero_transition = \<lparr>tr_id = [], tr_payout_id = [], tr_from = None,
     tr_to = OtherPayout [], tr_actor_kind = [], tr_actor_id = [], tr_reason = [],
     tr_gateway_data = None, tr_created_at = 0\<rparr>"

lemmas zero_defs = zero_application_def zero_destination_def zero_api_key_def zero_gw_subscription_def zero_subscription_def zero_capabilities_def zero_account_def zero_address_def zero_customer_def
  zero_item_def zero_payment_def zero_refund_def zero_idem_def zero_gw_item_def
  zero_create_payment_request_def zero_gw_payment_def zero_gw_transaction_def zero_webhook_def zero_gw_notification_def
  zero_refund_request_def zero_gw_refund_def zero_payout_request_def zero_payout_result_def zero_payload_def
  zero_event_def zero_delivery_def zero_attempt_def zero_gateway_event_def zero_beneficiary_def
  zero_payout_def zero_transition_def

subsection \<open>Administrators\<close>

text \<open>A session is stored under the hash of its token; the token itself is nowhere.\<close>

record admin =
  adm_id :: string
  adm_email :: string
  adm_name :: string
  adm_password_hash :: string
  adm_disabled_at :: "time option"
  adm_last_login_at :: "time option"
  adm_created_at :: time
  adm_updated_at :: time

record session =
  ses_id :: string
  ses_admin_id :: string
  ses_token_hash :: string
  ses_expires_at :: time
  ses_revoked_at :: "time option"
  ses_user_agent :: string
  ses_ip_address :: string
  ses_created_at :: time

record audit_entry =
  au_id :: string
  au_actor_type :: string
  au_actor_id :: string
  au_action :: string
  au_target_type :: string
  au_target_id :: string
  au_request_id :: string
  au_ip_address :: string
  au_metadata :: "jmap option"

end
