(* ===== verification/Ids.thy ===== *)
theory Ids
  imports Prelude "HOL-Library.Word" "HOL-Library.Char_ord" "HOL-Library.List_Lexorder"
begin

unbundle bit_operations_syntax

text \<open>
  Package \<open>internal/ids\<close>: ULID identifiers \<open><prefix>_<26 characters>\<close>, ten Crockford
  base-32 characters of a 48-bit millisecond timestamp followed by sixteen of randomness. The
  sixteen bytes are \<open>8 word\<close>s and the encoder uses the masks and shifts of the source; the
  clock reading and the ten random bytes are arguments. The proofs go through one fact: the
  \<open>j\<close>-th timestamp character is the \<open>j\<close>-th group of five bits of the timestamp.
\<close>

definition id_prefixes :: "string list" where
  "id_prefixes = [''app'', ''key'', ''pay'', ''pmx'', ''txn'', ''evt'', ''dlv'', ''att'', ''dst'',
     ''sub'', ''rfd'', ''pyo'', ''ben'', ''trn'', ''gwa'', ''gev'', ''adm'', ''ses'', ''req'',
     ''job'', ''aud'']"

definition encoding :: string where "encoding = ''0123456789ABCDEFGHJKMNPQRSTVWXYZ''"

fun index_of :: "'a \<Rightarrow> 'a list \<Rightarrow> nat option" where
  "index_of x [] = None"
| "index_of x (y # ys) = (if x = y then Some 0 else map_option Suc (index_of x ys))"

text \<open>The decoding table: the alphabet, its lower-case letters and the Crockford aliases;
  255 everywhere else.\<close>

definition decoding :: "char \<Rightarrow> nat" where
  "decoding c =
     (if c = CHR ''o'' \<or> c = CHR ''O'' then 0
      else if c \<in> {CHR ''i'', CHR ''I'', CHR ''l'', CHR ''L''} then 1
      else case index_of c encoding of
        Some i \<Rightarrow> i
      | None \<Rightarrow> (if 97 \<le> (of_char c :: nat) \<and> (of_char c :: nat) \<le> 122
                 then (case index_of (char_upper c) encoding of Some i \<Rightarrow> i | None \<Rightarrow> 255)
                 else 255))"

definition encode_index :: "8 word \<Rightarrow> char" where "encode_index v = encoding ! unat v"

definition ulid_indices :: "8 word list \<Rightarrow> 8 word list" where
  "ulid_indices b =
    [drop_bit 5 (b!0 AND 224),
     b!0 AND 31,
     drop_bit 3 (b!1 AND 248),
     push_bit 2 (b!1 AND 7) OR drop_bit 6 (b!2 AND 192),
     drop_bit 1 (b!2 AND 62),
     push_bit 4 (b!2 AND 1) OR drop_bit 4 (b!3 AND 240),
     push_bit 1 (b!3 AND 15) OR drop_bit 7 (b!4 AND 128),
     drop_bit 2 (b!4 AND 124),
     push_bit 3 (b!4 AND 3) OR drop_bit 5 (b!5 AND 224),
     b!5 AND 31,
     drop_bit 3 (b!6 AND 248),
     push_bit 2 (b!6 AND 7) OR drop_bit 6 (b!7 AND 192),
     drop_bit 1 (b!7 AND 62),
     push_bit 4 (b!7 AND 1) OR drop_bit 4 (b!8 AND 240),
     push_bit 1 (b!8 AND 15) OR drop_bit 7 (b!9 AND 128),
     drop_bit 2 (b!9 AND 124),
     push_bit 3 (b!9 AND 3) OR drop_bit 5 (b!10 AND 224),
     b!10 AND 31,
     drop_bit 3 (b!11 AND 248),
     push_bit 2 (b!11 AND 7) OR drop_bit 6 (b!12 AND 192),
     drop_bit 1 (b!12 AND 62),
     push_bit 4 (b!12 AND 1) OR drop_bit 4 (b!13 AND 240),
     push_bit 1 (b!13 AND 15) OR drop_bit 7 (b!14 AND 128),
     drop_bit 2 (b!14 AND 124),
     push_bit 3 (b!14 AND 3) OR drop_bit 5 (b!15 AND 224),
     b!15 AND 31]"

definition encode_ulid :: "8 word list \<Rightarrow> string" where
  "encode_ulid b = map encode_index (ulid_indices b)"

text \<open>\<open>newULID\<close>: \<open>byte(ms >> k)\<close> keeps the low eight bits.\<close>

definition new_ulid :: "64 word \<Rightarrow> 8 word list \<Rightarrow> string" where
  "new_ulid ms random = encode_ulid
    ([ucast (drop_bit 40 ms), ucast (drop_bit 32 ms), ucast (drop_bit 24 ms),
      ucast (drop_bit 16 ms), ucast (drop_bit 8 ms), ucast ms] @ random)"

definition new_id :: "string \<Rightarrow> 64 word \<Rightarrow> 8 word list \<Rightarrow> string" where
  "new_id p ms random = p @ CHR ''_'' # new_ulid ms random"

datatype id_error = ErrInvalidID

definition validate_id :: "string \<Rightarrow> string \<Rightarrow> id_error option" where
  "validate_id p i =
     (let want = p @ ''_'' in
      if take (length want) i \<noteq> want then Some ErrInvalidID
      else let body = drop (length want) i in
        if length body \<noteq> 26 then Some ErrInvalidID
        else if list_ex (\<lambda>c. decoding c = 255) body then Some ErrInvalidID else None)"

definition prefix_of :: "string \<Rightarrow> string" where
  "prefix_of i = (case index_of (CHR ''_'') i of Some n \<Rightarrow> take n i | None \<Rightarrow> [])"

text \<open>The loop of \<open>Time\<close> over the first ten characters, \<open>ms = ms<<5 | v\<close> on
  \<open>uint64\<close>; the result is the \<open>int64\<close> millisecond count given to
  \<open>time.UnixMilli\<close>.\<close>

fun decode_ms :: "64 word \<Rightarrow> string \<Rightarrow> 64 word option" where
  "decode_ms ms [] = Some ms"
| "decode_ms ms (c # cs) = (let v = decoding c in
     if v = 255 then None else decode_ms (push_bit 5 ms OR of_nat v) cs)"

definition id_time :: "string \<Rightarrow> id_error + int" where
  "id_time i = (case index_of (CHR ''_'') i of
     None \<Rightarrow> Inl ErrInvalidID
   | Some n \<Rightarrow>
       if length i - n - 1 \<noteq> 26 then Inl ErrInvalidID
       else (case decode_ms 0 (take 10 (drop (n + 1) i)) of
               None \<Rightarrow> Inl ErrInvalidID | Some ms \<Rightarrow> Inr (wrap64 (int (unat ms)))))"

subsection \<open>The alphabet\<close>

lemma decoding_encoding: "i < 32 \<Longrightarrow> decoding (encoding ! i) = i"
proof -
  have "list_all (\<lambda>i. decoding (encoding ! i) = i) [0..<32]" by code_simp
  then show "i < 32 \<Longrightarrow> decoding (encoding ! i) = i" by (simp add: list_all_iff)
qed

lemma encoding_less: "i < j \<Longrightarrow> j < 32 \<Longrightarrow> encoding ! i < encoding ! j"
proof -
  have "list_all (\<lambda>j. list_all (\<lambda>i. encoding ! i < encoding ! j) [0..<j]) [0..<32]" by code_simp
  then show "i < j \<Longrightarrow> j < 32 \<Longrightarrow> encoding ! i < encoding ! j" by (simp add: list_all_iff)
qed

lemma index_of_append: "x \<notin> set a \<Longrightarrow> index_of x (a @ x # b) = Some (length a)"
  by (induction a) auto

subsection \<open>Groups of five bits\<close>

lemma bit_small:
  fixes w :: "8 word"
  shows "bit w n \<longleftrightarrow> n \<in> set (filter (bit w) [0..<8])"
  using bit_imp_le_length[of w n] by auto

lemma bit_masks:
  "bit (224 :: 8 word) n \<longleftrightarrow> n \<in> {5, 6, 7}"
  "bit (31 :: 8 word) n \<longleftrightarrow> n \<in> {0,1,2,3,4}"
  "bit (248 :: 8 word) n \<longleftrightarrow> n \<in> {3, 4, 5, 6, 7}"
  "bit (7 :: 8 word) n \<longleftrightarrow> n \<in> {0,1,2}"
  "bit (192 :: 8 word) n \<longleftrightarrow> n \<in> {6, 7}"
  "bit (62 :: 8 word) n \<longleftrightarrow> n \<in> {1, 2, 3, 4, 5}"
  "bit (1 :: 8 word) n \<longleftrightarrow> n = 0"
  "bit (240 :: 8 word) n \<longleftrightarrow> n \<in> {4, 5, 6, 7}"
  "bit (15 :: 8 word) n \<longleftrightarrow> n \<in> {0,1,2,3}"
  "bit (128 :: 8 word) n \<longleftrightarrow> n = 7"
  "bit (124 :: 8 word) n \<longleftrightarrow> n \<in> {2, 3, 4, 5, 6}"
  "bit (3 :: 8 word) n \<longleftrightarrow> n \<in> {0,1}"
  by (simp_all add: bit_small [of _ n] upt_conv_Cons) auto

lemma word8_eqI:
  fixes a b :: "8 word"
  shows "list_all (\<lambda>n. bit a n = bit b n) [0..<8] \<Longrightarrow> a = b"
  by (rule bit_word_eqI) (auto simp: list_all_iff)

definition group5 :: "64 word \<Rightarrow> nat \<Rightarrow> 64 word" where
  "group5 m k = drop_bit k m AND 31"

lemma bit_31_64: "bit (31 :: 64 word) n \<longleftrightarrow> n < 5"
proof -
  have "bit (31 :: 64 word) n \<longleftrightarrow> bit (mask 5 :: 64 word) n" by (simp add: mask_eq_exp_minus_1)
  also have "\<dots> \<longleftrightarrow> n < 5" by (subst bit_mask_iff) auto
  finally show ?thesis .
qed

lemma timestamp_groups:
  fixes m :: "64 word"
  assumes "m < 2 ^ 48"
  shows
    "drop_bit 5 (ucast (drop_bit 40 m) AND 224) = (ucast (group5 m 45) :: 8 word)"
    "ucast (drop_bit 40 m) AND 31 = (ucast (group5 m 40) :: 8 word)"
    "drop_bit 3 (ucast (drop_bit 32 m) AND 248) = (ucast (group5 m 35) :: 8 word)"
    "push_bit 2 (ucast (drop_bit 32 m) AND 7) OR drop_bit 6 (ucast (drop_bit 24 m) AND 192) = (ucast (group5 m 30) :: 8 word)"
    "drop_bit 1 (ucast (drop_bit 24 m) AND 62) = (ucast (group5 m 25) :: 8 word)"
    "push_bit 4 (ucast (drop_bit 24 m) AND 1) OR drop_bit 4 (ucast (drop_bit 16 m) AND 240) = (ucast (group5 m 20) :: 8 word)"
    "push_bit 1 (ucast (drop_bit 16 m) AND 15) OR drop_bit 7 (ucast (drop_bit 8 m) AND 128) = (ucast (group5 m 15) :: 8 word)"
    "drop_bit 2 (ucast (drop_bit 8 m) AND 124) = (ucast (group5 m 10) :: 8 word)"
    "push_bit 3 (ucast (drop_bit 8 m) AND 3) OR drop_bit 5 (ucast m AND 224) = (ucast (group5 m 5) :: 8 word)"
    "ucast m AND 31 = (ucast (group5 m 0) :: 8 word)"
proof -
  have "take_bit 48 m = m" using less_mask_eq[OF assms] by (simp only: take_bit_eq_mask)
  then have "bit (take_bit 48 m) n = bit m n" for n by simp
  then have top: "48 \<le> n \<Longrightarrow> \<not> bit m n" for n by (metis bit_take_bit_iff not_le)
  have hi: "\<not> bit m 48" "\<not> bit m 49" by (simp_all add: top)
  show "drop_bit 5 (ucast (drop_bit 40 m) AND 224) = (ucast (group5 m 45) :: 8 word)"
    by (rule word8_eqI) (simp add: upt_conv_Cons group5_def bit_simps bit_masks bit_31_64 hi)
  show "ucast (drop_bit 40 m) AND 31 = (ucast (group5 m 40) :: 8 word)"
    by (rule word8_eqI) (simp add: upt_conv_Cons group5_def bit_simps bit_masks bit_31_64)
  show "push_bit 3 (ucast (drop_bit 8 m) AND 3) OR drop_bit 5 (ucast m AND 224) = (ucast (group5 m 5) :: 8 word)"
    by (rule word8_eqI) (simp add: upt_conv_Cons group5_def bit_simps bit_masks bit_31_64)
  show "push_bit 1 (ucast (drop_bit 16 m) AND 15) OR drop_bit 7 (ucast (drop_bit 8 m) AND 128)
      = (ucast (group5 m 15) :: 8 word)"
    by (rule word8_eqI)
      (simp add: upt_conv_Cons group5_def bit_simps bit_masks bit_31_64 bit_double_iff
        mult.commute[of _ "2 :: 8 word"])
qed (rule word8_eqI, simp add: upt_conv_Cons group5_def bit_simps bit_masks bit_31_64)+

lemma unat_group5: "unat (group5 m k) = unat m div 2 ^ k mod 32"
proof -
  have "group5 m k = take_bit 5 (drop_bit k m)"
    by (simp add: group5_def take_bit_eq_mask mask_eq_exp_minus_1)
  moreover have "take_bit 64 (unat m) = unat m"
  proof (rule take_bit_nat_eq_self)
    have "unat m < 2 ^ LENGTH(64)" by (rule unsigned_less)
    then show "unat m < 2 ^ 64" by simp
  qed
  ultimately have "unat (group5 m k) = take_bit 5 (drop_bit k (unat m))"
    by (simp only: unsigned_take_bit_eq unsigned_drop_bit_eq) simp
  then show ?thesis by (simp only: take_bit_eq_mod drop_bit_eq_div) simp
qed

lemma group5_less: "unat (group5 m k) < 32"
  by (simp add: unat_group5)

lemma bit_group5: "bit (group5 m k) n \<longleftrightarrow> n < 5 \<and> bit m (k + n)"
  unfolding group5_def bit_and_iff bit_31_64 bit_drop_bit_eq by auto

lemma group5_step: "push_bit 5 (drop_bit (k + 5) m) OR group5 m k = drop_bit k m"
  by (rule bit_word_eqI) (auto simp: bit_group5 bit_or_iff bit_push_bit_iff bit_drop_bit_eq not_less add.assoc)

definition timestamp_text :: "64 word \<Rightarrow> string" where
  "timestamp_text m = map (\<lambda>k. encoding ! unat (group5 m k)) [45, 40, 35, 30, 25, 20, 15, 10, 5, 0]"

lemma encode_group: "encode_index (ucast (group5 m k)) = encoding ! unat (group5 m k)"
  using group5_less[of m k]
  by (simp add: encode_index_def unsigned_ucast_eq take_bit_nat_eq_self)

lemma new_ulid_timestamp:
  assumes "m < 2 ^ 48" shows "take 10 (new_ulid m r) = timestamp_text m"
proof -
  let ?b = "[ucast (drop_bit 40 m), ucast (drop_bit 32 m), ucast (drop_bit 24 m),
      ucast (drop_bit 16 m), ucast (drop_bit 8 m), ucast m] @ r :: 8 word list"
  have b: "?b!0 = ucast (drop_bit 40 m)" "?b!1 = ucast (drop_bit 32 m)"
      "?b!2 = ucast (drop_bit 24 m)" "?b!3 = ucast (drop_bit 16 m)"
      "?b!4 = ucast (drop_bit 8 m)" "?b!5 = ucast m"
    by simp_all
  have "take 10 (ulid_indices ?b)
      = map (\<lambda>k. ucast (group5 m k)) [45, 40, 35, 30, 25, 20, 15, 10, 5, 0]"
    unfolding ulid_indices_def b timestamp_groups[OF assms] by simp
  then show ?thesis
    by (simp only: new_ulid_def encode_ulid_def take_map timestamp_text_def)
      (simp add: encode_group)
qed

lemma ulid_indices_small: "v \<in> set (ulid_indices b) \<Longrightarrow> unat v < 32"
proof -
  have small: "unat v < 32" if "\<not> bit v 5" "\<not> bit v 6" "\<not> bit v 7" for v :: "8 word"
  proof -
    have "v AND 31 = v"
    proof (rule bit_word_eqI)
      fix n
      assume "n < LENGTH(8)"
      then have "n \<in> {0, 1, 2, 3, 4} \<or> n = 5 \<or> n = 6 \<or> n = 7" by auto
      with that show "bit (v AND 31) n = bit v n" by (auto simp: bit_and_iff bit_masks)
    qed
    then have "take_bit 5 v = v" by (simp add: take_bit_eq_mask mask_eq_exp_minus_1)
    then have "unat v = take_bit 5 (unat v)" by (metis unsigned_take_bit_eq)
    then show ?thesis using take_bit_nat_less_exp[of 5 "unat v"] by simp
  qed
  have "list_all (\<lambda>v. unat v < 32) (ulid_indices b)"
    unfolding ulid_indices_def list.pred_inject
    by (intro conjI TrueI small)
      (simp_all only: bit_or_iff bit_push_bit_iff bit_drop_bit_eq o_apply bit_and_iff bit_masks, simp_all)
  then show "v \<in> set (ulid_indices b) \<Longrightarrow> unat v < 32" by (simp add: list_all_iff)
qed

subsection \<open>Well-formed identifiers and their time\<close>

lemma encode_index_valid: "unat v < 32 \<Longrightarrow> decoding (encode_index v) \<noteq> 255"
  using decoding_encoding[of "unat v"] by (simp add: encode_index_def)

lemma length_new_ulid: "length (new_ulid ms r) = 26"
  by (simp add: new_ulid_def encode_ulid_def ulid_indices_def)

lemma new_ulid_valid: "c \<in> set (new_ulid ms r) \<Longrightarrow> decoding c \<noteq> 255"
  by (auto simp: new_ulid_def encode_ulid_def encode_index_valid ulid_indices_small)

lemma validate_new_id: "validate_id p (new_id p ms r) = None"
  using new_ulid_valid[of _ ms r]
  by (auto simp: validate_id_def new_id_def Let_def length_new_ulid list_ex_iff)

lemma decode_group:
  "decode_ms (drop_bit (k + 5) m) ((encoding ! unat (group5 m k)) # cs) = decode_ms (drop_bit k m) cs"
  using group5_less[of m k]
  by (simp add: decoding_encoding group5_step Let_def)

lemma decode_timestamp:
  assumes "m < 2 ^ 48" shows "decode_ms 0 (timestamp_text m) = Some m"
proof -
  have "take_bit 48 m = m" using less_mask_eq[OF assms] by (simp only: take_bit_eq_mask)
  then have "drop_bit 50 m = drop_bit 50 (take_bit 48 m)" by simp
  also have "\<dots> = 0" by (simp add: drop_bit_take_bit)
  finally have zero: "drop_bit 50 m = 0" .
  have "decode_ms (drop_bit (45 + 5) m) (timestamp_text m) = decode_ms (drop_bit 0 m) []"
    using decode_group[of 45 m] decode_group[of 40 m] decode_group[of 35 m] decode_group[of 30 m]
      decode_group[of 25 m] decode_group[of 20 m] decode_group[of 15 m] decode_group[of 10 m]
      decode_group[of 5 m] decode_group[of 0 m]
    by (simp only: timestamp_text_def list.map) simp
  with zero show ?thesis by simp
qed

lemma underscore_not_prefix: "p \<in> set id_prefixes \<Longrightarrow> CHR ''_'' \<notin> set p"
  by (auto simp: id_prefixes_def)

subsection \<open>Lexicographic order\<close>

lemma lex_append_less:
  fixes xs ys :: "char list"
  shows "length xs = length ys \<Longrightarrow> xs < ys \<Longrightarrow> xs @ u < ys @ v"
  by (induction xs ys rule: list_induct2) auto

lemma lex_same_prefix: "(xs :: char list) < ys \<Longrightarrow> p @ xs < p @ ys"
  by (induction p) auto

text \<open>The base-32 digits of a number, most significant first.\<close>

definition digits32 :: "nat \<Rightarrow> nat \<Rightarrow> string" where
  "digits32 n a = map (\<lambda>i. encoding ! (a div 32 ^ i mod 32)) (rev [0..<n])"

lemma digits32_less: "a mod 32 ^ n < b mod 32 ^ n \<Longrightarrow> digits32 n a < digits32 n b"
proof (induction n)
  case (Suc n)
  have split: "c mod 32 ^ Suc n = 32 ^ n * (c div 32 ^ n mod 32) + c mod 32 ^ n" for c :: nat
    using mod_mult2_eq[of c "32 ^ n" 32] by (simp add: mult.commute)
  let ?ta = "a div 32 ^ n mod 32" and ?tb = "b div 32 ^ n mod 32"
  have lt: "32 ^ n * ?ta + a mod 32 ^ n < 32 ^ n * ?tb + b mod 32 ^ n"
    using Suc.prems unfolding split .
  have "?ta \<le> ?tb"
  proof (rule ccontr)
    assume "\<not> ?ta \<le> ?tb"
    then have "32 ^ n * (?tb + 1) \<le> 32 ^ n * ?ta" by (intro mult_le_mono2) simp
    moreover have "b mod 32 ^ n < 32 ^ n" by simp
    ultimately show False using lt by (simp add: distrib_left)
  qed
  then consider "?ta < ?tb" | "?ta = ?tb" "a mod 32 ^ n < b mod 32 ^ n" using lt by force
  then show ?case
  proof cases
    case 1
    then show ?thesis by (simp add: digits32_def encoding_less)
  next
    case 2
    then show ?thesis using Suc.IH by (simp add: digits32_def)
  qed
qed simp

lemma timestamp_digits: "timestamp_text m = digits32 10 (unat m)"
proof -
  have "rev [0..<10] = [9, 8, 7, 6, 5, 4, 3, 2, 1, 0 :: nat]" by (simp add: upt_conv_Cons)
  then show ?thesis
    by (simp add: timestamp_text_def digits32_def unat_group5 power_mult [symmetric])
qed

lemma new_id_split:
  "new_id p m r = p @ CHR ''_'' # take 10 (new_ulid m r) @ drop 10 (new_ulid m r)"
  by (simp add: new_id_def)

lemma new_id_less:
  assumes "m < 2 ^ 48" "m' < 2 ^ 48" "unat m < unat m'"
  shows "new_id p m r < new_id p m' r'"
proof -
  have "(32::nat) ^ 10 = 2 ^ 50" by simp
  moreover have "unat m < 2 ^ 48" "unat m' < 2 ^ 48"
    using assms(1,2) by (simp_all add: word_less_nat_alt)
  ultimately have "digits32 10 (unat m) < digits32 10 (unat m')"
    using assms(3) by (intro digits32_less) simp
  then show ?thesis
    unfolding new_id_split new_ulid_timestamp[OF assms(1)] new_ulid_timestamp[OF assms(2)]
      timestamp_digits
    by (intro lex_same_prefix) (auto intro: lex_append_less simp: digits32_def)
qed

text \<open>C6. An identifier minted with prefix \<open>p\<close> is well formed for \<open>p\<close>, whatever the
  random bytes; the time read back from it is the millisecond it was minted in, for every clock
  reading that fits the 48 bits; and identifiers minted in a later millisecond sort after
  earlier ones as strings, which is what the keyset pagination relies on.\<close>

theorem id_round_trip_and_order:
  assumes "p \<in> set id_prefixes" "ms < 2 ^ 48"
  shows "validate_id p (new_id p ms r) = None \<and>
    id_time (new_id p ms r) = Inr (int (unat ms)) \<and>
    (ms' < 2 ^ 48 \<longrightarrow> unat ms < unat ms' \<longrightarrow> new_id p ms r < new_id p ms' r')"
proof (intro conjI impI)
  show "validate_id p (new_id p ms r) = None" by (rule validate_new_id)
  have "index_of (CHR ''_'') (new_id p ms r) = Some (length p)"
    unfolding new_id_def by (rule index_of_append) (rule underscore_not_prefix[OF assms(1)])
  moreover have "drop (length p + 1) (new_id p ms r) = new_ulid ms r" by (simp add: new_id_def)
  moreover have "length (new_id p ms r) - length p - 1 = 26"
    by (simp add: new_id_def length_new_ulid)
  moreover have "is_int64 (int (unat ms))"
  proof -
    have "unat ms < 2 ^ 48" using assms(2) by (simp add: word_less_nat_alt)
    then have "unat ms < 281474976710656" by simp
    then show ?thesis unfolding is_int64_def min_int64_def max_int64_def by (intro conjI) linarith+
  qed
  ultimately show "id_time (new_id p ms r) = Inr (int (unat ms))"
    by (simp only: id_time_def option.case new_ulid_timestamp[OF assms(2)]
        decode_timestamp[OF assms(2)] wrap64_id) simp
  show "new_id p ms r < new_id p ms' r'" if "ms' < 2 ^ 48" "unat ms < unat ms'"
    using assms(2) that by (rule new_id_less)
qed

theorem id_round_trip_and_order_witness:
  "validate_id ''pay'' (new_id ''pay'' 1700000000000 (replicate 10 7)) = None \<and>
   id_time (new_id ''pay'' 1700000000000 (replicate 10 7)) = Inr 1700000000000 \<and>
   new_id ''pay'' 1700000000000 (replicate 10 255) < new_id ''pay'' 1700000000001 (replicate 10 0)"
proof -
  have p: "''pay'' \<in> set id_prefixes" by code_simp
  have ms: "(1700000000000 :: 64 word) < 2 ^ 48" "(1700000000001 :: 64 word) < 2 ^ 48" by simp_all
  show ?thesis
    using id_round_trip_and_order[OF p ms(1), of "replicate 10 7"]
      id_round_trip_and_order[OF p ms(1), of "replicate 10 255" 1700000000001 "replicate 10 0"] ms
    by simp
qed

end
