(* ===== verification/Store.thy ===== *)
theory Store
  imports Schema Ids
begin

text \<open>
  The shared state and how methods touch it: \<open>internal/storage/db.go\<close> and
  \<open>errors.go\<close>, and the calls out to a gateway.

  The database is a record of tables, a table a list of rows in insertion order. A statement is
  a function on the database; running one follows PostgreSQL and pgx:
  \<^item> a statement either takes effect or fails with an error and no effect; an environment
    chosen list of outcomes makes any statement fail, so every theorem over a world covers
    every pattern of database failures;
  \<^item> inside a transaction a failed statement aborts it: later statements fail, and committing
    rolls back and reports \<open>ErrTxCommitRollback\<close>;
  \<^item> \<open>InTx\<close> restores the tables unless the commit succeeds, and a nested call joins the
    transaction that is open.
  A method runs without interleaving unless a theorem says otherwise; interleavings of methods
  are sequences of their calls. The clock does not advance inside a method.
\<close>

subsection \<open>Errors\<close>

text \<open>One constructor per sentinel or error type. \<open>fmt.Errorf("...: %w", err)\<close> is the error it
  wraps, since every decision uses \<open>errors.Is\<close>; \<open>Wrap\<close> keeps the text where it is stored.\<close>

datatype error =
    NotFound | UniqueViolation string | CheckViolation string
  | DbFailure string | TxAborted | CommitRolledBack
  | Validation string string
  | StaleTransition | DuplicateOrderID | IdempotencyConflict | IdempotencyRunning | Replay idem
  | NotCancelable status | NotRefundable | RefundExceedsBalance int int
  | GatewayNotConfigured | KeyModeMismatch key_mode environment
  | RegistryError string
  | NotSupported | TransactionNotFound | InvalidSignature | GatewayError string
  | GatewayFault gw_fault
  | OutcomeUnknown string | GwKeyConflict string | InsufficientBalance string | GwPayoutNotFound
  | PayoutsDisabled | ExceedsMaxAmount int | ExceedsDailyLimit int int | DuplicatePayoutID
  | BeneficiaryNotFound | BeneficiaryDisabled | DuplicateAlias | PayoutNotFound | PayoutStale
  | NotPending payout_status | SelfApproval | PayoutsNotSupported
  | EventDuplicate | NotificationDuplicate | DeliveryInFlight | BlockedAddress string
  | SubscriptionInvalid string string | SubscriptionNotConfigured
  | InvalidCredentials | SessionInvalid | EmailTaken | WeakPassword string
  | OtherError string | Wrap string error

text \<open>\<open>err.Error()\<close> for the errors whose text the program stores.\<close>

definition fault_text :: "gw_fault \<Rightarrow> string" where
  "fault_text f =
     (let msg = (if gf_message f = [] then ''request failed'' else gf_message f)
      in if gf_code f \<noteq> [] then gf_gateway f @ '': '' @ gf_code f @ '': '' @ msg
         else gf_gateway f @ '': '' @ msg)"

definition is_retryable :: "error \<Rightarrow> bool" where
  "is_retryable e = (case e of GatewayFault f \<Rightarrow> gf_retryable f | _ \<Rightarrow> False)"

fun error_text :: "error \<Rightarrow> string" where
  "error_text NotFound = ''storage: record not found''"
| "error_text (DbFailure t) = t"
| "error_text (GatewayError t) = t"
| "error_text (GatewayFault f) = fault_text f"
| "error_text (OutcomeUnknown t) = ''gateway: payout outcome is unknown: '' @ t"
| "error_text (GwKeyConflict t) = ''gateway: idempotency key was reused with different content: '' @ t"
| "error_text (InsufficientBalance t) = ''gateway: insufficient balance for payout: '' @ t"
| "error_text GwPayoutNotFound = ''gateway: payout not found''"
| "error_text NotSupported = ''gateway: operation is not supported''"
| "error_text TransactionNotFound = ''gateway: transaction not found''"
| "error_text InvalidSignature = ''gateway: notification signature is invalid''"
| "error_text (OtherError t) = t"
| "error_text (BlockedAddress t) = t"
| "error_text (Wrap t e) = t @ '': '' @ error_text e"
| "error_text _ = []"

definition is_not_found :: "error \<Rightarrow> bool" where "is_not_found e \<longleftrightarrow> e = NotFound"

definition is_unique_violation :: "error \<Rightarrow> string list \<Rightarrow> bool" where
  "is_unique_violation e constraints = (case e of
     UniqueViolation name \<Rightarrow> constraints = [] \<or> name \<in> set constraints
   | _ \<Rightarrow> False)"

subsection \<open>The database and the world around it\<close>

record db =
  applications :: "application list"
  api_keys :: "api_key list"
  accounts :: "account list"
  destinations :: "destination list"
  payments :: "payment list"
  customers :: "(string \<times> customer) list"
  items :: "(string \<times> item) list"
  idem_keys :: "idem list"
  gw_txns :: "(string \<times> string \<times> gw_transaction) list"
  gw_events :: "gateway_event list"
  refunds :: "refund list"
  subscriptions :: "subscription list"
  events :: "event list"
  deliveries :: "delivery list"
  attempts :: "attempt list"
  beneficiaries :: "beneficiary list"
  payouts :: "payout list"
  transitions :: "transition list"
  admins :: "admin list"
  admin_sessions :: "session list"
  audit_logs :: "audit_entry list"

text \<open>The database after the migrations: every table empty.\<close>

definition empty_db :: db where
  "empty_db = \<lparr>applications = [], api_keys = [], accounts = [], destinations = [], payments = [], customers = [],
     items = [], idem_keys = [], gw_txns = [], gw_events = [], refunds = [], subscriptions = [], events = [],
     deliveries = [], attempts = [], beneficiaries = [], payouts = [], transitions = [], admins = [],
     admin_sessions = [], audit_logs = []\<rparr>"

text \<open>\<open>outcomes\<close> is the environment's choice for the next statements, \<open>Some\<close> the text of
  a failure, and no failure once it is used up. \<open>txn\<close> is \<open>None\<close> outside a transaction and
  tells whether the open one is aborted. \<open>entropy\<close> is the random source of \<open>ids.New\<close>,
  \<open>sequence\<close> the \<open>BIGSERIAL\<close> of the events table, which no rollback resets, and \<open>ext\<close>
  the state of the gateway.\<close>

record 'g world =
  db :: db
  outcomes :: "string option list"
  txn :: "bool option"
  now :: time
  draws :: nat
  entropy :: "nat \<Rightarrow> 8 word list"
  sequence :: int
  ext :: 'g

type_synonym ('g, 'a) routine = "('g world, error, 'a) op"

definition unix_epoch :: time where "unix_epoch = 62135596800 * second"

definition unix_milli :: "time \<Rightarrow> int" where "unix_milli t = (t - unix_epoch) div 1000000"

definition fresh_id :: "string \<Rightarrow> ('g, string) routine" where
  "fresh_id p w =
     (Inr (new_id p (word_of_int (unix_milli (now w))) (entropy w (draws w))), w\<lparr>draws := draws w + 1\<rparr>)"

text \<open>A world in which no statement fails, in the first second of 2024.\<close>

definition quiet_world :: "db \<Rightarrow> 'g \<Rightarrow> 'g world" where
  "quiet_world d g = \<lparr>db = d, outcomes = [], txn = None, now = unix_epoch + 1704067200 * second,
     draws = 0, entropy = (\<lambda>n. replicate 10 (of_nat n)), sequence = 1, ext = g\<rparr>"

text \<open>The environment's verdict on the next statement.\<close>

definition next_outcome :: "'g world \<Rightarrow> string option \<times> 'g world" where
  "next_outcome w = (case outcomes w of [] \<Rightarrow> (None, w) | x # xs \<Rightarrow> (x, w\<lparr>outcomes := xs\<rparr>))"

definition abort_txn :: "'g world \<Rightarrow> 'g world" where
  "abort_txn w = (case txn w of None \<Rightarrow> w | Some _ \<Rightarrow> w\<lparr>txn := Some True\<rparr>)"

definition run_stmt :: "(db \<Rightarrow> error + 'a \<times> db) \<Rightarrow> ('g, 'a) routine" where
  "run_stmt f w =
     (if txn w = Some True then (Inl TxAborted, w)
      else case next_outcome w of
        (Some t, w1) \<Rightarrow> (Inl (DbFailure t), abort_txn w1)
      | (None, w1) \<Rightarrow> (case f (db w1) of
            Inl e \<Rightarrow> (Inl e, abort_txn w1)
          | Inr (x, d) \<Rightarrow> (Inr x, w1\<lparr>db := d\<rparr>)))"

text \<open>A \<open>SELECT\<close>, and a \<open>SELECT\<close> or \<open>UPDATE ... RETURNING\<close> of one row, where scanning no
  row is \<open>ErrNotFound\<close> and no failure of the statement.\<close>

definition query :: "(db \<Rightarrow> 'a) \<Rightarrow> ('g, 'a) routine" where
  "query f = run_stmt (\<lambda>d. Inr (f d, d))"

definition exec_stmt :: "(db \<Rightarrow> db) \<Rightarrow> ('g, unit) routine" where
  "exec_stmt f = run_stmt (\<lambda>d. Inr ((), f d))"

definition one_row :: "('g, 'a option) routine \<Rightarrow> ('g, 'a) routine" where
  "one_row m = bindE m (\<lambda>r. case r of None \<Rightarrow> throw NotFound | Some x \<Rightarrow> succeed x)"

definition query_row :: "(db \<Rightarrow> 'a option) \<Rightarrow> ('g, 'a) routine" where
  "query_row f = one_row (query f)"

text \<open>Unique constraints: a name and when a new row conflicts with an existing one. \<open>INSERT\<close>
  reports the first constraint that some row violates.\<close>

type_synonym 'r constraint = "string \<times> ('r \<Rightarrow> 'r \<Rightarrow> bool)"

definition violated :: "'r constraint list \<Rightarrow> 'r \<Rightarrow> 'r list \<Rightarrow> string option" where
  "violated cs r rows = map_option fst (List.find (\<lambda>(name, conflict). list_ex (conflict r) rows) cs)"

definition insert_row ::
  "'r constraint list \<Rightarrow> (db \<Rightarrow> 'r list) \<Rightarrow> ('r list \<Rightarrow> db \<Rightarrow> db) \<Rightarrow> 'r \<Rightarrow> ('g, 'r) routine" where
  "insert_row cs get set_rows r = run_stmt (\<lambda>d. case violated cs r (get d) of
     Some name \<Rightarrow> Inl (UniqueViolation name)
   | None \<Rightarrow> Inr (r, set_rows (get d @ [r]) d))"

text \<open>\<open>UPDATE ... SET f WHERE p RETURNING ...\<close>: the rows after the update; for one row,
  \<open>ErrNotFound\<close> when no row matched.\<close>

definition update_where ::
  "(db \<Rightarrow> 'r list) \<Rightarrow> ('r list \<Rightarrow> db \<Rightarrow> db) \<Rightarrow> ('r \<Rightarrow> bool) \<Rightarrow> ('r \<Rightarrow> 'r) \<Rightarrow> ('g, 'r list) routine" where
  "update_where get set_rows p f = run_stmt (\<lambda>d.
     Inr (map f (filter p (get d)), set_rows (map (\<lambda>r. if p r then f r else r) (get d)) d))"

definition first_row :: "'r list \<Rightarrow> 'r option" where
  "first_row rs = (case rs of [] \<Rightarrow> None | r # _ \<Rightarrow> Some r)"

definition update_one ::
  "(db \<Rightarrow> 'r list) \<Rightarrow> ('r list \<Rightarrow> db \<Rightarrow> db) \<Rightarrow> ('r \<Rightarrow> bool) \<Rightarrow> ('r \<Rightarrow> 'r) \<Rightarrow> ('g, 'r) routine" where
  "update_one get set_rows p f =
     one_row (bindE (update_where get set_rows p f) (\<lambda>rs. succeed (first_row rs)))"

text \<open>The same with the constraints of the table: a row that breaks a \<open>CHECK\<close> refuses the
  statement before the unique indexes are looked at, and an update may also make two rows
  conflict.\<close>

type_synonym 'r check = "string \<times> ('r \<Rightarrow> bool)"

definition refused_check :: "'r check list \<Rightarrow> 'r list \<Rightarrow> string option" where
  "refused_check ks rs = map_option fst (List.find (\<lambda>(name, ok). \<not> list_all ok rs) ks)"

primrec clash :: "('r \<Rightarrow> 'r \<Rightarrow> bool) \<Rightarrow> 'r list \<Rightarrow> bool" where
  "clash c [] \<longleftrightarrow> False"
| "clash c (r # rs) \<longleftrightarrow> list_ex (\<lambda>x. c r x \<or> c x r) rs \<or> clash c rs"

lemma clash_append:
  "clash c (xs @ ys) \<longleftrightarrow> clash c xs \<or> clash c ys \<or> (\<exists>x \<in> set xs. \<exists>y \<in> set ys. c x y \<or> c y x)"
  by (induction xs) (auto simp: list_ex_iff)

lemma clash_map: "(\<And>x y. c (f x) (f y) \<Longrightarrow> c x y) \<Longrightarrow> clash c (map f xs) \<Longrightarrow> clash c xs"
  by (induction xs) (auto simp: list_ex_iff)

lemma clash_filter: "clash c (filter p xs) \<Longrightarrow> clash c xs"
  by (induction xs) (auto simp: list_ex_iff split: if_splits)

definition insert_checked :: "'r check list \<Rightarrow> 'r constraint list \<Rightarrow> (db \<Rightarrow> 'r list) \<Rightarrow>
    ('r list \<Rightarrow> db \<Rightarrow> db) \<Rightarrow> 'r \<Rightarrow> ('g, 'r) routine" where
  "insert_checked ks cs get set_rows r = run_stmt (\<lambda>d. case refused_check ks [r] of
     Some name \<Rightarrow> Inl (CheckViolation name)
   | None \<Rightarrow> (case violated cs r (get d) of
       Some name \<Rightarrow> Inl (UniqueViolation name)
     | None \<Rightarrow> Inr (r, set_rows (get d @ [r]) d)))"

definition update_checked :: "'r check list \<Rightarrow> 'r constraint list \<Rightarrow> (db \<Rightarrow> 'r list) \<Rightarrow>
    ('r list \<Rightarrow> db \<Rightarrow> db) \<Rightarrow> ('r \<Rightarrow> bool) \<Rightarrow> ('r \<Rightarrow> 'r) \<Rightarrow> ('g, 'r) routine" where
  "update_checked ks cs get set_rows p f = one_row (run_stmt (\<lambda>d.
     let changed = map f (filter p (get d));
         rows = map (\<lambda>r. if p r then f r else r) (get d)
     in case refused_check ks changed of
          Some name \<Rightarrow> Inl (CheckViolation name)
        | None \<Rightarrow> (case List.find (\<lambda>(name, conflict). clash conflict rows) cs of
            Some (name, _) \<Rightarrow> Inl (UniqueViolation name)
          | None \<Rightarrow> Inr (first_row changed, set_rows rows d))))"

text \<open>\<open>InTx\<close>.\<close>

definition in_tx :: "('g, 'a) routine \<Rightarrow> ('g, 'a) routine" where
  "in_tx body w =
     (if txn w \<noteq> None then body w
      else case next_outcome w of
        (Some t, w1) \<Rightarrow> (Inl (DbFailure t), w1)
      | (None, w1) \<Rightarrow>
          (case body (w1\<lparr>txn := Some False\<rparr>) of
             (Inl e, w2) \<Rightarrow> (Inl e, w2\<lparr>db := db w1, txn := None\<rparr>)
           | (Inr x, w2) \<Rightarrow>
               if txn w2 = Some True then (Inl CommitRolledBack, w2\<lparr>db := db w1, txn := None\<rparr>)
               else (case next_outcome w2 of
                   (Some t, w3) \<Rightarrow> (Inl (DbFailure t), w3\<lparr>db := db w1, txn := None\<rparr>)
                 | (None, w3) \<Rightarrow> (Inr x, w3\<lparr>txn := None\<rparr>))))"

text \<open>A call to a gateway.\<close>

definition call_out :: "('g, error, 'a) op \<Rightarrow> ('g, 'a) routine" where
  "call_out f w = (case f (ext w) of (r, g) \<Rightarrow> (r, w\<lparr>ext := g\<rparr>))"

text \<open>\<open>_ = f()\<close> or a logged error: the caller goes on either way.\<close>

definition ignore_error :: "('g, 'a) routine \<Rightarrow> ('g, unit) routine" where
  "ignore_error m = catchE m (\<lambda>_. succeed ()) (\<lambda>_. succeed ())"

subsection \<open>Running methods\<close>

lemma run_stmt_ok:
  "outcomes w = [] \<Longrightarrow> txn w \<noteq> Some True \<Longrightarrow> f (db w) = Inr (x, d) \<Longrightarrow>
   run_stmt f w = (Inr x, w\<lparr>db := d\<rparr>)"
  by (simp add: run_stmt_def next_outcome_def)

lemma run_stmt_refused:
  "outcomes w = [] \<Longrightarrow> txn w \<noteq> Some True \<Longrightarrow> f (db w) = Inl e \<Longrightarrow>
   run_stmt f w = (Inl e, abort_txn w)"
  by (simp add: run_stmt_def next_outcome_def)

lemma query_run [op_simps]:
  "outcomes w = [] \<Longrightarrow> txn w \<noteq> Some True \<Longrightarrow> query f w = (Inr (f (db w)), w)"
  by (simp add: query_def run_stmt_ok)

lemma exec_stmt_run [op_simps]:
  "outcomes w = [] \<Longrightarrow> txn w \<noteq> Some True \<Longrightarrow> exec_stmt f w = (Inr (), w\<lparr>db := f (db w)\<rparr>)"
  by (simp add: exec_stmt_def run_stmt_ok)

lemma one_row_run [op_simps]:
  "m w = (Inr r, v) \<Longrightarrow> one_row m w = (case r of None \<Rightarrow> (Inl NotFound, v) | Some x \<Rightarrow> (Inr x, v))"
  by (simp add: one_row_def op_simps split: option.split)

lemma query_row_run [op_simps]:
  "outcomes w = [] \<Longrightarrow> txn w \<noteq> Some True \<Longrightarrow>
   query_row f w = (case f (db w) of None \<Rightarrow> Inl NotFound | Some x \<Rightarrow> Inr x, w)"
  by (simp add: query_row_def op_simps split: option.split)

lemma quiet_world_simps [simp]:
  "db (quiet_world d g) = d" "outcomes (quiet_world d g) = []" "txn (quiet_world d g) = None"
  "ext (quiet_world d g) = g"
  by (simp_all add: quiet_world_def)

lemma violated_None: "violated cs r rows = None \<longleftrightarrow> (\<forall>(n, c) \<in> set cs. \<forall>x \<in> set rows. \<not> c r x)"
  by (auto simp: violated_def find_None_iff list_ex_iff)

lemma refused_check_None: "refused_check ks rs = None \<longleftrightarrow> (\<forall>(n, ok) \<in> set ks. \<forall>r \<in> set rs. ok r)"
  by (auto simp: refused_check_def find_None_iff list_all_iff)

lemma insert_row_ok:
  "outcomes w = [] \<Longrightarrow> txn w \<noteq> Some True \<Longrightarrow> violated cs r (get (db w)) = None \<Longrightarrow>
   insert_row cs get set_rows r w = (Inr r, w\<lparr>db := set_rows (get (db w) @ [r]) (db w)\<rparr>)"
  by (simp add: insert_row_def run_stmt_ok)

lemma insert_row_conflict:
  "outcomes w = [] \<Longrightarrow> txn w \<noteq> Some True \<Longrightarrow> violated cs r (get (db w)) = Some n \<Longrightarrow>
   insert_row cs get set_rows r w = (Inl (UniqueViolation n), abort_txn w)"
  by (simp add: insert_row_def run_stmt_refused)

lemma update_where_run [op_simps]:
  "outcomes w = [] \<Longrightarrow> txn w \<noteq> Some True \<Longrightarrow> update_where get set_rows p f w =
     (Inr (map f (filter p (get (db w)))),
      w\<lparr>db := set_rows (map (\<lambda>r. if p r then f r else r) (get (db w))) (db w)\<rparr>)"
  by (simp add: update_where_def run_stmt_ok)

lemma update_one_run:
  assumes "outcomes w = []" "txn w \<noteq> Some True" "filter p (get (db w)) = r # rs"
  shows "update_one get set_rows p f w =
     (Inr (f r), w\<lparr>db := set_rows (map (\<lambda>r. if p r then f r else r) (get (db w))) (db w)\<rparr>)"
  using assms by (simp add: update_one_def op_simps first_row_def)

lemma update_one_none:
  assumes "outcomes w = []" "txn w \<noteq> Some True" "filter p (get (db w)) = []"
    and "set_rows (get (db w)) (db w) = db w"
  shows "update_one get set_rows p f w = (Inl NotFound, w)"
proof -
  have "map (\<lambda>r. if p r then f r else r) (get (db w)) = get (db w)"
    using assms(3) by (auto simp: filter_empty_conv intro: map_idI)
  then show ?thesis using assms by (simp add: update_one_def op_simps first_row_def)
qed

lemma update_checked_none:
  assumes "outcomes w = []" "txn w \<noteq> Some True" "filter p (get (db w)) = []"
    and "set_rows (get (db w)) (db w) = db w" "\<forall>(n, c) \<in> set cs. \<not> clash c (get (db w))"
  shows "update_checked ks cs get set_rows p f w = (Inl NotFound, w)"
proof -
  have "map (\<lambda>r. if p r then f r else r) (get (db w)) = get (db w)"
    using assms(3) by (auto simp: filter_empty_conv intro: map_idI)
  moreover have "List.find (\<lambda>(n, c). clash c (get (db w))) cs = None"
    using assms(5) by (auto simp: find_None_iff)
  ultimately show ?thesis using assms(1-4)
    by (simp add: update_checked_def one_row_run[OF run_stmt_ok] refused_check_def first_row_def
        find_None_iff[THEN iffD2])
qed

lemma fresh_id_run [op_simps]:
  "fresh_id p w = (Inr (new_id p (word_of_int (unix_milli (now w))) (entropy w (draws w))),
     w\<lparr>draws := draws w + 1\<rparr>)"
  by (simp add: fresh_id_def)

lemma in_tx_run:
  "outcomes w = [] \<Longrightarrow> txn w = None \<Longrightarrow> body (w\<lparr>txn := Some False\<rparr>) = (Inr x, v) \<Longrightarrow>
   outcomes v = [] \<Longrightarrow> txn v = Some False \<Longrightarrow> in_tx body w = (Inr x, v\<lparr>txn := None\<rparr>)"
  by (simp add: in_tx_def next_outcome_def)

lemma in_tx_run_error:
  "outcomes w = [] \<Longrightarrow> txn w = None \<Longrightarrow> body (w\<lparr>txn := Some False\<rparr>) = (Inl e, v) \<Longrightarrow>
   in_tx body w = (Inl e, v\<lparr>db := db w, txn := None\<rparr>)"
  by (simp add: in_tx_def next_outcome_def)

lemma in_tx_nested: "txn w \<noteq> None \<Longrightarrow> in_tx body w = body w"
  by (simp add: in_tx_def)

lemma ignore_error_run [op_simps]: "m w = (r, v) \<Longrightarrow> ignore_error m w = (Inr (), v)"
  by (cases r) (simp_all add: ignore_error_def op_simps)

lemma ignore_error_eq: "ignore_error m w = (Inr (), snd (m w))"
  by (cases "m w") (simp add: ignore_error_run)

lemma ignore_error_ok: "fst (ignore_error m w) = Inr ()"
  by (simp add: ignore_error_def catchE_def succeed_def split: prod.split sum.split)

subsection \<open>What a success tells, under any failures\<close>

lemma next_outcome_keeps:
  "next_outcome w = (r, v) \<Longrightarrow> db v = db w \<and> txn v = txn w \<and> now v = now w \<and> ext v = ext w"
  by (auto simp: next_outcome_def split: list.splits)

text \<open>A statement that succeeded ran outside an aborted transaction and touched only the
  tables, the pending outcomes and the sources of identifiers.\<close>

definition same_context :: "'g world \<Rightarrow> 'g world \<Rightarrow> bool" where
  "same_context w v \<longleftrightarrow> txn v = txn w \<and> txn w \<noteq> Some True \<and> now v = now w \<and> ext v = ext w"

lemma same_context_trans: "same_context u v \<Longrightarrow> same_context v w \<Longrightarrow> same_context u w"
  by (simp add: same_context_def)

lemma run_stmt_Inr:
  assumes "run_stmt f w = (Inr x, v)"
  shows "f (db w) = Inr (x, db v) \<and> same_context w v"
proof -
  obtain r w1 where n: "next_outcome w = (r, w1)" by fastforce
  have open_txn: "txn w \<noteq> Some True" using assms by (auto simp: run_stmt_def)
  then have "r = None" using assms by (cases r) (auto simp: run_stmt_def n)
  with open_txn obtain y d where "f (db w1) = Inr (y, d)" "x = y" "v = w1\<lparr>db := d\<rparr>"
    using assms by (auto simp: run_stmt_def n split: sum.splits)
  with open_txn show ?thesis using next_outcome_keeps[OF n] by (simp add: same_context_def)
qed

lemma query_Inr:
  "query f w = (Inr x, v) \<Longrightarrow> x = f (db w) \<and> db v = db w \<and> same_context w v"
  unfolding query_def by (drule run_stmt_Inr) auto

lemma one_row_Inr: "one_row m w = (Inr x, v) \<Longrightarrow> m w = (Inr (Some x), v)"
  unfolding one_row_def by (auto simp: bindE_run throw_def succeed_def split: prod.splits sum.splits option.splits)

lemma query_row_Inr:
  "query_row f w = (Inr x, v) \<Longrightarrow> f (db w) = Some x \<and> db v = db w \<and> same_context w v"
  unfolding query_row_def by (drule one_row_Inr, drule query_Inr) simp

lemma exec_stmt_Inr: "exec_stmt f w = (Inr x, v) \<Longrightarrow> db v = f (db w) \<and> same_context w v"
  unfolding exec_stmt_def by (drule run_stmt_Inr) simp

lemma insert_row_Inr:
  "insert_row cs get set_rows r w = (Inr x, v) \<Longrightarrow>
   x = r \<and> violated cs r (get (db w)) = None \<and> db v = set_rows (get (db w) @ [r]) (db w) \<and> same_context w v"
  unfolding insert_row_def by (drule run_stmt_Inr) (auto split: option.splits)

lemma update_where_Inr:
  "update_where get set_rows p f w = (Inr rs, v) \<Longrightarrow> rs = map f (filter p (get (db w))) \<and>
   db v = set_rows (map (\<lambda>r. if p r then f r else r) (get (db w))) (db w) \<and> same_context w v"
  unfolding update_where_def by (drule run_stmt_Inr) simp

lemma update_one_Inr:
  assumes "update_one get set_rows p f w = (Inr x, v)"
  shows "(\<exists>r rs. filter p (get (db w)) = r # rs \<and> x = f r) \<and>
    db v = set_rows (map (\<lambda>r. if p r then f r else r) (get (db w))) (db w) \<and> same_context w v"
proof -
  have "bindE (update_where get set_rows p f) (\<lambda>rs. succeed (first_row rs)) w = (Inr (Some x), v)"
    using assms unfolding update_one_def by (rule one_row_Inr)
  then obtain rs where u: "update_where get set_rows p f w = (Inr rs, v)" and x: "first_row rs = Some x"
    by (rule bindE_Inr_E) (simp add: succeed_def)
  then show ?thesis using update_where_Inr[OF u]
    by (cases "filter p (get (db w))") (auto simp: first_row_def)
qed

lemma insert_checked_Inr:
  "insert_checked ks cs get set_rows r w = (Inr x, v) \<Longrightarrow>
   x = r \<and> refused_check ks [r] = None \<and> violated cs r (get (db w)) = None \<and>
   db v = set_rows (get (db w) @ [r]) (db w) \<and> same_context w v"
  unfolding insert_checked_def by (drule run_stmt_Inr) (auto split: option.splits)

lemma update_checked_Inr:
  assumes "update_checked ks cs get set_rows p f w = (Inr x, v)"
  shows "(\<exists>r rs. filter p (get (db w)) = r # rs \<and> x = f r) \<and>
    refused_check ks (map f (filter p (get (db w)))) = None \<and>
    (\<forall>(n, c) \<in> set cs. \<not> clash c (map (\<lambda>r. if p r then f r else r) (get (db w)))) \<and>
    db v = set_rows (map (\<lambda>r. if p r then f r else r) (get (db w))) (db w) \<and> same_context w v"
  using run_stmt_Inr[OF one_row_Inr[OF assms[unfolded update_checked_def]]]
  by (cases "filter p (get (db w))")
    (auto simp: Let_def first_row_def find_None_iff split: option.splits)

lemma gets_Inr: "gets f w = (Inr x, v) \<Longrightarrow> x = f w \<and> v = w"
  by (auto simp: gets_def)

lemma succeed_Inr: "succeed y w = (Inr x, v) \<Longrightarrow> x = y \<and> v = w"
  by (simp add: succeed_def)

lemma throw_Inr: "throw e w = (Inr x, v) \<Longrightarrow> False"
  by (simp add: throw_def)

lemma fresh_id_Inr: "fresh_id p w = (Inr x, v) \<Longrightarrow> db v = db w \<and> txn v = txn w \<and> now v = now w \<and> ext v = ext w"
  by (auto simp: fresh_id_def)

lemma run_stmt_Inl:
  assumes "run_stmt f w = (Inl e, v)"
  shows "e = TxAborted \<or> (\<exists>t. e = DbFailure t) \<or> f (db w) = Inl e"
proof -
  obtain r w1 where n: "next_outcome w = (r, w1)" by fastforce
  show ?thesis using assms next_outcome_keeps[OF n]
    by (auto simp: run_stmt_def n split: if_splits option.splits sum.splits)
qed

lemma insert_row_Inl: "insert_row cs get set_rows r w = (Inl e, v) \<Longrightarrow> db v = db w"
  by (auto simp: insert_row_def run_stmt_def next_outcome_def abort_txn_def
      split: if_splits list.splits option.splits prod.splits)

lemma in_tx_Inl:
  assumes "in_tx body w = (Inl e, v)" "txn w = None"
  shows "e = CommitRolledBack \<or> (\<exists>t. e = DbFailure t) \<or>
    (\<exists>w1 w2. body w1 = (Inl e, w2) \<and> db w1 = db w \<and> txn w1 = Some False)"
proof -
  obtain o1 u where n1: "next_outcome w = (o1, u)" by fastforce
  obtain s w2 where b: "body (u\<lparr>txn := Some False\<rparr>) = (s, w2)" by fastforce
  obtain o3 w3 where n3: "next_outcome w2 = (o3, w3)" by fastforce
  have key: "e = CommitRolledBack \<or> (\<exists>t. e = DbFailure t) \<or> s = Inl e"
    using assms by (cases o1; cases s; cases o3) (auto simp: in_tx_def n1 b n3 split: if_splits)
  have "db (u\<lparr>txn := Some False\<rparr>) = db w" "txn (u\<lparr>txn := Some False\<rparr>) = Some False"
    using next_outcome_keeps[OF n1] by simp_all
  with b key show ?thesis by blast
qed

lemma in_tx_cases:
  assumes "in_tx body w = (r, v)" "txn w = None"
  obtains (failed) e where "r = Inl e" "db v = db w" "txn v = None"
  | (committed) x w1 w2 where "r = Inr x" "body w1 = (Inr x, w2)" "db w1 = db w" "txn w1 = Some False"
      "now w1 = now w" "ext w1 = ext w" "txn w2 \<noteq> Some True" "db v = db w2" "txn v = None"
      "now v = now w2" "ext v = ext w2"
proof -
  obtain o1 u where n1: "next_outcome w = (o1, u)" by fastforce
  obtain s w2 where b: "body (u\<lparr>txn := Some False\<rparr>) = (s, w2)" by fastforce
  obtain o3 w3 where n3: "next_outcome w2 = (o3, w3)" by fastforce
  note keep = next_outcome_keeps[OF n1] next_outcome_keeps[OF n3]
  show thesis
  proof (cases r)
    case (Inl e)
    then show thesis
      using assms keep
      by (intro failed) (auto simp: in_tx_def n1 b n3 split: option.splits sum.splits if_splits)
  next
    case (Inr x)
    then show thesis
      using assms keep b
      by (intro committed[of x "u\<lparr>txn := Some False\<rparr>" w2])
        (auto simp: in_tx_def n1 b n3 split: option.splits sum.splits if_splits)
  qed
qed

subsection \<open>What a method may do to the database\<close>

text \<open>A relation between the tables before and after that every statement of a method respects
  is respected by the method, whichever statements fail: a rollback restores tables that are
  related to themselves. The interface a component's proofs use is the relation of its kind.\<close>

locale db_evolution =
  fixes D :: "db \<Rightarrow> db \<Rightarrow> bool"
  assumes D_refl: "D d d" and D_trans: "D d e \<Longrightarrow> D e f \<Longrightarrow> D d f"
begin

definition R :: "'g world \<Rightarrow> 'g world \<Rightarrow> bool" where
  "R v w \<longleftrightarrow> D (db v) (db w) \<and> (txn v = None \<longleftrightarrow> txn w = None)"

lemma R_id: "R w w" by (simp add: R_def D_refl)

lemma R_comp:
  assumes "R u v" "R v w" shows "R u w"
  using assms D_trans[of "db u" "db v" "db w"] by (simp add: R_def)

end

sublocale db_evolution \<subseteq> ev: evolution "R :: 'g world \<Rightarrow> 'g world \<Rightarrow> bool"
  by unfold_locales (rule R_id, rule R_comp)

context db_evolution
begin

abbreviation safe :: "('g, 'a) routine \<Rightarrow> bool" where "safe \<equiv> ev.evolves"

lemma next_outcome_same: "next_outcome w = (r, v) \<Longrightarrow> db v = db w \<and> txn v = txn w"
  by (auto simp: next_outcome_def split: list.splits)

lemma abort_same: "db (abort_txn w) = db w \<and> (txn (abort_txn w) = None \<longleftrightarrow> txn w = None)"
  by (simp add: abort_txn_def split: option.split)

lemma safe_run_stmt:
  fixes f :: "db \<Rightarrow> error + 'a \<times> db"
  assumes "\<And>d x d'. f d = Inr (x, d') \<Longrightarrow> D d d'"
  shows "safe (run_stmt f)"
proof (rule ev.evolvesI)
  fix w
  obtain r v where n: "next_outcome w = (r, v)" by fastforce
  then have same: "db v = db w" "txn v = txn w" using next_outcome_same by blast+
  show "R w (snd (run_stmt f w))"
    using assms abort_same[of v] same
    by (auto simp: run_stmt_def n R_def D_refl split: option.split sum.split)
qed

lemma safe_query: "safe (query f)"
  unfolding query_def by (rule safe_run_stmt) (auto simp: D_refl)

lemma safe_exec: "(\<And>d. D d (f d)) \<Longrightarrow> safe (exec_stmt f)"
  unfolding exec_stmt_def by (rule safe_run_stmt) auto

lemma safe_insert_row:
  "(\<And>d. violated cs r (get d) = None \<Longrightarrow> D d (set_rows (get d @ [r]) d)) \<Longrightarrow>
   safe (insert_row cs get set_rows r)"
  unfolding insert_row_def by (rule safe_run_stmt) (auto split: option.splits)

lemma safe_one_row: "safe m \<Longrightarrow> safe (one_row m)"
  unfolding one_row_def by (intro ev.evolves_intros)

lemma safe_update_where:
  "(\<And>d. D d (set_rows (map (\<lambda>r. if p r then f r else r) (get d)) d)) \<Longrightarrow> safe (update_where get set_rows p f)"
  unfolding update_where_def by (rule safe_run_stmt) auto

lemma safe_update_one:
  "(\<And>d. D d (set_rows (map (\<lambda>r. if p r then f r else r) (get d)) d)) \<Longrightarrow> safe (update_one get set_rows p f)"
  unfolding update_one_def
  by (intro safe_one_row ev.evolves_bindE safe_update_where ev.evolves_succeed)

lemma safe_insert_checked:
  "(\<And>d. violated cs r (get d) = None \<Longrightarrow> refused_check ks [r] = None \<Longrightarrow> D d (set_rows (get d @ [r]) d)) \<Longrightarrow>
   safe (insert_checked ks cs get set_rows r)"
  unfolding insert_checked_def by (rule safe_run_stmt) (auto split: option.splits)

lemma safe_update_checked:
  "(\<And>d. (\<forall>(n, c) \<in> set cs. \<not> clash c (map (\<lambda>r. if p r then f r else r) (get d))) \<Longrightarrow>
      D d (set_rows (map (\<lambda>r. if p r then f r else r) (get d)) d)) \<Longrightarrow>
   safe (update_checked ks cs get set_rows p f)"
  unfolding update_checked_def
  by (intro safe_one_row safe_run_stmt) (auto simp: Let_def find_None_iff split: option.splits)

lemma safe_query_row: "safe (query_row f)"
  unfolding query_row_def by (intro safe_one_row safe_query)

lemma safe_fresh_id: "safe (fresh_id p)"
  by (rule ev.evolvesI) (simp add: fresh_id_def R_def D_refl)

lemma safe_call_out: "safe (call_out f)"
  by (rule ev.evolvesI) (simp add: call_out_def R_def D_refl split: prod.split)

lemma safe_ignore_error: "safe m \<Longrightarrow> safe (ignore_error m)"
  unfolding ignore_error_def by (intro ev.evolves_intros)

lemma safe_in_tx:
  fixes body :: "('g, 'a) routine"
  assumes "safe body" shows "safe (in_tx body)"
proof (rule ev.evolvesI)
  fix w :: "'g world"
  obtain r w1 where n1: "next_outcome w = (r, w1)" by fastforce
  obtain s w2 where b: "body (w1\<lparr>txn := Some False\<rparr>) = (s, w2)" by fastforce
  obtain q w3 where n3: "next_outcome w2 = (q, w3)" by fastforce
  have "R (w1\<lparr>txn := Some False\<rparr>) w2" using ev.evolvesD[OF assms b] .
  moreover have "db w1 = db w" "txn w1 = txn w" "db w3 = db w2"
    using next_outcome_same[OF n1] next_outcome_same[OF n3] by auto
  moreover have "R w (snd (body w))" using assms by (simp add: ev.evolves_def)
  ultimately show "R w (snd (in_tx body w))"
    by (auto simp: in_tx_def n1 b n3 R_def D_refl split: option.split sum.split)
qed

lemmas safe_intros = ev.evolves_intros safe_query safe_one_row safe_query_row safe_fresh_id
  safe_call_out safe_ignore_error safe_in_tx

lemma safe_db: "safe m \<Longrightarrow> D (db w) (db (snd (m w)))"
  by (simp add: ev.evolves_def R_def)

text \<open>A method that respects a finer relation respects this one.\<close>

lemma safe_weaken:
  fixes m :: "('g, 'a) routine"
  assumes "db_evolution E" "evolution.evolves (db_evolution.R E) m" "\<And>d e. E d e \<Longrightarrow> D d e"
  shows "safe m"
proof (rule ev.evolvesI)
  fix w :: "'g world"
  have "evolution (db_evolution.R E :: 'g world \<Rightarrow> 'g world \<Rightarrow> bool)"
    by (rule evolution.intro, rule db_evolution.R_id[OF assms(1)])
      (rule db_evolution.R_comp[OF assms(1)])
  from evolution.evolves_def[OF this] have "db_evolution.R E w (snd (m w))"
    using assms(2) by blast
  then show "R w (snd (m w))"
    using assms(3) by (simp add: db_evolution.R_def[OF assms(1)] R_def)
qed

end

subsection \<open>Rows that only move on\<close>

text \<open>The most common relation of that kind: every row of a table is still there afterwards, under
  the same identifier, as a later version of itself.\<close>

locale row_evolution =
  fixes get :: "db \<Rightarrow> 'r list" and set_rows :: "'r list \<Rightarrow> db \<Rightarrow> db" and key :: "'r \<Rightarrow> string"
    and later :: "'r \<Rightarrow> 'r \<Rightarrow> bool"
  assumes get_set: "get (set_rows rows d) = rows"
    and later_refl: "later r r" and later_trans: "later r s \<Longrightarrow> later s t \<Longrightarrow> later r t"
    and later_key: "later r s \<Longrightarrow> key s = key r"
begin

definition lookup :: "string \<Rightarrow> db \<Rightarrow> 'r option" where
  "lookup i d = List.find (\<lambda>r. key r = i) (get d)"

definition moves_on :: "db \<Rightarrow> db \<Rightarrow> bool" where
  "moves_on d e \<longleftrightarrow> (\<forall>i r. lookup i d = Some r \<longrightarrow> (\<exists>s. lookup i e = Some s \<and> later r s))"

lemma find_map_key:
  assumes "\<And>r. later r (f r)"
  shows "List.find (\<lambda>r. key r = i) (map f rows) = map_option f (List.find (\<lambda>r. key r = i) rows)"
proof -
  have "key (f r) = key r" for r using assms by (rule later_key)
  then show ?thesis by (induction rows) auto
qed

lemma find_append_key: "List.find P (xs @ ys) = (case List.find P xs of None \<Rightarrow> List.find P ys | Some x \<Rightarrow> Some x)"
  by (induction xs) auto

lemma moves_on_map: "(\<And>r. later r (f r)) \<Longrightarrow> moves_on d (set_rows (map f (get d)) d)"
  by (auto simp: moves_on_def lookup_def get_set find_map_key)

lemma moves_on_same: "get e = get d \<Longrightarrow> moves_on d e"
  using later_refl by (auto simp: moves_on_def lookup_def)

lemma moves_on_append: "moves_on d (set_rows (get d @ rows) d)"
  using later_refl by (auto simp: moves_on_def lookup_def get_set find_append_key split: option.split)

lemma lookup_member: "lookup i d = Some r \<Longrightarrow> r \<in> set (get d) \<and> key r = i"
  by (auto simp: lookup_def find_Some_iff)

lemma member_lookup: "r \<in> set (get d) \<Longrightarrow> \<exists>s. lookup (key r) d = Some s"
  unfolding lookup_def by (cases "List.find (\<lambda>x. key x = key r) (get d)") (auto simp: find_None_iff)

lemma lookup_unique: "r \<in> set (get d) \<Longrightarrow> distinct (map key (get d)) \<Longrightarrow> lookup (key r) d = Some r"
  using member_lookup[of r d] lookup_member[of "key r" d] by (auto simp: distinct_map dest: inj_onD)

end

sublocale row_evolution \<subseteq> db_evolution moves_on
proof
  show "moves_on d d" for d using later_refl by (auto simp: moves_on_def)
  show "moves_on d e \<Longrightarrow> moves_on e f \<Longrightarrow> moves_on d f" for d e f
    unfolding moves_on_def by (blast intro: later_trans)
qed

subsection \<open>Methods that only read\<close>

text \<open>A method that only reads leaves the tables, the gateway, the clock and the sources of
  identifiers as they were; it may use up outcomes and abort an open transaction.\<close>

definition still_rel :: "'g world \<Rightarrow> 'g world \<Rightarrow> bool" where
  "still_rel v w \<longleftrightarrow> db w = db v \<and> (txn w = None \<longleftrightarrow> txn v = None) \<and> now w = now v \<and> ext w = ext v \<and>
     draws w = draws v \<and> entropy w = entropy v"

interpretation still: evolution "still_rel :: 'g world \<Rightarrow> 'g world \<Rightarrow> bool"
  by unfold_locales (auto simp: still_rel_def)

lemma still_query: "still.evolves (query f)"
proof (rule still.evolvesI)
  fix w
  show "still_rel w (snd (query f w))"
    by (auto simp: query_def run_stmt_def next_outcome_def abort_txn_def still_rel_def
        split: list.split option.split)
qed

lemma still_query_row: "still.evolves (query_row f)"
  unfolding query_row_def one_row_def by (intro still.evolves_intros still_query)

lemmas still_intros = still.evolves_intros still_query still_query_row

lemma still_Inr: "still.evolves m \<Longrightarrow> m w = (r, v) \<Longrightarrow> still_rel w v"
  by (rule still.evolvesD)

text \<open>Running on after a method that only reads: either it failed and nothing changed, or what
  follows starts from the same tables.\<close>

lemma still_bind:
  assumes "still.evolves m"
  obtains (failed) e v where "bindE m f w = (Inl e, v)" "still_rel w v"
  | (passed) x v where "bindE m f w = f x v" "m w = (Inr x, v)" "still_rel w v"
proof -
  obtain r v where m: "m w = (r, v)" by fastforce
  with assms have "still_rel w v" by (rule still_Inr)
  then show thesis using m by (cases r) (auto simp: bindE_run intro: failed passed)
qed

lemma still_then:
  assumes "still.evolves m" "\<And>x v. still_rel w v \<Longrightarrow> m w = (Inr x, v) \<Longrightarrow> P (f x v)"
    and "\<And>e v. still_rel w v \<Longrightarrow> P (Inl e, v)"
  shows "P (bindE m f w)"
  using assms(2,3) by (cases rule: still_bind[OF assms(1), of f w]) simp_all

lemma still_rel_trans: "still_rel u v \<Longrightarrow> still_rel v w \<Longrightarrow> still_rel u w"
  by (rule still.R_trans)

subsection \<open>Methods that do not call the gateway\<close>

definition inert_rel :: "'g world \<Rightarrow> 'g world \<Rightarrow> bool" where
  "inert_rel v w \<longleftrightarrow> ext w = ext v \<and> now w = now v \<and> entropy w = entropy v \<and>
     (txn w = None \<longleftrightarrow> txn v = None) \<and> (outcomes v = [] \<longrightarrow> outcomes w = [])"

interpretation inert: evolution "inert_rel :: 'g world \<Rightarrow> 'g world \<Rightarrow> bool"
  by unfold_locales (auto simp: inert_rel_def)

lemma inert_run_stmt: "inert.evolves (run_stmt f)"
proof (rule inert.evolvesI)
  fix w
  show "inert_rel w (snd (run_stmt f w))"
    by (auto simp: run_stmt_def next_outcome_def abort_txn_def inert_rel_def
        split: list.split option.split sum.split)
qed

lemma next_outcome_inert: "next_outcome w = (r, v) \<Longrightarrow> inert_rel w v"
  by (auto simp: next_outcome_def inert_rel_def split: list.splits)

lemma inert_in_tx:
  fixes body :: "('g, 'a) routine"
  assumes "inert.evolves body" shows "inert.evolves (in_tx body)"
proof (rule inert.evolvesI)
  fix w :: "'g world"
  obtain r w1 where n1: "next_outcome w = (r, w1)" by fastforce
  obtain s w2 where b: "body (w1\<lparr>txn := Some False\<rparr>) = (s, w2)" by fastforce
  obtain q w3 where n3: "next_outcome w2 = (q, w3)" by fastforce
  have "inert_rel w (snd (body w))" using assms by (simp add: inert.evolves_def)
  moreover note steps = next_outcome_inert[OF n1] inert.evolvesD[OF assms b] next_outcome_inert[OF n3]
  have "txn w = None \<Longrightarrow> inert_rel w (w2\<lparr>db := d, txn := None\<rparr>)" "txn w = None \<Longrightarrow> inert_rel w (w3\<lparr>db := d, txn := None\<rparr>)"
    "txn w = None \<Longrightarrow> inert_rel w (w3\<lparr>txn := None\<rparr>)" for d
    using steps by (simp_all add: inert_rel_def)
  moreover have "inert_rel w w1" using steps by simp
  ultimately show "inert_rel w (snd (in_tx body w))"
    by (simp add: in_tx_def n1 b n3 split: option.split sum.split)
qed

lemma inert_statements:
  "inert.evolves (query q)" "inert.evolves (exec_stmt e)" "inert.evolves (fresh_id p)"
  "inert.evolves (insert_row cs g1 s1 r)" "inert.evolves (update_where g2 s2 c2 f2)"
  "inert.evolves (insert_checked ks cs g1 s1 r)"
  unfolding query_def exec_stmt_def insert_row_def update_where_def insert_checked_def
  by (rule inert_run_stmt inert.evolvesI; simp add: fresh_id_def inert_rel_def)+

lemma inert_rows:
  "inert.evolves m \<Longrightarrow> inert.evolves (one_row m)" "inert.evolves (query_row q)"
  "inert.evolves (update_one g s c f)" "inert.evolves (update_checked ks cs g' s' c' f')"
  unfolding query_row_def update_one_def update_checked_def one_row_def
  by (intro inert.evolves_intros inert_statements inert_run_stmt, assumption?)+

lemma inert_ignore_error: "inert.evolves m \<Longrightarrow> inert.evolves (ignore_error m)"
  unfolding ignore_error_def by (intro inert.evolves_intros)

lemmas inert_intros = inert.evolves_intros inert_statements inert_rows inert_in_tx inert_ignore_error

end
