(* ===== verification/Paging.thy ===== *)
theory Paging
  imports Prelude "HOL-Library.Char_ord" "HOL-Library.List_Lexorder"
begin

text \<open>
  Keyset pagination: \<open>internal/storage/page.go\<close> and the shape every \<open>List\<close> query shares,
  \<open>WHERE ... AND id < $after ORDER BY id DESC LIMIT $limit+1\<close>. The locale is the contract of
  such a query; its client is a caller that walks the pages, each time passing the identifier of
  the last row it saw.
\<close>

record page =
  pg_limit :: int
  pg_starting_after :: string
  pg_ending_before :: string

definition default_page_limit :: int where "default_page_limit = 25"

definition max_page_limit :: int where "max_page_limit = 100"

definition normalize_page :: "page \<Rightarrow> page" where
  "normalize_page p =
     (let p = (if pg_limit p \<le> 0 then p\<lparr>pg_limit := default_page_limit\<rparr> else p)
      in if max_page_limit < pg_limit p then p\<lparr>pg_limit := max_page_limit\<rparr> else p)"

definition fetch_limit :: "page \<Rightarrow> int" where
  "fetch_limit p = pg_limit (normalize_page p) + 1"

record 'a listing =
  li_items :: "'a list"
  li_has_more :: bool
  li_limit :: int

definition new_list :: "'a list \<Rightarrow> page \<Rightarrow> 'a listing" where
  "new_list rows p =
     (let p = normalize_page p;
          has_more = pg_limit p < int (length rows)
      in \<lparr>li_items = (if has_more then take (nat (pg_limit p)) rows else rows),
          li_has_more = has_more, li_limit = pg_limit p\<rparr>)"

text \<open>\<open>ORDER BY id DESC\<close>, and the rows of a page of a keyset query.\<close>

definition order_desc :: "('a \<Rightarrow> string) \<Rightarrow> 'a list \<Rightarrow> 'a list" where
  "order_desc key rows = rev (sort_key key rows)"

definition keyset_rows :: "('a \<Rightarrow> string) \<Rightarrow> ('a \<Rightarrow> bool) \<Rightarrow> page \<Rightarrow> 'a list \<Rightarrow> 'a list" where
  "keyset_rows key cond p rows =
     take (nat (fetch_limit p))
       (order_desc key (filter (\<lambda>r. cond r \<and> (pg_starting_after p \<noteq> [] \<longrightarrow> key r < pg_starting_after p)) rows))"

lemma pg_limit_bounds: "1 \<le> pg_limit (normalize_page p)" "pg_limit (normalize_page p) \<le> 100"
  by (simp_all add: normalize_page_def Let_def default_page_limit_def max_page_limit_def)

lemma pg_limit_ending [simp]:
  "pg_limit (normalize_page (p\<lparr>pg_starting_after := a\<rparr>)) = pg_limit (normalize_page p)"
  by (simp add: normalize_page_def Let_def default_page_limit_def max_page_limit_def)

lemma fetch_limit_after [simp]: "fetch_limit (p\<lparr>pg_starting_after := a\<rparr>) = fetch_limit p"
  by (simp add: fetch_limit_def)

subsection \<open>Walking the pages\<close>

text \<open>Strictly descending identifiers.\<close>

definition descending :: "('a \<Rightarrow> string) \<Rightarrow> 'a list \<Rightarrow> bool" where
  "descending key = sorted_wrt (\<lambda>a b. key b < key a)"

locale keyset_listing =
  fixes list_page :: "page \<Rightarrow> 'd \<Rightarrow> 'a listing"
    and key :: "'a \<Rightarrow> string"
    and matching :: "'d \<Rightarrow> 'a list"
  assumes page_rows: "list_page p d = new_list (take (nat (fetch_limit p))
      (filter (\<lambda>r. pg_starting_after p \<noteq> [] \<longrightarrow> key r < pg_starting_after p) (matching d))) p"
begin

fun walk :: "nat \<Rightarrow> page \<Rightarrow> 'd \<Rightarrow> 'a list" where
  "walk 0 p d = []"
| "walk (Suc n) p d = (let l = list_page p d in
     if li_has_more l then li_items l @ walk n (p\<lparr>pg_starting_after := key (last (li_items l))\<rparr>) d
     else li_items l)"

lemma after_last:
  assumes desc: "descending key (xs @ x # ys)" and m: "matching d = xs @ x # ys"
    and ids: "\<forall>r \<in> set (matching d). key r \<noteq> []"
  shows "filter (\<lambda>r. key x \<noteq> [] \<longrightarrow> key r < key x) (matching d) = ys"
proof -
  have "key x \<noteq> []" using ids m by simp
  moreover have "filter (\<lambda>r. key r < key x) xs = []"
    using desc by (auto simp: descending_def sorted_wrt_append filter_empty_conv dest: less_asym)
  moreover have "filter (\<lambda>r. key r < key x) ys = ys"
    using desc by (auto simp: descending_def sorted_wrt_append intro: filter_True)
  ultimately show ?thesis by (simp add: m)
qed

lemma walk_rest:
  assumes desc: "descending key (matching d)" and ids: "\<forall>r \<in> set (matching d). key r \<noteq> []"
  shows "\<lbrakk> matching d = seen @ rest;
      filter (\<lambda>r. pg_starting_after p \<noteq> [] \<longrightarrow> key r < pg_starting_after p) (matching d) = rest;
      length rest < n \<rbrakk> \<Longrightarrow> walk n p d = rest"
proof (induction n arbitrary: p seen rest)
  case (Suc n)
  obtain k where k: "nat (pg_limit (normalize_page p)) = Suc k"
    using pg_limit_bounds(1)[of p] by (metis Suc_le_D nat_1 nat_le_iff nat_mono One_nat_def)
  have lim: "pg_limit (normalize_page p) = int (Suc k)" using k pg_limit_bounds(1)[of p] by linarith
  have fetch: "nat (fetch_limit p) = Suc (Suc k)" using lim by (simp add: fetch_limit_def)
  have page: "list_page p d = new_list (take (Suc (Suc k)) rest) p"
    using Suc.prems(2) by (simp add: page_rows fetch)
  show ?case
  proof (cases "length rest \<le> Suc k")
    case True
    then show ?thesis by (simp add: page new_list_def lim Let_def)
  next
    case False
    let ?now = "take (Suc k) rest" and ?later = "drop (Suc k) rest"
    have items: "li_has_more (list_page p d)" "li_items (list_page p d) = ?now"
      using False k by (simp_all add: page new_list_def lim Let_def)
    have ne: "?now \<noteq> []" using False by auto
    have split: "matching d = (seen @ butlast ?now) @ last ?now # ?later"
      using Suc.prems(1) append_butlast_last_id[OF ne] by (metis append_assoc append_Cons append_Nil append_take_drop_id)
    have "walk n (p\<lparr>pg_starting_after := key (last ?now)\<rparr>) d = ?later"
    proof (rule Suc.IH)
      show "matching d = (seen @ ?now) @ ?later" using Suc.prems(1) by simp
      show "filter (\<lambda>r. pg_starting_after (p\<lparr>pg_starting_after := key (last ?now)\<rparr>) \<noteq> []
          \<longrightarrow> key r < pg_starting_after (p\<lparr>pg_starting_after := key (last ?now)\<rparr>)) (matching d) = ?later"
        using after_last[OF _ split ids] desc split by simp
      show "length ?later < n" using Suc.prems(3) False by simp
    qed
    then show ?thesis by (simp add: items Let_def)
  qed
qed simp

lemma walk_all:
  assumes "descending key (matching d)" "\<forall>r \<in> set (matching d). key r \<noteq> []"
    and "pg_starting_after p = []" "length (matching d) < n"
  shows "walk n p d = matching d"
  using walk_rest[OF assms(1,2), of "[]" "matching d" p n] assms(3,4) by simp

end

text \<open>The queries the repositories write are keyset listings.\<close>

lemma order_desc_sorted: "distinct (map key rows) \<Longrightarrow> descending key (order_desc key rows)"
proof -
  assume "distinct (map key rows)"
  then have "distinct (map key (sort_key key rows))" by (simp add: distinct_map)
  moreover have "sorted (map key (sort_key key rows))" by simp
  ultimately have "sorted_wrt (<) (map key (sort_key key rows))"
    by (simp only: strict_sorted_iff simp_thms)
  then have "sorted_wrt (\<lambda>a b. key a < key b) (sort_key key rows)"
    by (simp only: sorted_wrt_map)
  then show ?thesis by (simp add: descending_def order_desc_def sorted_wrt_rev)
qed

lemma filter_order_desc: "filter P (order_desc key rows) = order_desc key (filter P rows)"
  by (simp add: order_desc_def filter_sort flip: rev_filter)

lemma keyset_rows_filter:
  "keyset_rows key cond p rows = take (nat (fetch_limit p))
     (filter (\<lambda>r. pg_starting_after p \<noteq> [] \<longrightarrow> key r < pg_starting_after p)
       (order_desc key (filter cond rows)))"
  by (simp add: keyset_rows_def filter_order_desc conj_commute)

lemma set_order_desc [simp]: "set (order_desc key rows) = set rows"
  by (simp add: order_desc_def)

text \<open>A \<open>List\<close> method: it normalises the page, runs the query and trims the sentinel row.\<close>

definition list_rows :: "('a \<Rightarrow> string) \<Rightarrow> ('a \<Rightarrow> bool) \<Rightarrow> page \<Rightarrow> 'a list \<Rightarrow> 'a listing" where
  "list_rows key cond p rows =
     (let p = normalize_page p in new_list (keyset_rows key cond p rows) p)"

lemma normalize_page_idem [simp]: "normalize_page (normalize_page p) = normalize_page p"
  by (simp add: normalize_page_def Let_def default_page_limit_def max_page_limit_def)

lemma normalize_page_after [simp]: "pg_starting_after (normalize_page p) = pg_starting_after p"
  by (simp add: normalize_page_def Let_def)

lemma list_rows_page:
  "list_rows key cond p rows = new_list (take (nat (fetch_limit p))
     (filter (\<lambda>r. pg_starting_after p \<noteq> [] \<longrightarrow> key r < pg_starting_after p)
       (order_desc key (filter cond rows)))) p"
  by (simp add: list_rows_def keyset_rows_filter new_list_def fetch_limit_def Let_def)

lemma keyset_listing_rows:
  "keyset_listing (\<lambda>p d. list_rows key cond p (rows d)) key (\<lambda>d. order_desc key (filter cond (rows d)))"
  by unfold_locales (rule list_rows_page)

end
