(* ===== verification/Events.thy ===== *)
theory Events
  imports Store Paging
begin

text \<open>
  Package \<open>internal/event\<close>: which event announces which status, the dedupe keys that identify
  an occurrence, and the repository of published events.
\<close>

subsection \<open>Event types and dedupe keys\<close>

fun type_for_status :: "status \<Rightarrow> etype option" where
  "type_for_status Pending = Some PaymentPending"
| "type_for_status Authorized = Some PaymentAuthorized"
| "type_for_status Paid = Some PaymentPaid"
| "type_for_status Failed = Some PaymentFailed"
| "type_for_status Canceled = Some PaymentCanceled"
| "type_for_status Expired = Some PaymentExpired"
| "type_for_status Refunded = Some PaymentRefunded"
| "type_for_status PartiallyRefunded = Some PaymentPartiallyRefunded"
| "type_for_status (OtherStatus _) = None"

fun type_for_payout_status :: "payout_status \<Rightarrow> etype option" where
  "type_for_payout_status Approved = Some EvPayoutApproved"
| "type_for_payout_status Rejected = Some EvPayoutRejected"
| "type_for_payout_status Submitted = Some EvPayoutSubmitted"
| "type_for_payout_status Completed = Some EvPayoutCompleted"
| "type_for_payout_status PayoutFailed = Some EvPayoutFailed"
| "type_for_payout_status _ = None"

definition type_valid :: "string \<Rightarrow> bool" where
  "type_valid t \<longleftrightarrow> t \<in> set (map type_name all_types)"

definition with_discriminator :: "string \<Rightarrow> string \<Rightarrow> string" where
  "with_discriminator key discriminator =
     (if discriminator \<noteq> [] then key @ CHR '':'' # discriminator else key)"

definition payment_dedupe_key :: "string \<Rightarrow> etype \<Rightarrow> string \<Rightarrow> string" where
  "payment_dedupe_key payment_id t discriminator =
     with_discriminator (''payment:'' @ payment_id @ CHR '':'' # type_name t) discriminator"

definition refund_dedupe_key :: "string \<Rightarrow> etype \<Rightarrow> string" where
  "refund_dedupe_key refund_id t = ''refund:'' @ refund_id @ CHR '':'' # type_name t"

definition subscription_dedupe_key :: "string \<Rightarrow> etype \<Rightarrow> string \<Rightarrow> string" where
  "subscription_dedupe_key subscription_id t discriminator =
     with_discriminator (''subscription:'' @ subscription_id @ CHR '':'' # type_name t) discriminator"

definition payout_dedupe_key :: "string \<Rightarrow> etype \<Rightarrow> string" where
  "payout_dedupe_key payout_id t = ''payout:'' @ payout_id @ CHR '':'' # type_name t"

subsection \<open>The repository\<close>

definition event_constraints :: "event constraint list" where
  "event_constraints =
     [(''events_pkey'', \<lambda>e x. ev_id e = ev_id x),
      (''events_dedupe_key'', \<lambda>e x. ev_dedupe_key e \<noteq> [] \<and> ev_dedupe_key e = ev_dedupe_key x)]"

definition next_sequence :: "('g, int) routine" where
  "next_sequence w = (Inr (sequence w), w\<lparr>sequence := sequence w + 1\<rparr>)"

definition event_create :: "event \<Rightarrow> ('g, event) routine" where
  "event_create e =
     bindE (if ev_id e = [] then fresh_id ''evt'' else succeed (ev_id e)) (\<lambda>eid.
     bindE (gets now) (\<lambda>t.
     bindE next_sequence (\<lambda>sq.
       let pl = (ev_payload e)\<lparr>pl_id := eid, pl_type := ev_type e,
             pl_created_at := (if pl_created_at (ev_payload e) = 0 then t else pl_created_at (ev_payload e))\<rparr>;
           row = e\<lparr>ev_id := eid, ev_payload := pl, ev_sequence := sq, ev_created_at := t\<rparr>
       in catchE (insert_row event_constraints events (\<lambda>rows d. d\<lparr>events := rows\<rparr>) row)
            (\<lambda>err. if is_unique_violation err [''events_dedupe_key''] then throw EventDuplicate
                   else throw err)
            succeed)))"

definition event_get :: "string \<Rightarrow> ('g, event) routine" where
  "event_get i = query_row (\<lambda>d. List.find (\<lambda>e. ev_id e = i) (events d))"

record event_filter =
  ef_application_id :: string
  ef_payment_id :: string
  ef_type :: string
  ef_created_from :: "time option"
  ef_created_to :: "time option"

definition event_matches :: "event_filter \<Rightarrow> event \<Rightarrow> bool" where
  "event_matches f e \<longleftrightarrow>
     (ef_application_id f \<noteq> [] \<longrightarrow> ev_application_id e = ef_application_id f) \<and>
     (ef_payment_id f \<noteq> [] \<longrightarrow> ev_payment_id e = ef_payment_id f) \<and>
     (ef_type f \<noteq> [] \<longrightarrow> type_name (ev_type e) = ef_type f) \<and>
     (case ef_created_from f of None \<Rightarrow> True | Some t \<Rightarrow> t \<le> ev_created_at e) \<and>
     (case ef_created_to f of None \<Rightarrow> True | Some t \<Rightarrow> ev_created_at e \<le> t)"

definition event_page :: "event_filter \<Rightarrow> page \<Rightarrow> db \<Rightarrow> event listing" where
  "event_page f p d = list_rows ev_id (event_matches f) p (events d)"

definition event_list :: "event_filter \<Rightarrow> page \<Rightarrow> ('g, event listing) routine" where
  "event_list f p = query (event_page f p)"

definition event_list_for_payment :: "string \<Rightarrow> ('g, event list) routine" where
  "event_list_for_payment payment_id =
     query (\<lambda>d. sort_key ev_sequence (filter (\<lambda>e. ev_payment_id e = payment_id) (events d)))"

subsection \<open>Dedupe keys identify occurrences\<close>

lemma type_name_inject: "type_name s = type_name t \<longleftrightarrow> s = t"
proof -
  have "distinct (map type_name all_types)" by code_simp
  then have "inj_on type_name (set all_types)" by (simp only: distinct_map)
  moreover have "u \<in> set all_types" for u by (cases u) (simp_all add: all_types_def)
  ultimately show ?thesis by (auto dest: inj_onD)
qed

lemma type_name_no_colon: "CHR '':'' \<notin> set (type_name t)"
  by (cases t) simp_all

lemma type_name_valid: "type_valid (type_name t)"
  by (cases t) (simp_all add: type_valid_def all_types_def)

lemma discriminator_tail:
  "with_discriminator (p @ CHR '':'' # type_name t) x = p @ CHR '':'' # with_discriminator (type_name t) x"
  by (simp add: with_discriminator_def)

lemma discriminator_cut: "cut (CHR '':'') (with_discriminator (type_name t) x) = (type_name t, x, x \<noteq> [])"
  by (simp add: with_discriminator_def cut_absent cut_append type_name_no_colon)

lemma discriminated_inject:
  assumes "with_discriminator (p @ CHR '':'' # type_name s) x = with_discriminator (q @ CHR '':'' # type_name t) y"
    and "CHR '':'' \<notin> set p" "CHR '':'' \<notin> set q"
  shows "p = q \<and> s = t \<and> x = y"
proof -
  have "p = q \<and> with_discriminator (type_name s) x = with_discriminator (type_name t) y"
    by (rule sep_inject[OF assms(2,3)]) (use assms(1) in \<open>simp only: discriminator_tail\<close>)
  then have "p = q" "cut (CHR '':'') (with_discriminator (type_name s) x)
      = cut (CHR '':'') (with_discriminator (type_name t) y)"
    by simp_all
  then show ?thesis unfolding discriminator_cut by (auto simp: type_name_inject)
qed

text \<open>C7. A dedupe key names exactly one occurrence, for identifiers that contain no colon: two keys of
  one kind are equal only for the same record, the same event type and, for payments and
  subscriptions, the same discriminator; a key of a payment, a refund, a subscription or a payout is
  never the key of a record of another of these kinds.\<close>

theorem dedupe_keys_identify:
  assumes "CHR '':'' \<notin> set i" "CHR '':'' \<notin> set j"
  shows "(payment_dedupe_key i s x = payment_dedupe_key j t y \<longleftrightarrow> i = j \<and> s = t \<and> x = y) \<and>
    (subscription_dedupe_key i s x = subscription_dedupe_key j t y \<longleftrightarrow> i = j \<and> s = t \<and> x = y) \<and>
    (payout_dedupe_key i s = payout_dedupe_key j t \<longleftrightarrow> i = j \<and> s = t) \<and>
    (refund_dedupe_key i s = refund_dedupe_key j t \<longleftrightarrow> i = j \<and> s = t) \<and>
    payment_dedupe_key i s x \<noteq> refund_dedupe_key j t \<and>
    payment_dedupe_key i s x \<noteq> payout_dedupe_key j t \<and>
    payment_dedupe_key i s x \<noteq> subscription_dedupe_key j t y \<and>
    refund_dedupe_key i s \<noteq> payout_dedupe_key j t \<and>
    refund_dedupe_key i s \<noteq> subscription_dedupe_key j t y \<and>
    payout_dedupe_key i s \<noteq> subscription_dedupe_key j t y"
proof -
  have pay: "payment_dedupe_key k u z = ''payment:'' @ with_discriminator (k @ CHR '':'' # type_name u) z" for k u z
    by (simp add: payment_dedupe_key_def with_discriminator_def)
  have sub: "subscription_dedupe_key k u z = ''subscription:'' @ with_discriminator (k @ CHR '':'' # type_name u) z" for k u z
    by (simp add: subscription_dedupe_key_def with_discriminator_def)
  have same: "with_discriminator (i @ CHR '':'' # type_name s) a = with_discriminator (j @ CHR '':'' # type_name t) b \<longleftrightarrow>
      i = j \<and> s = t \<and> a = b" for a b
    using discriminated_inject[of i s a j t b] assms by auto
  have plain: "i @ CHR '':'' # type_name s = j @ CHR '':'' # type_name t \<longleftrightarrow> i = j \<and> s = t"
    using same[of "[]" "[]"] by (simp add: with_discriminator_def)
  show ?thesis
    by (simp add: pay sub same refund_dedupe_key_def payout_dedupe_key_def plain)
qed

theorem dedupe_keys_identify_witness:
  "payment_dedupe_key ''pay_1'' PaymentPartiallyRefunded ''100'' \<noteq>
   payment_dedupe_key ''pay_1'' PaymentPartiallyRefunded ''250''"
  using dedupe_keys_identify[of "''pay_1''" "''pay_1''" PaymentPartiallyRefunded "''100''"
      PaymentPartiallyRefunded "''250''"] by simp

subsection \<open>Publishing an occurrence twice\<close>

text \<open>No two stored events carry the same dedupe key.\<close>

definition dedupe_unique :: "db \<Rightarrow> bool" where
  "dedupe_unique d \<longleftrightarrow> distinct (filter (\<lambda>k. k \<noteq> []) (map ev_dedupe_key (events d)))"

lemma dedupe_unique_insert:
  assumes "dedupe_unique d" "violated event_constraints e (events d) = None"
  shows "dedupe_unique (d\<lparr>events := events d @ [e]\<rparr>)"
  using assms by (auto simp: dedupe_unique_def violated_None event_constraints_def)

lemma event_create_conflict:
  assumes "outcomes w = []" "txn w \<noteq> Some True" "ev_dedupe_key e \<noteq> []"
    and "x \<in> set (events (db w))" "ev_dedupe_key x = ev_dedupe_key e"
    and fresh: "\<And>i. fst (fresh_id ''evt'' w) = Inr i \<or> ev_id e = i \<Longrightarrow> i \<notin> ev_id ` set (events (db w))"
  shows "\<exists>v. event_create e w = (Inl EventDuplicate, v) \<and> db v = db w \<and> outcomes v = [] \<and>
    (txn v = (if txn w = None then None else Some True)) \<and> ext v = ext w"
proof -
  have viol: "violated event_constraints r (events (db w)) = Some ''events_dedupe_key''"
    if "ev_dedupe_key r = ev_dedupe_key e" "ev_id r \<notin> ev_id ` set (events (db w))" for r
    using that assms(3-5) by (auto simp: violated_def event_constraints_def list_ex_iff)
  show ?thesis
  proof (cases "ev_id e = []")
    case True
    let ?i = "new_id ''evt'' (word_of_int (unix_milli (now w))) (entropy w (draws w))"
    have "?i \<notin> ev_id ` set (events (db w))" using fresh by (simp add: fresh_id_def)
    then show ?thesis
      using assms True viol
      by (simp add: event_create_def next_sequence_def Let_def bindE_run catchE_def succeed_def
          fresh_id_def gets_def insert_row_def run_stmt_def next_outcome_def abort_txn_def throw_def
          is_unique_violation_def split: option.splits)
  next
    case False
    then show ?thesis
      using assms viol
      by (simp add: event_create_def next_sequence_def Let_def bindE_run catchE_def succeed_def
          gets_def insert_row_def run_stmt_def next_outcome_def abort_txn_def throw_def
          is_unique_violation_def split: option.splits)
  qed
qed

interpretation event_listing: keyset_listing "event_page f" ev_id
  "\<lambda>d. order_desc ev_id (filter (event_matches f) (events d))" for f
  unfolding event_page_def by (rule keyset_listing_rows)

text \<open>C8. Walking a listing of events page by page, each time asking for what follows the last
  row seen, returns every matching event exactly once, newest first, for any requested page
  size, when identifiers are distinct and not empty.\<close>

theorem event_pages_complete:
  assumes "distinct (map ev_id (events d))" "\<forall>e \<in> set (events d). ev_id e \<noteq> []"
    and "pg_starting_after p = []" "length (events d) < n"
  shows "event_listing.walk f n p d = order_desc ev_id (filter (event_matches f) (events d)) \<and>
    set (event_listing.walk f n p d) = {e \<in> set (events d). event_matches f e} \<and>
    distinct (event_listing.walk f n p d)"
proof -
  let ?m = "order_desc ev_id (filter (event_matches f) (events d))"
  have d: "distinct (map ev_id (filter (event_matches f) (events d)))"
    using assms(1) by (rule distinct_map_filter)
  have "length ?m < n"
    using le_less_trans[OF length_filter_le assms(4)] by (simp add: order_desc_def)
  then have walk: "event_listing.walk f n p d = ?m"
    using assms(2,3) order_desc_sorted[OF d] by (intro event_listing.walk_all) simp_all
  moreover have "distinct ?m" using d by (simp add: order_desc_def distinct_map)
  ultimately show ?thesis by auto
qed

theorem event_pages_complete_witness:
  "set (event_listing.walk (\<lparr>ef_application_id = ''app_1'', ef_payment_id = [], ef_type = [],
      ef_created_from = None, ef_created_to = None\<rparr>) 4
      \<lparr>pg_limit = 1, pg_starting_after = [], pg_ending_before = []\<rparr>
      (empty_db\<lparr>events := [zero_event\<lparr>ev_id := ''evt_1'', ev_application_id := ''app_1''\<rparr>,
         zero_event\<lparr>ev_id := ''evt_2''\<rparr>,
         zero_event\<lparr>ev_id := ''evt_3'', ev_application_id := ''app_1''\<rparr>]\<rparr>))
   = {zero_event\<lparr>ev_id := ''evt_1'', ev_application_id := ''app_1''\<rparr>,
      zero_event\<lparr>ev_id := ''evt_3'', ev_application_id := ''app_1''\<rparr>}"
proof -
  let ?f = "\<lparr>ef_application_id = ''app_1'', ef_payment_id = [], ef_type = [],
      ef_created_from = None, ef_created_to = None\<rparr>"
  let ?es = "[zero_event\<lparr>ev_id := ''evt_1'', ev_application_id := ''app_1''\<rparr>,
      zero_event\<lparr>ev_id := ''evt_2''\<rparr>, zero_event\<lparr>ev_id := ''evt_3'', ev_application_id := ''app_1''\<rparr>]"
  have h: "distinct (map ev_id (events (empty_db\<lparr>events := ?es\<rparr>)))"
      "\<forall>e \<in> set (events (empty_db\<lparr>events := ?es\<rparr>)). ev_id e \<noteq> []"
      "length (events (empty_db\<lparr>events := ?es\<rparr>)) < 4"
    by simp_all
  have sel: "{e \<in> set (events (empty_db\<lparr>events := ?es\<rparr>)). event_matches ?f e} = {?es ! 0, ?es ! 2}"
    by (auto simp: event_matches_def zero_event_def)
  have "set (event_listing.walk ?f 4 \<lparr>pg_limit = 1, pg_starting_after = [], pg_ending_before = []\<rparr>
      (empty_db\<lparr>events := ?es\<rparr>)) = {?es ! 0, ?es ! 2}"
    unfolding sel [symmetric]
    by (rule event_pages_complete[OF h(1,2) _ h(3), THEN conjunct2, THEN conjunct1]) simp
  then show ?thesis by simp
qed

end
