(* ===== verification/Delivery.thy ===== *)
theory Delivery
  imports Complex_Main Events
begin

text \<open>
  Package \<open>internal/delivery\<close>, the durable webhook queue: the delivery states and the retry
  schedule (\<open>model.go\<close>), the table that doubles as the queue (\<open>repository.go\<close>) and the
  publisher that stores an event together with its deliveries (\<open>publisher.go\<close>). The two
  destination queries of \<open>internal/application/repository.go\<close> it relies on are here too.
\<close>

subsection \<open>States and schedule\<close>

fun dstate_terminal :: "dstate \<Rightarrow> bool" where
  "dstate_terminal s \<longleftrightarrow> s = DSucceeded \<or> s = DDead \<or> s = DCanceled"

definition default_max_attempts :: int where "default_max_attempts = 7"

definition retry_delays :: "duration list" where
  "retry_delays = [1 * minute, 5 * minute, 15 * minute, 1 * hour, 6 * hour, 24 * hour]"

text \<open>The conversion of a \<open>float64\<close> to an integer type truncates. \<open>u\<close> is the draw of
  \<open>rand.Float64()\<close> from [0, 1); the products are taken exactly.\<close>

definition go_trunc :: "rat \<Rightarrow> int" where
  "go_trunc x = (if x < 0 then - \<lfloor>- x\<rfloor> else \<lfloor>x\<rfloor>)"

definition apply_jitter :: "rat \<Rightarrow> duration \<Rightarrow> duration" where
  "apply_jitter u base =
     (let spread = of_int base * (1 / 10);
          offset = (u * 2 - 1) * spread;
          delay = go_trunc (of_int base + offset)
      in if delay < second then second else delay)"

definition retry_delay :: "rat \<Rightarrow> int \<Rightarrow> duration" where
  "retry_delay u attempt_no =
     (let n = (if attempt_no < 1 then 1 else attempt_no);
          index = n - 1;
          index = (if int (length retry_delays) \<le> index then int (length retry_delays) - 1 else index)
      in apply_jitter u (retry_delays ! nat index))"

definition http_success :: "int \<Rightarrow> bool" where
  "http_success code \<longleftrightarrow> 200 \<le> code \<and> code < 300"

definition should_retry :: "int \<Rightarrow> bool" where
  "should_retry code =
     (if 200 \<le> code \<and> code < 300 then False
      else if code = 408 \<or> code = 425 \<or> code = 429 then True
      else if 400 \<le> code \<and> code < 500 then False
      else True)"

subsection \<open>The queue\<close>

abbreviation set_deliveries :: "delivery list \<Rightarrow> db \<Rightarrow> db" where
  "set_deliveries rows d \<equiv> d\<lparr>deliveries := rows\<rparr>"

definition by_event_and_destination :: "string \<Rightarrow> string \<Rightarrow> ('g, delivery) routine" where
  "by_event_and_destination event_id destination_id = query_row (\<lambda>d.
     List.find (\<lambda>x. dl_event_id x = event_id \<and> dl_destination_id x = destination_id) (deliveries d))"

text \<open>\<open>INSERT ... ON CONFLICT (event_id, destination_id) DO NOTHING RETURNING\<close>.\<close>

definition insert_delivery :: "delivery \<Rightarrow> ('g, delivery option) routine" where
  "insert_delivery x = run_stmt (\<lambda>d.
     if list_ex (\<lambda>y. dl_event_id y = dl_event_id x \<and> dl_destination_id y = dl_destination_id x) (deliveries d)
     then Inr (None, d)
     else if list_ex (\<lambda>y. dl_id y = dl_id x) (deliveries d) then Inl (UniqueViolation ''deliveries_pkey'')
     else Inr (Some x, d\<lparr>deliveries := deliveries d @ [x]\<rparr>))"

definition enqueue :: "delivery \<Rightarrow> ('g, delivery) routine" where
  "enqueue d0 =
     bindE (if dl_id d0 = [] then fresh_id ''dlv'' else succeed (dl_id d0)) (\<lambda>i.
     bindE (gets now) (\<lambda>t.
       let row = zero_delivery\<lparr>dl_id := i, dl_event_id := dl_event_id d0,
             dl_application_id := dl_application_id d0, dl_destination_id := dl_destination_id d0,
             dl_url := dl_url d0, dl_state := DPending,
             dl_max_attempts := (if dl_max_attempts d0 \<le> 0 then default_max_attempts else dl_max_attempts d0),
             dl_next_attempt_at := (if dl_next_attempt_at d0 = 0 then t else dl_next_attempt_at d0),
             dl_created_at := t, dl_updated_at := t\<rparr>
       in bindE (insert_delivery row) (\<lambda>r. case r of
            Some x \<Rightarrow> succeed x
          | None \<Rightarrow> by_event_and_destination (dl_event_id d0) (dl_destination_id d0))))"

definition due :: "time \<Rightarrow> delivery \<Rightarrow> bool" where
  "due t x \<longleftrightarrow> (dl_state x = DPending \<or> dl_state x = DFailed) \<and> dl_next_attempt_at x \<le> t"

definition due_ids :: "time \<Rightarrow> int \<Rightarrow> delivery list \<Rightarrow> string list" where
  "due_ids t limit rows = map dl_id (take (nat limit) (sort_key dl_next_attempt_at (filter (due t) rows)))"

definition claim :: "string \<Rightarrow> int \<Rightarrow> ('g, delivery list) routine" where
  "claim worker limit =
     (if limit \<le> 0 then succeed []
      else bindE (gets now) (\<lambda>t. run_stmt (\<lambda>d.
        let ids = due_ids t limit (deliveries d);
            take_row = (\<lambda>x. x\<lparr>dl_state := Delivering, dl_locked_at := Some t, dl_locked_by := worker,
              dl_updated_at := t\<rparr>)
        in Inr (map take_row (filter (\<lambda>x. dl_id x \<in> set ids) (deliveries d)),
             d\<lparr>deliveries := map (\<lambda>x. if dl_id x \<in> set ids then take_row x else x) (deliveries d)\<rparr>))))"

definition is_stale :: "time \<Rightarrow> duration \<Rightarrow> delivery \<Rightarrow> bool" where
  "is_stale t older_than x \<longleftrightarrow> dl_state x = Delivering \<and>
     (case dl_locked_at x of None \<Rightarrow> False | Some l \<Rightarrow> l < t - go_quot older_than second * second)"

definition release_stale :: "duration \<Rightarrow> ('g, int) routine" where
  "release_stale older_than =
     bindE (gets now) (\<lambda>t.
     bindE (update_where deliveries set_deliveries (is_stale t older_than)
       (\<lambda>x. x\<lparr>dl_state := DFailed, dl_locked_at := None, dl_locked_by := [],
          dl_last_error := ''delivery was reclaimed after the worker stopped responding'',
          dl_next_attempt_at := t, dl_updated_at := t\<rparr>))
     (\<lambda>rows. succeed (int (length rows))))"

text \<open>\<open>INSERT ... ON CONFLICT (delivery_id, attempt_number) DO NOTHING\<close>.\<close>

definition insert_attempt :: "string \<Rightarrow> attempt \<Rightarrow> ('g, unit) routine" where
  "insert_attempt delivery_id a =
     bindE (fresh_id ''att'') (\<lambda>i.
     bindE (gets now) (\<lambda>t. run_stmt (\<lambda>d.
       if list_ex (\<lambda>x. at_delivery_id x = delivery_id \<and> at_number x = at_number a) (attempts d)
       then Inr ((), d)
       else if list_ex (\<lambda>x. at_id x = i) (attempts d) then Inl (UniqueViolation ''delivery_attempts_pkey'')
       else Inr ((), d\<lparr>attempts := attempts d @ [a\<lparr>at_id := i, at_delivery_id := delivery_id,
              at_error := clip_text (at_error a) 2000,
              at_response_body := clip_text (at_response_body a) 2000, at_created_at := t\<rparr>]\<rparr>))))"

definition record_success :: "delivery \<Rightarrow> attempt \<Rightarrow> ('g, delivery) routine" where
  "record_success x a = in_tx (
     bindE (insert_attempt (dl_id x) a) (\<lambda>_.
     bindE (gets now) (\<lambda>t.
       update_one deliveries set_deliveries (\<lambda>y. dl_id y = dl_id x)
         (\<lambda>y. y\<lparr>dl_state := DSucceeded, dl_attempt_count := at_number a, dl_last_attempt_at := Some t,
            dl_last_status_code := at_status_code a, dl_last_error := [],
            dl_last_duration_ms := Some (at_duration_ms a), dl_locked_at := None, dl_locked_by := [],
            dl_succeeded_at := Some t, dl_updated_at := t\<rparr>))))"

definition record_failure :: "rat \<Rightarrow> delivery \<Rightarrow> attempt \<Rightarrow> bool \<Rightarrow> ('g, delivery) routine" where
  "record_failure u x a retry =
     bindE (gets now) (\<lambda>t.
       let give_up = (\<not> retry \<or> dl_max_attempts x \<le> at_number a);
           state = (if give_up then DDead else DFailed);
           next_attempt = (if give_up then t else t + retry_delay u (at_number a))
       in in_tx (
            bindE (insert_attempt (dl_id x) a) (\<lambda>_.
              update_one deliveries set_deliveries (\<lambda>y. dl_id y = dl_id x)
                (\<lambda>y. y\<lparr>dl_state := state, dl_attempt_count := at_number a, dl_last_attempt_at := Some t,
                   dl_last_status_code := at_status_code a, dl_last_error := clip_text (at_error a) 2000,
                   dl_last_duration_ms := Some (at_duration_ms a), dl_next_attempt_at := next_attempt,
                   dl_locked_at := None, dl_locked_by := [], dl_updated_at := t\<rparr>))))"

definition delivery_get :: "string \<Rightarrow> ('g, delivery) routine" where
  "delivery_get i = query_row (\<lambda>d. List.find (\<lambda>x. dl_id x = i) (deliveries d))"

definition delivery_retry :: "string \<Rightarrow> ('g, delivery) routine" where
  "delivery_retry i =
     bindE (gets now) (\<lambda>t.
     catchE (update_one deliveries set_deliveries (\<lambda>x. dl_id x = i \<and> dl_state x \<noteq> Delivering)
         (\<lambda>x. x\<lparr>dl_state := DPending, dl_attempt_count := 0, dl_next_attempt_at := t,
            dl_locked_at := None, dl_locked_by := [], dl_last_error := [], dl_updated_at := t\<rparr>))
       (\<lambda>err. if is_not_found err
              then catchE (delivery_get i) (\<lambda>_. throw NotFound) (\<lambda>_. throw DeliveryInFlight)
              else throw err)
       succeed)"

record delivery_filter =
  df_application_id :: string
  df_event_id :: string
  df_state :: "dstate option"
  df_destination_id :: string

definition delivery_matches :: "delivery_filter \<Rightarrow> delivery \<Rightarrow> bool" where
  "delivery_matches f x \<longleftrightarrow>
     (df_application_id f \<noteq> [] \<longrightarrow> dl_application_id x = df_application_id f) \<and>
     (df_event_id f \<noteq> [] \<longrightarrow> dl_event_id x = df_event_id f) \<and>
     (case df_state f of None \<Rightarrow> True | Some s \<Rightarrow> dl_state x = s) \<and>
     (df_destination_id f \<noteq> [] \<longrightarrow> dl_destination_id x = df_destination_id f)"

definition delivery_page :: "delivery_filter \<Rightarrow> page \<Rightarrow> db \<Rightarrow> delivery listing" where
  "delivery_page f p d = list_rows dl_id (delivery_matches f) p (deliveries d)"

definition delivery_list :: "delivery_filter \<Rightarrow> page \<Rightarrow> ('g, delivery listing) routine" where
  "delivery_list f p = query (delivery_page f p)"

definition list_attempts :: "string \<Rightarrow> ('g, attempt list) routine" where
  "list_attempts i = query (\<lambda>d.
     rev (sort_key at_number (filter (\<lambda>a. at_delivery_id a = i) (attempts d))))"

record delivery_stats =
  st_pending :: int
  st_failed :: int
  st_succeeded :: int
  st_dead :: int

definition count_rows :: "('a \<Rightarrow> bool) \<Rightarrow> 'a list \<Rightarrow> int" where
  "count_rows p rows = int (length (filter p rows))"

definition delivery_stats_query :: "time \<Rightarrow> ('g, delivery_stats) routine" where
  "delivery_stats_query since = query (\<lambda>d.
     \<lparr>st_pending = count_rows (\<lambda>x. dl_state x = DPending \<or> dl_state x = Delivering) (deliveries d),
      st_failed = count_rows (\<lambda>x. dl_state x = DFailed) (deliveries d),
      st_succeeded = count_rows (\<lambda>x. dl_state x = DSucceeded \<and> since \<le> dl_created_at x) (deliveries d),
      st_dead = count_rows (\<lambda>x. dl_state x = DDead) (deliveries d)\<rparr>)"

subsection \<open>Destinations and the publisher\<close>

definition destination_accepts :: "destination \<Rightarrow> string \<Rightarrow> bool" where
  "destination_accepts ds event_type =
     (if \<not> ds_enabled ds then False
      else if ds_event_types ds = [] then True
      else event_type \<in> set (ds_event_types ds))"

definition list_enabled_destinations :: "string \<Rightarrow> string \<Rightarrow> ('g, destination list) routine" where
  "list_enabled_destinations application_id event_type = query (\<lambda>d.
     sort_key ds_id (filter (\<lambda>ds. ds_application_id ds = application_id \<and> ds_enabled ds \<and>
       (ds_event_types ds = [] \<or> event_type \<in> set (ds_event_types ds))) (destinations d)))"

definition get_destination :: "string \<Rightarrow> string \<Rightarrow> ('g, destination) routine" where
  "get_destination application_id i = query_row (\<lambda>d.
     List.find (\<lambda>ds. ds_id ds = i \<and> ds_application_id ds = application_id) (destinations d))"

record publish_result =
  pb_event :: "event option"
  pb_deliveries :: "delivery list"
  pb_duplicate :: bool

definition delivery_for :: "event \<Rightarrow> destination \<Rightarrow> delivery" where
  "delivery_for e ds = zero_delivery\<lparr>dl_event_id := ev_id e, dl_application_id := ev_application_id e,
     dl_destination_id := ds_id ds, dl_url := ds_url ds\<rparr>"

definition publish :: "event \<Rightarrow> ('g, publish_result) routine" where
  "publish e = in_tx (
     catchE (event_create e)
       (\<lambda>err. if err = EventDuplicate
              then succeed \<lparr>pb_event = None, pb_deliveries = [], pb_duplicate = True\<rparr>
              else throw err)
       (\<lambda>stored.
          bindE (list_enabled_destinations (ev_application_id stored) (type_name (ev_type stored))) (\<lambda>dsts.
          bindE (mapE (\<lambda>ds. enqueue (delivery_for stored ds)) dsts) (\<lambda>dls.
          succeed \<lparr>pb_event = Some stored, pb_deliveries = dls, pb_duplicate = False\<rparr>))))"

text \<open>Publishing writes events and deliveries and nothing else: what the components that publish
  rely on.\<close>

definition announce_rel :: "db \<Rightarrow> db \<Rightarrow> bool" where
  "announce_rel d e \<longleftrightarrow> (\<exists>evs dls. e = d\<lparr>events := evs, deliveries := dls\<rparr>)"

lemma announce_rel_id: "announce_rel d (d\<lparr>events := evs\<rparr>)" "announce_rel d (d\<lparr>deliveries := dls\<rparr>)"
  unfolding announce_rel_def
  by (rule exI[of _ evs], rule exI[of _ "deliveries d"], simp)
    (rule exI[of _ "events d"], rule exI[of _ dls], simp)

interpretation announces: db_evolution announce_rel
proof
  show "announce_rel d d" for d
    unfolding announce_rel_def by (rule exI[of _ "events d"], rule exI[of _ "deliveries d"]) simp
  show "announce_rel d e \<Longrightarrow> announce_rel e f \<Longrightarrow> announce_rel d f" for d e f
    unfolding announce_rel_def by (elim exE) (simp, blast)
qed

lemma announces_sequence: "announces.safe next_sequence"
  by (rule announces.ev.evolvesI) (simp add: next_sequence_def announces.R_def announces.D_refl)

lemma announces_create: "announces.safe (event_create e)"
  unfolding event_create_def Let_def
  by (intro announces.safe_intros announces_sequence announces.safe_insert_row announce_rel_id)

lemma announces_enqueue: "announces.safe (enqueue x)"
  unfolding enqueue_def insert_delivery_def by_event_and_destination_def Let_def
  by (intro announces.safe_intros announces.safe_run_stmt)
    (auto intro: announces.D_refl announce_rel_id split: if_splits)

lemma announces_publish: "announces.safe (publish e)"
  unfolding publish_def list_enabled_destinations_def
  by (intro announces.safe_intros announces_create announces_enqueue)

lemmas announces_weaken = announces.db_evolution_axioms announces_publish

subsection \<open>The retry schedule\<close>

lemma apply_jitter_bounds:
  assumes "0 \<le> u" "u < 1" "minute \<le> base" "10 dvd base"
  shows "base - base div 10 \<le> apply_jitter u base \<and> apply_jitter u base \<le> base + base div 10"
proof -
  obtain k where k: "base = 10 * k" using assms(4) by blast
  have kpos: "6 * second \<le> k" using assms(3) by (simp add: k duration_defs)
  let ?x = "of_int base + (u * 2 - 1) * (of_int base * (1 / 10)) :: rat"
  have x: "?x = of_int (9 * k) + 2 * u * of_int k" by (simp add: k algebra_simps)
  have k0: "(0::rat) \<le> of_int k" using kpos by (simp add: duration_defs)
  have lo: "of_int (9 * k) \<le> ?x" unfolding x using assms(1) k0 by simp
  have "u * of_int k \<le> 1 * of_int k" using assms(2) k0 by (intro mult_right_mono) simp_all
  then have hi: "?x \<le> of_int (11 * k)" unfolding x by simp
  have fl: "9 * k \<le> \<lfloor>?x\<rfloor>" "\<lfloor>?x\<rfloor> \<le> 11 * k"
    using floor_mono[OF lo] floor_mono[OF hi] by (simp_all only: floor_of_int)
  have "(0::rat) \<le> of_int (9 * k)" using k0 by simp
  then have "\<not> ?x < 0" using lo by linarith
  then have "go_trunc ?x = \<lfloor>?x\<rfloor>" by (simp add: go_trunc_def)
  moreover have "\<not> \<lfloor>?x\<rfloor> < second" using fl(1) kpos by (simp add: duration_defs)
  ultimately have "apply_jitter u base = \<lfloor>?x\<rfloor>" by (simp add: apply_jitter_def Let_def)
  then show ?thesis using fl by (simp add: k)
qed

definition base_delay :: "int \<Rightarrow> duration" where
  "base_delay n = retry_delays ! nat (min 5 (max 0 (n - 1)))"

lemma retry_delay_base: "retry_delay u n = apply_jitter u (base_delay n)"
  by (simp add: retry_delay_def base_delay_def retry_delays_def Let_def min_def max_def)

lemma base_delay_range: "minute \<le> base_delay n \<and> 10 dvd base_delay n \<and> base_delay n \<le> 24 * hour"
proof -
  have "list_all (\<lambda>x. minute \<le> x \<and> x mod 10 = 0 \<and> x \<le> 24 * hour) retry_delays" by code_simp
  moreover have "nat (min 5 (max 0 (n - 1))) < length retry_delays" by (simp add: retry_delays_def)
  ultimately have "minute \<le> base_delay n \<and> base_delay n mod 10 = 0 \<and> base_delay n \<le> 24 * hour"
    unfolding base_delay_def list_all_length by blast
  then show ?thesis by (simp add: dvd_eq_mod_eq_0)
qed

text \<open>C9. The wait before retry \<open>n\<close> is within a tenth of the schedule's entry for it, whatever
  the random draw: never below 54 seconds, never above 26.4 hours, and attempt numbers outside
  the schedule use its first or last entry.\<close>

theorem retry_delay_bounds:
  assumes "0 \<le> u" "u < 1"
  shows "base_delay n - base_delay n div 10 \<le> retry_delay u n \<and>
    retry_delay u n \<le> base_delay n + base_delay n div 10 \<and>
    54 * second \<le> retry_delay u n \<and> 10 * retry_delay u n \<le> 264 * hour"
proof -
  have b: "minute \<le> base_delay n" "10 dvd base_delay n" "base_delay n \<le> 24 * hour"
    using base_delay_range by blast+
  obtain k where "base_delay n = 10 * k" using b(2) by blast
  then show ?thesis
    using apply_jitter_bounds[OF assms b(1,2)] b(1,3)
    unfolding retry_delay_base by (simp add: duration_defs)
qed

theorem retry_delay_bounds_witness:
  "54 * second \<le> retry_delay (1 / 4) 1 \<and> retry_delay (1 / 4) 9 \<le> 24 * hour + 24 * hour div 10"
proof -
  have "base_delay 9 = 24 * hour" by code_simp
  then show ?thesis using retry_delay_bounds[of "1 / 4" 1] retry_delay_bounds[of "1 / 4" 9] by simp
qed

subsection \<open>Publishing\<close>

lemma event_create_Inr:
  assumes "event_create e w = (Inr row, v)"
  shows "db v = (db w)\<lparr>events := events (db w) @ [row]\<rparr> \<and> same_context w v \<and>
    violated event_constraints row (events (db w)) = None \<and>
    ev_application_id row = ev_application_id e \<and> ev_type row = ev_type e \<and>
    ev_dedupe_key row = ev_dedupe_key e \<and> ev_payment_id row = ev_payment_id e \<and>
    pl_id (ev_payload row) = ev_id row \<and> pl_type (ev_payload row) = ev_type e"
proof -
  obtain i w1 where i: "(if ev_id e = [] then fresh_id ''evt'' else succeed (ev_id e)) w = (Inr i, w1)"
      and rest: "bindE (gets now) (\<lambda>t. bindE next_sequence (\<lambda>sq.
       let pl = (ev_payload e)\<lparr>pl_id := i, pl_type := ev_type e,
             pl_created_at := (if pl_created_at (ev_payload e) = 0 then t else pl_created_at (ev_payload e))\<rparr>;
           r = e\<lparr>ev_id := i, ev_payload := pl, ev_sequence := sq, ev_created_at := t\<rparr>
       in catchE (insert_row event_constraints events (\<lambda>rows d. d\<lparr>events := rows\<rparr>) r)
            (\<lambda>err. if is_unique_violation err [''events_dedupe_key''] then throw EventDuplicate
                   else throw err) succeed)) w1 = (Inr row, v)"
    using assms unfolding event_create_def by (rule bindE_Inr_E)
  have w1: "db w1 = db w" "txn w1 = txn w" "now w1 = now w" "ext w1 = ext w"
    using i fresh_id_Inr[of "''evt''" w i w1] by (auto simp: succeed_def split: if_splits)
  let ?w2 = "w1\<lparr>sequence := sequence w1 + 1\<rparr>"
  obtain r where "insert_row event_constraints events (\<lambda>rows d. d\<lparr>events := rows\<rparr>) r ?w2 = (Inr row, v)"
      and r: "ev_application_id r = ev_application_id e" "ev_type r = ev_type e"
        "ev_dedupe_key r = ev_dedupe_key e" "ev_payment_id r = ev_payment_id e"
        "pl_id (ev_payload r) = ev_id r" "pl_type (ev_payload r) = ev_type e"
    using rest
    by (auto simp: bindE_run gets_def next_sequence_def Let_def catchE_def succeed_def throw_def
        split: prod.splits sum.splits if_splits)
  then show ?thesis using insert_row_Inr w1 by (fastforce simp: same_context_def)
qed

lemma event_create_dup:
  assumes "event_create e w = (Inl EventDuplicate, v)" "txn w = Some False"
  shows "txn v = Some True"
  using assms
  by (auto simp: event_create_def bindE_run gets_def next_sequence_def Let_def catchE_def succeed_def
      throw_def fresh_id_def insert_row_def run_stmt_def next_outcome_def abort_txn_def
      is_unique_violation_def split: prod.splits sum.splits if_splits option.splits list.splits)

lemma enqueue_Inr:
  assumes "enqueue d0 w = (Inr x, v)"
    and fresh: "\<forall>y \<in> set (deliveries (db w)). dl_event_id y = dl_event_id d0 \<longrightarrow> dl_destination_id y \<noteq> dl_destination_id d0"
  shows "db v = (db w)\<lparr>deliveries := deliveries (db w) @ [x]\<rparr> \<and> same_context w v \<and>
    dl_event_id x = dl_event_id d0 \<and> dl_destination_id x = dl_destination_id d0 \<and>
    dl_application_id x = dl_application_id d0 \<and> dl_url x = dl_url d0 \<and> dl_state x = DPending"
proof -
  obtain i w1 where i: "(if dl_id d0 = [] then fresh_id ''dlv'' else succeed (dl_id d0)) w = (Inr i, w1)"
      and rest: "bindE (gets now) (\<lambda>t.
       let row = zero_delivery\<lparr>dl_id := i, dl_event_id := dl_event_id d0,
             dl_application_id := dl_application_id d0, dl_destination_id := dl_destination_id d0,
             dl_url := dl_url d0, dl_state := DPending,
             dl_max_attempts := (if dl_max_attempts d0 \<le> 0 then default_max_attempts else dl_max_attempts d0),
             dl_next_attempt_at := (if dl_next_attempt_at d0 = 0 then t else dl_next_attempt_at d0),
             dl_created_at := t, dl_updated_at := t\<rparr>
       in bindE (insert_delivery row) (\<lambda>r. case r of
            Some x \<Rightarrow> succeed x
          | None \<Rightarrow> by_event_and_destination (dl_event_id d0) (dl_destination_id d0))) w1 = (Inr x, v)"
    using assms(1) unfolding enqueue_def by (rule bindE_Inr_E)
  have w1: "db w1 = db w" "txn w1 = txn w" "now w1 = now w" "ext w1 = ext w"
    using i fresh_id_Inr[of "''dlv''" w i w1] by (auto simp: succeed_def split: if_splits)
  obtain row r w2 where ins: "insert_delivery row w1 = (Inr r, w2)"
      and k: "(case r of Some x \<Rightarrow> succeed x
          | None \<Rightarrow> by_event_and_destination (dl_event_id d0) (dl_destination_id d0)) w2 = (Inr x, v)"
      and row: "dl_event_id row = dl_event_id d0" "dl_destination_id row = dl_destination_id d0"
        "dl_application_id row = dl_application_id d0" "dl_url row = dl_url d0" "dl_state row = DPending"
    using rest by (auto simp: Let_def bindE_run gets_def split: prod.splits sum.splits)
  have "\<not> list_ex (\<lambda>y. dl_event_id y = dl_event_id row \<and> dl_destination_id y = dl_destination_id row) (deliveries (db w1))"
    using fresh row w1 by (auto simp: list_ex_iff)
  then have "r = Some row" "db w2 = (db w)\<lparr>deliveries := deliveries (db w) @ [row]\<rparr>" "same_context w1 w2"
    using run_stmt_Inr[OF ins[unfolded insert_delivery_def]] w1(1) by (auto split: if_splits)
  then show ?thesis using k row w1 by (auto simp: succeed_def same_context_def)
qed

text \<open>A delivery of the event to the destination, queued and not yet attempted.\<close>

definition queued_for :: "event \<Rightarrow> destination \<Rightarrow> delivery \<Rightarrow> bool" where
  "queued_for e ds x \<longleftrightarrow> dl_event_id x = ev_id e \<and> dl_destination_id x = ds_id ds \<and>
     dl_application_id x = ev_application_id e \<and> dl_url x = ds_url ds \<and> dl_state x = DPending"

lemma enqueue_all_Inr:
  assumes "mapE (\<lambda>ds. enqueue (delivery_for e ds)) dsts w = (Inr dls, v)"
    and "distinct (map ds_id dsts)"
    and "\<forall>ds \<in> set dsts. \<forall>y \<in> set (deliveries (db w)).
      dl_event_id y = ev_id e \<longrightarrow> dl_destination_id y \<noteq> ds_id ds"
    and "txn w \<noteq> Some True"
  shows "db v = (db w)\<lparr>deliveries := deliveries (db w) @ dls\<rparr> \<and> same_context w v \<and>
    list_all2 (queued_for e) dsts dls"
  using assms
proof (induction dsts arbitrary: w dls)
  case Nil
  then show ?case by (auto simp: succeed_def same_context_def)
next
  case (Cons ds dsts)
  obtain x w1 where x: "enqueue (delivery_for e ds) w = (Inr x, w1)"
      and "bindE (mapE (\<lambda>ds. enqueue (delivery_for e ds)) dsts) (\<lambda>ys. succeed (x # ys)) w1 = (Inr dls, v)"
    using Cons.prems(1) unfolding mapE.simps by (rule bindE_Inr_E)
  then obtain xs where xs: "mapE (\<lambda>ds. enqueue (delivery_for e ds)) dsts w1 = (Inr xs, v)" "dls = x # xs"
    by (auto elim: bindE_Inr_E simp: succeed_def)
  have one: "db w1 = (db w)\<lparr>deliveries := deliveries (db w) @ [x]\<rparr>" "same_context w w1" "queued_for e ds x"
    using enqueue_Inr[OF x] Cons.prems(3) by (auto simp: delivery_for_def queued_for_def zero_delivery_def)
  have "db v = (db w1)\<lparr>deliveries := deliveries (db w1) @ xs\<rparr> \<and> same_context w1 v \<and>
      list_all2 (queued_for e) dsts xs"
    by (rule Cons.IH[OF xs(1)]) (use Cons.prems one in \<open>auto simp: queued_for_def same_context_def\<close>)
  then show ?case using one xs(2) by (auto intro: same_context_trans)
qed

text \<open>The destinations an event goes to.\<close>

definition wanted :: "db \<Rightarrow> event \<Rightarrow> destination list" where
  "wanted d e = sort_key ds_id (filter (\<lambda>ds. ds_application_id ds = ev_application_id e \<and>
     destination_accepts ds (type_name (ev_type e))) (destinations d))"

lemma wanted_distinct:
  assumes "distinct (map ds_id (destinations d))" shows "distinct (map ds_id (wanted d e))"
proof -
  have "distinct (map ds_id (filter P (destinations d)))" for P
    using assms by (rule distinct_map_filter)
  then show ?thesis by (simp add: wanted_def distinct_map)
qed

lemma accepts_sql:
  "ds_enabled ds \<and> (ds_event_types ds = [] \<or> t \<in> set (ds_event_types ds)) \<longleftrightarrow> destination_accepts ds t"
  by (simp add: destination_accepts_def)

definition deliveries_refer :: "db \<Rightarrow> bool" where
  "deliveries_refer d \<longleftrightarrow> (\<forall>x \<in> set (deliveries d). dl_event_id x \<in> ev_id ` set (events d))"

text \<open>C10. Publishing is atomic under every pattern of database failures. Called outside a
  transaction, it either fails and leaves every table as it was, or stores exactly one event
  and queues exactly one delivery of it for each enabled destination of the application that
  wants the type, and touches nothing else. An event whose dedupe key is already taken is never
  stored again; it is reported as an error and not as a duplicate, because the failed insert
  has aborted the transaction that \<open>Publish\<close> then tries to commit.\<close>

theorem publish_atomic:
  assumes "publish e w = (r, v)" and "txn w = None"
    and "deliveries_refer (db w)" and "distinct (map ds_id (destinations (db w)))"
  shows "txn v = None \<and> (case r of
      Inl err \<Rightarrow> db v = db w
    | Inr res \<Rightarrow> \<not> pb_duplicate res \<and> (\<exists>row. pb_event res = Some row \<and>
        ev_dedupe_key row = ev_dedupe_key e \<and> ev_type row = ev_type e \<and>
        ev_application_id row = ev_application_id e \<and>
        (ev_dedupe_key e \<noteq> [] \<longrightarrow> ev_dedupe_key e \<notin> ev_dedupe_key ` set (events (db w))) \<and>
        db v = (db w)\<lparr>events := events (db w) @ [row],
                      deliveries := deliveries (db w) @ pb_deliveries res\<rparr> \<and>
        list_all2 (queued_for row) (wanted (db w) row) (pb_deliveries res)))"
proof -
  let ?dup = "\<lparr>pb_event = None, pb_deliveries = [], pb_duplicate = True\<rparr>"
  let ?body = "catchE (event_create e) (\<lambda>err. if err = EventDuplicate then succeed ?dup else throw err)
      (\<lambda>stored. bindE (list_enabled_destinations (ev_application_id stored) (type_name (ev_type stored)))
        (\<lambda>dsts. bindE (mapE (\<lambda>ds. enqueue (delivery_for stored ds)) dsts)
        (\<lambda>dls. succeed \<lparr>pb_event = Some stored, pb_deliveries = dls, pb_duplicate = False\<rparr>)))"
  have run: "in_tx ?body w = (r, v)" using assms(1) by (simp add: publish_def)
  show ?thesis
    using run assms(2)
  proof (cases rule: in_tx_cases)
    case (failed err)
    then show ?thesis by simp
  next
    case (committed x w1 w2)
    obtain c u where c: "event_create e w1 = (c, u)" by fastforce
    show ?thesis
    proof (cases c)
      case (Inl err)
      have "err = EventDuplicate" "w2 = u"
        using committed(2) c Inl by (auto simp: catchE_def succeed_def throw_def split: if_splits)
      then have "txn w2 = Some True" using event_create_dup c Inl committed(4) by blast
      then show ?thesis using committed(7) by simp
    next
      case (Inr row)
      note ev = event_create_Inr[OF c[unfolded Inr]]
      have "bindE (list_enabled_destinations (ev_application_id row) (type_name (ev_type row)))
          (\<lambda>dsts. bindE (mapE (\<lambda>ds. enqueue (delivery_for row ds)) dsts)
          (\<lambda>dls. succeed \<lparr>pb_event = Some row, pb_deliveries = dls, pb_duplicate = False\<rparr>)) u = (Inr x, w2)"
        using committed(2) c Inr by (simp add: catchE_def)
      then obtain dsts u1 where q: "list_enabled_destinations (ev_application_id row) (type_name (ev_type row)) u = (Inr dsts, u1)"
          and "bindE (mapE (\<lambda>ds. enqueue (delivery_for row ds)) dsts)
          (\<lambda>dls. succeed \<lparr>pb_event = Some row, pb_deliveries = dls, pb_duplicate = False\<rparr>) u1 = (Inr x, w2)"
        by (rule bindE_Inr_E)
      then obtain dls where m: "mapE (\<lambda>ds. enqueue (delivery_for row ds)) dsts u1 = (Inr dls, w2)"
          and x: "x = \<lparr>pb_event = Some row, pb_deliveries = dls, pb_duplicate = False\<rparr>"
        by (auto elim: bindE_Inr_E simp: succeed_def)
      have u1: "db u1 = db u" "same_context u u1" and dsts: "dsts = wanted (db u) row"
        using query_Inr[OF q[unfolded list_enabled_destinations_def]]
        by (simp_all add: wanted_def accepts_sql)
      have w: "wanted (db u) row = wanted (db w) row" and dl: "deliveries (db u1) = deliveries (db w)"
        using ev committed(3) u1 by (simp_all add: wanted_def)
      have "distinct (map ds_id dsts)"
        using wanted_distinct[OF assms(4)] by (simp only: dsts w)
      moreover have wd: "dsts = wanted (db w) row" by (simp only: dsts w)
      moreover have "\<forall>y \<in> set (deliveries (db u1)). dl_event_id y \<noteq> ev_id row"
      proof
        fix y
        assume "y \<in> set (deliveries (db u1))"
        then have "dl_event_id y \<in> ev_id ` set (events (db w))"
          using assms(3) by (simp add: dl deliveries_refer_def)
        moreover have "ev_id row \<notin> ev_id ` set (events (db w))"
          using ev committed(3) by (auto simp: violated_None event_constraints_def)
        ultimately show "dl_event_id y \<noteq> ev_id row" by metis
      qed
      ultimately have "db w2 = (db u1)\<lparr>deliveries := deliveries (db u1) @ dls\<rparr> \<and> same_context u1 w2 \<and>
          list_all2 (queued_for row) dsts dls"
        using ev u1 committed(4)
        by (intro enqueue_all_Inr[OF m]) (auto simp: same_context_def)
      moreover have "ev_dedupe_key e \<noteq> [] \<longrightarrow> ev_dedupe_key e \<notin> ev_dedupe_key ` set (events (db w))"
        using ev committed(3) by (auto simp: violated_None event_constraints_def)
      ultimately show ?thesis
        using committed ev u1 wd by (simp add: x)
    qed
  qed
qed

theorem publish_atomic_witness:
  "let e = zero_event\<lparr>ev_application_id := ''app_1'', ev_type := PaymentPaid, ev_dedupe_key := ''k''\<rparr>;
       ds = zero_destination\<lparr>ds_id := ''dst_1'', ds_application_id := ''app_1'', ds_enabled := True\<rparr>;
       w = quiet_world (empty_db\<lparr>destinations := [ds]\<rparr>) ()
   in txn (snd (publish e w)) = None \<and>
      (\<exists>res row x. fst (publish e w) = Inr res \<and> pb_event res = Some row \<and>
        db (snd (publish e w)) = empty_db\<lparr>destinations := [ds], events := [row], deliveries := [x]\<rparr> \<and>
        queued_for row ds x)"
proof -
  let ?e = "zero_event\<lparr>ev_application_id := ''app_1'', ev_type := PaymentPaid, ev_dedupe_key := ''k''\<rparr>"
  let ?ds = "zero_destination\<lparr>ds_id := ''dst_1'', ds_application_id := ''app_1'', ds_enabled := True\<rparr>"
  let ?w = "quiet_world (empty_db\<lparr>destinations := [?ds]\<rparr>) ()"
  have h: "deliveries_refer (db ?w)" "distinct (map ds_id (destinations (db ?w)))" "txn ?w = None"
    by (simp_all add: deliveries_refer_def empty_db_def)
  have "\<not> isl (fst (publish ?e ?w))" by code_simp
  then obtain res where res: "fst (publish ?e ?w) = Inr res"
    by (cases "fst (publish ?e ?w)") auto
  then have run: "publish ?e ?w = (Inr res, snd (publish ?e ?w))" by (metis prod.collapse)
  obtain row where row: "pb_event res = Some row" "ev_application_id row = ''app_1''"
      "db (snd (publish ?e ?w)) = (db ?w)\<lparr>events := events (db ?w) @ [row],
         deliveries := deliveries (db ?w) @ pb_deliveries res\<rparr>"
      "list_all2 (queued_for row) (wanted (db ?w) row) (pb_deliveries res)"
      and quiet: "txn (snd (publish ?e ?w)) = None"
    using publish_atomic[OF run h(3) h(1,2)] by (auto simp: zero_event_def)
  have "wanted (db ?w) row = [?ds]"
    using row(2) by (simp add: wanted_def destination_accepts_def zero_destination_def)
  then obtain x where "pb_deliveries res = [x]" "queued_for row ?ds x"
    using row(4) by (auto simp: list_all2_Cons1)
  then show ?thesis
    using row res quiet by (simp add: Let_def empty_db_def)
qed

text \<open>A duplicate is not reported as one. Publishing an event whose dedupe key is already
  stored, with a database that refuses nothing, changes no table and returns the commit error of
  the aborted transaction, although \<open>Publish\<close> documents the duplicate as an expected outcome
  that is reported and not treated as an error.\<close>

theorem publish_duplicate_fails:
  assumes "outcomes w = []" "txn w = None" "ev_id e = []" "ev_dedupe_key e \<noteq> []"
    and "x \<in> set (events (db w))" "ev_dedupe_key x = ev_dedupe_key e"
    and "\<forall>i. fst (fresh_id ''evt'' w) = Inr i \<longrightarrow> i \<notin> ev_id ` set (events (db w)) \<and> i \<noteq> []"
    and "[] \<notin> ev_id ` set (events (db w))"
  shows "\<exists>v. publish e w = (Inl CommitRolledBack, v) \<and> db v = db w \<and> txn v = None"
proof -
  let ?w = "w\<lparr>txn := Some False\<rparr>"
  have "\<exists>v. event_create e ?w = (Inl EventDuplicate, v) \<and> db v = db ?w \<and> outcomes v = [] \<and>
      txn v = (if txn ?w = None then None else Some True) \<and> ext v = ext ?w"
    by (rule event_create_conflict[of _ _ x])
      (use assms in \<open>auto simp: fresh_id_def\<close>)
  then obtain v where v: "event_create e ?w = (Inl EventDuplicate, v)" "db v = db w" "txn v = Some True"
    by auto
  have "publish e w = (Inl CommitRolledBack, v\<lparr>db := db w, txn := None\<rparr>)"
    using assms(1,2) v by (simp add: publish_def in_tx_def next_outcome_def catchE_def succeed_def)
  then show ?thesis by simp
qed

theorem publish_duplicate_fails_witness:
  "\<exists>v. publish (zero_event\<lparr>ev_dedupe_key := ''payment:pay_1:payment.paid''\<rparr>)
     (quiet_world (empty_db\<lparr>events := [zero_event\<lparr>ev_id := ''evt_1'',
        ev_dedupe_key := ''payment:pay_1:payment.paid''\<rparr>]\<rparr>) ()) = (Inl CommitRolledBack, v)"
proof -
  let ?x = "zero_event\<lparr>ev_id := ''evt_1'', ev_dedupe_key := ''payment:pay_1:payment.paid''\<rparr>"
  let ?w = "quiet_world (empty_db\<lparr>events := [?x]\<rparr>) ()"
  have "length (projr (fst (fresh_id ''evt'' ?w))) = 30" by code_simp
  then have "\<forall>i. fst (fresh_id ''evt'' ?w) = Inr i \<longrightarrow> i \<notin> ev_id ` set (events (db ?w)) \<and> i \<noteq> []"
    by auto
  then show ?thesis
    using publish_duplicate_fails[of ?w "zero_event\<lparr>ev_dedupe_key := ''payment:pay_1:payment.paid''\<rparr>" ?x]
    by (auto simp: zero_event_def)
qed

subsection \<open>Claiming\<close>

lemma claim_Inr:
  assumes "claim a n w = (Inr xs, v)" "0 < n"
  shows "(let ids = due_ids (now w) n (deliveries (db w));
        take_row = (\<lambda>x. x\<lparr>dl_state := Delivering, dl_locked_at := Some (now w), dl_locked_by := a,
          dl_updated_at := now w\<rparr>)
      in xs = map take_row (filter (\<lambda>x. dl_id x \<in> set ids) (deliveries (db w))) \<and>
         db v = (db w)\<lparr>deliveries := map (\<lambda>x. if dl_id x \<in> set ids then take_row x else x) (deliveries (db w))\<rparr>) \<and>
    now v = now w"
proof -
  have "run_stmt (\<lambda>d. let ids = due_ids (now w) n (deliveries d);
        take_row = (\<lambda>x. x\<lparr>dl_state := Delivering, dl_locked_at := Some (now w), dl_locked_by := a,
          dl_updated_at := now w\<rparr>)
      in Inr (map take_row (filter (\<lambda>x. dl_id x \<in> set ids) (deliveries d)),
           d\<lparr>deliveries := map (\<lambda>x. if dl_id x \<in> set ids then take_row x else x) (deliveries d)\<rparr>)) w = (Inr xs, v)"
    using assms by (simp add: claim_def bindE_run gets_def)
  from run_stmt_Inr[OF this] show ?thesis by (auto simp: Let_def same_context_def)
qed

lemma due_ids_due:
  assumes "i \<in> set (due_ids t n rows)" shows "\<exists>x \<in> set rows. dl_id x = i \<and> due t x"
proof -
  obtain x where "x \<in> set (take (nat n) (sort_key dl_next_attempt_at (filter (due t) rows)))" "dl_id x = i"
    using assms by (auto simp: due_ids_def)
  then have "x \<in> set (sort_key dl_next_attempt_at (filter (due t) rows))" by (blast dest: in_set_takeD)
  with \<open>dl_id x = i\<close> show ?thesis by auto
qed

lemma length_due_ids: "length (due_ids t n rows) \<le> nat n"
  by (simp add: due_ids_def)

text \<open>A delivery a worker holds, and what may happen to the queue and around it without releasing it:
  further claims, publishing, the outcomes of other deliveries, an operator's retry of any delivery,
  a sweep that does not find its lock stale, and everything that leaves the queue alone, the passing
  of time included.\<close>

definition held_by :: "string \<Rightarrow> string \<Rightarrow> db \<Rightarrow> bool" where
  "held_by worker i d \<longleftrightarrow> i \<in> dl_id ` set (deliveries d) \<and>
     (\<forall>x \<in> set (deliveries d). dl_id x = i \<longrightarrow> dl_state x = Delivering \<and> dl_locked_by x = worker)"

inductive queue_step :: "string \<Rightarrow> 'g world \<Rightarrow> 'g world \<Rightarrow> bool" for i where
  claims: "queue_step i w (snd (claim b m w))"
| publishes: "queue_step i w (snd (publish e w))"
| succeeds: "dl_id x \<noteq> i \<Longrightarrow> queue_step i w (snd (record_success x a w))"
| fails: "dl_id x \<noteq> i \<Longrightarrow> queue_step i w (snd (record_failure u x a retry w))"
| retries: "queue_step i w (snd (delivery_retry j w))"
| sweeps: "(\<And>x. x \<in> set (deliveries (db w)) \<Longrightarrow> dl_id x = i \<Longrightarrow> \<not> is_stale (now w) age x) \<Longrightarrow>
    queue_step i w (snd (release_stale age w))"
| elsewhere: "deliveries (db v) = deliveries (db w) \<Longrightarrow> queue_step i w v"

interpretation holding: db_evolution "\<lambda>d e. held_by a i d \<longrightarrow> held_by a i e" for a i
  by unfold_locales auto

lemma holding_map:
  assumes "held_by a i d" "\<And>x. x \<in> set (deliveries d) \<Longrightarrow> dl_id x = i \<Longrightarrow> f x = x" "\<And>x. dl_id (f x) = dl_id x"
  shows "held_by a i (d\<lparr>deliveries := map f (deliveries d)\<rparr>)"
  using assms by (auto simp: held_by_def image_iff)

lemma held_same: "deliveries e = deliveries d \<Longrightarrow> held_by a i d \<Longrightarrow> held_by a i e"
  by (simp add: held_by_def)

lemma held_not_due: "held_by a i d \<Longrightarrow> i \<notin> set (due_ids t n (deliveries d))"
  using due_ids_due by (fastforce simp: held_by_def due_def)

lemma holding_claim: "holding.safe a i (claim b m)"
  unfolding claim_def
  by (intro holding.safe_intros holding.safe_run_stmt)
    (auto simp: Let_def intro!: holding_map dest: held_not_due)

lemma holding_insert_attempt: "holding.safe a i (insert_attempt j x)"
  unfolding insert_attempt_def
  by (intro holding.safe_intros holding.safe_run_stmt) (auto intro: held_same split: if_splits)

lemma holding_update:
  assumes "\<And>x. dl_id x = i \<Longrightarrow> dl_state x = Delivering \<Longrightarrow> \<not> p x" "\<And>x. dl_id (f x) = dl_id x"
  shows "holding.safe a i (update_one deliveries set_deliveries p f)"
  by (rule holding.safe_update_one) (use assms in \<open>auto intro!: holding_map simp: held_by_def\<close>)

lemma holding_outcomes:
  assumes "dl_id x \<noteq> i"
  shows "holding.safe a i (record_success x y)" "holding.safe a i (record_failure u x y retry)"
  unfolding record_success_def record_failure_def Let_def
  by (intro holding.safe_intros holding_insert_attempt holding_update; use assms in simp)+

lemma holding_retry: "holding.safe a i (delivery_retry j)"
  unfolding delivery_retry_def delivery_get_def
  by (intro holding.safe_intros holding_update) auto

lemma holding_enqueue: "holding.safe a i (enqueue x)"
proof -
  have "holding.safe a i (insert_delivery y)" for y
    unfolding insert_delivery_def
    by (rule holding.safe_run_stmt) (auto simp: held_by_def list_ex_iff split: if_splits)
  then show ?thesis
    unfolding enqueue_def by_event_and_destination_def Let_def by (intro holding.safe_intros) auto
qed

lemma holding_publish: "holding.safe a i (publish e)"
proof -
  have "holding.safe a i next_sequence"
    by (rule holding.ev.evolvesI) (simp add: next_sequence_def holding.R_def)
  then show ?thesis
    unfolding publish_def event_create_def list_enabled_destinations_def Let_def
    by (intro holding.safe_intros holding.safe_insert_row holding_enqueue) (auto intro: held_same)
qed

lemma held_step:
  assumes "queue_step i w v" "held_by a i (db w)"
  shows "held_by a i (db v)"
  using assms(1)
proof cases
  case (sweeps age)
  let ?f = "\<lambda>x. if is_stale (now w) age x then x\<lparr>dl_state := DFailed, dl_locked_at := None, dl_locked_by := [],
      dl_last_error := ''delivery was reclaimed after the worker stopped responding'',
      dl_next_attempt_at := now w, dl_updated_at := now w\<rparr> else x"
  have "db v = db w \<or> db v = (db w)\<lparr>deliveries := map ?f (deliveries (db w))\<rparr>"
    unfolding sweeps(1) release_stale_def update_where_def
    by (auto simp: bindE_run gets_def run_stmt_def next_outcome_def abort_txn_def succeed_def
        split: list.split option.split)
  moreover have "held_by a i ((db w)\<lparr>deliveries := map ?f (deliveries (db w))\<rparr>)"
    by (rule holding_map[OF assms(2)]) (use sweeps(2) in auto)
  ultimately show ?thesis using assms(2) by (elim disjE) simp_all
next
  case elsewhere
  then show ?thesis using assms(2) by (auto intro: held_same)
qed (use assms(2) holding.safe_db holding_claim holding_publish holding_outcomes holding_retry in \<open>metis\<close>)+

lemma held_steps: "(queue_step i)\<^sup>*\<^sup>* w v \<Longrightarrow> held_by a i (db w) \<Longrightarrow> held_by a i (db v)"
  by (induction rule: rtranclp_induct) (auto intro: held_step)

lemma held_not_claimed:
  assumes "held_by a i (db w)" "claim b m w = (Inr ys, v)"
  shows "i \<notin> dl_id ` set ys"
proof (cases "0 < m")
  case True
  then show ?thesis using claim_Inr[OF assms(2)] held_not_due[OF assms(1)] by (auto simp: Let_def)
next
  case False
  then show ?thesis using assms(2) by (simp add: claim_def succeed_def)
qed



lemma inert_publish: "inert.evolves (publish e)"
  unfolding publish_def event_create_def next_sequence_def[abs_def] list_enabled_destinations_def
    enqueue_def insert_delivery_def by_event_and_destination_def Let_def
  by (intro inert_intros inert_run_stmt inert.evolvesI) (simp add: inert_rel_def)

end
