(* ===== verification/Worker.thy ===== *)
theory Worker
  imports Delivery
begin

text \<open>
  The delivery worker (\<open>internal/delivery/worker.go\<close>) and the verdict on one HTTP attempt
  (\<open>sender.go\<close>). The HTTP call itself, \<open>Sender.Send\<close>, is a parameter \<open>send\<close> acting on the
  outside world; the draw of the jitter is the parameter \<open>u\<close>. A batch is processed one delivery
  after the other, which is one of the schedules of its goroutines. Logging and metrics are left
  out.
\<close>

record send_request =
  sq_delivery_id :: string
  sq_event_id :: string
  sq_event_type :: string
  sq_url :: string
  sq_body :: payload
  sq_secret :: string
  sq_attempt_number :: int

record send_result =
  sr_status_code :: int
  sr_duration :: duration
  sr_response_body :: string
  sr_error :: "error option"

type_synonym 'g sender = "send_request \<Rightarrow> 'g \<Rightarrow> send_result \<times> 'g"

definition delivered :: "send_result \<Rightarrow> bool" where
  "delivered r \<longleftrightarrow> sr_error r = None \<and> http_success (sr_status_code r)"

fun is_blocked_address :: "error \<Rightarrow> bool" where
  "is_blocked_address (BlockedAddress _) = True"
| "is_blocked_address (Wrap _ e) = is_blocked_address e"
| "is_blocked_address _ = False"

definition retryable :: "send_result \<Rightarrow> bool" where
  "retryable r = (case sr_error r of
     Some e \<Rightarrow> \<not> is_blocked_address e | None \<Rightarrow> should_retry (sr_status_code r))"

definition failure_reason :: "send_result \<Rightarrow> string" where
  "failure_reason r =
     (if sr_error r \<noteq> None then ''transport''
      else if 500 \<le> sr_status_code r then ''destination_5xx''
      else if sr_status_code r = 429 then ''rate_limited''
      else if 400 \<le> sr_status_code r then ''destination_4xx''
      else ''unexpected_status'')"

definition stale_lock_after :: duration where "stale_lock_after = 5 * minute"

definition prepare :: "delivery \<Rightarrow> ('g, payload \<times> string \<times> string) routine" where
  "prepare x =
     bindE (catchE (event_get (dl_event_id x)) (\<lambda>e. throw (Wrap ''delivery: load event'' e)) succeed) (\<lambda>evt.
     bindE (catchE (get_destination (dl_application_id x) (dl_destination_id x))
         (\<lambda>e. if e = NotFound then throw (OtherError ''delivery: the destination no longer exists'')
              else throw e) succeed) (\<lambda>ds.
     succeed (ev_payload evt, type_name (ev_type evt), ds_secret ds)))"

definition worker_record_failure :: "rat \<Rightarrow> delivery \<Rightarrow> attempt \<Rightarrow> bool \<Rightarrow> ('g, unit) routine" where
  "worker_record_failure u x a retry = ignore_error (record_failure u x a retry)"

definition attempt_of :: "int \<Rightarrow> send_result \<Rightarrow> attempt" where
  "attempt_of n r =
     (let a = zero_attempt\<lparr>at_number := n, at_duration_ms := go_quot (sr_duration r) 1000000,
            at_response_body := sr_response_body r\<rparr>
      in case sr_error r of
        Some e \<Rightarrow> a\<lparr>at_error := error_text e\<rparr>
      | None \<Rightarrow> a\<lparr>at_status_code := Some (sr_status_code r),
          at_error := (if http_success (sr_status_code r) then []
            else ''destination returned HTTP '' @ format_int (sr_status_code r))\<rparr>)"

definition process :: "'g sender \<Rightarrow> rat \<Rightarrow> delivery \<Rightarrow> ('g, unit) routine" where
  "process send u x =
     catchE (prepare x)
       (\<lambda>e. worker_record_failure u x
          (zero_attempt\<lparr>at_number := dl_attempt_count x + 1, at_error := error_text e\<rparr>) False)
       (\<lambda>(payload, event_type, secret).
          let n = dl_attempt_count x + 1 in
          bindE (call_out (\<lambda>g. case send \<lparr>sq_delivery_id = dl_id x, sq_event_id = dl_event_id x,
              sq_event_type = event_type, sq_url = dl_url x, sq_body = payload, sq_secret = secret,
              sq_attempt_number = n\<rparr> g of (r, g') \<Rightarrow> (Inr r, g')))
          (\<lambda>r. if delivered r then ignore_error (record_success x (attempt_of n r))
               else worker_record_failure u x (attempt_of n r) (retryable r)))"

definition drain :: "'g sender \<Rightarrow> (string \<Rightarrow> rat) \<Rightarrow> string \<Rightarrow> int \<Rightarrow> ('g, int) routine" where
  "drain send u worker concurrency =
     bindE (claim worker concurrency) (\<lambda>claimed.
     bindE (mapE (\<lambda>x. process send (u (dl_id x)) x) claimed) (\<lambda>_.
     succeed (int (length claimed))))"

definition recover_stale :: "('g, unit) routine" where
  "recover_stale = ignore_error (release_stale stale_lock_after)"

subsection \<open>One attempt\<close>

text \<open>The row an attempt is recorded as, and the attempts after recording it: a second row for the same
  number of the same delivery is dropped.\<close>

definition attempt_row :: "string \<Rightarrow> string \<Rightarrow> time \<Rightarrow> attempt \<Rightarrow> attempt" where
  "attempt_row k i t a = a\<lparr>at_id := k, at_delivery_id := i, at_error := clip_text (at_error a) 2000,
     at_response_body := clip_text (at_response_body a) 2000, at_created_at := t\<rparr>"

definition logged :: "string \<Rightarrow> string \<Rightarrow> time \<Rightarrow> attempt \<Rightarrow> attempt list \<Rightarrow> attempt list" where
  "logged k i t a rows = (if \<exists>b \<in> set rows. at_delivery_id b = i \<and> at_number b = at_number a
     then rows else rows @ [attempt_row k i t a])"

lemma insert_attempt_run:
  assumes "outcomes w = []" "txn w \<noteq> Some True"
    and "projr (fst (fresh_id ''att'' w)) \<notin> at_id ` set (attempts (db w))"
  shows "\<exists>rows. insert_attempt i a w = (Inr (), w\<lparr>draws := draws w + 1, db := (db w)\<lparr>attempts := rows\<rparr>\<rparr>) \<and>
    rows = logged (projr (fst (fresh_id ''att'' w))) i (now w) a (attempts (db w)) \<and>
    at_id ` set rows \<subseteq> insert (projr (fst (fresh_id ''att'' w))) (at_id ` set (attempts (db w)))"
proof -
  let ?w = "w\<lparr>draws := draws w + 1\<rparr>"
  obtain k where k: "projr (fst (fresh_id ''att'' w)) = k" by blast
  let ?b = "a\<lparr>at_id := k, at_delivery_id := i, at_error := clip_text (at_error a) 2000,
      at_response_body := clip_text (at_response_body a) 2000, at_created_at := now w\<rparr>"
  have step: "insert_attempt i a w = run_stmt (\<lambda>d.
       if list_ex (\<lambda>x. at_delivery_id x = i \<and> at_number x = at_number a) (attempts d)
       then Inr ((), d)
       else if list_ex (\<lambda>x. at_id x = k) (attempts d) then Inl (UniqueViolation ''delivery_attempts_pkey'')
       else Inr ((), d\<lparr>attempts := attempts d @ [?b]\<rparr>)) ?w"
    unfolding k[symmetric] by (simp add: insert_attempt_def bindE_run fresh_id_def gets_def cong: if_cong)
  have new: "\<not> list_ex (\<lambda>x. at_id x = k) (attempts (db w))"
    using assms(3) k unfolding list_ex_iff by (metis image_eqI)
  show ?thesis
  proof (cases "list_ex (\<lambda>x. at_delivery_id x = i \<and> at_number x = at_number a) (attempts (db w))")
    case True
    then show ?thesis
      using assms(1,2) unfolding step k
      by (intro exI[of _ "attempts (db w)"]) (auto simp: run_stmt_def next_outcome_def list_ex_iff logged_def)
  next
    case False
    then show ?thesis
      using assms(1,2) new unfolding step k
      by (intro exI[of _ "attempts (db w) @ [?b]"]) (auto simp: run_stmt_def next_outcome_def list_ex_iff logged_def attempt_row_def)
  qed
qed

text \<open>The row of the delivery after an attempt numbered \<open>n\<close> with the given verdict.\<close>

definition after_attempt :: "rat \<Rightarrow> time \<Rightarrow> delivery \<Rightarrow> attempt \<Rightarrow> bool \<Rightarrow> delivery \<Rightarrow> delivery" where
  "after_attempt u t x a retry y =
     (let give_up = (\<not> retry \<or> dl_max_attempts x \<le> at_number a) in
      y\<lparr>dl_state := (if give_up then DDead else DFailed), dl_attempt_count := at_number a,
        dl_last_attempt_at := Some t, dl_last_status_code := at_status_code a,
        dl_last_error := clip_text (at_error a) 2000, dl_last_duration_ms := Some (at_duration_ms a),
        dl_next_attempt_at := (if give_up then t else t + retry_delay u (at_number a)),
        dl_locked_at := None, dl_locked_by := [], dl_updated_at := t\<rparr>)"

lemma record_failure_run:
  assumes "outcomes w = []" "txn w = None"
    and "projr (fst (fresh_id ''att'' w)) \<notin> at_id ` set (attempts (db w))"
    and "x0 \<in> set (deliveries (db w))" "dl_id x0 = dl_id x"
  shows "\<exists>v y rows. record_failure u x a retry w = (Inr y, v) \<and> ext v = ext w \<and>
    db v = (db w)\<lparr>attempts := rows, deliveries := map (\<lambda>y. if dl_id y = dl_id x
      then after_attempt u (now w) x a retry y else y) (deliveries (db w))\<rparr> \<and>
    v = w\<lparr>draws := Suc (draws w), db := db v\<rparr> \<and>
    rows = logged (projr (fst (fresh_id ''att'' w))) (dl_id x) (now w) a (attempts (db w)) \<and>
    at_id ` set rows \<subseteq> insert (projr (fst (fresh_id ''att'' w))) (at_id ` set (attempts (db w)))"
proof -
  let ?w = "w\<lparr>txn := Some False\<rparr>"
  obtain rows where ins: "insert_attempt (dl_id x) a ?w
      = (Inr (), ?w\<lparr>draws := draws w + 1, db := (db w)\<lparr>attempts := rows\<rparr>\<rparr>)"
      and ids: "at_id ` set rows \<subseteq> insert (projr (fst (fresh_id ''att'' w))) (at_id ` set (attempts (db w)))"
      and rows: "rows = logged (projr (fst (fresh_id ''att'' w))) (dl_id x) (now w) a (attempts (db w))"
    using insert_attempt_run[of ?w "dl_id x" a] assms(1,3) by (auto simp: fresh_id_def)
  obtain r rs where f: "filter (\<lambda>y. dl_id y = dl_id x) (deliveries (db w)) = r # rs"
    using assms(4,5) by (cases "filter (\<lambda>y. dl_id y = dl_id x) (deliveries (db w))") (auto simp: filter_empty_conv)
  let ?w2 = "?w\<lparr>draws := Suc (draws w), db := (db w)\<lparr>attempts := rows\<rparr>\<rparr>"
  have upd: "update_one deliveries set_deliveries (\<lambda>y. dl_id y = dl_id x) g ?w2
    = (Inr (g r), ?w2\<lparr>db := (db ?w2)\<lparr>deliveries := map (\<lambda>y. if dl_id y = dl_id x then g y else y) (deliveries (db w))\<rparr>\<rparr>)" for g
    using update_one_run[of ?w2 "\<lambda>y. dl_id y = dl_id x" deliveries r rs set_deliveries g] assms(1) f by simp
  have "record_failure u x a retry w = bindE (gets now) (\<lambda>t. in_tx (bindE (insert_attempt (dl_id x) a) (\<lambda>_.
      update_one deliveries set_deliveries (\<lambda>y. dl_id y = dl_id x) (after_attempt u t x a retry)))) w"
    by (simp add: record_failure_def after_attempt_def [abs_def] Let_def)
  then show ?thesis
    using assms(1,2)
    by (auto simp: bindE_run gets_def in_tx_def next_outcome_def ins upd rows[symmetric] intro!: exI[of _ rows] subsetD[OF ids])
qed

definition after_success :: "time \<Rightarrow> attempt \<Rightarrow> delivery \<Rightarrow> delivery" where
  "after_success t a y = y\<lparr>dl_state := DSucceeded, dl_attempt_count := at_number a, dl_last_attempt_at := Some t,
            dl_last_status_code := at_status_code a, dl_last_error := [],
            dl_last_duration_ms := Some (at_duration_ms a), dl_locked_at := None, dl_locked_by := [],
            dl_succeeded_at := Some t, dl_updated_at := t\<rparr>"

lemma record_success_run:
  assumes "outcomes w = []" "txn w = None"
    and "projr (fst (fresh_id ''att'' w)) \<notin> at_id ` set (attempts (db w))"
    and "x0 \<in> set (deliveries (db w))" "dl_id x0 = dl_id x"
  shows "\<exists>v y rows. record_success x a w = (Inr y, v) \<and> ext v = ext w \<and>
    db v = (db w)\<lparr>attempts := rows, deliveries := map (\<lambda>y. if dl_id y = dl_id x
      then after_success (now w) a y else y) (deliveries (db w))\<rparr> \<and>
    v = w\<lparr>draws := Suc (draws w), db := db v\<rparr> \<and>
    rows = logged (projr (fst (fresh_id ''att'' w))) (dl_id x) (now w) a (attempts (db w)) \<and>
    at_id ` set rows \<subseteq> insert (projr (fst (fresh_id ''att'' w))) (at_id ` set (attempts (db w)))"
proof -
  let ?w = "w\<lparr>txn := Some False\<rparr>"
  obtain rows where ins: "insert_attempt (dl_id x) a ?w
      = (Inr (), ?w\<lparr>draws := draws w + 1, db := (db w)\<lparr>attempts := rows\<rparr>\<rparr>)"
      and ids: "at_id ` set rows \<subseteq> insert (projr (fst (fresh_id ''att'' w))) (at_id ` set (attempts (db w)))"
      and rows: "rows = logged (projr (fst (fresh_id ''att'' w))) (dl_id x) (now w) a (attempts (db w))"
    using insert_attempt_run[of ?w "dl_id x" a] assms(1,3) by (auto simp: fresh_id_def)
  obtain r rs where f: "filter (\<lambda>y. dl_id y = dl_id x) (deliveries (db w)) = r # rs"
    using assms(4,5) by (cases "filter (\<lambda>y. dl_id y = dl_id x) (deliveries (db w))") (auto simp: filter_empty_conv)
  let ?w2 = "?w\<lparr>draws := Suc (draws w), db := (db w)\<lparr>attempts := rows\<rparr>\<rparr>"
  have upd: "update_one deliveries set_deliveries (\<lambda>y. dl_id y = dl_id x) g ?w2
    = (Inr (g r), ?w2\<lparr>db := (db ?w2)\<lparr>deliveries := map (\<lambda>y. if dl_id y = dl_id x then g y else y) (deliveries (db w))\<rparr>\<rparr>)" for g
    using update_one_run[of ?w2 "\<lambda>y. dl_id y = dl_id x" deliveries r rs set_deliveries g] assms(1) f by simp
  show ?thesis
    using assms(1,2)
    by (auto simp: record_success_def after_success_def [abs_def] bindE_run gets_def in_tx_def next_outcome_def ins upd rows[symmetric] intro!: exI[of _ rows] subsetD[OF ids])
qed

text \<open>What an attempt that can be made does to its delivery.\<close>

definition verdict :: "rat \<Rightarrow> time \<Rightarrow> delivery \<Rightarrow> send_result \<Rightarrow> dstate \<times> time option" where
  "verdict u t x r =
     (let n = dl_attempt_count x + 1 in
      if delivered r then (DSucceeded, None)
      else if retryable r \<and> n < dl_max_attempts x then (DFailed, Some (t + retry_delay u n))
      else (DDead, None))"

definition ready :: "db \<Rightarrow> delivery \<Rightarrow> event \<Rightarrow> destination \<Rightarrow> bool" where
  "ready d x e ds \<longleftrightarrow> x \<in> set (deliveries d) \<and>
     List.find (\<lambda>y. ev_id y = dl_event_id x) (events d) = Some e \<and>
     List.find (\<lambda>y. ds_id y = dl_destination_id x \<and> ds_application_id y = dl_application_id x) (destinations d) = Some ds"

definition request_for :: "delivery \<Rightarrow> event \<Rightarrow> destination \<Rightarrow> send_request" where
  "request_for x e ds = \<lparr>sq_delivery_id = dl_id x, sq_event_id = dl_event_id x,
     sq_event_type = type_name (ev_type e), sq_url = dl_url x, sq_body = ev_payload e,
     sq_secret = ds_secret ds, sq_attempt_number = dl_attempt_count x + 1\<rparr>"

lemma prepare_run:
  assumes "outcomes w = []" "txn w = None" "ready (db w) x e ds"
  shows "prepare x w = (Inr (ev_payload e, type_name (ev_type e), ds_secret ds), w)"
  using assms
  by (simp add: prepare_def event_get_def get_destination_def ready_def bindE_run catchE_def
      query_row_run succeed_def)

text \<open>C13. Processing a claimed delivery whose event and destination exist, with a database that
  refuses nothing, makes exactly the HTTP call of the request built from the stored event and the
  destination's current secret, and the answer alone decides the delivery: a 2xx delivers it, a
  retryable failure with attempts left schedules the next attempt after the delay of the
  schedule, anything else gives up; the lock is released, the attempt counted, and every other
  delivery is untouched. The attempt is recorded with the status code, the error and the body of the
  answer, unless an attempt of this number is recorded for the delivery already.\<close>

theorem process_decides:
  assumes "outcomes w = []" "txn w = None" "ready (db w) x e ds"
    and "projr (fst (fresh_id ''att'' w)) \<notin> at_id ` set (attempts (db w))"
    and "send (request_for x e ds) (ext w) = (r, g)"
  shows "\<exists>f. deliveries (db (snd (process send u x w)))
      = map (\<lambda>y. if dl_id y = dl_id x then f y else y) (deliveries (db w)) \<and>
    ext (snd (process send u x w)) = g \<and>
    attempts (db (snd (process send u x w))) =
      logged (projr (fst (fresh_id ''att'' w))) (dl_id x) (now w) (attempt_of (dl_attempt_count x + 1) r) (attempts (db w)) \<and>
    (\<forall>y. dl_state (f y) = fst (verdict u (now w) x r) \<and> dl_attempt_count (f y) = dl_attempt_count x + 1 \<and>
      dl_locked_at (f y) = None \<and> dl_id (f y) = dl_id y \<and> dl_url (f y) = dl_url y \<and>
      (case snd (verdict u (now w) x r) of None \<Rightarrow> True | Some t \<Rightarrow> dl_next_attempt_at (f y) = t))"
proof -
  let ?w = "w\<lparr>ext := g\<rparr>" and ?a = "attempt_of (dl_attempt_count x + 1) r"
  have n: "at_number ?a = dl_attempt_count x + 1"
    by (simp add: attempt_of_def Let_def zero_attempt_def split: option.split)
  have run: "process send u x w = (if delivered r then ignore_error (record_success x ?a)
      else worker_record_failure u x ?a (retryable r)) ?w"
    using prepare_run[OF assms(1-3)] assms(5)
    by (simp add: process_def catchE_def bindE_run call_out_def request_for_def Let_def)
  have h: "outcomes ?w = []" "txn ?w = None"
      "projr (fst (fresh_id ''att'' ?w)) \<notin> at_id ` set (attempts (db ?w))" "x \<in> set (deliveries (db ?w))"
    using assms by (simp_all add: fresh_id_def ready_def)
  show ?thesis
  proof (cases "delivered r")
    case True
    obtain v y rows where "record_success x ?a ?w = (Inr y, v)" "ext v = ext ?w"
        "db v = (db ?w)\<lparr>attempts := rows, deliveries := map (\<lambda>y. if dl_id y = dl_id x
          then after_success (now ?w) ?a y else y) (deliveries (db ?w))\<rparr>"
        "rows = logged (projr (fst (fresh_id ''att'' ?w))) (dl_id x) (now ?w) ?a (attempts (db ?w))"
      using record_success_run[OF h refl] by blast
    then show ?thesis
      using True n unfolding run
      by (intro exI[of _ "after_success (now w) ?a"])
        (simp add: ignore_error_run verdict_def after_success_def fresh_id_def)
  next
    case False
    obtain v y rows where "record_failure u x ?a (retryable r) ?w = (Inr y, v)" "ext v = ext ?w"
        "db v = (db ?w)\<lparr>attempts := rows, deliveries := map (\<lambda>y. if dl_id y = dl_id x
          then after_attempt u (now ?w) x ?a (retryable r) y else y) (deliveries (db ?w))\<rparr>"
        "rows = logged (projr (fst (fresh_id ''att'' ?w))) (dl_id x) (now ?w) ?a (attempts (db ?w))"
      using record_failure_run[OF h refl] by blast
    then show ?thesis
      using False n unfolding run worker_record_failure_def
      by (intro exI[of _ "after_attempt u (now w) x ?a (retryable r)"])
        (simp add: ignore_error_run verdict_def after_attempt_def Let_def not_le fresh_id_def)
  qed
qed

theorem process_decides_witness:
  "let x = zero_delivery\<lparr>dl_id := ''dlv_1'', dl_event_id := ''evt_1'', dl_destination_id := ''dst_1'',
         dl_state := Delivering, dl_attempt_count := 1, dl_max_attempts := 7\<rparr>;
       w = quiet_world (empty_db\<lparr>deliveries := [x], events := [zero_event\<lparr>ev_id := ''evt_1''\<rparr>],
             destinations := [zero_destination\<lparr>ds_id := ''dst_1''\<rparr>]\<rparr>) (0::nat);
       send = (\<lambda>_ g. (\<lparr>sr_status_code = 503, sr_duration = 0, sr_response_body = [], sr_error = None\<rparr>, Suc g));
       v = snd (process send (1/2) x w)
   in map dl_state (deliveries (db v)) = [DFailed] \<and> ext v = 1 \<and>
      map dl_next_attempt_at (deliveries (db v)) = [now w + retry_delay (1/2) 2] \<and>
      map at_status_code (attempts (db v)) = [Some 503]"
proof -
  let ?x = "zero_delivery\<lparr>dl_id := ''dlv_1'', dl_event_id := ''evt_1'', dl_destination_id := ''dst_1'',
         dl_state := Delivering, dl_attempt_count := 1, dl_max_attempts := 7\<rparr>"
  let ?e = "zero_event\<lparr>ev_id := ''evt_1''\<rparr>" and ?ds = "zero_destination\<lparr>ds_id := ''dst_1''\<rparr>"
  let ?w = "quiet_world (empty_db\<lparr>deliveries := [?x], events := [?e], destinations := [?ds]\<rparr>) (0::nat)"
  let ?r = "\<lparr>sr_status_code = 503, sr_duration = 0, sr_response_body = [], sr_error = None\<rparr>"
  have h: "ready (db ?w) ?x ?e ?ds"
      "projr (fst (fresh_id ''att'' ?w)) \<notin> at_id ` set (attempts (db ?w))"
    by (simp_all add: ready_def zero_delivery_def zero_event_def zero_destination_def empty_db_def)
  have v: "verdict (1/2) (now ?w) ?x ?r = (DFailed, Some (now ?w + retry_delay (1/2) 2))"
    by (simp add: verdict_def zero_delivery_def delivered_def retryable_def should_retry_def http_success_def)
  have ids: "dl_id ?x = ''dlv_1''" "deliveries (db ?w) = [?x]" by simp_all
  show ?thesis
    using process_decides[OF _ _ h, of "\<lambda>_ g. (?r, Suc g)" ?r 1 "1/2"] unfolding v ids
    by (auto simp: Let_def logged_def attempt_row_def attempt_of_def zero_delivery_def empty_db_def)
qed

text \<open>A single failed statement while the event or the destination is being loaded ends a
  delivery for good: whatever attempts it has left, it becomes dead without any HTTP call. The
  code treats every error of \<open>prepare\<close> as a deleted destination or event, for which retrying
  will not help.\<close>

theorem transient_failure_kills:
  assumes "outcomes w = [Some t]" "txn w = None" "x \<in> set (deliveries (db w))"
    and "projr (fst (fresh_id ''att'' w)) \<notin> at_id ` set (attempts (db w))"
  shows "ext (snd (process send u x w)) = ext w \<and>
    (\<exists>y \<in> set (deliveries (db (snd (process send u x w)))). dl_id y = dl_id x \<and> dl_state y = DDead)"
proof -
  let ?w = "w\<lparr>outcomes := []\<rparr>"
  let ?a = "zero_attempt\<lparr>at_number := dl_attempt_count x + 1,
      at_error := error_text (Wrap ''delivery: load event'' (DbFailure t))\<rparr>"
  have "prepare x w = (Inl (Wrap ''delivery: load event'' (DbFailure t)), ?w)"
    using assms(1,2)
    by (simp add: prepare_def event_get_def query_row_def one_row_def query_def bindE_run catchE_def
        run_stmt_def next_outcome_def abort_txn_def throw_def)
  then have "process send u x w = worker_record_failure u x ?a False ?w"
    by (simp only: process_def catchE_def prod.case sum.case)
  then obtain a where run: "process send u x w = worker_record_failure u x a False ?w" by blast
  obtain v y rows where rec: "record_failure u x a False ?w = (Inr y, v)" "ext v = ext ?w"
      "db v = (db ?w)\<lparr>attempts := rows, deliveries := map (\<lambda>y. if dl_id y = dl_id x
          then after_attempt u (now ?w) x a False y else y) (deliveries (db ?w))\<rparr>"
    using record_failure_run[of ?w x x u a False] assms by (auto simp: fresh_id_def)
  have final: "snd (process send u x w) = v"
    unfolding run worker_record_failure_def using rec(1) by (simp add: ignore_error_run)
  have "after_attempt u (now ?w) x a False x \<in> set (deliveries (db v))"
    using assms(3) rec(3) by (auto intro: image_eqI[of _ _ x])
  moreover have "dl_id (after_attempt u (now ?w) x a False x) = dl_id x"
      "dl_state (after_attempt u (now ?w) x a False x) = DDead"
    by (simp_all add: after_attempt_def Let_def)
  ultimately show ?thesis unfolding final using rec(2) by auto
qed

theorem transient_failure_kills_witness:
  "let x = zero_delivery\<lparr>dl_id := ''dlv_1'', dl_event_id := ''evt_1'', dl_destination_id := ''dst_1'',
         dl_state := Delivering, dl_max_attempts := 7\<rparr>;
       w = (quiet_world (empty_db\<lparr>deliveries := [x], events := [zero_event\<lparr>ev_id := ''evt_1''\<rparr>],
             destinations := [zero_destination\<lparr>ds_id := ''dst_1''\<rparr>]\<rparr>) (0::nat))\<lparr>outcomes := [Some ''conn reset'']\<rparr>;
       send = (\<lambda>_ g. (\<lparr>sr_status_code = 200, sr_duration = 0, sr_response_body = [], sr_error = None\<rparr>, Suc g));
       v = snd (process send 0 x w)
   in ext v = 0 \<and> (\<exists>y \<in> set (deliveries (db v)). dl_id y = ''dlv_1'' \<and> dl_state y = DDead)"
proof -
  let ?x = "zero_delivery\<lparr>dl_id := ''dlv_1'', dl_event_id := ''evt_1'', dl_destination_id := ''dst_1'',
         dl_state := Delivering, dl_max_attempts := 7\<rparr>"
  let ?w = "(quiet_world (empty_db\<lparr>deliveries := [?x], events := [zero_event\<lparr>ev_id := ''evt_1''\<rparr>],
             destinations := [zero_destination\<lparr>ds_id := ''dst_1''\<rparr>]\<rparr>) (0::nat))\<lparr>outcomes := [Some ''conn reset'']\<rparr>"
  have h: "?x \<in> set (deliveries (db ?w))"
      "projr (fst (fresh_id ''att'' ?w)) \<notin> at_id ` set (attempts (db ?w))"
    by (simp_all add: empty_db_def)
  show ?thesis
    using transient_failure_kills[OF _ _ h, of "''conn reset''"
        "\<lambda>_ g. (\<lparr>sr_status_code = 200, sr_duration = 0, sr_response_body = [], sr_error = None\<rparr>, Suc g)" 0]
    by (simp add: Let_def)
qed

subsection \<open>A manual retry hides its attempts\<close>

text \<open>Tables related by: once the attempt numbered 1 of a delivery is stored, the history stays
  as it is.\<close>

definition history_frozen :: "string \<Rightarrow> db \<Rightarrow> db \<Rightarrow> bool" where
  "history_frozen i d e \<longleftrightarrow>
     ((\<exists>a \<in> set (attempts d). at_delivery_id a = i \<and> at_number a = 1) \<longrightarrow> attempts e = attempts d)"

interpretation frozen: db_evolution "history_frozen i" for i
  by unfold_locales (auto simp: history_frozen_def)

lemma frozen_insert_attempt: "at_number a = 1 \<Longrightarrow> frozen.safe i (insert_attempt i a)"
  unfolding insert_attempt_def
  by (intro frozen.safe_intros frozen.safe_run_stmt)
    (auto simp: history_frozen_def list_ex_iff split: if_splits)

lemma frozen_process:
  assumes "dl_id x = i" "dl_attempt_count x = 0"
  shows "frozen.safe i (process send u x)"
proof -
  have upd: "history_frozen i d (set_deliveries rows d)" for rows d by (simp add: history_frozen_def)
  have one: "at_number (attempt_of 1 r) = 1" for r
    by (simp add: attempt_of_def zero_attempt_def Let_def split: option.split)
  have fail: "frozen.safe i (worker_record_failure u x a retry)" if "at_number a = 1" for a retry
    unfolding worker_record_failure_def record_failure_def assms(1) Let_def
    by (intro frozen.safe_intros frozen.safe_update_one frozen_insert_attempt that upd)
  have ok: "frozen.safe i (record_success x a)" if "at_number a = 1" for a
    unfolding record_success_def assms(1)
    by (intro frozen.safe_intros frozen.safe_update_one frozen_insert_attempt that upd)
  have prep: "frozen.safe i (prepare x)"
    unfolding prepare_def event_get_def get_destination_def by (intro frozen.safe_intros)
  show ?thesis
    unfolding process_def assms(2) Let_def
    by (intro frozen.safe_intros prep fail ok) (simp_all add: one)
qed

text \<open>After an operator retries a delivery that has already been attempted, the next attempt
  leaves no trace in the history: \<open>Retry\<close> resets the counter, so the attempt is numbered 1
  again and its insert conflicts with the attempt 1 that is stored, under every pattern of
  database failures and whatever the destination answers.\<close>

theorem retry_hides_attempt:
  assumes "delivery_retry i w = (Inr x, v)"
    and "a \<in> set (attempts (db w))" "at_delivery_id a = i" "at_number a = 1"
  shows "attempts (db (snd (process send u x v))) = attempts (db w)"
proof -
  let ?f = "\<lambda>x. x\<lparr>dl_state := DPending, dl_attempt_count := 0, dl_next_attempt_at := now w,
      dl_locked_at := None, dl_locked_by := [], dl_last_error := [], dl_updated_at := now w\<rparr>"
  let ?p = "\<lambda>x. dl_id x = i \<and> dl_state x \<noteq> Delivering"
  have "update_one deliveries set_deliveries ?p ?f w = (Inr x, v)"
    using assms(1)
    by (auto simp: delivery_retry_def bindE_run gets_def catchE_def throw_def succeed_def
        split: prod.splits sum.splits if_splits)
  from update_one_Inr[OF this] obtain r rs where "filter ?p (deliveries (db w)) = r # rs" "x = ?f r"
      and dv: "attempts (db v) = attempts (db w)" by auto
  then have "?p r" "x = ?f r" by (metis (mono_tags, lifting) filter_eq_ConsD, simp)
  then have "frozen.safe i (process send u x)" by (intro frozen_process) simp_all
  then have "history_frozen i (db v) (db (snd (process send u x v)))" by (rule frozen.safe_db)
  then show ?thesis using assms(2-4) dv by (auto simp: history_frozen_def)
qed

theorem retry_hides_attempt_witness:
  "let a = zero_attempt\<lparr>at_id := ''att_1'', at_delivery_id := ''dlv_1'', at_number := 1\<rparr>;
       w = quiet_world (empty_db\<lparr>deliveries := [zero_delivery\<lparr>dl_id := ''dlv_1'', dl_event_id := ''evt_1'',
             dl_destination_id := ''dst_1'', dl_state := DDead, dl_max_attempts := 7\<rparr>],
             events := [zero_event\<lparr>ev_id := ''evt_1''\<rparr>],
             destinations := [zero_destination\<lparr>ds_id := ''dst_1''\<rparr>], attempts := [a]\<rparr>) (0::nat);
       r = delivery_retry ''dlv_1'' w;
       send = (\<lambda>_ g. (\<lparr>sr_status_code = 200, sr_duration = 0, sr_response_body = [], sr_error = None\<rparr>, Suc g))
   in \<not> isl (fst r) \<and> attempts (db (snd (process send 0 (projr (fst r)) (snd r)))) = [a]"
proof -
  let ?a = "zero_attempt\<lparr>at_id := ''att_1'', at_delivery_id := ''dlv_1'', at_number := 1\<rparr>"
  let ?w = "quiet_world (empty_db\<lparr>deliveries := [zero_delivery\<lparr>dl_id := ''dlv_1'', dl_event_id := ''evt_1'',
             dl_destination_id := ''dst_1'', dl_state := DDead, dl_max_attempts := 7\<rparr>],
             events := [zero_event\<lparr>ev_id := ''evt_1''\<rparr>],
             destinations := [zero_destination\<lparr>ds_id := ''dst_1''\<rparr>], attempts := [?a]\<rparr>) (0::nat)"
  have ok: "isl (fst (delivery_retry ''dlv_1'' ?w)) = False" by code_simp
  then have run: "delivery_retry ''dlv_1'' ?w =
      (Inr (projr (fst (delivery_retry ''dlv_1'' ?w))), snd (delivery_retry ''dlv_1'' ?w))"
    by (metis prod.collapse sum.collapse(2))
  have "attempts (db ?w) = [?a]" by (simp add: empty_db_def)
  then show ?thesis
    using retry_hides_attempt[OF run, of ?a "\<lambda>_ g. (\<lparr>sr_status_code = 200, sr_duration = 0,
        sr_response_body = [], sr_error = None\<rparr>, Suc g)" 0] ok
    by (simp add: Let_def)
qed

end
