(* ===== verification/Keys.thy ===== *)
theory Keys
  imports Schema Ids
begin

text \<open>
  \<open>internal/crypto/apikey.go\<close> and \<open>hmac.go\<close>: the API keys of applications and the signatures of
  outbound webhooks. The bytes read from \<open>crypto/rand\<close> are an argument; the hash of a key and the
  MAC, as lower-case hexadecimal digests, are parameters. Base 32 and base 64 are those of the
  standard library, without padding.
\<close>

subsection \<open>Binary-to-text encodings\<close>

definition bits8 :: "8 word \<Rightarrow> bool list" where "bits8 b = map (\<lambda>i. bit b i) [7, 6, 5, 4, 3, 2, 1, 0]"

definition bits_val :: "bool list \<Rightarrow> nat" where
  "bits_val bs = foldl (\<lambda>n b. 2 * n + (if b then 1 else 0)) 0 bs"

function groups :: "nat \<Rightarrow> 'a list \<Rightarrow> 'a list list" where
  "groups n xs = (if n = 0 \<or> xs = [] then [] else take n xs # groups n (drop n xs))"
  by pat_completeness auto

termination groups by (relation "measure (length \<circ> snd)") auto

declare groups.simps [simp del]

definition encode_bits :: "nat \<Rightarrow> string \<Rightarrow> 8 word list \<Rightarrow> string" where
  "encode_bits n alphabet bytes =
     map (\<lambda>bs. alphabet ! bits_val (bs @ replicate (n - length bs) False)) (groups n (concat (map bits8 bytes)))"

definition base32_alphabet :: string where "base32_alphabet = ''ABCDEFGHIJKLMNOPQRSTUVWXYZ234567''"

definition base32 :: "8 word list \<Rightarrow> string" where "base32 = encode_bits 5 base32_alphabet"

definition base64_url :: "8 word list \<Rightarrow> string" where
  "base64_url = encode_bits 6 ''ABCDEFGHIJKLMNOPQRSTUVWXYZabcdefghijklmnopqrstuvwxyz0123456789-_''"

subsection \<open>API keys\<close>

fun key_mode_text :: "key_mode \<Rightarrow> string" where
  "key_mode_text KeyModeLive = ''live''"
| "key_mode_text KeyModeTest = ''test''"
| "key_mode_text (OtherKeyMode s) = s"

definition key_mode_of :: "string \<Rightarrow> key_mode" where
  "key_mode_of s = (if s = ''live'' then KeyModeLive else if s = ''test'' then KeyModeTest else OtherKeyMode s)"

definition key_mode_valid :: "key_mode \<Rightarrow> bool" where
  "key_mode_valid m \<longleftrightarrow> m = KeyModeLive \<or> m = KeyModeTest"

definition api_key_prefix :: string where "api_key_prefix = ''pmx''"

definition api_key_secret_bytes :: nat where "api_key_secret_bytes = 32"

definition api_key_display_prefix_len :: nat where "api_key_display_prefix_len = 16"

record generated_key =
  gk_plaintext :: string
  gk_hash :: string
  gk_display_prefix :: string
  gk_mode :: key_mode

definition generate_api_key :: "(string \<Rightarrow> string) \<Rightarrow> key_mode \<Rightarrow> 8 word list \<Rightarrow> string + generated_key" where
  "generate_api_key hash m buf =
     (if \<not> key_mode_valid m then Inl (''crypto: unknown key mode '' @ key_mode_text m)
      else let plaintext = api_key_prefix @ ''_'' @ key_mode_text m @ ''_'' @ base32 buf in
        Inr \<lparr>gk_plaintext = plaintext, gk_hash = hash plaintext,
          gk_display_prefix = take api_key_display_prefix_len plaintext, gk_mode = m\<rparr>)"

definition parse_api_key_mode :: "string \<Rightarrow> string + key_mode" where
  "parse_api_key_mode plaintext = (case split_on (CHR ''_'') plaintext of
     [p, m, secret] \<Rightarrow>
       if p = api_key_prefix \<and> key_mode_valid (key_mode_of m) \<and> 32 \<le> length secret then Inr (key_mode_of m)
       else Inl ''crypto: invalid API key''
   | _ \<Rightarrow> Inl ''crypto: invalid API key'')"

subsection \<open>Webhook signatures\<close>

definition webhook_secret_prefix :: string where "webhook_secret_prefix = ''whsec_''"

definition generate_webhook_secret :: "8 word list \<Rightarrow> string" where
  "generate_webhook_secret buf = webhook_secret_prefix @ base64_url buf"

definition signing_payload :: "int \<Rightarrow> string \<Rightarrow> string \<Rightarrow> string" where
  "signing_payload timestamp delivery_id body = format_int timestamp @ ''.'' @ delivery_id @ ''.'' @ body"

definition sign_webhook :: "(string \<Rightarrow> string \<Rightarrow> string) \<Rightarrow> string \<Rightarrow> int \<Rightarrow> string \<Rightarrow> string \<Rightarrow> string" where
  "sign_webhook mac secret timestamp delivery_id body =
     ''v1='' @ mac secret (signing_payload timestamp delivery_id body)"

definition verify_webhook_signature ::
  "(string \<Rightarrow> string \<Rightarrow> string) \<Rightarrow> string \<Rightarrow> int \<Rightarrow> string \<Rightarrow> string \<Rightarrow> string \<Rightarrow> bool" where
  "verify_webhook_signature mac secret timestamp delivery_id body header =
     list_ex (\<lambda>candidate. trim_space candidate = sign_webhook mac secret timestamp delivery_id body)
       (split_on (CHR '','') header)"

subsection \<open>What an encoding writes\<close>

lemma groups_Nil [simp]: "groups n [] = []" by (simp add: groups.simps)

lemma ceiling_step:
  fixes k n :: nat
  assumes "0 < k" "0 < n"
  shows "Suc ((k - n + n - 1) div n) = (k + n - 1) div n"
proof -
  have "k + n - 1 = (k - 1) + n" using assms by simp
  then have "(k + n - 1) div n = Suc ((k - 1) div n)" using assms(2) by (simp only: div_add_self2)
  moreover have "(k - n + n - 1) div n = (k - 1) div n"
    using assms by (cases "n \<le> k") simp_all
  ultimately show ?thesis by simp
qed

lemma length_groups: "0 < n \<Longrightarrow> length (groups n xs) = (length xs + n - 1) div n"
proof (induction n xs rule: groups.induct)
  case (1 n xs)
  show ?case
  proof (cases "xs = []")
    case False
    then have "length (groups n xs) = Suc (length (groups n (drop n xs)))"
      using 1(2) by (subst groups.simps) simp
    also have "\<dots> = Suc ((length xs - n + n - 1) div n)" using 1 False by simp
    also have "\<dots> = (length xs + n - 1) div n" using 1(2) False by (intro ceiling_step) simp_all
    finally show ?thesis .
  qed (use 1(2) in simp)
qed

lemma groups_short: "g \<in> set (groups n xs) \<Longrightarrow> length g \<le> n"
proof (induction n xs rule: groups.induct)
  case (1 n xs)
  then show ?case by (auto simp: groups.simps[of n xs] split: if_splits)
qed

lemma bits_val_less: "bits_val bs < 2 ^ length bs"
proof -
  have "foldl (\<lambda>n b. 2 * n + (if b then 1 else 0)) k bs < (k + 1) * 2 ^ length bs" for k :: nat
  proof (induction bs arbitrary: k)
    case (Cons b bs)
    have "foldl (\<lambda>n b. 2 * n + (if b then 1 else 0)) (2 * k + (if b then 1 else 0)) bs
        < (2 * k + (if b then 1 else 0) + 1) * 2 ^ length bs" by (rule Cons.IH)
    also have "\<dots> \<le> (2 * k + 2) * 2 ^ length bs" by (intro mult_le_mono1) simp
    finally show ?case by (simp add: algebra_simps)
  qed simp
  from this[of 0] show ?thesis by (simp add: bits_val_def)
qed

lemma length_bits: "length (concat (map bits8 bytes)) = 8 * length bytes"
  by (induction bytes) (simp_all add: bits8_def)

lemma encode_bits_length: "0 < n \<Longrightarrow> length (encode_bits n alphabet bytes) = (8 * length bytes + n - 1) div n"
  by (simp add: encode_bits_def length_groups length_bits)

lemma encode_bits_chars:
  assumes "length alphabet = 2 ^ n" "c \<in> set (encode_bits n alphabet bytes)"
  shows "c \<in> set alphabet"
proof -
  obtain bs where bs: "bs \<in> set (groups n (concat (map bits8 bytes)))"
      "c = alphabet ! bits_val (bs @ replicate (n - length bs) False)"
    using assms(2) by (auto simp: encode_bits_def)
  have "bits_val (bs @ replicate (n - length bs) False) < 2 ^ n"
    using bits_val_less[of "bs @ replicate (n - length bs) False"] groups_short[OF bs(1)] by simp
  then show ?thesis using bs(2) assms(1) by simp
qed

lemma base32_chars: "CHR ''_'' \<notin> set (base32 bytes)"
proof
  assume "CHR ''_'' \<in> set (base32 bytes)"
  then have "CHR ''_'' \<in> set base32_alphabet"
    unfolding base32_def by (rule encode_bits_chars[rotated]) (simp add: base32_alphabet_def)
  then show False by (simp add: base32_alphabet_def)
qed

text \<open>A minted key passes the syntactic check with its own mode, for every mode and random bytes, and
  its display prefix shows seven of the 52 characters of its secret.\<close>

lemma generated_key_parses:
  assumes "key_mode_valid m" "length buf = api_key_secret_bytes"
  shows "\<exists>k. generate_api_key hash m buf = Inr k \<and> parse_api_key_mode (gk_plaintext k) = Inr m \<and>
    gk_display_prefix k = ''pmx_'' @ key_mode_text m @ ''_'' @ take 7 (base32 buf) \<and> length (base32 buf) = 52"
proof -
  have len: "length (base32 buf) = 52"
    using assms(2) by (simp add: base32_def encode_bits_length api_key_secret_bytes_def)
  have split: "split_on (CHR ''_'') (''pmx_'' @ key_mode_text m @ ''_'' @ base32 buf) = [''pmx'', key_mode_text m, base32 buf]"
    using assms(1) base32_chars[of buf] split_on_append[of "CHR ''_''" "''pmx''"]
      split_on_append[of "CHR ''_''" "key_mode_text m" "base32 buf"] split_on_absent[of "CHR ''_''" "base32 buf"]
    by (auto simp: key_mode_valid_def)
  have "key_mode_of (key_mode_text m) = m" using assms(1) by (auto simp: key_mode_valid_def key_mode_of_def)
  then show ?thesis
    using assms(1) split len
    by (auto simp: generate_api_key_def parse_api_key_mode_def Let_def api_key_prefix_def
        api_key_display_prefix_len_def key_mode_valid_def)
qed

text \<open>A signature binds the moment, the delivery and the body.\<close>

lemma format_int_dotless: "CHR ''.'' \<notin> set (format_int i)"
proof
  assume "CHR ''.'' \<in> set (format_int i)"
  then have "is_digit (CHR ''.'')" by (auto simp: format_int_def dest: dec_nat_digits split: if_splits)
  then show False by (simp add: is_digit_def)
qed

lemma dash_not_digit: "CHR ''-'' \<notin> set (dec_nat n)"
proof
  assume "CHR ''-'' \<in> set (dec_nat n)"
  then have "is_digit (CHR ''-'')" by (rule dec_nat_digits)
  then show False by (simp add: is_digit_def)
qed

lemma format_int_inject: "format_int i = format_int j \<longleftrightarrow> i = j"
proof
  assume h: "format_int i = format_int j"
  have no: "CHR ''-'' # dec_nat m \<noteq> dec_nat n" for m n
    using dash_not_digit[of n] by (metis list.set_intros(1))
  show "i = j" using h no no[symmetric]
    by (auto simp: format_int_def dec_nat_inject split: if_splits)
qed simp

lemma signing_payload_inject:
  assumes "CHR ''.'' \<notin> set i" "CHR ''.'' \<notin> set j" "signing_payload s i a = signing_payload t j b"
  shows "s = t \<and> i = j \<and> a = b"
proof -
  have "format_int s = format_int t \<and> i @ CHR ''.'' # a = j @ CHR ''.'' # b"
    using assms(3) by (intro sep_inject[of "CHR ''.''"]) (simp_all add: format_int_dotless signing_payload_def)
  moreover from this have "i = j \<and> a = b" using sep_inject[OF assms(1,2)] by blast
  ultimately show ?thesis by (simp add: format_int_inject)
qed

lemma signature_verifies:
  assumes "CHR '','' \<notin> set (mac secret (signing_payload t i body))" "\<forall>c \<in> set (mac secret (signing_payload t i body)). \<not> is_space c"
  shows "verify_webhook_signature mac secret t i body (sign_webhook mac secret t i body)"
proof -
  let ?s = "sign_webhook mac secret t i body"
  have "CHR '','' \<notin> set ?s" "\<forall>c \<in> set ?s. \<not> is_space c"
    using assms by (auto simp: sign_webhook_def is_space_def)
  then show ?thesis by (simp add: verify_webhook_signature_def split_on_absent trim_space_id)
qed

end
