(* ===== verification/Netsafe.thy ===== *)
theory Netsafe
  imports Store
begin

unbundle bit_operations_syntax

text \<open>
  \<open>internal/netsafe/netsafe.go\<close>: which addresses the outbound requests may reach. An address is
  what \<open>net/netip\<close> holds: 32 bits, or 128 bits and a zone. The parsing of URLs and addresses, the
  text of an address and the resolver belong to the standard library and the network; they are
  the record \<open>names\<close>.
\<close>

datatype addr = NoAddr | V4 "32 word" | V6 "128 word" string

record url =
  u_scheme :: string
  u_host :: string
  u_has_user :: bool
  u_fragment :: string
  u_hostname :: string
  u_port :: string

record names =
  nm_url :: "string \<Rightarrow> url option"
  nm_addr :: "string \<Rightarrow> addr option"
  nm_text :: "addr \<Rightarrow> string"
  nm_lookup :: "string \<Rightarrow> addr list option"
  nm_split :: "string \<Rightarrow> (string \<times> string) option"

record guard =
  gd_allow_private :: bool
  gd_allowed_ports :: "int list"

definition new_guard :: "bool \<Rightarrow> guard" where
  "new_guard private = \<lparr>gd_allow_private = private, gd_allowed_ports = []\<rparr>"

subsection \<open>Blocked ranges\<close>

definition quad :: "nat \<Rightarrow> nat \<Rightarrow> nat \<Rightarrow> nat \<Rightarrow> 32 word" where
  "quad a b c d = of_nat (((a * 256 + b) * 256 + c) * 256 + d)"

definition blocked_prefixes4 :: "(32 word \<times> nat) list" where
  "blocked_prefixes4 =
    [(quad 0 0 0 0, 8), (quad 10 0 0 0, 8), (quad 100 64 0 0, 10), (quad 127 0 0 0, 8), (quad 169 254 0 0, 16),
     (quad 172 16 0 0, 12), (quad 192 0 0 0, 24), (quad 192 0 2 0, 24), (quad 192 88 99 0, 24),
     (quad 192 168 0 0, 16), (quad 198 18 0 0, 15), (quad 198 51 100 0, 24), (quad 203 0 113 0, 24),
     (quad 224 0 0 0, 4), (quad 240 0 0 0, 4), (quad 255 255 255 255, 32)]"

definition blocked_prefixes6 :: "(128 word \<times> nat) list" where
  "blocked_prefixes6 =
    [(0, 128), (1, 128), (push_bit 112 0xfc00, 7), (push_bit 112 0xfe80, 10), (push_bit 112 0xff00, 8)]"

text \<open>\<open>Prefix.Contains\<close>: the addresses agree on the first bits. An address with a zone is in no prefix.\<close>

definition within4 :: "32 word \<Rightarrow> 32 word \<times> nat \<Rightarrow> bool" where
  "within4 a = (\<lambda>(p, n). drop_bit (32 - n) (a XOR p) = 0)"

definition within6 :: "128 word \<Rightarrow> 128 word \<times> nat \<Rightarrow> bool" where
  "within6 a = (\<lambda>(p, n). drop_bit (128 - n) (a XOR p) = 0)"

definition is_4in6 :: "128 word \<Rightarrow> bool" where "is_4in6 a \<longleftrightarrow> drop_bit 32 a = 0xffff"

definition unmap_addr :: "addr \<Rightarrow> addr" where
  "unmap_addr x = (case x of V6 a _ \<Rightarrow> if is_4in6 a then V4 (ucast a) else x | _ \<Rightarrow> x)"

definition blocked :: "addr \<Rightarrow> bool" where
  "blocked x = (case x of NoAddr \<Rightarrow> False
     | V4 a \<Rightarrow> list_ex (within4 a) blocked_prefixes4
     | V6 a zone \<Rightarrow> zone = [] \<and> list_ex (within6 a) blocked_prefixes6)"

definition addr_allowed :: "guard \<Rightarrow> addr \<Rightarrow> bool" where
  "addr_allowed g x \<longleftrightarrow> gd_allow_private g \<or> x \<noteq> NoAddr \<and> \<not> blocked (unmap_addr x)"

subsection \<open>Checking a URL and a connection\<close>

definition blocked_error :: "string \<Rightarrow> error" where
  "blocked_error t = BlockedAddress (''netsafe: destination address is not permitted: '' @ t)"

definition check_port :: "guard \<Rightarrow> url \<Rightarrow> error + unit" where
  "check_port g u =
     (let port = u_port u in
      if port = [] then Inr ()
      else if gd_allowed_ports g = [] \<and> gd_allow_private g then Inr ()
      else
        let allowed = (if gd_allowed_ports g = [] then [80, 443] else gd_allowed_ports g);
            digits = takeWhile is_digit port; parsed = int (dec_val digits) in
        if digits = [] \<or> \<not> is_int64 parsed then Inl (OtherError (''netsafe: destination URL port '' @ port @ '' is not a number''))
        else if parsed \<in> set allowed then Inr ()
        else Inl (OtherError (''netsafe: destination URL port '' @ format_int parsed @ '' is not permitted'')))"

fun check_addrs :: "names \<Rightarrow> guard \<Rightarrow> string \<Rightarrow> addr list \<Rightarrow> error + unit" where
  "check_addrs nm g host [] = Inr ()"
| "check_addrs nm g host (a # as) =
     (if addr_allowed g a then check_addrs nm g host as
      else Inl (blocked_error (host @ '' resolves to '' @ nm_text nm a)))"

definition check_host :: "names \<Rightarrow> guard \<Rightarrow> string \<Rightarrow> error + unit" where
  "check_host nm g host = (case nm_addr nm host of
     Some a \<Rightarrow> if addr_allowed g a then Inr () else Inl (blocked_error host)
   | None \<Rightarrow>
       if to_lower host = ''localhost'' \<and> \<not> gd_allow_private g then Inl (blocked_error host)
       else (case nm_lookup nm host of None \<Rightarrow> Inr () | Some as \<Rightarrow> check_addrs nm g host as))"

definition guard_validate :: "names \<Rightarrow> guard \<Rightarrow> string \<Rightarrow> error + unit" where
  "guard_validate nm g raw = (case nm_url nm (trim_space raw) of
     None \<Rightarrow> Inl (OtherError ''netsafe: destination URL is malformed'')
   | Some u \<Rightarrow>
       if u_scheme u = ''http'' \<and> \<not> gd_allow_private g then Inl (OtherError ''netsafe: destination URL must use https'')
       else if u_scheme u \<noteq> ''http'' \<and> u_scheme u \<noteq> ''https''
         then Inl (OtherError (''netsafe: destination URL scheme '' @ u_scheme u @ '' is not supported''))
       else if u_host u = [] then Inl (OtherError ''netsafe: destination URL must include a host'')
       else if u_has_user u then Inl (OtherError ''netsafe: destination URL must not embed credentials'')
       else if u_fragment u \<noteq> [] then Inl (OtherError ''netsafe: destination URL must not include a fragment'')
       else (case check_port g u of Inl e \<Rightarrow> Inl e | Inr _ \<Rightarrow> check_host nm g (u_hostname u)))"

definition dial_control :: "names \<Rightarrow> guard \<Rightarrow> string \<Rightarrow> string \<Rightarrow> error + unit" where
  "dial_control nm g network address =
     (if network \<notin> {''tcp'', ''tcp4'', ''tcp6''}
      then Inl (OtherError (''netsafe: network '' @ network @ '' is not permitted''))
      else case nm_split nm address of
        None \<Rightarrow> Inl (OtherError (''netsafe: cannot parse dial address '' @ address))
      | Some (host, _) \<Rightarrow> (case nm_addr nm host of
          None \<Rightarrow> Inl (OtherError (''netsafe: cannot parse dial address '' @ host))
        | Some a \<Rightarrow> if addr_allowed g a then Inr () else Inl (blocked_error (nm_text nm a))))"

subsection \<open>The verdict in numbers\<close>

lemma within_div:
  fixes a p :: "'a::len word"
  assumes "n \<le> LENGTH('a)"
  shows "drop_bit (LENGTH('a) - n) (a XOR p) = 0 \<longleftrightarrow>
    unat a div 2 ^ (LENGTH('a) - n) = unat p div 2 ^ (LENGTH('a) - n)"
proof -
  have zero: "x XOR y = 0 \<longleftrightarrow> x = y" for x y :: "'a word"
    by (metis xor.assoc xor.left_neutral xor_self_eq)
  have "drop_bit k (a XOR p) = 0 \<longleftrightarrow> drop_bit k a = drop_bit k p" for k
    by (simp add: drop_bit_xor zero)
  also have "drop_bit k a = drop_bit k p \<longleftrightarrow> unat (drop_bit k a) = unat (drop_bit k p)" for k
    by (rule word_unat_eq_iff)
  finally have same: "drop_bit k (a XOR p) = 0 \<longleftrightarrow> unat (drop_bit k a) = unat (drop_bit k p)" for k .
  show ?thesis unfolding same unat_drop_bit_eq drop_bit_eq_div[where ?'a = nat] ..
qed

lemma within4_div:
  "n \<le> 32 \<Longrightarrow> within4 a (p, n) \<longleftrightarrow> unat a div 2 ^ (32 - n) = unat p div 2 ^ (32 - n)"
  using within_div[of n a p] by (simp add: within4_def)

text \<open>The ranges of the table, as the octets an address may not start with.\<close>

definition reserved4 :: "nat \<Rightarrow> bool" where
  "reserved4 n \<longleftrightarrow> (let a = n div 2 ^ 24; b = n div 2 ^ 16 mod 256; c = n div 2 ^ 8 mod 256 in
     a \<in> {0, 10, 127} \<or> 224 \<le> a \<or> a = 100 \<and> 64 \<le> b \<and> b < 128 \<or> a = 169 \<and> b = 254 \<or>
     a = 172 \<and> 16 \<le> b \<and> b < 32 \<or> a = 192 \<and> (b = 168 \<or> b = 0 \<and> (c = 0 \<or> c = 2) \<or> b = 88 \<and> c = 99) \<or>
     a = 198 \<and> (18 \<le> b \<and> b < 20 \<or> b = 51 \<and> c = 100) \<or> a = 203 \<and> b = 0 \<and> c = 113)"

lemma octets:
  fixes n :: nat
  assumes "n < 2 ^ 32"
  obtains a b c d where "n = ((a * 256 + b) * 256 + c) * 256 + d" "a < 256" "b < 256" "c < 256" "d < 256"
    "n div 2 ^ 24 = a" "n div 2 ^ 16 mod 256 = b" "n div 2 ^ 8 mod 256 = c"
proof
  have step: "k = k div 256 * 256 + k mod 256" for k :: nat by simp
  have "n div 2 ^ 16 = n div 2 ^ 8 div 256" "n div 2 ^ 24 = n div 2 ^ 16 div 256" by (simp_all add: div_mult2_eq[symmetric])
  then show "n = ((n div 2 ^ 24 * 256 + n div 2 ^ 16 mod 256) * 256 + n div 2 ^ 8 mod 256) * 256 + n mod 256"
    using step[of n] step[of "n div 2 ^ 8"] step[of "n div 2 ^ 16"] by simp
qed (use assms in simp_all)

lemma octet_div:
  fixes a b c d :: nat
  assumes "b < 256" "c < 256" "d < 256"
  defines "n \<equiv> ((a * 256 + b) * 256 + c) * 256 + d"
  shows "n div 2 ^ 24 = a" "n div 2 ^ 16 = a * 256 + b" "n div 2 ^ 8 = (a * 256 + b) * 256 + c"
    "n div 2 ^ 22 = a * 4 + b div 64" "n div 2 ^ 20 = a * 16 + b div 16" "n div 2 ^ 17 = a * 128 + b div 2"
    "n div 2 ^ 28 = a div 16"
  using assms(1-3) unfolding n_def by simp_all

lemma quad_unat:
  assumes "a < 256" "b < 256" "c < 256" "d < 256"
  shows "unat (quad a b c d) = ((a * 256 + b) * 256 + c) * 256 + d"
proof -
  have keep: "unat (of_nat m :: 32 word) = m" if "m < 2 ^ 32" for m using that by (simp add: unat_of_nat)
  show ?thesis unfolding quad_def by (rule keep) (use assms in simp)
qed

text \<open>The prefixes by their lengths.\<close>

lemma within_lengths:
  assumes "unat x = ((a * 256 + b) * 256 + c) * 256 + d" "a < 256" "b < 256" "c < 256" "d < 256"
    and "i < 256" "j < 256" "k < 256" "l < 256"
  shows "within4 x (quad i j k l, 4) \<longleftrightarrow> a div 16 = i div 16"
    "within4 x (quad i j k l, 8) \<longleftrightarrow> a = i"
    "within4 x (quad i j k l, 10) \<longleftrightarrow> a * 4 + b div 64 = i * 4 + j div 64"
    "within4 x (quad i j k l, 12) \<longleftrightarrow> a * 16 + b div 16 = i * 16 + j div 16"
    "within4 x (quad i j k l, 15) \<longleftrightarrow> a * 128 + b div 2 = i * 128 + j div 2"
    "within4 x (quad i j k l, 16) \<longleftrightarrow> a * 256 + b = i * 256 + j"
    "within4 x (quad i j k l, 24) \<longleftrightarrow> (a * 256 + b) * 256 + c = (i * 256 + j) * 256 + k"
    "within4 x (quad i j k l, 32) \<longleftrightarrow> unat x = ((i * 256 + j) * 256 + k) * 256 + l"
proof -
  have sizes: "32 - 4 = (28 :: nat)" "32 - 8 = (24 :: nat)" "32 - 10 = (22 :: nat)" "32 - 12 = (20 :: nat)"
    "32 - 15 = (17 :: nat)" "32 - 16 = (16 :: nat)" "32 - 24 = (8 :: nat)" "32 - 32 = (0 :: nat)" by simp_all
  note divs = octet_div[OF assms(3-5), of a, folded assms(1)] octet_div[OF assms(7-9), of i, folded quad_unat[OF assms(6-9)]]
  show "within4 x (quad i j k l, 4) \<longleftrightarrow> a div 16 = i div 16"
    "within4 x (quad i j k l, 8) \<longleftrightarrow> a = i"
    "within4 x (quad i j k l, 10) \<longleftrightarrow> a * 4 + b div 64 = i * 4 + j div 64"
    "within4 x (quad i j k l, 12) \<longleftrightarrow> a * 16 + b div 16 = i * 16 + j div 16"
    "within4 x (quad i j k l, 15) \<longleftrightarrow> a * 128 + b div 2 = i * 128 + j div 2"
    "within4 x (quad i j k l, 16) \<longleftrightarrow> a * 256 + b = i * 256 + j"
    "within4 x (quad i j k l, 24) \<longleftrightarrow> (a * 256 + b) * 256 + c = (i * 256 + j) * 256 + k"
    by (subst within4_div, simp, simp only: sizes divs)+
  show "within4 x (quad i j k l, 32) \<longleftrightarrow> unat x = ((i * 256 + j) * 256 + k) * 256 + l"
    by (subst within4_div, simp, simp only: sizes power_0 div_by_1 quad_unat[OF assms(6-9)])
qed

lemma place:
  fixes a i m r s :: nat
  assumes "r < m" "s < m"
  shows "a * m + r = i * m + s \<longleftrightarrow> a = i \<and> r = s"
proof
  assume h: "a * m + r = i * m + s"
  have "(a * m + r) div m = a" "(a * m + r) mod m = r" "(i * m + s) div m = i" "(i * m + s) mod m = s"
    using assms by simp_all
  then show "a = i \<and> r = s" using h by simp
qed simp

lemma place_less: "s < m \<Longrightarrow> c < 256 \<Longrightarrow> s * 256 + c < m * 256" for s m c :: nat
proof -
  assume "s < m" "c < 256"
  then have "s * 256 + c < (s + 1) * 256" "(s + 1) * 256 \<le> m * 256" by (simp, intro mult_le_mono1) simp
  then show ?thesis by (rule less_le_trans)
qed

lemma range_div: "0 < m \<Longrightarrow> b div m = q \<longleftrightarrow> q * m \<le> b \<and> b < (q + 1) * m" for b m q :: nat
  using dividend_less_div_times[of m b] by (auto simp: algebra_simps intro!: div_nat_eqI)

lemma top_octet:
  fixes a b c d :: nat
  assumes "a < 256" "b < 256" "c < 256" "d < 256"
  shows "a div 16 = 14 \<or> a div 16 = 15 \<or> ((a * 256 + b) * 256 + c) * 256 + d = 4294967295 \<longleftrightarrow> 224 \<le> a"
proof -
  have "a div 16 = 14 \<longleftrightarrow> 224 \<le> a \<and> a < 240" "a div 16 = 15 \<longleftrightarrow> 240 \<le> a"
    using range_div[of 16 a 14] range_div[of 16 a 15] assms(1) by simp_all
  moreover have "((a * 256 + b) * 256 + c) * 256 + d \<noteq> 4294967295" if "a < 240"
  proof -
    have "((a * 256 + b) * 256 + c) * 256 + d < 240 * 256 * 256 * 256"
      using that assms by (intro place_less)
    then show ?thesis by (rule contrapos_pn) simp
  qed
  ultimately show ?thesis by linarith
qed

lemma blocked4_iff: "blocked (V4 x) \<longleftrightarrow> reserved4 (unat x)"
proof -
  have "unat x < 2 ^ 32" using unsigned_less[of x] by simp
  then obtain a b c d where n: "unat x = ((a * 256 + b) * 256 + c) * 256 + d" and
      less: "a < 256" "b < 256" "c < 256" "d < 256" and
      parts: "unat x div 2 ^ 24 = a" "unat x div 2 ^ 16 mod 256 = b" "unat x div 2 ^ 8 mod 256 = c"
    by (rule octets)
  note len = within_lengths[OF n less]
  have rest: "b div 64 < 4" "b div 16 < 16" "b div 2 < 128" using less(2) by simp_all
  have w8: "within4 x (quad i 0 0 0, 8) \<longleftrightarrow> a = i" "within4 x (quad i 0 0 0, 4) \<longleftrightarrow> a div 16 = i div 16" if "i < 256" for i
    using len(1,2)[of i 0 0 0] that by simp_all
  have w16: "within4 x (quad i j 0 0, 16) \<longleftrightarrow> a = i \<and> b = j" if "i < 256" "j < 256" for i j
    using len(6)[of i j 0 0] place[of b 256 j a i] that less(2) by simp
  have w24: "within4 x (quad i j k 0, 24) \<longleftrightarrow> (a = i \<and> b = j) \<and> c = k" if "i < 256" "j < 256" "k < 256" for i j k
    by (simp only: len(7)[OF that, of 0] place[OF less(3) that(3)] place[OF less(2) that(2)])
  have odd: "within4 x (quad 100 64 0 0, 10) \<longleftrightarrow> a = 100 \<and> b div 64 = 1" "within4 x (quad 172 16 0 0, 12) \<longleftrightarrow> a = 172 \<and> b div 16 = 1"
      "within4 x (quad 198 18 0 0, 15) \<longleftrightarrow> a = 198 \<and> b div 2 = 9"
    using len(3)[of 100 64 0 0] place[of "b div 64" 4 1 a 100] len(4)[of 172 16 0 0] place[of "b div 16" 16 1 a 172]
      len(5)[of 198 18 0 0] place[of "b div 2" 128 9 a 198] rest by simp_all
  have last: "within4 x (quad 255 255 255 255, 32) \<longleftrightarrow> unat x = 4294967295"
    using len(8)[of 255 255 255 255] by simp
  have verdict: "list_ex (within4 x) blocked_prefixes4 \<longleftrightarrow>
      a = 0 \<or> a = 10 \<or> a = 100 \<and> b div 64 = 1 \<or> a = 127 \<or> a = 169 \<and> b = 254 \<or> a = 172 \<and> b div 16 = 1 \<or>
      (a = 192 \<and> b = 0) \<and> c = 0 \<or> (a = 192 \<and> b = 0) \<and> c = 2 \<or> (a = 192 \<and> b = 88) \<and> c = 99 \<or>
      a = 192 \<and> b = 168 \<or> a = 198 \<and> b div 2 = 9 \<or> (a = 198 \<and> b = 51) \<and> c = 100 \<or>
      (a = 203 \<and> b = 0) \<and> c = 113 \<or> a div 16 = 14 \<or> a div 16 = 15 \<or> unat x = 4294967295"
    by (simp add: blocked_prefixes4_def w8 w16 w24 odd last)
  have top: "a div 16 = 14 \<or> a div 16 = 15 \<or> unat x = 4294967295 \<longleftrightarrow> 224 \<le> a"
    using top_octet[OF less] unfolding n .
  have bits: "b div 64 = 1 \<longleftrightarrow> 64 \<le> b \<and> b < 128" "b div 16 = 1 \<longleftrightarrow> 16 \<le> b \<and> b < 32" "b div 2 = 9 \<longleftrightarrow> 18 \<le> b \<and> b < 20"
    using range_div[of 64 b 1] range_div[of 16 b 1] range_div[of 2 b 9] by simp_all
  show ?thesis
    unfolding blocked_def reserved4_def Let_def parts addr.case verdict bits top
    by (simp only: insert_iff empty_iff conj_disj_distribL conj_assoc disj_assoc simp_thms)
      (rule iffI; elim disjE conjE; simp)
qed

subsection \<open>What the guard lets through\<close>

definition mapped :: "32 word \<Rightarrow> 128 word" where
  "mapped a = push_bit 32 0xffff OR ucast a"

lemma mapped_is_4in6: "is_4in6 (mapped a)"
proof -
  have "drop_bit 32 (ucast a :: 128 word) = 0"
    by (rule bit_word_eqI) (auto simp: bit_drop_bit_eq bit_ucast_iff dest: bit_imp_le_length)
  moreover have "drop_bit 32 (push_bit 32 (0xffff :: 128 word)) = 0xffff" by simp
  ultimately show ?thesis by (simp only: is_4in6_def mapped_def drop_bit_or or.right_neutral)
qed

lemma mapped_back: "ucast (mapped a) = a"
proof (rule bit_word_eqI)
  fix n
  assume "n < LENGTH(32)"
  then show "bit (ucast (mapped a) :: 32 word) n \<longleftrightarrow> bit a n"
    unfolding mapped_def bit_ucast_iff bit_or_iff bit_push_bit_iff by auto
qed

text \<open>The addresses the guard is to permit, by their octets.\<close>

definition permitted :: "addr \<Rightarrow> bool" where
  "permitted x = (case x of NoAddr \<Rightarrow> False | V4 b \<Rightarrow> \<not> reserved4 (unat b)
     | V6 b zone \<Rightarrow> if is_4in6 b then \<not> reserved4 (unat (ucast b :: 32 word))
         else \<not> (zone = [] \<and> list_ex (within6 b) blocked_prefixes6))"

lemma allowed_permitted: "addr_allowed (new_guard False) x = permitted x"
  by (cases x) (simp_all add: addr_allowed_def new_guard_def unmap_addr_def permitted_def blocked4_iff[symmetric] blocked_def)

text \<open>C39. With private destinations forbidden the guard lets a connection through exactly when it is
  TCP to an address outside the reserved IPv4 ranges, given as octets, or to an IPv6 address outside
  the IPv6 prefixes; the mapped form of an IPv4 address gets the verdict of the plain one. But an
  IPv6 address that carries a zone is in no prefix: loopback with a zone is let through.\<close>

theorem guard_verdicts:
  "(dial_control nm (new_guard False) network address = Inr () \<longleftrightarrow> network \<in> {''tcp'', ''tcp4'', ''tcp6''} \<and>
     (\<exists>host port x. nm_split nm address = Some (host, port) \<and> nm_addr nm host = Some x \<and> permitted x)) \<and>
   addr_allowed g (V6 (mapped a) zone) = addr_allowed g (V4 a) \<and>
   permitted (V6 1 ''lo'') \<and> \<not> permitted (V6 1 []) \<and> \<not> permitted (V4 (quad 127 0 0 1))"
proof (intro conjI)
  show "dial_control nm (new_guard False) network address = Inr () \<longleftrightarrow> network \<in> {''tcp'', ''tcp4'', ''tcp6''} \<and>
     (\<exists>host port x. nm_split nm address = Some (host, port) \<and> nm_addr nm host = Some x \<and> permitted x)"
    by (auto simp: dial_control_def allowed_permitted split: if_splits option.splits)
  show "addr_allowed g (V6 (mapped a) zone) = addr_allowed g (V4 a)"
    by (simp add: addr_allowed_def unmap_addr_def mapped_is_4in6 mapped_back)
qed (simp_all add: permitted_def is_4in6_def blocked_prefixes6_def within6_def reserved4_def quad_def)

end
