(* ===== verification/Sender.thy ===== *)
theory Sender
  imports Worker Keys Netsafe
begin

text \<open>
  The HTTP call of a delivery, \<open>internal/delivery/sender.go\<close>: the \<open>send\<close> argument of the worker.
  The transport - the round trip with the dialer's check of each address, the encoder of JSON, the
  MAC, and whether \<open>net/http\<close> accepts a URL - is a record of functions on the outside world.
  Redirects are not followed: the answer of the first request is the result.
\<close>

record http_request =
  hr_method :: string
  hr_url :: string
  hr_headers :: "(string \<times> string) list"
  hr_body :: string

record 'g transport =
  tp_do :: "(string \<Rightarrow> string \<Rightarrow> error + unit) \<Rightarrow> duration \<Rightarrow> http_request \<Rightarrow> ('g, error, int \<times> string) op"
  tp_url_ok :: "string \<Rightarrow> bool"
  tp_encode :: "payload \<Rightarrow> string"
  tp_mac :: "string \<Rightarrow> string \<Rightarrow> string"
  tp_clock :: "'g \<Rightarrow> time"

record http_sender =
  hs_guard :: guard
  hs_timeout :: duration
  hs_user_agent :: string

definition new_sender :: "guard \<Rightarrow> duration \<Rightarrow> string \<Rightarrow> http_sender" where
  "new_sender g timeout agent = \<lparr>hs_guard = g,
     hs_timeout = (if timeout \<le> 0 then 15 * second else timeout),
     hs_user_agent = (if agent = [] then ''PayMux-Webhook/1.0'' else agent)\<rparr>"

definition max_response_snippet :: nat where "max_response_snippet = 2000"

definition webhook_request :: "'g transport \<Rightarrow> http_sender \<Rightarrow> int \<Rightarrow> send_request \<Rightarrow> http_request" where
  "webhook_request tp s timestamp req =
     (let body = tp_encode tp (sq_body req) in
      \<lparr>hr_method = ''POST'', hr_url = sq_url req,
       hr_headers = [(''Content-Type'', ''application/json; charset=utf-8''), (''User-Agent'', hs_user_agent s),
         (''Accept'', ''application/json''), (''PayMux-Event-Id'', sq_event_id req),
         (''PayMux-Delivery-Id'', sq_delivery_id req), (''PayMux-Event-Type'', sq_event_type req),
         (''PayMux-Timestamp'', format_int timestamp),
         (''PayMux-Signature'', sign_webhook (tp_mac tp) (sq_secret req) timestamp (sq_delivery_id req) body),
         (''PayMux-Attempt'', format_int (sq_attempt_number req))],
       hr_body = body\<rparr>)"

definition no_answer :: "duration \<Rightarrow> error \<Rightarrow> send_result" where
  "no_answer t e = \<lparr>sr_status_code = 0, sr_duration = t, sr_response_body = [], sr_error = Some e\<rparr>"

definition send_http :: "'g transport \<Rightarrow> names \<Rightarrow> http_sender \<Rightarrow> 'g sender" where
  "send_http tp nm s req g =
     (if \<not> tp_url_ok tp (sq_url req) then (no_answer 0 (OtherError ''delivery: build request''), g)
      else case tp_do tp (dial_control nm (hs_guard s)) (hs_timeout s)
             (webhook_request tp s (go_quot (tp_clock tp g - unix_epoch) second) req) g of
        (Inl e, g') \<Rightarrow> (no_answer (tp_clock tp g' - tp_clock tp g) e, g')
      | (Inr (status, text), g') \<Rightarrow>
          (\<lparr>sr_status_code = status, sr_duration = tp_clock tp g' - tp_clock tp g,
            sr_response_body = take max_response_snippet text, sr_error = None\<rparr>, g'))"

subsection \<open>What a signature binds\<close>

definition header_of :: "string \<Rightarrow> http_request \<Rightarrow> string" where
  "header_of n r = coalesce (map_of (hr_headers r) n) []"

text \<open>Where the MAC is injective in the payload, two requests under one secret with the same signature
  carry the same moment, delivery and body; a receiver that checks the three headers cannot be given a
  body under another delivery.\<close>

lemma signature_binds:
  assumes "inj (tp_mac tp secret)" "sq_secret p = secret" "sq_secret q = secret"
    and "CHR ''.'' \<notin> set (sq_delivery_id p)" "CHR ''.'' \<notin> set (sq_delivery_id q)"
    and "header_of ''PayMux-Signature'' (webhook_request tp s t p) = header_of ''PayMux-Signature'' (webhook_request tp s' u q)"
  shows "t = u \<and> sq_delivery_id p = sq_delivery_id q \<and>
    hr_body (webhook_request tp s t p) = hr_body (webhook_request tp s' u q)"
proof -
  have "tp_mac tp secret (signing_payload t (sq_delivery_id p) (tp_encode tp (sq_body p))) =
      tp_mac tp secret (signing_payload u (sq_delivery_id q) (tp_encode tp (sq_body q)))"
    using assms(2,3,6) by (simp add: header_of_def webhook_request_def Let_def sign_webhook_def coalesce_def)
  then show ?thesis
    using signing_payload_inject[OF assms(4,5)] assms(1) by (auto simp: webhook_request_def Let_def dest: injD)
qed

lemma snippet_bounded: "send_http tp nm s req g = (r, h) \<Longrightarrow> length (sr_response_body r) \<le> 2000"
  by (auto simp: send_http_def no_answer_def max_response_snippet_def split: if_splits prod.splits sum.splits)

end
