(* ===== verification/Application.thy ===== *)
theory Application
  imports Delivery Keys Netsafe
begin

text \<open>
  Package \<open>internal/application\<close>: the tenants, their API keys and their webhook destinations.
  Sealing keeps a secret as it is: the store holds the plaintext, as for the gateway accounts. The
  hash of a key and the resolver behind the guard are parameters, the bytes of \<open>crypto/rand\<close> are
  the next draw of the world. Text is ASCII, so \<open>unicode.IsLetter\<close> is the ASCII one.
\<close>

subsection \<open>Model\<close>

definition application_active :: "application \<Rightarrow> bool" where
  "application_active a \<longleftrightarrow> app_disabled_at a = None"

definition key_usable :: "time \<Rightarrow> api_key \<Rightarrow> bool" where
  "key_usable t k \<longleftrightarrow> ak_revoked_at k = None \<and> (case ak_expires_at k of None \<Rightarrow> True | Some e \<Rightarrow> t < e)"

definition err_slug_taken :: error where "err_slug_taken = OtherError ''application: slug is already in use''"

definition err_disabled :: error where "err_disabled = OtherError ''application: application is disabled''"

definition err_key_not_usable :: error where
  "err_key_not_usable = OtherError ''application: api key is revoked or expired''"

definition err_destination :: "error \<Rightarrow> error" where
  "err_destination e = Wrap ''application: destination URL is not permitted'' (OtherError (error_text e))"

subsection \<open>Applications\<close>

abbreviation set_applications :: "application list \<Rightarrow> db \<Rightarrow> db" where
  "set_applications rows d \<equiv> d\<lparr>applications := rows\<rparr>"

definition application_constraints :: "application constraint list" where
  "application_constraints = [(''applications_pkey'', \<lambda>a x. app_id a = app_id x),
     (''applications_slug_key'', \<lambda>a x. to_lower (app_slug a) = to_lower (app_slug x))]"

text \<open>The foreign key of \<open>gateway_account_id\<close>.\<close>

definition account_known :: "string \<Rightarrow> db \<Rightarrow> bool" where
  "account_known i d \<longleftrightarrow> i = [] \<or> list_ex (\<lambda>a. acc_id a = i) (accounts d)"

definition fkey_error :: error where "fkey_error = OtherError ''applications_gateway_account_id_fkey''"

definition create_application :: "application \<Rightarrow> ('g, application) routine" where
  "create_application a =
     bindE (if app_id a = [] then fresh_id ''app'' else succeed (app_id a)) (\<lambda>i.
     bindE (gets now) (\<lambda>t. run_stmt (\<lambda>d.
       let row = a\<lparr>app_id := i, app_disabled_at := None, app_payout_enabled := False,
             app_payout_requires_approval := True, app_payout_max_amount := None,
             app_payout_daily_limit := None, app_created_at := t, app_updated_at := t\<rparr>
       in case violated application_constraints row (applications d) of
            Some name \<Rightarrow> Inl (UniqueViolation name)
          | None \<Rightarrow> if account_known (app_gateway_account_id a) d
              then Inr (row, set_applications (applications d @ [row]) d) else Inl fkey_error)))"

definition get_application :: "string \<Rightarrow> ('g, application) routine" where
  "get_application i = query_row (\<lambda>d. List.find (\<lambda>a. app_id a = i) (applications d))"

definition get_application_by_slug :: "string \<Rightarrow> ('g, application) routine" where
  "get_application_by_slug slug =
     query_row (\<lambda>d. List.find (\<lambda>a. to_lower (app_slug a) = to_lower slug) (applications d))"

definition list_applications :: "page \<Rightarrow> ('g, application listing) routine" where
  "list_applications p = query (\<lambda>d. new_list (keyset_rows app_id (\<lambda>_. True) p (applications d)) p)"

record application_update =
  apu_name :: "string option"
  apu_description :: "string option"
  apu_gateway_account_id :: "string option"
  apu_metadata :: "jmap option"
  apu_disabled :: "bool option"

definition updated_application :: "application_update \<Rightarrow> time \<Rightarrow> application \<Rightarrow> application" where
  "updated_application u t a = a\<lparr>
     app_name := coalesce (apu_name u) (app_name a),
     app_description := coalesce (apu_description u) (app_description a),
     app_gateway_account_id := coalesce (apu_gateway_account_id u) (app_gateway_account_id a),
     app_metadata := coalesce (apu_metadata u) (app_metadata a),
     app_disabled_at := (case apu_disabled u of None \<Rightarrow> app_disabled_at a
       | Some True \<Rightarrow> Some (coalesce (app_disabled_at a) t) | Some False \<Rightarrow> None),
     app_updated_at := t\<rparr>"

definition update_application :: "string \<Rightarrow> application_update \<Rightarrow> ('g, application) routine" where
  "update_application i u = bindE (gets now) (\<lambda>t. one_row (run_stmt (\<lambda>d.
     let rows = filter (\<lambda>a. app_id a = i) (applications d) in
     if rows \<noteq> [] \<and> \<not> account_known (coalesce (apu_gateway_account_id u) []) d then Inl fkey_error
     else Inr (first_row (map (updated_application u t) rows),
       set_applications (map (\<lambda>a. if app_id a = i then updated_application u t a else a) (applications d)) d))))"

subsection \<open>API keys\<close>

abbreviation set_api_keys :: "api_key list \<Rightarrow> db \<Rightarrow> db" where
  "set_api_keys rows d \<equiv> d\<lparr>api_keys := rows\<rparr>"

definition api_key_checks :: "api_key check list" where
  "api_key_checks = [(''application_api_keys_mode_check'', \<lambda>k. key_mode_valid (ak_mode k))]"

definition api_key_constraints :: "api_key constraint list" where
  "api_key_constraints = [(''application_api_keys_pkey'', \<lambda>k x. ak_id k = ak_id x),
     (''application_api_keys_key_hash_key'', \<lambda>k x. ak_hash k = ak_hash x)]"

definition create_api_key :: "api_key \<Rightarrow> string \<Rightarrow> ('g, api_key) routine" where
  "create_api_key k hash =
     bindE (if ak_id k = [] then fresh_id ''key'' else succeed (ak_id k)) (\<lambda>i.
     bindE (gets now) (\<lambda>t. insert_checked api_key_checks api_key_constraints api_keys set_api_keys
       (k\<lparr>ak_id := i, ak_hash := hash, ak_last_used_at := None, ak_revoked_at := None, ak_created_at := t\<rparr>)))"

definition authenticated_key :: "string \<Rightarrow> db \<Rightarrow> (application \<times> api_key) option" where
  "authenticated_key hash d = (case List.find (\<lambda>k. ak_hash k = hash) (api_keys d) of
     None \<Rightarrow> None
   | Some k \<Rightarrow> map_option (\<lambda>a. (a, k)) (List.find (\<lambda>a. app_id a = ak_application_id k) (applications d)))"

definition authenticate_api_key :: "string \<Rightarrow> ('g, application \<times> api_key) routine" where
  "authenticate_api_key hash = query_row (authenticated_key hash)"

definition key_touched :: "string \<Rightarrow> time \<Rightarrow> api_key \<Rightarrow> api_key" where
  "key_touched i t k = (if ak_id k = i \<and> (case ak_last_used_at k of None \<Rightarrow> True | Some u \<Rightarrow> u < t - minute)
     then k\<lparr>ak_last_used_at := Some t\<rparr> else k)"

definition touch_api_key_used :: "string \<Rightarrow> ('g, unit) routine" where
  "touch_api_key_used i = bindE (gets now) (\<lambda>t.
     exec_stmt (\<lambda>d. set_api_keys (map (key_touched i t) (api_keys d)) d))"

definition list_api_keys :: "string \<Rightarrow> ('g, api_key list) routine" where
  "list_api_keys a = query (\<lambda>d. order_desc ak_id (filter (\<lambda>k. ak_application_id k = a) (api_keys d)))"

definition revoke_api_key :: "string \<Rightarrow> string \<Rightarrow> ('g, api_key) routine" where
  "revoke_api_key a i = bindE (gets now) (\<lambda>t.
     update_one api_keys set_api_keys (\<lambda>k. ak_id k = i \<and> ak_application_id k = a)
       (\<lambda>k. k\<lparr>ak_revoked_at := Some (coalesce (ak_revoked_at k) t)\<rparr>))"

subsection \<open>Destinations\<close>

abbreviation set_destinations :: "destination list \<Rightarrow> db \<Rightarrow> db" where
  "set_destinations rows d \<equiv> d\<lparr>destinations := rows\<rparr>"

definition create_destination :: "destination \<Rightarrow> ('g, destination) routine" where
  "create_destination x =
     bindE (if ds_id x = [] then fresh_id ''dst'' else succeed (ds_id x)) (\<lambda>i.
     bindE (gets now) (\<lambda>t. insert_row [(''webhook_destinations_pkey'', \<lambda>a b. ds_id a = ds_id b)] destinations
       set_destinations (x\<lparr>ds_id := i, ds_created_at := t, ds_updated_at := t\<rparr>)))"

definition list_destinations :: "string \<Rightarrow> ('g, destination list) routine" where
  "list_destinations a = query (\<lambda>d. sort_key ds_id (filter (\<lambda>x. ds_application_id x = a) (destinations d)))"

record destination_update =
  du_url :: "string option"
  du_description :: "string option"
  du_event_types :: "string list option"
  du_enabled :: "bool option"
  du_secret :: string

definition updated_destination :: "destination_update \<Rightarrow> time \<Rightarrow> destination \<Rightarrow> destination" where
  "updated_destination u t x = x\<lparr>
     ds_url := coalesce (du_url u) (ds_url x),
     ds_description := coalesce (du_description u) (ds_description x),
     ds_event_types := coalesce (du_event_types u) (ds_event_types x),
     ds_enabled := coalesce (du_enabled u) (ds_enabled x),
     ds_secret := keep_unless (du_secret u) (ds_secret x),
     ds_updated_at := t\<rparr>"

definition update_destination :: "string \<Rightarrow> string \<Rightarrow> destination_update \<Rightarrow> ('g, destination) routine" where
  "update_destination a i u = bindE (gets now) (\<lambda>t.
     update_one destinations set_destinations (\<lambda>x. ds_id x = i \<and> ds_application_id x = a) (updated_destination u t))"

text \<open>\<open>DELETE\<close> with its cascade to the deliveries and their attempts.\<close>

definition remove_destination :: "string \<Rightarrow> string \<Rightarrow> db \<Rightarrow> db" where
  "remove_destination a i d =
     (if list_ex (\<lambda>x. ds_id x = i \<and> ds_application_id x = a) (destinations d)
      then let gone = map dl_id (filter (\<lambda>x. dl_destination_id x = i) (deliveries d)) in
        d\<lparr>destinations := filter (\<lambda>x. \<not> (ds_id x = i \<and> ds_application_id x = a)) (destinations d),
          deliveries := filter (\<lambda>x. dl_destination_id x \<noteq> i) (deliveries d),
          attempts := filter (\<lambda>x. at_delivery_id x \<notin> set gone) (attempts d)\<rparr>
      else d)"

definition delete_destination :: "string \<Rightarrow> string \<Rightarrow> ('g, unit) routine" where
  "delete_destination a i =
     bindE (run_stmt (\<lambda>d. Inr (list_ex (\<lambda>x. ds_id x = i \<and> ds_application_id x = a) (destinations d), remove_destination a i d)))
       (\<lambda>found. if found then succeed () else throw NotFound)"

subsection \<open>Slugs\<close>

definition slug_char :: "char \<Rightarrow> bool" where
  "slug_char c \<longleftrightarrow> (let n = (of_char c :: nat) in (97 \<le> n \<and> n \<le> 122) \<or> (48 \<le> n \<and> n \<le> 57))"

text \<open>The loop of \<open>Slugify\<close>; the flag is \<open>lastDash\<close>.\<close>

fun slug_loop :: "bool \<Rightarrow> string \<Rightarrow> string" where
  "slug_loop last_dash [] = []"
| "slug_loop last_dash (c # cs) =
     (if slug_char c then c # slug_loop False cs
      else if \<not> last_dash then CHR ''-'' # slug_loop True cs
      else slug_loop last_dash cs)"

definition slugify :: "string \<Rightarrow> string" where
  "slugify name = trim_both (\<lambda>c. c = CHR ''-'') (slug_loop True (to_lower (trim_space name)))"

definition slug_pattern :: "string \<Rightarrow> bool" where
  "slug_pattern s \<longleftrightarrow> list_all (\<lambda>w. w \<noteq> [] \<and> list_all slug_char w) (split_on (CHR ''-'') s)"

definition validate_slug :: "string \<Rightarrow> error + unit" where
  "validate_slug slug =
     (if slug = [] then Inl (Validation ''slug'' ''must not be empty'')
      else if 64 < length slug then Inl (Validation ''slug'' ''must be at most 64 characters'')
      else if \<not> slug_pattern slug
        then Inl (Validation ''slug'' ''must contain only lowercase letters, digits and single hyphens'')
      else Inr ())"

subsection \<open>The service\<close>

definition random_bytes :: "('g, 8 word list) routine" where
  "random_bytes w = (Inr (entropy w (draws w)), w\<lparr>draws := draws w + 1\<rparr>)"

record create_application_input =
  cai_name :: string
  cai_slug :: string
  cai_description :: string
  cai_gateway_account_id :: string
  cai_metadata :: jmap

definition slug_taken :: "('g, 'a) routine \<Rightarrow> ('g, 'a) routine" where
  "slug_taken m = catchE m
     (\<lambda>e. if is_unique_violation e [''applications_slug_key''] then throw err_slug_taken else throw e) succeed"

definition service_create_application :: "create_application_input \<Rightarrow> ('g, application) routine" where
  "service_create_application ci =
     (let name = trim_space (cai_name ci); given = trim_space (cai_slug ci);
          slug = (if given = [] then slugify name else given) in
      if name = [] then throw (Validation ''name'' ''must not be empty'')
      else if 120 < length name then throw (Validation ''name'' ''must be at most 120 characters'')
      else bindE (lift_result (validate_slug slug)) (\<lambda>_.
        if 1000 < length (cai_description ci)
          then throw (Validation ''description'' ''must be at most 1000 characters'')
        else slug_taken (create_application (zero_application\<lparr>app_name := name, app_slug := slug,
          app_description := trim_space (cai_description ci),
          app_gateway_account_id := cai_gateway_account_id ci, app_metadata := cai_metadata ci\<rparr>))))"

definition service_update_application :: "string \<Rightarrow> application_update \<Rightarrow> ('g, application) routine" where
  "service_update_application i u = (case apu_name u of
     Some n \<Rightarrow> if trim_space n = [] then throw (Validation ''name'' ''must not be empty'')
       else slug_taken (update_application i (u\<lparr>apu_name := Some (trim_space n)\<rparr>))
   | None \<Rightarrow> slug_taken (update_application i u))"

definition issue_api_key ::
  "(string \<Rightarrow> string) \<Rightarrow> string \<Rightarrow> string \<Rightarrow> key_mode \<Rightarrow> time option \<Rightarrow> ('g, api_key \<times> string) routine" where
  "issue_api_key hash a name m expires_at =
     (if \<not> key_mode_valid m then throw (Validation ''mode'' ''must be live or test'')
      else bindE (gets now) (\<lambda>t.
        if (case expires_at of None \<Rightarrow> False | Some e \<Rightarrow> e \<le> t)
          then throw (Validation ''expires_at'' ''must be in the future'')
        else bindE (get_application a) (\<lambda>_.
          bindE random_bytes (\<lambda>buf. case generate_api_key hash m buf of
              Inl e \<Rightarrow> throw (OtherError e)
            | Inr g \<Rightarrow>
                bindE (create_api_key (zero_api_key\<lparr>ak_application_id := a, ak_name := trim_space name, ak_mode := m,
                    ak_display_prefix := gk_display_prefix g, ak_expires_at := expires_at\<rparr>) (gk_hash g)) (\<lambda>k.
                succeed (k, gk_plaintext g))))))"

definition authenticate :: "(string \<Rightarrow> string) \<Rightarrow> string \<Rightarrow> ('g, application \<times> api_key) routine" where
  "authenticate hash plaintext = (case parse_api_key_mode plaintext of
     Inl _ \<Rightarrow> throw err_key_not_usable
   | Inr _ \<Rightarrow>
       catchE (authenticate_api_key (hash plaintext))
         (\<lambda>e. if is_not_found e then throw err_key_not_usable else throw e)
         (\<lambda>(a, k). bindE (gets now) (\<lambda>t.
            if \<not> key_usable t k then throw err_key_not_usable
            else if \<not> application_active a then throw err_disabled
            else bindE (ignore_error (touch_api_key_used (ak_id k))) (\<lambda>_. succeed (a, k)))))"

record create_destination_input =
  cdi_url :: string
  cdi_description :: string
  cdi_event_types :: "string list"
  cdi_enabled :: "bool option"

definition permitted_url :: "names \<Rightarrow> guard \<Rightarrow> string \<Rightarrow> error + unit" where
  "permitted_url nm g u = (case guard_validate nm g u of Inl e \<Rightarrow> Inl (err_destination e) | Inr _ \<Rightarrow> Inr ())"

definition service_create_destination ::
  "names \<Rightarrow> guard \<Rightarrow> string \<Rightarrow> create_destination_input \<Rightarrow> ('g, destination) routine" where
  "service_create_destination nm g a ci =
     (let u = trim_space (cdi_url ci) in
      if u = [] then throw (Validation ''url'' ''must not be empty'')
      else bindE (lift_result (permitted_url nm g u)) (\<lambda>_.
        bindE (get_application a) (\<lambda>_.
        bindE random_bytes (\<lambda>buf.
        create_destination (zero_destination\<lparr>ds_application_id := a, ds_url := u,
          ds_description := trim_space (cdi_description ci), ds_secret := generate_webhook_secret buf,
          ds_event_types := cdi_event_types ci, ds_enabled := coalesce (cdi_enabled ci) True\<rparr>)))))"

definition service_update_destination ::
  "names \<Rightarrow> guard \<Rightarrow> string \<Rightarrow> string \<Rightarrow> destination_update \<Rightarrow> ('g, destination) routine" where
  "service_update_destination nm g a i u = (case du_url u of
     None \<Rightarrow> update_destination a i u
   | Some raw \<Rightarrow> bindE (lift_result (permitted_url nm g (trim_space raw))) (\<lambda>_.
       update_destination a i (u\<lparr>du_url := Some (trim_space raw)\<rparr>)))"

definition rotate_destination_secret :: "string \<Rightarrow> string \<Rightarrow> ('g, destination) routine" where
  "rotate_destination_secret a i = bindE random_bytes (\<lambda>buf.
     update_destination a i \<lparr>du_url = None, du_description = None, du_event_types = None, du_enabled = None,
       du_secret = generate_webhook_secret buf\<rparr>)"


subsection \<open>A slug made from a name\<close>

lemma slug_char_not_dash: "slug_char c \<Longrightarrow> c \<noteq> CHR ''-''"
  by (auto simp: slug_char_def)

text \<open>No dash doubled, none first after a dash: what the loop writes after the flag.\<close>

fun single_dashes :: "bool \<Rightarrow> string \<Rightarrow> bool" where
  "single_dashes last_dash [] \<longleftrightarrow> True"
| "single_dashes last_dash (c # cs) \<longleftrightarrow>
     (if c = CHR ''-'' then \<not> last_dash \<and> single_dashes True cs else slug_char c \<and> single_dashes False cs)"

lemma slug_loop_single: "single_dashes b (slug_loop b s)"
  by (induction b s rule: slug_loop.induct) (auto dest: slug_char_not_dash)

lemma single_dashes_weaken: "single_dashes True s \<Longrightarrow> single_dashes False s"
  by (cases s) (auto split: if_splits)

lemma single_dashes_append: "single_dashes b (s @ t) \<Longrightarrow> single_dashes b s"
  by (induction b s rule: single_dashes.induct) (auto split: if_splits)

lemma single_dashes_drop: "single_dashes b s \<Longrightarrow> single_dashes True (dropWhile (\<lambda>c. c = CHR ''-'') s)"
  by (induction b s rule: single_dashes.induct) (auto split: if_splits)

lemma single_dashes_words:
  "single_dashes b s \<Longrightarrow> s = [] \<or> last s \<noteq> CHR ''-'' \<Longrightarrow>
   \<exists>w ws. split_on (CHR ''-'') s = w # ws \<and> list_all slug_char w \<and> (b \<and> s \<noteq> [] \<longrightarrow> w \<noteq> []) \<and>
     list_all (\<lambda>v. v \<noteq> [] \<and> list_all slug_char v) ws"
proof (induction b s rule: single_dashes.induct)
  case (2 b c cs)
  show ?case
  proof (cases "c = CHR ''-''")
    case True
    then have cs: "cs \<noteq> []" "single_dashes True cs" "\<not> b" using 2(3,4) by auto
    then show ?thesis using 2(1)[OF True] 2(4) True by auto
  next
    case False
    then show ?thesis using 2(2)[OF False] 2(3,4) by (cases cs) auto
  qed
qed simp

lemma single_dashes_pattern:
  "single_dashes True s \<Longrightarrow> s \<noteq> [] \<Longrightarrow> last s \<noteq> CHR ''-'' \<Longrightarrow> slug_pattern s"
  using single_dashes_words[of True s] by (auto simp: slug_pattern_def)

lemma slugify_valid: "slugify name \<noteq> [] \<Longrightarrow> slug_pattern (slugify name)"
proof -
  assume ne: "slugify name \<noteq> []"
  let ?d = "\<lambda>c. c = CHR ''-''"
  let ?s = "slug_loop True (to_lower (trim_space name))"
  have s: "slugify name = rev (dropWhile ?d (rev (dropWhile ?d ?s)))" by (simp add: slugify_def trim_both_def)
  have "rev (takeWhile ?d (rev (dropWhile ?d ?s)) @ dropWhile ?d (rev (dropWhile ?d ?s))) = dropWhile ?d ?s" by simp
  then have "single_dashes True (slugify name @ rev (takeWhile ?d (rev (dropWhile ?d ?s))))"
    unfolding s rev_append using single_dashes_drop[OF slug_loop_single, of True] by simp
  then have "single_dashes True (slugify name)" by (rule single_dashes_append)
  moreover have "last (slugify name) \<noteq> CHR ''-''"
    using ne hd_dropWhile[of ?d "rev (dropWhile ?d ?s)"] unfolding s by (simp add: last_rev)
  ultimately show ?thesis using ne by (intro single_dashes_pattern)
qed

subsection \<open>Revocation is final\<close>

definition dead :: "string \<Rightarrow> db \<Rightarrow> bool" where
  "dead h d \<longleftrightarrow> distinct (map ak_hash (api_keys d)) \<and>
     (\<exists>k \<in> set (api_keys d). ak_hash k = h \<and> ak_revoked_at k \<noteq> None)"

definition dead_rel :: "string \<Rightarrow> db \<Rightarrow> db \<Rightarrow> bool" where
  "dead_rel h d e \<longleftrightarrow> (dead h d \<longrightarrow> dead h e)"

interpretation revoked: db_evolution "dead_rel h" for h
  by unfold_locales (auto simp: dead_rel_def)

lemma dead_same: "api_keys e = api_keys d \<Longrightarrow> dead_rel h d e"
  by (simp add: dead_rel_def dead_def)

lemma dead_map:
  assumes "\<And>k. ak_hash (f k) = ak_hash k \<and> (ak_revoked_at k \<noteq> None \<longrightarrow> ak_revoked_at (f k) \<noteq> None)"
  shows "dead_rel h d (set_api_keys (map f (api_keys d)) d)"
  using assms by (auto simp: dead_rel_def dead_def comp_def)

lemma dead_append:
  "violated api_key_constraints k (api_keys d) = None \<Longrightarrow> dead_rel h d (set_api_keys (api_keys d @ [k]) d)"
  by (auto simp: dead_rel_def dead_def violated_None api_key_constraints_def)

lemma revoked_create_application: "revoked.safe h (create_application a)"
  unfolding create_application_def
  by (intro revoked.safe_intros revoked.safe_run_stmt) (auto simp: Let_def intro: dead_same split: option.splits if_splits)

lemma revoked_update_application: "revoked.safe h (update_application i u)"
  unfolding update_application_def
  by (intro revoked.safe_intros revoked.safe_one_row revoked.safe_run_stmt)
    (auto simp: Let_def intro: dead_same split: if_splits)

lemma revoked_create_key: "revoked.safe h (create_api_key k s)"
  unfolding create_api_key_def by (intro revoked.safe_intros revoked.safe_insert_checked dead_append)

lemma revoked_touch: "revoked.safe h (touch_api_key_used i)"
  unfolding touch_api_key_used_def
  by (intro revoked.safe_intros revoked.safe_exec dead_map) (simp add: key_touched_def)

lemma revoked_revoke: "revoked.safe h (revoke_api_key a i)"
  unfolding revoke_api_key_def
  by (intro revoked.safe_intros revoked.safe_update_one dead_map) simp

lemma revoked_reads:
  "revoked.safe h (get_application i)" "revoked.safe h (authenticate_api_key hk)" "revoked.safe h (list_applications p)"
  "revoked.safe h (list_api_keys i)" "revoked.safe h (list_destinations i)" "revoked.safe h (get_destination i j)"
  unfolding get_application_def authenticate_api_key_def list_applications_def list_api_keys_def list_destinations_def
    get_destination_def
  by (intro revoked.safe_intros)+

lemma revoked_random: "revoked.safe h random_bytes"
  by (rule revoked.ev.evolvesI) (simp add: random_bytes_def revoked.R_def dead_rel_def)

lemma revoked_destinations:
  "revoked.safe h (create_destination x)" "revoked.safe h (update_destination a i u)" "revoked.safe h (delete_destination a i)"
  unfolding create_destination_def update_destination_def delete_destination_def
  by (intro revoked.safe_intros revoked.safe_insert_row revoked.safe_update_one revoked.safe_run_stmt;
      auto simp: remove_destination_def Let_def intro: dead_same)+

text \<open>The operations on applications, their keys and destinations, each one step from a world to the
  next, whatever it returns.\<close>

inductive app_step :: "(string \<Rightarrow> string) \<Rightarrow> names \<Rightarrow> guard \<Rightarrow> 'g world \<Rightarrow> 'g world \<Rightarrow> bool"
  for hash :: "string \<Rightarrow> string" and nm :: names and g :: guard where
  create: "app_step hash nm g w (snd (service_create_application ci w))"
| update: "app_step hash nm g w (snd (service_update_application i u w))"
| issue: "app_step hash nm g w (snd (issue_api_key hash a name m expires w))"
| revoke: "app_step hash nm g w (snd (revoke_api_key a i w))"
| authenticate: "app_step hash nm g w (snd (authenticate hash plaintext w))"
| add: "app_step hash nm g w (snd (service_create_destination nm g a di w))"
| change: "app_step hash nm g w (snd (service_update_destination nm g a i du w))"
| rotate: "app_step hash nm g w (snd (rotate_destination_secret a i w))"
| remove: "app_step hash nm g w (snd (delete_destination a i w))"

lemmas revoked_intros = revoked.safe_intros revoked_reads revoked_random revoked_destinations revoked_create_application
  revoked_update_application revoked_create_key revoked_touch revoked_revoke

lemma revoked_services:
  "revoked.safe h (service_create_application ci)" "revoked.safe h (service_update_application i u)"
  "revoked.safe h (issue_api_key hash a name m expires)" "revoked.safe h (authenticate hash plaintext)"
  "revoked.safe h (service_create_destination nm g a di)" "revoked.safe h (service_update_destination nm g a i du)"
  "revoked.safe h (rotate_destination_secret a i)"
  unfolding service_create_application_def service_update_application_def issue_api_key_def authenticate_def Let_def
    service_create_destination_def service_update_destination_def rotate_destination_secret_def slug_taken_def
  by (intro revoked_intros)+

lemma revoked_step: "app_step hash nm g w v \<Longrightarrow> dead_rel h (db w) (db v)"
  by (induction rule: app_step.induct)
    (rule revoked.safe_db, (rule revoked_services | rule revoked_revoke | rule revoked_destinations))+

lemma revoked_steps: "(app_step hash nm g)\<^sup>*\<^sup>* w v \<Longrightarrow> dead_rel h (db w) (db v)"
proof (induction rule: rtranclp_induct)
  case (step u v)
  then show ?case using revoked_step[OF step(2), of h] by (auto simp: dead_rel_def)
qed (simp add: dead_rel_def)

lemma dead_refused:
  assumes "dead (hash plaintext) (db w)"
  shows "\<exists>e. fst (authenticate hash plaintext w) = Inl e"
proof (cases "parse_api_key_mode plaintext")
  case (Inr m)
  obtain r v where q: "authenticate_api_key (hash plaintext) w = (r, v)" by fastforce
  show ?thesis
  proof (cases r)
    case (Inr ak)
    obtain a k where ak: "ak = (a, k)" by fastforce
    have "authenticated_key (hash plaintext) (db w) = Some (a, k)"
      using query_row_Inr[of _ w "(a, k)" v] q Inr ak by (simp add: authenticate_api_key_def)
    then have k: "k \<in> set (api_keys (db w))" "ak_hash k = hash plaintext"
      by (auto simp: authenticated_key_def find_Some_iff split: option.splits)
    obtain k' where k': "k' \<in> set (api_keys (db w))" "ak_hash k' = hash plaintext" "ak_revoked_at k' \<noteq> None"
      and "distinct (map ak_hash (api_keys (db w)))" using assms by (auto simp: dead_def)
    then have "k = k'" using k by (metis distinct_map inj_onD)
    then show ?thesis
      using q Inr ak k' \<open>parse_api_key_mode plaintext = Inr m\<close>
      by (simp add: authenticate_def catchE_def bindE_run gets_def key_usable_def throw_def)
  qed (use q Inr in \<open>auto simp: authenticate_def catchE_def throw_def\<close>)
qed (simp add: authenticate_def throw_def)

text \<open>C40. Revocation is final: once an API key is revoked, no sequence of operations on applications,
  keys and destinations, with any of their statements failing, lets a request with it through.\<close>

theorem revocation_is_final:
  assumes "k \<in> set (api_keys (db w))" "ak_hash k = hash plaintext" "ak_revoked_at k \<noteq> None"
    and "distinct (map ak_hash (api_keys (db w)))" "(app_step hash nm g)\<^sup>*\<^sup>* w v"
  shows "\<exists>e. fst (authenticate hash plaintext v) = Inl e"
proof -
  have "dead (hash plaintext) (db w)" using assms by (auto simp: dead_def)
  then show ?thesis using revoked_steps[OF assms(5), of "hash plaintext"] dead_refused by (simp add: dead_rel_def)
qed


definition no_names :: names where
  "no_names = \<lparr>nm_url = (\<lambda>_. None), nm_addr = (\<lambda>_. None), nm_text = (\<lambda>_. []), nm_lookup = (\<lambda>_. None), nm_split = (\<lambda>_. None)\<rparr>"

theorem revocation_is_final_witness:
  "let k = zero_api_key\<lparr>ak_id := ''key_1'', ak_application_id := ''app_1'', ak_hash := ''pmx_live_X'', ak_revoked_at := Some 5\<rparr>;
       w = quiet_world (empty_db\<lparr>api_keys := [k]\<rparr>) ();
       v = snd (rotate_destination_secret ''app_1'' ''dst_1'' (snd (revoke_api_key ''app_1'' ''key_1'' w)))
   in \<exists>e. fst (authenticate id ''pmx_live_X'' v) = Inl e"
proof -
  let ?k = "zero_api_key\<lparr>ak_id := ''key_1'', ak_application_id := ''app_1'', ak_hash := ''pmx_live_X'', ak_revoked_at := Some 5\<rparr>"
  let ?w = "quiet_world (empty_db\<lparr>api_keys := [?k]\<rparr>) ()"
  have "(app_step id no_names (new_guard False))\<^sup>*\<^sup>* ?w
      (snd (rotate_destination_secret ''app_1'' ''dst_1'' (snd (revoke_api_key ''app_1'' ''key_1'' ?w))))"
    by (rule rtranclp.rtrancl_into_rtrancl, rule r_into_rtranclp, rule app_step.revoke, rule app_step.rotate)
  from revocation_is_final[OF _ _ _ _ this, of ?k "''pmx_live_X''"] show ?thesis by (simp add: Let_def)
qed

end
