(* ===== verification/Idempotency.thy ===== *)
theory Idempotency
  imports Store
begin

text \<open>
  \<open>internal/payment/idempotency.go\<close>: the claim-then-complete protocol that makes a retried
  request return its first outcome. A claim is one \<open>INSERT ... ON CONFLICT DO UPDATE ... WHERE\<close>
  followed by a lookup; owning it is the unit result, everything else an error, as the code
  signals it.
\<close>

definition idempotency_ttl :: duration where "idempotency_ttl = 24 * hour"

abbreviation set_idem_keys :: "idem list \<Rightarrow> db \<Rightarrow> db" where
  "set_idem_keys rows d \<equiv> d\<lparr>idem_keys := rows\<rparr>"

type_synonym scope = "string \<times> string \<times> string"

definition idem_scope :: "idem \<Rightarrow> scope" where
  "idem_scope r = (ik_application_id r, ik_endpoint r, ik_key r)"

definition idem_get :: "scope \<Rightarrow> ('g, idem) routine" where
  "idem_get s = query_row (\<lambda>d. List.find (\<lambda>r. idem_scope r = s) (idem_keys d))"

definition classify_existing :: "idem \<Rightarrow> string \<Rightarrow> error" where
  "classify_existing r request_hash =
     (if ik_hash r \<noteq> request_hash then IdempotencyConflict
      else if ik_state r = IdemCompleted then Replay r
      else IdempotencyRunning)"

text \<open>The upsert of a claim: a live row stays as it is, an expired one is taken over.\<close>

definition claim_row :: "idem \<Rightarrow> idem \<Rightarrow> idem" where
  "claim_row new old = old\<lparr>ik_id := ik_id new, ik_hash := ik_hash new, ik_state := ik_state new,
     ik_payment_id := [], ik_response_status := 0, ik_response_body := None,
     ik_created_at := ik_created_at new, ik_completed_at := None, ik_expires_at := ik_expires_at new\<rparr>"

definition claim_upsert :: "time \<Rightarrow> idem \<Rightarrow> db \<Rightarrow> error + unit \<times> db" where
  "claim_upsert t new d =
     (let same = (\<lambda>r. idem_scope r = idem_scope new);
          live = list_ex (\<lambda>r. same r \<and> \<not> ik_expires_at r < t) (idem_keys d)
      in if live then Inr ((), d)
         else if list_ex (\<lambda>r. ik_id r = ik_id new) (idem_keys d)
         then Inl (UniqueViolation ''idempotency_keys_pkey'')
         else if list_ex same (idem_keys d)
         then Inr ((), set_idem_keys (map (\<lambda>r. if same r then claim_row new r else r) (idem_keys d)) d)
         else Inr ((), set_idem_keys (idem_keys d @ [new]) d))"

definition new_claim :: "string \<Rightarrow> time \<Rightarrow> scope \<Rightarrow> string \<Rightarrow> idem" where
  "new_claim i t s request_hash = (case s of (application_id, endpoint, key) \<Rightarrow>
     zero_idem\<lparr>ik_id := i, ik_application_id := application_id, ik_key := key,
       ik_endpoint := endpoint, ik_hash := request_hash, ik_state := InProgress,
       ik_created_at := t, ik_expires_at := t + idempotency_ttl\<rparr>)"

definition idem_claim :: "scope \<Rightarrow> string \<Rightarrow> ('g, unit) routine" where
  "idem_claim s request_hash =
     bindE (fresh_id ''req'') (\<lambda>i.
     bindE (gets now) (\<lambda>t.
     catchE (run_stmt (claim_upsert t (new_claim i t s request_hash)))
       (\<lambda>e. if is_unique_violation e [''idempotency_keys_scope_key'']
            then bindE (idem_get s) (\<lambda>r. throw (classify_existing r request_hash))
            else throw e)
       (\<lambda>_. bindE (idem_get s) (\<lambda>r.
          if ik_id r = i then succeed () else throw (classify_existing r request_hash)))))"

definition replay :: "error \<Rightarrow> idem option" where
  "replay e = (case e of Replay r \<Rightarrow> Some r | _ \<Rightarrow> None)"

definition completed_row :: "string \<Rightarrow> int \<Rightarrow> json \<Rightarrow> time \<Rightarrow> idem \<Rightarrow> idem" where
  "completed_row payment_id status body t r = r\<lparr>ik_state := IdemCompleted, ik_payment_id := payment_id,
     ik_response_status := status, ik_response_body := Some body, ik_completed_at := Some t\<rparr>"

definition idem_complete :: "scope \<Rightarrow> string \<Rightarrow> int \<Rightarrow> json \<Rightarrow> ('g, unit) routine" where
  "idem_complete s payment_id status body =
     bindE (gets now) (\<lambda>t. exec_stmt (\<lambda>d. set_idem_keys
       (map (\<lambda>r. if idem_scope r = s \<and> ik_state r = InProgress
          then completed_row payment_id status body t r else r) (idem_keys d)) d))"

definition idem_release :: "scope \<Rightarrow> ('g, unit) routine" where
  "idem_release s = exec_stmt (\<lambda>d. set_idem_keys
     (filter (\<lambda>r. \<not> (idem_scope r = s \<and> ik_state r = InProgress)) (idem_keys d)) d)"

definition idem_prune :: "('g, int) routine" where
  "idem_prune =
     bindE (gets now) (\<lambda>t. run_stmt (\<lambda>d.
       Inr (int (length (filter (\<lambda>r. ik_expires_at r < t) (idem_keys d))),
         set_idem_keys (filter (\<lambda>r. \<not> ik_expires_at r < t) (idem_keys d)) d)))"

subsection \<open>Calls over time\<close>

text \<open>Requests reach the store one call at a time, each at its own time and each with whatever
  failures the environment chooses for its statements.\<close>

datatype idem_call = CallClaim scope string | CallComplete scope string int json
  | CallRelease scope | CallPrune

fun idem_run :: "idem_call \<Rightarrow> ('g, unit) routine" where
  "idem_run (CallClaim s h) = idem_claim s h"
| "idem_run (CallComplete s p n b) = idem_complete s p n b"
| "idem_run (CallRelease s) = idem_release s"
| "idem_run CallPrune = bindE idem_prune (\<lambda>_. succeed ())"

definition at_time :: "time \<Rightarrow> string option list \<Rightarrow> 'g world \<Rightarrow> 'g world" where
  "at_time t os w = w\<lparr>now := t, outcomes := os\<rparr>"

primrec idem_trace :: "(time \<times> string option list \<times> idem_call) list \<Rightarrow> 'g world \<Rightarrow> 'g world" where
  "idem_trace [] w = w"
| "idem_trace (c # cs) w =
     (case c of (t, os, call) \<Rightarrow> idem_trace cs (snd (idem_run call (at_time t os w))))"

text \<open>A scope is held until a time: it has a row, and each of its rows has the request's hash and
  lives until then.\<close>

definition held :: "scope \<Rightarrow> string \<Rightarrow> time \<Rightarrow> db \<Rightarrow> bool" where
  "held s h until d \<longleftrightarrow> (\<exists>r \<in> set (idem_keys d). idem_scope r = s) \<and>
     (\<forall>r \<in> set (idem_keys d). idem_scope r = s \<longrightarrow> ik_hash r = h \<and> until \<le> ik_expires_at r)"

lemma run_stmt_db:
  assumes "run_stmt f w = (r, v)"
  shows "(db v = db w \<or> (\<exists>x. f (db w) = Inr (x, db v))) \<and> now v = now w \<and> (txn w = None \<longrightarrow> txn v = None)"
proof -
  obtain q u where n: "next_outcome w = (q, u)" by fastforce
  show ?thesis using assms next_outcome_keeps[OF n]
    by (auto simp: run_stmt_def n abort_txn_def split: if_splits option.splits sum.splits)
qed

lemma idem_scope_new [simp]: "idem_scope (new_claim i t s h) = s"
  by (simp add: idem_scope_def new_claim_def split: prod.splits)

lemma held_upsert:
  assumes "held s h until d" "t \<le> until" "claim_upsert t c d = Inr (x, e)"
  shows "held s h until e"
proof (cases "idem_scope c = s")
  case True
  obtain r where "r \<in> set (idem_keys d)" "idem_scope r = s" "until \<le> ik_expires_at r"
    using assms(1) by (auto simp: held_def)
  then have "list_ex (\<lambda>r. idem_scope r = s \<and> \<not> ik_expires_at r < t) (idem_keys d)"
    using assms(2) by (auto simp: list_ex_iff)
  then show ?thesis using assms(1,3) True by (simp add: claim_upsert_def)
next
  case False
  have "idem_scope (claim_row c r) = idem_scope r" for r by (simp add: idem_scope_def claim_row_def)
  then show ?thesis
    using assms(1,3) False
    by (auto simp: claim_upsert_def held_def Let_def split: if_splits)
qed

lemma idem_get_db: "db (snd (idem_get s w)) = db w \<and> (txn w = None \<longrightarrow> txn (snd (idem_get s w)) = None)"
proof -
  obtain q u where st: "run_stmt (\<lambda>d. Inr (List.find (\<lambda>r. idem_scope r = s) (idem_keys d), d)) w = (q, u)"
    by fastforce
  then have "snd (idem_get s w) = u"
    by (auto simp: idem_get_def query_row_def one_row_def query_def bindE_run throw_def succeed_def
        split: sum.split option.split)
  then show ?thesis using run_stmt_db[OF st] by auto
qed

lemma look_then:
  assumes "\<And>r u. snd (f r u) = u"
  shows "db (snd (bindE (idem_get s) f w)) = db w \<and> (txn w = None \<longrightarrow> txn (snd (bindE (idem_get s) f w)) = None)"
  using idem_get_db[of s w] assms
  by (cases "idem_get s w"; cases "fst (idem_get s w)") (auto simp: bindE_run)

text \<open>A claim, its identifier drawn: the upsert, and the lookup that follows it.\<close>

definition claim_id :: "'g world \<Rightarrow> string" where
  "claim_id w = projr (fst (fresh_id ''req'' w))"

definition drawn :: "'g world \<Rightarrow> 'g world" where
  "drawn w = snd (fresh_id ''req'' w)"

lemma drawn_simps [simp]:
  "db (drawn w) = db w" "now (drawn w) = now w" "txn (drawn w) = txn w" "outcomes (drawn w) = outcomes w"
  by (simp_all add: drawn_def fresh_id_def)

definition claim_look :: "scope \<Rightarrow> string \<Rightarrow> string \<Rightarrow> error + unit \<Rightarrow> ('g, unit) routine" where
  "claim_look s h i q u = (case q of
      Inl e \<Rightarrow> if is_unique_violation e [''idempotency_keys_scope_key'']
        then bindE (idem_get s) (\<lambda>r. throw (classify_existing r h)) u else (Inl e, u)
    | Inr _ \<Rightarrow> bindE (idem_get s)
        (\<lambda>r. if ik_id r = i then succeed () else throw (classify_existing r h)) u)"

lemma idem_claim_run:
  assumes "run_stmt (claim_upsert (now w) (new_claim (claim_id w) (now w) s h)) (drawn w) = (q, u)"
  shows "idem_claim s h w = claim_look s h (claim_id w) q u"
proof -
  have fr: "fresh_id ''req'' w = (Inr (claim_id w), drawn w)"
    by (simp add: fresh_id_def claim_id_def drawn_def)
  show ?thesis
    unfolding idem_claim_def bindE_run[of "fresh_id ''req''"] fr prod.case sum.case
      bindE_run[of "gets now"] gets_def drawn_simps catchE_def assms claim_look_def
    by (cases q) (simp_all add: throw_def)
qed

lemma claim_look_db:
  fixes u :: "'g world"
  shows "db (snd (claim_look s h i q u)) = db u \<and> (txn u = None \<longrightarrow> txn (snd (claim_look s h i q u)) = None)"
proof -
  have a: "snd ((if ik_id r = i then succeed () else throw (classify_existing r h)) x) = x"
    and b: "snd ((throw (classify_existing r h) :: ('g, unit) routine) x) = x" for r and x :: "'g world"
    by (simp_all add: throw_def succeed_def)
  show ?thesis
    unfolding claim_look_def using look_then[of "\<lambda>r. throw (classify_existing r h)", OF b]
      look_then[of "\<lambda>r. if ik_id r = i then succeed () else throw (classify_existing r h)", OF a]
    by (auto split: sum.split)
qed

lemma held_claim:
  assumes "held s h until (db w)" "now w \<le> until"
  shows "held s h until (db (snd (idem_claim s' h' w)))"
proof -
  obtain q u where st: "run_stmt (claim_upsert (now w) (new_claim (claim_id w) (now w) s' h')) (drawn w) = (q, u)"
    by fastforce
  have "held s h until (db u)"
    using run_stmt_db[OF st] held_upsert[OF assms] assms(1) by auto
  then show ?thesis by (simp add: idem_claim_run[OF st] claim_look_db)
qed

lemma now_bind: "bindE (gets now) f w = f (now w) w"
  by (simp add: bindE_run gets_def)

lemma held_map:
  assumes "held s h until d" "\<And>r. idem_scope (f r) = idem_scope r" "\<And>r. ik_hash (f r) = ik_hash r"
    and "\<And>r. ik_expires_at (f r) = ik_expires_at r"
  shows "held s h until (set_idem_keys (map f (idem_keys d)) d)"
  using assms(1) by (simp add: held_def assms(2-4))

lemma held_complete:
  assumes "held s h until (db w)"
  shows "held s h until (db (snd (idem_complete s' p n b w)))"
proof -
  let ?f = "\<lambda>r. if idem_scope r = s' \<and> ik_state r = InProgress then completed_row p n b (now w) r else r"
  have keep: "idem_scope (?f r) = idem_scope r" "ik_hash (?f r) = ik_hash r"
      "ik_expires_at (?f r) = ik_expires_at r" for r
    by (simp_all add: idem_scope_def completed_row_def)
  have "held s h until (set_idem_keys (map ?f (idem_keys (db w))) (db w))"
    by (rule held_map[OF assms keep])
  moreover obtain r v where st: "exec_stmt (\<lambda>d. set_idem_keys (map ?f (idem_keys d)) d) w = (r, v)"
    by fastforce
  moreover have "db v = db w \<or> db v = set_idem_keys (map ?f (idem_keys (db w))) (db w)"
    using run_stmt_db[OF st[unfolded exec_stmt_def]] by (elim conjE disjE exE) simp_all
  ultimately show ?thesis using assms unfolding idem_complete_def now_bind st by force
qed

lemma held_filter:
  assumes "held s h until d" "\<And>r. idem_scope r = s \<Longrightarrow> until \<le> ik_expires_at r \<Longrightarrow> p r"
  shows "held s h until (set_idem_keys (filter p (idem_keys d)) d)"
  using assms by (auto simp: held_def)

lemma held_release:
  assumes "held s h until (db w)" "s' \<noteq> s"
  shows "held s h until (db (snd (idem_release s' w)))"
proof -
  obtain r v where st: "idem_release s' w = (r, v)" by fastforce
  show ?thesis
    using run_stmt_db[OF st[unfolded idem_release_def exec_stmt_def]] assms
      held_filter[OF assms(1), of "\<lambda>r. \<not> (idem_scope r = s' \<and> ik_state r = InProgress)"]
    by (auto simp: st)
qed

lemma held_prune:
  assumes "held s h until (db w)" "now w \<le> until"
  shows "held s h until (db (snd (idem_prune w)))"
proof -
  obtain r v where st: "idem_prune w = (r, v)" by fastforce
  show ?thesis
    using run_stmt_db[OF st[unfolded idem_prune_def now_bind]] assms
      held_filter[OF assms(1), of "\<lambda>r. \<not> ik_expires_at r < now w"]
    by (auto simp: st)
qed

lemma held_run:
  assumes "held s h until (db w)" "now w \<le> until" "call \<noteq> CallRelease s"
  shows "held s h until (db (snd (idem_run call w)))"
proof (cases call)
  case (CallClaim s' h')
  then show ?thesis using held_claim[OF assms(1,2)] by simp
next
  case (CallComplete s' p n b)
  then show ?thesis using held_complete[OF assms(1)] by simp
next
  case (CallRelease s')
  then show ?thesis using held_release[OF assms(1)] assms(3) by simp
next
  case CallPrune
  have "snd (bindE idem_prune (\<lambda>_. succeed ()) w) = snd (idem_prune w)"
    by (simp add: bindE_run succeed_def split: prod.split sum.split)
  then show ?thesis using held_prune[OF assms(1,2)] CallPrune by simp
qed

lemma held_trace:
  "held s h until (db w) \<Longrightarrow> \<forall>(t, os, call) \<in> set cs. t \<le> until \<and> call \<noteq> CallRelease s \<Longrightarrow>
   held s h until (db (idem_trace cs w))"
proof (induction cs arbitrary: w)
  case (Cons c cs)
  obtain t os call where c: "c = (t, os, call)" by (cases c)
  have "held s h until (db (snd (idem_run call (at_time t os w))))"
    using Cons.prems c by (intro held_run) (auto simp: at_time_def)
  then show ?case using Cons.IH Cons.prems(2) by (simp add: c)
qed simp

subsection \<open>A key has one owner\<close>

lemma idem_get_Inr: "idem_get s w = (Inr r, v) \<Longrightarrow> idem_scope r = s \<and> r \<in> set (idem_keys (db w)) \<and> db v = db w"
  unfolding idem_get_def by (drule query_row_Inr) (auto simp: find_Some_iff)

lemma new_claim_simps [simp]:
  "ik_id (new_claim i t s h) = i" "ik_hash (new_claim i t s h) = h"
  "ik_expires_at (new_claim i t s h) = t + idempotency_ttl"
  by (simp_all add: new_claim_def split: prod.split)

lemma claim_row_simps [simp]:
  "idem_scope (claim_row c r) = idem_scope r" "ik_hash (claim_row c r) = ik_hash c"
  "ik_expires_at (claim_row c r) = ik_expires_at c"
  by (simp_all add: claim_row_def idem_scope_def)

lemma upsert_owned:
  assumes "claim_upsert t (new_claim i t s h) d = Inr (x, e)" "e \<noteq> d"
  shows "held s h (t + idempotency_ttl) e"
proof (cases "list_ex (\<lambda>r. idem_scope r = s) (idem_keys d)")
  case True
  let ?f = "\<lambda>r. if idem_scope r = s then claim_row (new_claim i t s h) r else r"
  have e: "e = set_idem_keys (map ?f (idem_keys d)) d"
    using assms True by (simp add: claim_upsert_def Let_def split: if_splits)
  obtain r where "r \<in> set (idem_keys d)" "idem_scope r = s" using True by (auto simp: list_ex_iff)
  then have "?f r \<in> set (idem_keys e)" "idem_scope (?f r) = s" unfolding e by auto
  moreover have "ik_hash y = h \<and> t + idempotency_ttl \<le> ik_expires_at y"
    if "y \<in> set (idem_keys e)" "idem_scope y = s" for y
  proof -
    have "y \<in> ?f ` set (idem_keys d)" using that(1) unfolding e by (simp del: if_split if_image_distrib)
    then obtain z where "y = ?f z" by (rule imageE)
    with that(2) show ?thesis by (cases "idem_scope z = s") simp_all
  qed
  ultimately show ?thesis unfolding held_def by blast
next
  case False
  then have "e = set_idem_keys (idem_keys d @ [new_claim i t s h]) d"
    using assms by (simp add: claim_upsert_def Let_def split: if_splits)
  then show ?thesis using False by (auto simp: held_def list_ex_iff)
qed

lemma claim_owned:
  assumes "idem_claim s h w = (Inr (), v)" "claim_id w \<notin> ik_id ` set (idem_keys (db w))"
  shows "held s h (now w + idempotency_ttl) (db v)"
proof -
  let ?c = "new_claim (claim_id w) (now w) s h"
  obtain q u where st: "run_stmt (claim_upsert (now w) ?c) (drawn w) = (q, u)" by fastforce
  have run: "claim_look s h (claim_id w) q u = (Inr (), v)" using assms(1) by (simp add: idem_claim_run[OF st])
  then obtain x where q: "q = Inr x"
    by (cases q) (auto simp: claim_look_def bindE_run throw_def split: if_splits prod.splits sum.splits)
  obtain r where r: "idem_scope r = s" "r \<in> set (idem_keys (db u))" "ik_id r = claim_id w" "db v = db u"
    using run unfolding claim_look_def q
    by (auto elim!: bindE_Inr_E dest!: idem_get_Inr simp: throw_def succeed_def split: if_splits)
  have up: "claim_upsert (now w) ?c (db w) = Inr (x, db u)" using run_stmt_Inr[OF st[unfolded q]] by simp
  have "db u \<noteq> db w" using r(2,3) assms(2) by (metis image_eqI)
  then show ?thesis using upsert_owned[OF up] r(4) by simp
qed

lemma claim_held:
  assumes "held s h until (db w)" "now w \<le> until" "claim_id w \<notin> ik_id ` set (idem_keys (db w))"
  shows "isl (fst (idem_claim s h' w)) \<and> (outcomes w = [] \<and> txn w = None \<longrightarrow>
    (\<exists>r \<in> set (idem_keys (db w)). idem_scope r = s \<and>
      idem_claim s h' w = (Inl (classify_existing r h'), drawn w)))"
proof -
  let ?c = "new_claim (claim_id w) (now w) s h'"
  obtain r0 where "r0 \<in> set (idem_keys (db w))" "idem_scope r0 = s" "until \<le> ik_expires_at r0"
    using assms(1) by (auto simp: held_def)
  then have live: "claim_upsert (now w) ?c (db w) = Inr ((), db w)"
    using assms(2) by (auto simp: claim_upsert_def list_ex_iff)
  obtain q u where st: "run_stmt (claim_upsert (now w) ?c) (drawn w) = (q, u)" by fastforce
  have du: "db u = db w" using run_stmt_db[OF st] live by auto
  have "isl (fst (claim_look s h' (claim_id w) q u))"
  proof (rule ccontr)
    assume "\<not> ?thesis"
    then obtain x v where run: "claim_look s h' (claim_id w) q u = (Inr x, v)"
      by (metis prod.collapse sum.collapse(2))
    then obtain y where "q = Inr y"
      by (cases q) (auto simp: claim_look_def bindE_run throw_def split: if_splits prod.splits sum.splits)
    then obtain r where "r \<in> set (idem_keys (db u))" "ik_id r = claim_id w"
      using run unfolding claim_look_def
      by (auto elim!: bindE_Inr_E dest!: idem_get_Inr simp: throw_def succeed_def split: if_splits)
    then show False using assms(3) du by (metis imageI)
  qed
  moreover have "\<exists>r \<in> set (idem_keys (db w)). idem_scope r = s \<and>
      idem_claim s h' w = (Inl (classify_existing r h'), drawn w)" if "outcomes w = []" "txn w = None"
  proof -
    have "run_stmt (claim_upsert (now w) ?c) (drawn w) = (Inr (), drawn w)"
      using that live by (simp add: run_stmt_ok)
    then have run: "idem_claim s h' w = claim_look s h' (claim_id w) (Inr ()) (drawn w)"
      by (rule idem_claim_run)
    obtain r where f: "List.find (\<lambda>r. idem_scope r = s) (idem_keys (db w)) = Some r"
      using \<open>r0 \<in> _\<close> \<open>idem_scope r0 = s\<close> by (cases "List.find (\<lambda>r. idem_scope r = s) (idem_keys (db w))")
        (auto simp: find_None_iff)
    then have r: "r \<in> set (idem_keys (db w))" "idem_scope r = s" by (auto simp: find_Some_iff)
    then have "ik_id r \<noteq> claim_id w" using assms(3) by (metis image_eqI)
    then have "idem_claim s h' w = (Inl (classify_existing r h'), drawn w)"
      using that f unfolding run claim_look_def
      by (simp add: idem_get_def bindE_run query_row_run throw_def)
    with r show ?thesis by blast
  qed
  ultimately show ?thesis by (simp add: idem_claim_run[OF st])
qed

text \<open>C17. A key has one owner: once a claim has succeeded, then as long as nobody releases its
  scope, no other claim of that scope succeeds for 24 hours, whatever calls come in between and
  whichever of their statements fail. With a working database the later claim learns why: a
  conflict when the request differs, the stored outcome when the work is done, in progress
  otherwise.\<close>

theorem idempotency_exclusive:
  assumes "idem_claim s h w = (Inr (), v)" "claim_id w \<notin> ik_id ` set (idem_keys (db w))"
    and "\<forall>(t, os, call) \<in> set cs. t \<le> now w + idempotency_ttl \<and> call \<noteq> CallRelease s"
    and "now u \<le> now w + idempotency_ttl" "db u = db (idem_trace cs v)"
    and "claim_id u \<notin> ik_id ` set (idem_keys (db u))"
  shows "isl (fst (idem_claim s h' u)) \<and> (outcomes u = [] \<and> txn u = None \<longrightarrow>
    (if h' \<noteq> h then fst (idem_claim s h' u) = Inl IdempotencyConflict
     else fst (idem_claim s h' u) = Inl IdempotencyRunning \<or>
       (\<exists>r. fst (idem_claim s h' u) = Inl (Replay r) \<and> ik_state r = IdemCompleted \<and>
         idem_scope r = s \<and> ik_hash r = h)))"
proof -
  have h: "held s h (now w + idempotency_ttl) (db u)"
    unfolding assms(5) by (rule held_trace[OF claim_owned[OF assms(1,2)] assms(3)])
  have "fst (idem_claim s h' u) = Inl (classify_existing r h') \<Longrightarrow> r \<in> set (idem_keys (db u)) \<Longrightarrow>
      idem_scope r = s \<Longrightarrow> ik_hash r = h" for r
    using h by (auto simp: held_def)
  then show ?thesis
    using claim_held[OF h assms(4,6), of h'] unfolding classify_existing_def
    by (fastforce split: if_splits)
qed

theorem idempotency_exclusive_witness:
  "let s = (''app'', ''POST /payments'', ''k'');
       w = quiet_world empty_db (); v = snd (idem_claim s ''h'' w);
       u = at_time (now w + hour) [] (idem_trace [(now w + minute, [], CallComplete s ''pay'' 201 JNull)] v)
   in isl (fst (idem_claim s ''h'' u)) \<and> fst (idem_claim s ''x'' u) = Inl IdempotencyConflict"
proof -
  let ?s = "(''app'', ''POST /payments'', ''k'')"
  let ?w = "quiet_world empty_db ()"
  let ?v = "snd (idem_claim ?s ''h'' ?w)"
  let ?cs = "[(now ?w + minute, [], CallComplete ?s ''pay'' 201 JNull)]"
  let ?u = "at_time (now ?w + hour) [] (idem_trace ?cs ?v)"
  have ok: "fst (idem_claim ?s ''h'' ?w) = Inr ()" by code_simp
  have run: "idem_claim ?s ''h'' ?w = (Inr (), ?v)" using ok by (metis prod.collapse)
  have fresh: "claim_id ?w \<notin> ik_id ` set (idem_keys (db ?w))" "claim_id ?u \<notin> ik_id ` set (idem_keys (db ?u))"
    and u: "outcomes ?u = [] \<and> txn ?u = None"
    by code_simp+
  have times: "\<forall>(t, os, call) \<in> set ?cs. t \<le> now ?w + idempotency_ttl \<and> call \<noteq> CallRelease ?s"
    "now ?u \<le> now ?w + idempotency_ttl"
    by (simp_all add: duration_defs idempotency_ttl_def at_time_def)
  have "db ?u = db (idem_trace ?cs ?v)" by (simp add: at_time_def)
  note claim = idempotency_exclusive[OF run fresh(1) times this fresh(2)]
  have "fst (idem_claim ?s ''x'' ?u) = Inl IdempotencyConflict"
    using claim[of "''x''"] u by (simp only: list.inject char.inject simp_thms if_True)
  with claim[of "''h''"] show ?thesis unfolding Let_def by blast
qed

end
