(* ===== verification/Gateway.thy ===== *)
theory Gateway
  imports Store
begin

text \<open>
  Package \<open>internal/gateway\<close> without its adapters: the accounts and what they may do
  (\<open>account.go\<close>), the registry that builds an adapter for an account (\<open>registry.go\<close>),
  the repository of accounts (\<open>repository.go\<close>), and the interfaces an adapter offers. An
  adapter itself is a parameter of every method that calls one: a record of functions on the
  gateway's state \<open>'g\<close>, optional where the code asserts an interface.
\<close>

subsection \<open>Adapters\<close>

record 'g sub_gateway =
  sg_create :: "create_subscription_request \<Rightarrow> ('g, error, gw_subscription) op"
  sg_get :: "string \<Rightarrow> ('g, error, gw_subscription) op"
  sg_update :: "string \<Rightarrow> update_subscription_request \<Rightarrow> ('g, error, gw_subscription) op"
  sg_enable :: "string \<Rightarrow> ('g, error, unit) op"
  sg_disable :: "string \<Rightarrow> ('g, error, unit) op"
  sg_cancel :: "string \<Rightarrow> ('g, error, unit) op"

record 'g adapter =
  ga_create_payment :: "create_payment_request \<Rightarrow> ('g, error, gw_payment) op"
  ga_get_transaction :: "string \<Rightarrow> ('g, error, gw_transaction) op"
  ga_cancel_transaction :: "string \<Rightarrow> ('g, error, gw_transaction) op"
  ga_expire_transaction :: "string \<Rightarrow> ('g, error, gw_transaction) op"
  ga_verify_webhook :: "webhook \<Rightarrow> ('g, error, unit) op"
  ga_parse_webhook :: "webhook \<Rightarrow> ('g, error, gw_notification) op"
  ga_refund :: "(refund_request \<Rightarrow> ('g, error, gw_refund) op) option"
  ga_checkout :: "(string \<Rightarrow> ('g, error, unit) op) option"
  ga_subscriptions :: "'g sub_gateway option"
  ga_capabilities :: "capabilities option"

type_synonym 'g factory = "account \<Rightarrow> error + 'g adapter"

type_synonym 'g registry = "(string \<times> 'g factory) list"

definition register :: "string \<Rightarrow> 'g factory \<Rightarrow> 'g registry \<Rightarrow> 'g registry" where
  "register name f r = (name, f) # filter (\<lambda>(n, _). n \<noteq> name) r"

definition registry_names :: "'g registry \<Rightarrow> string list" where
  "registry_names r = sort (map fst r)"

definition supports :: "string \<Rightarrow> 'g registry \<Rightarrow> bool" where
  "supports name r \<longleftrightarrow> map_of r name \<noteq> None"

definition environment_valid :: "environment \<Rightarrow> bool" where
  "environment_valid e \<longleftrightarrow> e = Sandbox \<or> e = Production"

definition registry_for :: "'g registry \<Rightarrow> account \<Rightarrow> error + 'g adapter" where
  "registry_for r a =
     (if \<not> environment_valid (acc_environment a) then Inl (RegistryError ''invalid environment'')
      else if \<not> acc_enabled a then Inl (RegistryError ''disabled'')
      else case map_of r (acc_gateway a) of
        None \<Rightarrow> Inl (RegistryError ''no adapter'')
      | Some f \<Rightarrow> f a)"

definition capabilities_for :: "'g adapter \<Rightarrow> capabilities" where
  "capabilities_for g =
     (case ga_capabilities g of
        Some c \<Rightarrow> c
      | None \<Rightarrow>
          zero_capabilities\<lparr>cap_cancel := True, cap_expire := True,
            cap_refund := ga_refund g \<noteq> None, cap_partial_refund := ga_refund g \<noteq> None,
            cap_checkout := ga_checkout g \<noteq> None, cap_subscriptions := ga_subscriptions g \<noteq> None\<rparr>)"

subsection \<open>Accounts\<close>

definition usable :: "account \<Rightarrow> bool" where
  "usable a \<longleftrightarrow> acc_enabled a \<and> acc_server_key a \<noteq> [] \<and> environment_valid (acc_environment a)"

definition can_disburse :: "account \<Rightarrow> bool" where
  "can_disburse a \<longleftrightarrow> acc_enabled a \<and> acc_creator_key a \<noteq> []"

definition can_approve_payouts :: "account \<Rightarrow> bool" where
  "can_approve_payouts a \<longleftrightarrow> acc_approver_key a \<noteq> []"

definition is_sandbox :: "account \<Rightarrow> bool" where
  "is_sandbox a \<longleftrightarrow> acc_environment a = Sandbox"

definition expected_key_mode :: "account \<Rightarrow> key_mode" where
  "expected_key_mode a = (if is_sandbox a then KeyModeTest else KeyModeLive)"

subsection \<open>The repository\<close>

abbreviation set_accounts :: "account list \<Rightarrow> db \<Rightarrow> db" where
  "set_accounts rows d \<equiv> d\<lparr>accounts := rows\<rparr>"

definition default_conflict :: "account \<Rightarrow> account \<Rightarrow> bool" where
  "default_conflict a x \<longleftrightarrow> acc_is_default a \<and> acc_is_default x \<and> acc_gateway a = acc_gateway x \<and>
     acc_environment a = acc_environment x"

definition account_constraints :: "account constraint list" where
  "account_constraints =
     [(''gateway_accounts_pkey'', \<lambda>a x. acc_id a = acc_id x),
      (''gateway_accounts_name_key'', \<lambda>a x. to_lower (acc_name a) = to_lower (acc_name x)),
      (''gateway_accounts_default_key'', default_conflict)]"

definition account_checks :: "account check list" where
  "account_checks =
     [(''gateway_accounts_environment_check'', \<lambda>a. environment_valid (acc_environment a))]"

definition cleared :: "string \<Rightarrow> environment \<Rightarrow> string \<Rightarrow> time \<Rightarrow> account \<Rightarrow> account" where
  "cleared gw env except t a =
     (if acc_gateway a = gw \<and> acc_environment a = env \<and> acc_is_default a \<and> acc_id a \<noteq> except
      then a\<lparr>acc_is_default := False, acc_updated_at := t\<rparr> else a)"

definition clear_default :: "string \<Rightarrow> environment \<Rightarrow> string \<Rightarrow> ('g, unit) routine" where
  "clear_default gw env except =
     bindE (gets now) (\<lambda>t. exec_stmt (\<lambda>d. set_accounts (map (cleared gw env except t) (accounts d)) d))"

text \<open>The statement does not mention the disbursement keys, so the row gets their default, while
  the struct keeps what the caller put there: scanning an empty column leaves the field alone.\<close>

definition account_create :: "account \<Rightarrow> ('g, account) routine" where
  "account_create a =
     bindE (if acc_id a = [] then fresh_id ''gwa'' else succeed (acc_id a)) (\<lambda>i.
     bindE (gets now) (\<lambda>t. in_tx (
       bindE (if acc_is_default a then clear_default (acc_gateway a) (acc_environment a) []
              else succeed ()) (\<lambda>_.
       bindE (insert_checked account_checks account_constraints accounts set_accounts
           (a\<lparr>acc_id := i, acc_creator_key := [], acc_approver_key := [],
              acc_last_checked_at := None, acc_last_check_ok := None, acc_last_check_error := [],
              acc_created_at := t, acc_updated_at := t\<rparr>)) (\<lambda>row.
       succeed (row\<lparr>acc_creator_key := acc_creator_key a, acc_approver_key := acc_approver_key a\<rparr>))))))"

definition account_get :: "string \<Rightarrow> ('g, account) routine" where
  "account_get i = query_row (\<lambda>d. List.find (\<lambda>a. acc_id a = i) (accounts d))"

text \<open>\<open>ORDER BY is_default DESC, id LIMIT 1\<close>.\<close>

definition default_of :: "string \<Rightarrow> account list \<Rightarrow> account option" where
  "default_of gw rows =
     first_row (sort_key (\<lambda>a. (if acc_is_default a then 0 else 1 :: nat))
       (sort_key acc_id (filter (\<lambda>a. acc_gateway a = gw \<and> acc_enabled a) rows)))"

definition account_default :: "string \<Rightarrow> ('g, account) routine" where
  "account_default gw = query_row (\<lambda>d. default_of gw (accounts d))"

definition account_list :: "('g, account list) routine" where
  "account_list = query (\<lambda>d. rev (sort_key acc_id (accounts d)))"

text \<open>\<open>None\<close> and, for the server key, the empty string mean unchanged.\<close>

record account_update =
  au_name :: "string option"
  au_merchant_id :: "string option"
  au_client_key :: "string option"
  au_server_key :: string
  au_enabled :: "bool option"
  au_is_default :: "bool option"
  au_environment :: "environment option"
  au_creator_key :: "string option"
  au_approver_key :: "string option"

definition updated_account :: "account_update \<Rightarrow> time \<Rightarrow> account \<Rightarrow> account" where
  "updated_account u t a = a\<lparr>
     acc_name := coalesce (au_name u) (acc_name a),
     acc_merchant_id := coalesce (au_merchant_id u) (acc_merchant_id a),
     acc_client_key := coalesce (au_client_key u) (acc_client_key a),
     acc_server_key := keep_unless (au_server_key u) (acc_server_key a),
     acc_enabled := coalesce (au_enabled u) (acc_enabled a),
     acc_is_default := coalesce (au_is_default u) (acc_is_default a),
     acc_environment := coalesce (au_environment u) (acc_environment a),
     acc_creator_key := coalesce (au_creator_key u) (acc_creator_key a),
     acc_approver_key := coalesce (au_approver_key u) (acc_approver_key a),
     acc_updated_at := t\<rparr>"

definition account_update :: "string \<Rightarrow> account_update \<Rightarrow> ('g, account) routine" where
  "account_update i u =
     bindE (gets now) (\<lambda>t. in_tx (
       bindE (if au_is_default u = Some True
              then bindE (account_get i) (\<lambda>current.
                clear_default (acc_gateway current)
                  (coalesce (au_environment u) (acc_environment current)) i)
              else succeed ()) (\<lambda>_.
       update_checked account_checks account_constraints accounts set_accounts
         (\<lambda>a. acc_id a = i) (updated_account u t))))"

definition record_check :: "string \<Rightarrow> bool \<Rightarrow> string \<Rightarrow> capabilities \<Rightarrow> ('g, unit) routine" where
  "record_check i ok message caps =
     bindE (gets now) (\<lambda>t. exec_stmt (\<lambda>d. set_accounts
       (map (\<lambda>a. if acc_id a = i
          then a\<lparr>acc_last_checked_at := Some t, acc_last_check_ok := Some ok,
                 acc_last_check_error := message, acc_capabilities := caps, acc_updated_at := t\<rparr>
          else a) (accounts d)) d))"

text \<open>Payments and payouts refer to the account and refuse the deletion; an application's
  reference is set to null.\<close>

definition account_referenced :: "string \<Rightarrow> db \<Rightarrow> bool" where
  "account_referenced i d \<longleftrightarrow> list_ex (\<lambda>p. pay_gateway_account_id p = i) (payments d) \<or>
     list_ex (\<lambda>p. po_gateway_account_id p = i) (payouts d)"

definition account_delete :: "string \<Rightarrow> ('g, unit) routine" where
  "account_delete i =
     bindE (run_stmt (\<lambda>d.
       if list_ex (\<lambda>a. acc_id a = i) (accounts d) \<and> account_referenced i d
       then Inl (OtherError ''foreign key violation'')
       else Inr (int (length (filter (\<lambda>a. acc_id a = i) (accounts d))),
          d\<lparr>accounts := filter (\<lambda>a. acc_id a \<noteq> i) (accounts d),
            applications := map (\<lambda>x. if app_gateway_account_id x = i then x\<lparr>app_gateway_account_id := []\<rparr>
              else x) (applications d),
            gw_events := map (\<lambda>e. if ge_gateway_account_id e = i then e\<lparr>ge_gateway_account_id := []\<rparr>
              else e) (gw_events d)\<rparr>)))
     (\<lambda>n. if n = 0 then throw NotFound else succeed ())"

subsection \<open>What an adapter may be asked to do\<close>

text \<open>An adapter is built only for an enabled account of a known environment and a registered
  gateway: the interface its clients rely on.\<close>

lemma registry_for_Inr:
  "registry_for r a = Inr g \<Longrightarrow> acc_enabled a \<and> environment_valid (acc_environment a) \<and>
     (\<exists>f. map_of r (acc_gateway a) = Some f \<and> f a = Inr g)"
  by (auto simp: registry_for_def split: if_splits option.splits)

lemma map_of_register: "map_of (register n f r) m = (if m = n then Some f else map_of r m)"
  by (induction r) (auto simp: register_def)

lemma supports_register: "supports m (register n f r) \<longleftrightarrow> m = n \<or> supports m r"
  by (simp add: supports_def map_of_register)

subsection \<open>At most one default account\<close>

definition default_unique :: "account list \<Rightarrow> bool" where
  "default_unique rows \<longleftrightarrow> \<not> clash default_conflict rows"

definition defaults_rel :: "db \<Rightarrow> db \<Rightarrow> bool" where
  "defaults_rel d e \<longleftrightarrow> (default_unique (accounts d) \<longrightarrow> default_unique (accounts e))"

interpretation defaults: db_evolution defaults_rel
  by unfold_locales (auto simp: defaults_rel_def)

lemma default_conflict_sym: "default_conflict a b \<longleftrightarrow> default_conflict b a"
  by (auto simp: default_conflict_def)

lemma default_unique_insert:
  "violated account_constraints a rows = None \<Longrightarrow> default_unique rows \<Longrightarrow> default_unique (rows @ [a])"
  by (auto simp: violated_None account_constraints_def default_unique_def clash_append default_conflict_sym)

lemma default_unique_cleared: "default_unique rows \<Longrightarrow> default_unique (map (cleared gw env i t) rows)"
  unfolding default_unique_def
  by (rule contrapos_nn, assumption, erule clash_map[rotated])
    (auto simp: cleared_def default_conflict_def split: if_splits)

lemma defaults_clear: "defaults.safe (clear_default gw env i)"
  unfolding clear_default_def
  by (intro defaults.safe_intros defaults.safe_exec)
    (auto simp: defaults_rel_def intro: default_unique_cleared)

lemma defaults_create: "defaults.safe (account_create a)"
  unfolding account_create_def
  by (intro defaults.safe_intros defaults_clear defaults.safe_insert_checked)
    (auto simp: defaults_rel_def intro: default_unique_insert)

lemma defaults_update: "defaults.safe (account_update i u)"
  unfolding account_update_def account_get_def
  by (intro defaults.safe_intros defaults_clear defaults.safe_update_checked)
    (auto simp: defaults_rel_def default_unique_def account_constraints_def)

lemma defaults_check: "defaults.safe (record_check i ok m c)"
proof -
  have "default_unique rows \<Longrightarrow> default_unique (map (\<lambda>a. if acc_id a = i
      then a\<lparr>acc_last_checked_at := Some t, acc_last_check_ok := Some ok,
        acc_last_check_error := m, acc_capabilities := c, acc_updated_at := t\<rparr> else a) rows)" for t rows
    unfolding default_unique_def
    by (rule contrapos_nn, assumption, erule clash_map[rotated])
      (auto simp: default_conflict_def split: if_splits)
  then show ?thesis
    unfolding record_check_def
    by (intro defaults.safe_intros defaults.safe_exec) (auto simp: defaults_rel_def)
qed

lemma defaults_delete: "defaults.safe (account_delete i)"
  unfolding account_delete_def
  by (intro defaults.safe_intros defaults.safe_run_stmt)
    (auto simp: defaults_rel_def default_unique_def split: if_splits dest: clash_filter)

lemma no_default_refusal:
  assumes "\<forall>x \<in> set rows. \<not> default_conflict r x"
  shows "violated account_constraints r rows \<noteq> Some ''gateway_accounts_default_key''"
  using assms by (auto simp: violated_def account_constraints_def list_ex_iff split: if_splits)

lemma insert_checked_Inl:
  assumes "insert_checked ks cs get set_rows r w = (Inl (UniqueViolation n), v)"
  shows "violated cs r (get (db w)) = Some n"
  using run_stmt_Inl[OF assms[unfolded insert_checked_def]] by (auto split: option.splits)

lemma clear_default_Inr:
  assumes "clear_default gw env i w = (Inr x, v)"
  shows "accounts (db v) = map (cleared gw env i (now w)) (accounts (db w)) \<and> same_context w v"
proof -
  have "exec_stmt (\<lambda>d. set_accounts (map (cleared gw env i (now w)) (accounts d)) d) w = (Inr x, v)"
    using assms by (simp add: clear_default_def bindE_run gets_def)
  from exec_stmt_Inr[OF this] show ?thesis by simp
qed

lemma bindE_Inl_E:
  assumes "bindE m f s = (Inl e, u)"
  obtains (first) "m s = (Inl e, u)" | (rest) x t where "m s = (Inr x, t)" "f x t = (Inl e, u)"
  using assms by (auto simp: bindE_run split: prod.splits sum.splits)

lemma clear_default_Inl:
  assumes "clear_default gw env i w = (Inl e, v)"
  shows "e = TxAborted \<or> (\<exists>t. e = DbFailure t)"
proof -
  have "run_stmt (\<lambda>d. Inr ((), set_accounts (map (cleared gw env i (now w)) (accounts d)) d)) w = (Inl e, v)"
    using assms by (simp add: clear_default_def exec_stmt_def bindE_run gets_def)
  from run_stmt_Inl[OF this] show ?thesis by simp
qed

lemma cleared_other:
  "acc_id y \<noteq> i \<Longrightarrow> \<not> (acc_is_default (cleared gw env i t y) \<and>
     gw = acc_gateway (cleared gw env i t y) \<and> env = acc_environment (cleared gw env i t y))"
  by (auto simp: cleared_def)

lemma clear_insert_not_refused:
  assumes "bindE (if acc_is_default a then clear_default (acc_gateway a) (acc_environment a) [] else succeed ())
      (\<lambda>_. bindE (insert_checked account_checks account_constraints accounts set_accounts r) f) w
      = (Inl (UniqueViolation n), v)"
    and "acc_is_default r = acc_is_default a" "acc_gateway r = acc_gateway a"
      "acc_environment r = acc_environment a"
    and "\<forall>x \<in> set (accounts (db w)). acc_id x \<noteq> []" "\<And>x. f x = succeed (g x)"
  shows "n \<noteq> ''gateway_accounts_default_key''"
  using assms(1)
proof (cases rule: bindE_Inl_E)
  case first
  then show ?thesis
    using clear_default_Inl[of "acc_gateway a" "acc_environment a" "[]" w]
    by (cases "acc_is_default a") (auto simp: succeed_def)
next
  case (rest x u)
  have "insert_checked account_checks account_constraints accounts set_accounts r u = (Inl (UniqueViolation n), v)"
    using rest(2) by (cases rule: bindE_Inl_E) (simp_all add: assms(6) succeed_def)
  then have refused: "violated account_constraints r (accounts (db u)) = Some n"
    by (rule insert_checked_Inl)
  have "\<forall>y \<in> set (accounts (db u)). \<not> default_conflict r y"
  proof (cases "acc_is_default a")
    case True
    then have "accounts (db u) = map (cleared (acc_gateway a) (acc_environment a) [] (now w)) (accounts (db w))"
      using rest(1) by (simp add: clear_default_Inr)
    moreover have "\<not> default_conflict r (cleared (acc_gateway a) (acc_environment a) [] (now w) y)"
      if "y \<in> set (accounts (db w))" for y
      using cleared_other[of y "[]" "acc_gateway a" "acc_environment a" "now w"] assms(3-5) that
      unfolding default_conflict_def assms(3,4) by blast
    ultimately show ?thesis by simp
  qed (simp add: default_conflict_def assms(2))
  then show ?thesis using no_default_refusal refused by blast
qed

lemma create_not_refused:
  assumes "txn w = None" "\<forall>x \<in> set (accounts (db w)). acc_id x \<noteq> []"
    and "account_create a w = (Inl (UniqueViolation n), v)"
  shows "n \<noteq> ''gateway_accounts_default_key''"
proof -
  obtain i w1 where i: "(if acc_id a = [] then fresh_id ''gwa'' else succeed (acc_id a)) w = (Inr i, w1)"
    by (cases "acc_id a = []") (auto simp: fresh_id_def succeed_def)
  have w1: "db w1 = db w" "txn w1 = None"
    using i assms(1) by (auto simp: fresh_id_def succeed_def split: if_splits)
  have "in_tx (bindE (if acc_is_default a then clear_default (acc_gateway a) (acc_environment a) [] else succeed ())
      (\<lambda>_. bindE (insert_checked account_checks account_constraints accounts set_accounts
        (a\<lparr>acc_id := i, acc_creator_key := [], acc_approver_key := [], acc_last_checked_at := None,
           acc_last_check_ok := None, acc_last_check_error := [], acc_created_at := now w1,
           acc_updated_at := now w1\<rparr>))
        (\<lambda>row. succeed (row\<lparr>acc_creator_key := acc_creator_key a, acc_approver_key := acc_approver_key a\<rparr>)))) w1
      = (Inl (UniqueViolation n), v)"
    using assms(3) i by (simp add: account_create_def bindE_run[of _ _ w] bindE_run[of "gets now"] gets_def)
  from in_tx_Inl[OF this w1(2)] show ?thesis
    by (elim disjE exE conjE) (simp, simp, erule clear_insert_not_refused, simp_all add: w1 assms(2))
qed

text \<open>C16. Whatever statements fail, every operation on gateway accounts keeps at most one
  default account per gateway and environment; and creating an account, as the default or not,
  is never refused because of the default that is already there.\<close>

theorem default_accounts_unique:
  assumes "default_unique (accounts (db w))" "\<forall>x \<in> set (accounts (db w)). acc_id x \<noteq> []"
  shows "default_unique (accounts (db (snd (account_create a w)))) \<and>
    default_unique (accounts (db (snd (account_update i u w)))) \<and>
    default_unique (accounts (db (snd (record_check i ok m c w)))) \<and>
    default_unique (accounts (db (snd (account_delete i w)))) \<and>
    (txn w = None \<longrightarrow>
      fst (account_create a w) \<noteq> Inl (UniqueViolation ''gateway_accounts_default_key''))"
proof (intro conjI impI notI)
  show "default_unique (accounts (db (snd (account_create a w))))"
    using defaults.safe_db[OF defaults_create, where w = w] assms(1) by (simp add: defaults_rel_def)
  show "default_unique (accounts (db (snd (account_update i u w))))"
    using defaults.safe_db[OF defaults_update, where w = w] assms(1) by (simp add: defaults_rel_def)
  show "default_unique (accounts (db (snd (record_check i ok m c w))))"
    using defaults.safe_db[OF defaults_check, where w = w] assms(1) by (simp add: defaults_rel_def)
  show "default_unique (accounts (db (snd (account_delete i w))))"
    using defaults.safe_db[OF defaults_delete, where w = w] assms(1) by (simp add: defaults_rel_def)
  assume "txn w = None" "fst (account_create a w) = Inl (UniqueViolation ''gateway_accounts_default_key'')"
  then show False using create_not_refused[OF _ assms(2)] by (metis prod.collapse)
qed

theorem default_accounts_unique_witness:
  "let a = zero_account\<lparr>acc_id := ''gwa_1'', acc_gateway := ''midtrans'', acc_environment := Sandbox,
         acc_enabled := True, acc_is_default := True\<rparr>;
       w = quiet_world (empty_db\<lparr>accounts := [a]\<rparr>) ()
   in default_unique (accounts (db (snd (account_create (a\<lparr>acc_id := [], acc_name := ''b''\<rparr>) w))))"
proof -
  let ?a = "zero_account\<lparr>acc_id := ''gwa_1'', acc_gateway := ''midtrans'', acc_environment := Sandbox,
         acc_enabled := True, acc_is_default := True\<rparr>"
  have "default_unique (accounts (db (quiet_world (empty_db\<lparr>accounts := [?a]\<rparr>) ())))"
    by (simp add: default_unique_def)
  then show ?thesis
    using default_accounts_unique[of "quiet_world (empty_db\<lparr>accounts := [?a]\<rparr>) ()"]
    by (simp add: Let_def)
qed

end
