(* ===== verification/Payments.thy ===== *)
theory Payments
  imports Delivery Gateway
begin

text \<open>
  \<open>internal/payment/model.go\<close> and \<open>repository.go\<close>: what a payment may still be asked, and the
  statements that create, read and advance payments.

  A row carries the columns of the table; the customer and the items are rows of their own, so
  they are empty in a row and filled in by \<open>load_details\<close>.
\<close>

subsection \<open>The model\<close>

definition item_total :: "item \<Rightarrow> int" where
  "item_total i = wrap64 (it_price i * it_quantity i)"

definition refundable_amount :: "payment \<Rightarrow> int" where
  "refundable_amount p =
     (let remaining = wrap64 (pay_amount p - pay_refunded_amount p)
      in if remaining < 0 then 0 else remaining)"

definition refundable :: "payment \<Rightarrow> bool" where
  "refundable p \<longleftrightarrow> settled (pay_status p) \<and> 0 < refundable_amount p"

definition cancelable :: "payment \<Rightarrow> bool" where
  "cancelable p \<longleftrightarrow> pay_status p = Pending \<or> pay_status p = Authorized"

subsection \<open>Creating a payment\<close>

abbreviation set_payments :: "payment list \<Rightarrow> db \<Rightarrow> db" where
  "set_payments rows d \<equiv> d\<lparr>payments := rows\<rparr>"

definition payment_checks :: "payment check list" where
  "payment_checks =
     [(''payments_amount_check'', \<lambda>p. 0 < pay_amount p),
      (''payments_refunded_amount_check'', \<lambda>p. 0 \<le> pay_refunded_amount p)]"

definition payment_constraints :: "payment constraint list" where
  "payment_constraints =
     [(''payments_pkey'', \<lambda>p x. pay_id p = pay_id x),
      (''payments_gateway_order_id_key'', \<lambda>p x. pay_gateway_order_id p = pay_gateway_order_id x),
      (''payments_application_order_key'', \<lambda>p x. pay_application_id p = pay_application_id x \<and>
         pay_application_order_id p = pay_application_order_id x)]"

text \<open>A nil pointer passed as an \<open>any\<close> is not a nil interface, so \<open>encodeJSONOrNil\<close> stores
  the JSON value \<open>null\<close> for a missing address, and \<open>decodeAddress\<close> reads it back as an
  empty one. The outer option is SQL's \<open>NULL\<close>, the inner one JSON's \<open>null\<close>.\<close>

definition encode_address :: "address option \<Rightarrow> address option option" where
  "encode_address a = Some a"

definition decode_address :: "address option option \<Rightarrow> address option" where
  "decode_address c = (case c of None \<Rightarrow> None | Some None \<Rightarrow> Some zero_address | Some (Some a) \<Rightarrow> Some a)"

definition stored_customer :: "customer \<Rightarrow> customer" where
  "stored_customer c = c\<lparr>cu_billing := decode_address (encode_address (cu_billing c)),
     cu_shipping := decode_address (encode_address (cu_shipping c))\<rparr>"

definition insert_customer :: "string \<Rightarrow> customer option \<Rightarrow> ('g, unit) routine" where
  "insert_customer payment_id c = (case c of
     None \<Rightarrow> succeed ()
   | Some c \<Rightarrow> bindE (insert_row [(''payment_customers_pkey'', \<lambda>a b. fst a = fst b)] customers
        (\<lambda>rows d. d\<lparr>customers := rows\<rparr>) (payment_id, stored_customer c)) (\<lambda>_. succeed ()))"

definition item_constraints :: "(string \<times> item) constraint list" where
  "item_constraints =
     [(''payment_items_pkey'', \<lambda>a b. it_id (snd a) = it_id (snd b)),
      (''payment_items_position_key'', \<lambda>a b. fst a = fst b \<and> it_position (snd a) = it_position (snd b))]"

definition item_checks :: "(string \<times> item) check list" where
  "item_checks = [(''payment_items_quantity_check'', \<lambda>a. 0 < it_quantity (snd a))]"

definition insert_item :: "string \<Rightarrow> nat \<times> item \<Rightarrow> ('g, unit) routine" where
  "insert_item payment_id x = (case x of (i, item) \<Rightarrow>
     bindE (fresh_id ''pay'') (\<lambda>item_id.
     bindE (insert_checked item_checks item_constraints items (\<lambda>rows d. d\<lparr>items := rows\<rparr>)
       (payment_id, item\<lparr>it_id := item_id, it_position := i\<rparr>)) (\<lambda>_. succeed ())))"

definition insert_items :: "string \<Rightarrow> item list \<Rightarrow> ('g, unit) routine" where
  "insert_items payment_id xs =
     bindE (mapE (insert_item payment_id) (List.enumerate 0 xs)) (\<lambda>_. succeed ())"

text \<open>The row of a new payment: the columns the statement does not mention have their defaults.\<close>

definition payment_row :: "time \<Rightarrow> payment \<Rightarrow> payment" where
  "payment_row t p = p\<lparr>pay_status_rank := status_rank (pay_status p), pay_refunded_amount := 0,
     pay_customer := None, pay_items := [], pay_paid_at := None, pay_canceled_at := None,
     pay_expired_at := None, pay_refunded_at := None, pay_last_synced_at := None,
     pay_created_at := t, pay_updated_at := t\<rparr>"

definition create_rows :: "time \<Rightarrow> payment \<Rightarrow> ('g, payment) routine" where
  "create_rows t p =
     bindE (insert_checked payment_checks payment_constraints payments set_payments (payment_row t p)) (\<lambda>row.
     bindE (insert_customer (pay_id p) (pay_customer p)) (\<lambda>_.
     bindE (insert_items (pay_id p) (pay_items p)) (\<lambda>_.
     succeed (row\<lparr>pay_customer := pay_customer p, pay_items := pay_items p\<rparr>))))"

definition payment_create :: "payment \<Rightarrow> ('g, payment) routine" where
  "payment_create p =
     bindE (if pay_id p = [] then fresh_id ''pay'' else succeed (pay_id p)) (\<lambda>i.
     bindE (if pay_gateway_order_id p = [] then fresh_id ''pmx'' else succeed (pay_gateway_order_id p)) (\<lambda>o_id.
     bindE (gets now) (\<lambda>t. in_tx (create_rows t (p\<lparr>pay_id := i, pay_gateway_order_id := o_id\<rparr>)))))"

subsection \<open>Reading\<close>

definition payment_where :: "(payment \<Rightarrow> bool) \<Rightarrow> ('g, payment) routine" where
  "payment_where cond = query_row (\<lambda>d. List.find cond (payments d))"

definition payment_get :: "string \<Rightarrow> ('g, payment) routine" where
  "payment_get i = payment_where (\<lambda>p. pay_id p = i)"

definition get_for_application :: "string \<Rightarrow> string \<Rightarrow> ('g, payment) routine" where
  "get_for_application application_id i =
     payment_where (\<lambda>p. pay_id p = i \<and> pay_application_id p = application_id)"

definition get_by_gateway_order_id :: "string \<Rightarrow> string \<Rightarrow> ('g, payment) routine" where
  "get_by_gateway_order_id gw order_id =
     payment_where (\<lambda>p. pay_gateway p = gw \<and> pay_gateway_order_id p = order_id)"

definition get_by_application_order_id :: "string \<Rightarrow> string \<Rightarrow> ('g, payment) routine" where
  "get_by_application_order_id application_id order_id =
     payment_where (\<lambda>p. pay_application_id p = application_id \<and> pay_application_order_id p = order_id)"

text \<open>The row lock of \<open>FOR UPDATE\<close> has no effect in a method that is not interleaved.\<close>

definition lock_for_update :: "string \<Rightarrow> ('g, payment) routine" where
  "lock_for_update i = payment_where (\<lambda>p. pay_id p = i)"

definition load_customer :: "string \<Rightarrow> ('g, customer option) routine" where
  "load_customer i = query (\<lambda>d. map_of (customers d) i)"

definition load_items :: "string \<Rightarrow> ('g, item list) routine" where
  "load_items i = query (\<lambda>d. sort_key it_position (map snd (filter (\<lambda>x. fst x = i) (items d))))"

definition load_details :: "payment \<Rightarrow> ('g, payment) routine" where
  "load_details p =
     bindE (load_customer (pay_id p)) (\<lambda>c.
     bindE (load_items (pay_id p)) (\<lambda>xs.
     succeed (p\<lparr>pay_customer := c, pay_items := xs\<rparr>)))"

record payment_filter =
  pf_application_id :: string
  pf_status :: string
  pf_gateway :: string
  pf_application_order_id :: string
  pf_gateway_order_id :: string
  pf_gateway_transaction_id :: string
  pf_created_from :: "time option"
  pf_created_to :: "time option"

definition payment_matches :: "payment_filter \<Rightarrow> payment \<Rightarrow> bool" where
  "payment_matches f p \<longleftrightarrow>
     (pf_application_id f \<noteq> [] \<longrightarrow> pay_application_id p = pf_application_id f) \<and>
     (pf_status f \<noteq> [] \<longrightarrow> status_text (pay_status p) = pf_status f) \<and>
     (pf_gateway f \<noteq> [] \<longrightarrow> pay_gateway p = pf_gateway f) \<and>
     (pf_application_order_id f \<noteq> [] \<longrightarrow> pay_application_order_id p = pf_application_order_id f) \<and>
     (pf_gateway_order_id f \<noteq> [] \<longrightarrow> pay_gateway_order_id p = pf_gateway_order_id f) \<and>
     (pf_gateway_transaction_id f \<noteq> [] \<longrightarrow> pay_gateway_transaction_id p = pf_gateway_transaction_id f) \<and>
     (case pf_created_from f of None \<Rightarrow> True | Some t \<Rightarrow> t \<le> pay_created_at p) \<and>
     (case pf_created_to f of None \<Rightarrow> True | Some t \<Rightarrow> pay_created_at p \<le> t)"

definition payment_page :: "payment_filter \<Rightarrow> page \<Rightarrow> db \<Rightarrow> payment listing" where
  "payment_page f p d = list_rows pay_id (payment_matches f) p (payments d)"

definition payment_list :: "payment_filter \<Rightarrow> page \<Rightarrow> ('g, payment listing) routine" where
  "payment_list f p = query (payment_page f p)"

interpretation payment_listing: keyset_listing "payment_page f" pay_id
    "\<lambda>d. order_desc pay_id (filter (payment_matches f) (payments d))" for f
  unfolding payment_page_def by (rule keyset_listing_rows)

subsection \<open>Advancing a payment\<close>

record state_update =
  su_status :: status
  su_gateway_status :: string
  su_fraud_status :: string
  su_gateway_transaction_id :: string
  su_payment_type :: string
  su_payment_method :: string
  su_refunded_amount :: "int option"
  su_gateway_data :: "jmap option"
  su_occurred_at :: "time option"
  su_mark_synced :: bool

definition stamp :: "bool \<Rightarrow> time \<Rightarrow> time option \<Rightarrow> time option" where
  "stamp cond t old = (if cond \<and> old = None then Some t else old)"

definition advanced :: "state_update \<Rightarrow> time \<Rightarrow> payment \<Rightarrow> payment" where
  "advanced u t p =
     (let s = su_status u; occurred = coalesce (su_occurred_at u) t in p\<lparr>
        pay_status := s,
        pay_status_rank := status_rank s,
        pay_gateway_status := su_gateway_status u,
        pay_fraud_status := keep_unless (su_fraud_status u) (pay_fraud_status p),
        pay_gateway_transaction_id := keep_unless (su_gateway_transaction_id u) (pay_gateway_transaction_id p),
        pay_type := keep_unless (su_payment_type u) (pay_type p),
        pay_method := keep_unless (su_payment_method u) (pay_method p),
        pay_refunded_amount := coalesce (su_refunded_amount u) (pay_refunded_amount p),
        pay_gateway_data := coalesce (su_gateway_data u) (pay_gateway_data p),
        pay_paid_at := stamp (s = Paid) occurred (pay_paid_at p),
        pay_canceled_at := stamp (s = Canceled) occurred (pay_canceled_at p),
        pay_expired_at := stamp (s = Expired) occurred (pay_expired_at p),
        pay_refunded_at := stamp (s = Refunded \<or> s = PartiallyRefunded) occurred (pay_refunded_at p),
        pay_last_synced_at := (if su_mark_synced u then Some t else pay_last_synced_at p),
        pay_updated_at := t\<rparr>)"

definition apply_state :: "string \<Rightarrow> state_update \<Rightarrow> ('g, payment) routine" where
  "apply_state i u =
     (if \<not> status_valid (su_status u) then throw (OtherError ''payment: cannot apply unknown status'')
      else bindE (gets now) (\<lambda>t.
        catchE (update_checked payment_checks [] payments set_payments
            (\<lambda>p. pay_id p = i \<and> pay_status p \<in> set (predecessors_of (su_status u))) (advanced u t))
          (\<lambda>e. if is_not_found e then throw StaleTransition else throw e)
          succeed))"

definition touch_synced :: "string \<Rightarrow> ('g, unit) routine" where
  "touch_synced i =
     bindE (gets now) (\<lambda>t. exec_stmt (\<lambda>d. set_payments
       (map (\<lambda>p. if pay_id p = i then p\<lparr>pay_last_synced_at := Some t\<rparr> else p) (payments d)) d))"

definition set_checkout_session :: "string \<Rightarrow> string \<Rightarrow> string \<Rightarrow> time option \<Rightarrow> ('g, unit) routine" where
  "set_checkout_session i token url expires_at =
     bindE (gets now) (\<lambda>t. exec_stmt (\<lambda>d. set_payments
       (map (\<lambda>p. if pay_id p = i
          then p\<lparr>pay_snap_token := token, pay_snap_redirect_url := url,
                 pay_expires_at := (case expires_at of None \<Rightarrow> pay_expires_at p | Some e \<Rightarrow> Some e),
                 pay_updated_at := t\<rparr>
          else p) (payments d)) d))"

subsection \<open>Gateway transactions\<close>

text \<open>A row is its identifier, its payment and the transaction; the gateway of every row is the
  constant of the statement. A transaction that is already known keeps its payment.\<close>

definition refresh_txn :: "gw_transaction \<Rightarrow> gw_transaction \<Rightarrow> gw_transaction" where
  "refresh_txn x old = old\<lparr>gt_status := gt_status x, gt_fraud_status := gt_fraud_status x,
     gt_payment_type := gt_payment_type x,
     gt_settlement_time := (case gt_settlement_time x of None \<Rightarrow> gt_settlement_time old | Some t \<Rightarrow> Some t),
     gt_raw := Some (coalesce (gt_raw x) [])\<rparr>"

definition upsert_gateway_transaction :: "string \<Rightarrow> gw_transaction \<Rightarrow> ('g, unit) routine" where
  "upsert_gateway_transaction payment_id x =
     (if gt_transaction_id x = [] then succeed ()
      else bindE (fresh_id ''txn'') (\<lambda>i. run_stmt (\<lambda>d.
        if list_ex (\<lambda>(_, _, y). gt_transaction_id y = gt_transaction_id x) (gw_txns d)
        then Inr ((), d\<lparr>gw_txns := map (\<lambda>(j, p, y).
            if gt_transaction_id y = gt_transaction_id x then (j, p, refresh_txn x y) else (j, p, y)) (gw_txns d)\<rparr>)
        else if list_ex (\<lambda>(j, _, _). j = i) (gw_txns d) then Inl (UniqueViolation ''gateway_transactions_pkey'')
        else Inr ((), d\<lparr>gw_txns := gw_txns d @ [(i, payment_id, x\<lparr>gt_raw := Some (coalesce (gt_raw x) [])\<rparr>)]\<rparr>))))"

subsection \<open>Statistics\<close>

record currency_total =
  ct_currency :: string
  ct_paid_total :: int
  ct_count :: int

record payment_stats =
  pt_created :: int
  pt_paid :: int
  pt_pending :: int
  pt_failed :: int
  pt_currencies :: "currency_total list"

text \<open>\<open>GROUP BY currency ORDER BY currency\<close>: the currencies once each, in order.\<close>

definition currency_totals :: "payment list \<Rightarrow> currency_total list" where
  "currency_totals rows = map (\<lambda>c. let same = filter (\<lambda>p. pay_currency p = c) rows in
       \<lparr>ct_currency = c, ct_paid_total = (\<Sum>p\<leftarrow>same. pay_amount p - pay_refunded_amount p),
        ct_count = int (length same)\<rparr>)
     (sort (remdups (map pay_currency rows)))"

definition payment_statistics :: "time \<Rightarrow> ('g, payment_stats) routine" where
  "payment_statistics since =
     bindE (query (\<lambda>d. let rows = filter (\<lambda>p. since \<le> pay_created_at p) (payments d) in
       (int (length rows),
        count_rows (\<lambda>p. pay_status p \<in> {Paid, Refunded, PartiallyRefunded}) rows,
        count_rows (\<lambda>p. pay_status p \<in> {Pending, Authorized}) rows,
        count_rows (\<lambda>p. pay_status p \<in> {Failed, Canceled, Expired}) rows))) (\<lambda>(c, p, q, f).
     bindE (query (\<lambda>d. currency_totals (filter (\<lambda>p. since \<le> pay_created_at p \<and>
         pay_status p \<in> {Paid, PartiallyRefunded}) (payments d)))) (\<lambda>totals.
     succeed \<lparr>pt_created = c, pt_paid = p, pt_pending = q, pt_failed = f, pt_currencies = totals\<rparr>))"

record application_activity =
  aa_application_id :: string
  aa_name :: string
  aa_payments :: int
  aa_paid :: int
  aa_pending :: int
  aa_deliveries_ok :: int
  aa_deliveries_failed :: int
  aa_deliveries_dead :: int

definition activity_of :: "time \<Rightarrow> db \<Rightarrow> application \<Rightarrow> application_activity" where
  "activity_of since d a =
     (let ps = filter (\<lambda>p. pay_application_id p = app_id a \<and> since \<le> pay_created_at p) (payments d);
          ds = filter (\<lambda>x. dl_application_id x = app_id a) (deliveries d)
      in \<lparr>aa_application_id = app_id a, aa_name = app_name a, aa_payments = int (length ps),
          aa_paid = count_rows (\<lambda>p. pay_status p \<in> {Paid, Refunded, PartiallyRefunded}) ps,
          aa_pending = count_rows (\<lambda>p. pay_status p \<in> {Pending, Authorized}) ps,
          aa_deliveries_ok = count_rows (\<lambda>x. dl_state x = DSucceeded \<and> since \<le> dl_created_at x) ds,
          aa_deliveries_failed = count_rows (\<lambda>x. dl_state x = DFailed) ds,
          aa_deliveries_dead = count_rows (\<lambda>x. dl_state x = DDead) ds\<rparr>)"

definition activity_by_application :: "time \<Rightarrow> ('g, application_activity list) routine" where
  "activity_by_application since = query (\<lambda>d. map (activity_of since d)
     (sort_key app_name (filter (\<lambda>a. app_disabled_at a = None) (applications d))))"

end
