(* ===== verification/Money.thy ===== *)
theory Money
  imports Prelude
begin

text \<open>
  Package \<open>internal/money\<close>: conversion between amounts in minor units (\<open>int64\<close>) and
  the decimal strings gateways exchange. The table of exponents, \<open>Format\<close> and \<open>Parse\<close>
  are written as the source has them, with the negation and division of \<open>int64\<close> wrapping
  as in Go. Two facts carry the package: what \<open>Format\<close> prints is read back unchanged by
  \<open>Parse\<close>, and \<open>Parse\<close> never rounds, whatever string it is given.
\<close>

datatype money_error = UnknownCurrency string | EmptyAmount | InvalidDecimal string
  | TooPrecise string string | OutOfRange string

definition exponents :: "(string \<times> nat) list" where
  "exponents =
    [(''IDR'', 0), (''JPY'', 0), (''KRW'', 0), (''VND'', 0),
     (''USD'', 2), (''SGD'', 2), (''MYR'', 2), (''PHP'', 2), (''THB'', 2), (''AUD'', 2),
     (''EUR'', 2), (''GBP'', 2), (''CNY'', 2), (''HKD'', 2), (''NZD'', 2), (''TWD'', 2),
     (''INR'', 2), (''CHF'', 2), (''CAD'', 2), (''AED'', 2), (''SAR'', 2)]"

definition normalize_currency :: "string \<Rightarrow> string" where
  "normalize_currency currency = to_upper (trim_space currency)"

definition exponent :: "string \<Rightarrow> money_error + nat" where
  "exponent currency = (case map_of exponents (normalize_currency currency) of
     None \<Rightarrow> Inl (UnknownCurrency currency) | Some e \<Rightarrow> Inr e)"

definition supported :: "string \<Rightarrow> bool" where
  "supported currency \<longleftrightarrow> map_of exponents (normalize_currency currency) \<noteq> None"

text \<open>\<open>%0*d\<close> counts the sign in the width.\<close>

definition pad_zero :: "nat \<Rightarrow> int \<Rightarrow> string" where
  "pad_zero w i = (if i < 0
     then (let d = dec_nat (nat (- i)) in CHR ''-'' # replicate (w - 1 - length d) CHR ''0'' @ d)
     else (let d = dec_nat (nat i) in replicate (w - length d) CHR ''0'' @ d))"

fun pow10 :: "nat \<Rightarrow> int" where
  "pow10 0 = 1"
| "pow10 (Suc n) = wrap64 (pow10 n * 10)"

definition money_format :: "int \<Rightarrow> string \<Rightarrow> money_error + string" where
  "money_format minor currency = (case exponent currency of
     Inl e \<Rightarrow> Inl e
   | Inr exp \<Rightarrow>
       if exp = 0 then Inr (format_int minor)
       else
         let negative = minor < 0;
             minor = (if negative then wrap64 (- minor) else minor);
             divisor = pow10 exp;
             whole = go_quot minor divisor;
             frac = go_rem minor divisor;
             out = format_int whole @ CHR ''.'' # pad_zero exp frac
         in Inr (if negative then CHR ''-'' # out else out))"

definition is_digits :: "string \<Rightarrow> bool" where
  "is_digits s \<longleftrightarrow> s \<noteq> [] \<and> list_all is_digit s"

text \<open>\<open>strconv.ParseInt(s, 10, 64)\<close>, \<open>None\<close> for either of its errors.\<close>

definition parse_int64 :: "string \<Rightarrow> int option" where
  "parse_int64 s = (case s of [] \<Rightarrow> None | c # cs \<Rightarrow>
     let neg = (c = CHR ''-''); body = (if c = CHR ''-'' \<or> c = CHR ''+'' then cs else s);
         v = (if neg then - int (dec_val body) else int (dec_val body))
     in if is_digits body \<and> is_int64 v then Some v else None)"

text \<open>The leading sign \<open>Parse\<close> strips, and what is left of the value.\<close>

definition strip_sign :: "string \<Rightarrow> bool \<times> string" where
  "strip_sign value = (case value of
     [] \<Rightarrow> (False, [])
   | c # cs \<Rightarrow> if c = CHR ''-'' then (True, cs) else if c = CHR ''+'' then (False, cs) else (False, value))"

definition money_parse :: "string \<Rightarrow> string \<Rightarrow> money_error + int" where
  "money_parse value0 currency = (case exponent currency of
     Inl e \<Rightarrow> Inl e
   | Inr exp \<Rightarrow>
       let value1 = trim_space value0 in
       if value1 = [] then Inl EmptyAmount
       else
         let (negative, value) = strip_sign value1;
             (whole0, frac0, has_frac) = cut (CHR ''.'') value;
             whole = (if whole0 = [] then ''0'' else whole0)
         in if \<not> is_digits whole \<or> (has_frac \<and> \<not> is_digits frac0) then Inl (InvalidDecimal value)
         else if exp < length frac0 \<and> trim_both (\<lambda>c. c = CHR ''0'') (drop exp frac0) \<noteq> []
         then Inl (TooPrecise value (normalize_currency currency))
         else
           let frac1 = (if exp < length frac0 then take exp frac0 else frac0);
               frac = frac1 @ replicate (exp - length frac1) CHR ''0''
           in case parse_int64 (whole @ frac) of
                None \<Rightarrow> Inl (OutOfRange value)
              | Some minor \<Rightarrow> Inr (if negative then wrap64 (- minor) else minor))"

subsection \<open>The exponent table\<close>

lemma exponent_cases: "exponent c = Inr e \<Longrightarrow> e = 0 \<or> e = 2"
  by (auto simp: exponent_def exponents_def split: option.splits if_splits)

lemma supported_exponent: "supported c \<longleftrightarrow> (\<exists>e. exponent c = Inr e)"
  by (auto simp: supported_def exponent_def split: option.splits)

lemma pow10_two [simp]: "pow10 2 = 100"
  by (simp add: numeral_2_eq_2 int64_defs)

subsection \<open>Reading a run of digits\<close>

lemma is_digits_append: "is_digits a \<Longrightarrow> list_all is_digit b \<Longrightarrow> is_digits (a @ b)"
  by (simp add: is_digits_def)

lemma digits_not: "list_all is_digit s \<Longrightarrow> \<not> is_digit c \<Longrightarrow> c \<notin> set s"
  by (auto simp: list_all_iff)

lemma not_is_digit [simp]: "\<not> is_digit CHR ''-''" "\<not> is_digit CHR ''+''" "\<not> is_digit CHR ''.''"
  by (simp_all add: is_digit_def)

lemma is_digit_zero [simp]: "is_digit CHR ''0''"
  by (simp add: is_digit_def)

lemma is_digits_dec_nat [simp]: "is_digits (dec_nat n)"
  by (simp add: is_digits_def list_all_iff dec_nat_digits)

lemma parse_int64_digits:
  assumes "is_digits s"
  shows "parse_int64 s = (if int (dec_val s) \<le> max_int64 then Some (int (dec_val s)) else None)"
proof -
  obtain c cs where s: "s = c # cs" using assms by (cases s) (auto simp: is_digits_def)
  with assms have "is_digit c" by (simp add: is_digits_def)
  then have "c \<noteq> CHR ''-''" "c \<noteq> CHR ''+''" using not_is_digit by blast+
  then show ?thesis
    using assms by (simp add: parse_int64_def s is_int64_def min_int64_def)
qed

lemma strip_sign_digit:
  assumes "is_digits (w @ r)" shows "strip_sign (w @ r) = (False, w @ r)"
proof (cases "w @ r")
  case (Cons c cs)
  then have "is_digit c" using assms by (simp add: is_digits_def)
  then have "c \<noteq> CHR ''-''" "c \<noteq> CHR ''+''" using not_is_digit by blast+
  then show ?thesis by (simp add: strip_sign_def Cons)
qed (simp add: strip_sign_def)

text \<open>What \<open>Format\<close> writes: an optional sign, the whole part and, for a currency with
  decimals, exactly that many of them.\<close>

definition decimal_text :: "bool \<Rightarrow> nat \<Rightarrow> string \<Rightarrow> string \<Rightarrow> string" where
  "decimal_text neg e w f =
     (if neg then ''-'' else []) @ w @ (if e = 0 then [] else CHR ''.'' # f)"

lemma decimal_text_no_space:
  assumes "is_digits w" "list_all is_digit f"
  shows "\<forall>c \<in> set (decimal_text neg e w f). \<not> is_space c"
proof -
  have "\<not> is_space CHR ''-''" "\<not> is_space CHR ''.''" by (simp_all add: is_space_def)
  then show ?thesis
    using assms is_digit_not_space by (auto simp: decimal_text_def is_digits_def list_all_iff)
qed

lemma money_parse_decimal_text:
  assumes e: "exponent c = Inr e" and w: "is_digits w" and f: "list_all is_digit f" "length f = e"
    and fits: "int (dec_val (w @ f)) \<le> max_int64"
  shows "money_parse (decimal_text neg e w f) c
    = Inr (if neg then - int (dec_val (w @ f)) else int (dec_val (w @ f)))"
proof -
  let ?v = "w @ (if e = 0 then [] else CHR ''.'' # f)"
  have dot: "CHR ''.'' \<notin> set w" using w by (intro digits_not) (auto simp: is_digits_def)
  have sign: "strip_sign (decimal_text neg e w f) = (neg, ?v)"
  proof (cases neg)
    case True
    then show ?thesis by (simp add: decimal_text_def strip_sign_def)
  next
    case False
    obtain d ds where wd: "w = d # ds" using w by (cases w) (auto simp: is_digits_def)
    with w have "is_digit d" by (simp add: is_digits_def)
    then have "d \<noteq> CHR ''-''" "d \<noteq> CHR ''+''" using not_is_digit by blast+
    with False show ?thesis by (simp add: decimal_text_def strip_sign_def wd)
  qed
  have cut: "cut (CHR ''.'') ?v = (w, f, e \<noteq> 0)"
    using dot f by (auto simp: cut_absent cut_append)
  have ne: "decimal_text neg e w f \<noteq> []" using w by (simp add: decimal_text_def is_digits_def)
  have fd: "e = 0 \<or> is_digits f" using f by (auto simp: is_digits_def)
  have wf: "parse_int64 (w @ f) = Some (int (dec_val (w @ f)))"
    using w f fits by (simp add: parse_int64_digits is_digits_append)
  have "w \<noteq> []" using w by (simp add: is_digits_def)
  moreover have "is_int64 (- int (dec_val (w @ f)))"
    using fits by (simp add: is_int64_def max_int64_def min_int64_def)
  ultimately show ?thesis
    using ne f w fd
    by (simp add: money_parse_def e trim_space_id decimal_text_no_space sign cut wf)
qed

lemma pad_zero_two:
  assumes "0 \<le> i" "i < 100"
  shows "length (pad_zero 2 i) = 2 \<and> list_all is_digit (pad_zero 2 i) \<and> dec_val (pad_zero 2 i) = nat i"
proof -
  have len: "length (dec_nat (nat i)) \<le> 2"
    using assms by (simp add: dec_nat.simps[of "nat i"] dec_nat.simps[of "nat i div 10"])
  have "list_all is_digit (dec_nat (nat i))" by (auto simp: list_all_iff dec_nat_digits)
  then show ?thesis
    using assms len by (auto simp: pad_zero_def dec_val_append list_all_iff Let_def)
qed

lemma money_format_text:
  assumes e: "exponent c = Inr e" and m: "min_int64 < m" "m \<le> max_int64"
  shows "\<exists>w f. money_format m c = Inr (decimal_text (m < 0) e w f) \<and> is_digits w \<and>
    list_all is_digit f \<and> length f = e \<and> int (dec_val (w @ f)) = \<bar>m\<bar>"
proof (cases "e = 0")
  case True
  let ?w = "dec_nat (nat \<bar>m\<bar>)"
  have "money_format m c = Inr (decimal_text (m < 0) e ?w [])"
    by (simp add: money_format_def e True decimal_text_def format_int_def)
  moreover have "int (dec_val (?w @ [])) = \<bar>m\<bar>" by simp
  ultimately show ?thesis using True by (intro exI[of _ ?w] exI[of _ "[]"]) simp
next
  case False
  with exponent_cases[OF e] have e2: "e = 2" by simp
  obtain a where a: "\<bar>m\<bar> = a" "0 \<le> a" by simp
  let ?w = "dec_nat (nat (a div 100))" and ?f = "pad_zero 2 (a mod 100)"
  have neg: "(if m < 0 then wrap64 (- m) else m) = a"
    using m a(1) by (auto simp: is_int64_def max_int64_def min_int64_def)
  have f: "length ?f = 2 \<and> list_all is_digit ?f \<and> dec_val ?f = nat (a mod 100)"
    by (rule pad_zero_two) simp_all
  have "format_int (a div 100) = ?w" using a(2) by (simp add: format_int_def)
  then have "money_format m c = Inr (decimal_text (m < 0) e ?w ?f)"
    unfolding money_format_def e Let_def neg
    using a(2) by (simp add: e2 go_quot_nonneg go_rem_nonneg decimal_text_def)
  moreover have "int (dec_val (?w @ ?f)) = a"
    using f a(2) by (simp add: dec_val_append pos_imp_zdiv_nonneg_iff)
  moreover have "0 \<le> a div 100" using a(2) by (simp add: pos_imp_zdiv_nonneg_iff)
  ultimately show ?thesis using f e2 a(1) by (intro exI[of _ ?w] exI[of _ ?f]) simp
qed

lemma parse_of_format:
  assumes "supported c" "min_int64 < m" "m \<le> max_int64"
  shows "\<exists>s. money_format m c = Inr s \<and> money_parse s c = Inr m"
proof -
  obtain e where e: "exponent c = Inr e" using assms(1) by (auto simp: supported_exponent)
  obtain w f where tx: "money_format m c = Inr (decimal_text (m < 0) e w f)" "is_digits w"
      "list_all is_digit f" "length f = e" "int (dec_val (w @ f)) = \<bar>m\<bar>"
    using money_format_text[OF e assms(2,3)] by blast
  moreover have "\<bar>m\<bar> \<le> max_int64" using assms(2,3) by (simp add: max_int64_def min_int64_def)
  ultimately have "money_parse (decimal_text (m < 0) e w f) c = Inr m"
    using money_parse_decimal_text[OF e, of w f "m < 0"] by simp
  with tx(1) show ?thesis by blast
qed

text \<open>C1. Round trip: for every supported currency, the string \<open>Format\<close> renders an
  amount to is read back by \<open>Parse\<close> as exactly that amount, for every \<open>int64\<close> but
  the least one.\<close>

theorem parse_format:
  assumes "supported c" "min_int64 < m" "m \<le> max_int64"
  shows "\<exists>s. money_format m c = Inr s \<and> money_parse s c = Inr m"
  using assms by (rule parse_of_format)

theorem parse_format_witness:
  "supported '' usd'' \<and> (\<exists>s. money_format (-1050) '' usd'' = Inr s \<and> money_parse s '' usd'' = Inr (-1050))"
proof -
  have "supported '' usd''" by code_simp
  moreover have "\<exists>s. money_format (-1050) '' usd'' = Inr s \<and> money_parse s '' usd'' = Inr (-1050)"
    using parse_format[of "'' usd''" "-1050"] calculation by (simp add: min_int64_def max_int64_def)
  ultimately show ?thesis by blast
qed

subsection \<open>Reading never rounds\<close>

lemma trim_zeros: "trim_both (\<lambda>c. c = z) s = [] \<Longrightarrow> s = replicate (length s) z"
  by (simp add: trim_both_eq_Nil replicate_length_same)

lemma strip_sign_text:
  "strip_sign v = (neg, r) \<Longrightarrow>
   v = (if neg then ''-'' else []) @ r \<or> (\<not> neg \<and> v = ''+'' @ r)"
  by (auto simp: strip_sign_def split: list.splits if_splits)

lemma cut_text: "cut sep v = (a, b, found) \<Longrightarrow> v = a @ (if found then sep # b else []) \<and> (found \<or> b = [])"
proof (induction v arbitrary: a)
  case (Cons x xs)
  then show ?case by (cases "x = sep") (auto simp: cut_def)
qed (simp add: cut_def)

text \<open>The fraction brought to the currency's number of places: the digits that are cut off
  are zeros, the digits that are added are zeros.\<close>

lemma frac_scaled:
  assumes "length f \<le> e \<or> trim_both (\<lambda>c. c = CHR ''0'') (drop e f) = []"
    and "g = (if e < length f then take e f else f)"
  shows "dec_val (w @ g @ replicate (e - length g) CHR ''0'') * 10 ^ length f = dec_val (w @ f) * 10 ^ e"
proof (cases "e < length f")
  case False
  then have "dec_val ((w @ f) @ replicate (e - length f) CHR ''0'') = dec_val (w @ f) * 10 ^ (e - length f)"
    by (simp only: dec_val_append [of "w @ f"] dec_val_zeros length_replicate add_0_right)
  moreover have "(10::nat) ^ (e - length f) * 10 ^ length f = 10 ^ e"
    using False by (simp add: power_add [symmetric])
  ultimately show ?thesis using False assms(2) by simp
next
  case True
  obtain n where z: "drop e f = replicate n CHR ''0''" and n: "n = length f - e"
    using True assms(1) trim_zeros[of "CHR ''0''" "drop e f"] by auto
  have "dec_val (w @ f) = dec_val ((w @ take e f) @ drop e f)" by simp
  also have "\<dots> = dec_val (w @ take e f) * 10 ^ n" by (simp only: z dec_val_append) simp
  finally have "dec_val (w @ f) * 10 ^ e = dec_val (w @ take e f) * 10 ^ (n + e)"
    by (simp add: power_add)
  with True n show ?thesis using assms(2) by simp
qed

lemma dec_val_whole: "dec_val ((if w = [] then ''0'' else w) @ g) = dec_val (w @ g)"
  by (simp add: dec_val_def digit_val_def)

text \<open>C2. \<open>Parse\<close> is exact. Any string it accepts is an optional sign, digits and an
  optional fraction, and the result denotes exactly the number written: with \<open>e\<close> decimal
  places in the currency and a fraction of \<open>n\<close> digits, \<open>result / 10^e\<close> equals
  \<open>digits / 10^n\<close> with the sign of the text. More precision than the currency has is
  never rounded away.\<close>

theorem parse_exact:
  assumes "money_parse v c = Inr m" and "exponent c = Inr e"
  shows "\<exists>neg sg w dot f. trim_space v = sg @ w @ dot @ f \<and> (neg \<longleftrightarrow> sg = ''-'') \<and>
    (sg = ''-'' \<or> sg = ''+'' \<or> sg = []) \<and> (dot = ''.'' \<or> dot = [] \<and> f = []) \<and>
    list_all is_digit (w @ f) \<and>
    m * 10 ^ length f = (if neg then - 1 else 1) * int (dec_val (w @ f)) * 10 ^ e"
proof -
  obtain neg r where s: "strip_sign (trim_space v) = (neg, r)" by fastforce
  obtain w f found where k: "cut (CHR ''.'') r = (w, f, found)" by (metis prod_cases3)
  let ?w = "if w = [] then ''0'' else w"
  let ?g = "if e < length f then take e f else f"
  let ?n = "?w @ ?g @ replicate (e - length ?g) CHR ''0''"
  have run: "money_parse v c = (if trim_space v = [] then Inl EmptyAmount
      else if \<not> is_digits ?w \<or> (found \<and> \<not> is_digits f) then Inl (InvalidDecimal r)
      else if e < length f \<and> trim_both (\<lambda>c. c = CHR ''0'') (drop e f) \<noteq> []
      then Inl (TooPrecise r (normalize_currency c))
      else (case parse_int64 ?n of None \<Rightarrow> Inl (OutOfRange r)
            | Some i \<Rightarrow> Inr (if neg then wrap64 (- i) else i)))"
    unfolding money_parse_def assms(2) Let_def sum.case s k prod.case by (rule refl)
  have acc: "is_digits ?w" "found \<longrightarrow> is_digits f"
      "length f \<le> e \<or> trim_both (\<lambda>c. c = CHR ''0'') (drop e f) = []"
    using assms(1) unfolding run by (auto split del: if_split split: if_split_asm)
  obtain i where i: "parse_int64 ?n = Some i" and m: "m = (if neg then wrap64 (- i) else i)"
    using assms(1) unfolding run
    by (cases "parse_int64 ?n") (simp_all split: if_split_asm)
  have r: "r = w @ (if found then CHR ''.'' # f else [])" and nf: "found \<or> f = []"
    using cut_text[OF k] by simp_all
  have digits: "list_all is_digit w" "list_all is_digit f"
    using acc(1,2) nf by (auto simp: is_digits_def split: if_splits)
  have "is_digits ?n"
    using acc(1) digits by (intro is_digits_append) (auto simp: list_all_iff dest: in_set_takeD)
  then have iv: "i = int (dec_val ?n)" and "i \<le> max_int64"
    using i by (simp_all add: parse_int64_digits split: if_splits)
  then have "m = (if neg then - 1 else 1) * int (dec_val ?n)"
    using m by (simp add: is_int64_def max_int64_def min_int64_def)
  moreover have "int (dec_val ?n) * 10 ^ length f = int (dec_val (w @ f)) * 10 ^ e"
    using arg_cong[OF frac_scaled[OF acc(3) refl, of w], of int]
    unfolding dec_val_whole of_nat_mult of_nat_power of_nat_numeral .
  ultimately have val: "m * 10 ^ length f = (if neg then - 1 else 1) * int (dec_val (w @ f)) * 10 ^ e"
    by simp
  have "trim_space v = (if neg then ''-'' else []) @ r \<or> (\<not> neg \<and> trim_space v = ''+'' @ r)"
    using strip_sign_text[OF s] .
  then obtain sg where sg: "trim_space v = sg @ r" "neg \<longleftrightarrow> sg = ''-''"
      "sg = ''-'' \<or> sg = ''+'' \<or> sg = []"
    by (cases neg) auto
  have "trim_space v = sg @ w @ (if found then ''.'' else []) @ f"
    using sg(1) r nf by (cases found) simp_all
  moreover have "(if found then ''.'' else []) = ''.'' \<or> (if found then ''.'' else []) = [] \<and> f = []"
    using nf by auto
  moreover have "list_all is_digit (w @ f)" using digits by simp
  ultimately show ?thesis using sg(2,3) val by (intro exI conjI)
qed

theorem parse_exact_witness:
  "\<exists>neg sg w dot f. trim_space ''+10.500 '' = sg @ w @ dot @ f \<and> (neg \<longleftrightarrow> sg = ''-'') \<and>
    (sg = ''-'' \<or> sg = ''+'' \<or> sg = []) \<and> (dot = ''.'' \<or> dot = [] \<and> f = []) \<and>
    list_all is_digit (w @ f) \<and>
    1050 * 10 ^ length f = (if neg then - 1 else 1) * int (dec_val (w @ f)) * (10::int) ^ 2"
proof -
  have "money_parse ''+10.500 '' ''USD'' = Inr 1050" "exponent ''USD'' = Inr 2" by code_simp+
  then show ?thesis by (rule parse_exact)
qed

end
