(* ===== verification/PaymentService.thy ===== *)
theory PaymentService
  imports Payments Money
begin

text \<open>
  \<open>internal/payment/service.go\<close>: creating payments at a gateway, reading them back, and folding
  what a gateway reports into their state. The registry of adapters is an argument of every
  method; metrics and logging are left out, so \<open>s.logger.Error\<close> and carrying on is
  \<open>ignore_error\<close>.
\<close>

record create_input =
  ci_application :: application
  ci_key_mode :: "key_mode option"
  ci_application_order_id :: string
  ci_amount :: int
  ci_currency :: string
  ci_customer :: "customer option"
  ci_items :: "item list"
  ci_enabled_methods :: "string list"
  ci_expires_at :: "time option"
  ci_callback_url :: string
  ci_custom_fields :: "string list"
  ci_metadata :: jmap
  ci_gateway_options :: "json option"

subsection \<open>Validation and conversion\<close>

definition item_field :: "nat \<Rightarrow> string \<Rightarrow> string" where
  "item_field i field = ''items['' @ dec_nat i @ ''].'' @ field"

fun invalid_item :: "nat \<Rightarrow> item list \<Rightarrow> error option" where
  "invalid_item i [] = None"
| "invalid_item i (x # xs) =
     (if it_name x = [] then Some (Validation (item_field i ''name'') ''must not be empty'')
      else if it_quantity x < 1 then Some (Validation (item_field i ''quantity'') ''must be at least 1'')
      else if it_price x < 0 then Some (Validation (item_field i ''price'') ''must not be negative'')
      else invalid_item (Suc i) xs)"

definition validate_create :: "time \<Rightarrow> create_input \<Rightarrow> error + create_input" where
  "validate_create t ci0 =
     (let order_id = trim_space (ci_application_order_id ci0);
          currency = (if ci_currency ci0 = [] then ''IDR'' else ci_currency ci0);
          ci = ci0\<lparr>ci_application_order_id := order_id, ci_currency := currency\<rparr>
      in if order_id = [] then Inl (Validation ''application_order_id'' ''must not be empty'')
         else if 128 < length order_id
           then Inl (Validation ''application_order_id'' ''must be at most 128 characters'')
         else if ci_amount ci \<le> 0 then Inl (Validation ''amount'' ''must be greater than zero'')
         else if \<not> supported currency then Inl (Validation ''currency'' ''is not a supported currency'')
         else if (case ci_expires_at ci of None \<Rightarrow> False | Some e \<Rightarrow> \<not> t < e)
           then Inl (Validation ''expires_at'' ''must be in the future'')
         else case invalid_item 0 (ci_items ci) of
           Some e \<Rightarrow> Inl e
         | None \<Rightarrow>
             if 3 < length (ci_custom_fields ci)
             then Inl (Validation ''custom_fields'' ''at most three custom fields are supported'')
             else Inr ci)"

definition decode_options :: "json option \<Rightarrow> error + jmap" where
  "decode_options raw = (case raw of
     None \<Rightarrow> Inr []
   | Some JNull \<Rightarrow> Inr []
   | Some (JObj m) \<Rightarrow> Inr m
   | Some _ \<Rightarrow> Inl (Validation ''gateway_options'' ''must be a JSON object''))"

definition to_gateway_customer :: "customer option \<Rightarrow> customer" where
  "to_gateway_customer c = (case c of None \<Rightarrow> zero_customer | Some c \<Rightarrow> c)"

definition to_gateway_items :: "item list \<Rightarrow> gw_item list" where
  "to_gateway_items = map (\<lambda>i. \<lparr>gi_sku = it_sku i, gi_name = it_name i, gi_price = it_price i,
     gi_quantity = it_quantity i, gi_category = it_category i, gi_merchant = it_merchant i,
     gi_url = it_url i\<rparr>)"

subsection \<open>Events\<close>

definition payment_discriminator :: "payment \<Rightarrow> etype \<Rightarrow> string" where
  "payment_discriminator p t =
     (if t = PaymentRefunded \<or> t = PaymentPartiallyRefunded
      then format_int (pay_refunded_amount p) else [])"

definition build_payload :: "time \<Rightarrow> payment \<Rightarrow> etype \<Rightarrow> payload" where
  "build_payload t p ty = zero_payload\<lparr>pl_type := ty, pl_gateway := pay_gateway p,
     pl_application_id := pay_application_id p, pl_payment_id := pay_id p,
     pl_application_order_id := pay_application_order_id p,
     pl_gateway_order_id := pay_gateway_order_id p,
     pl_gateway_transaction_id := pay_gateway_transaction_id p,
     pl_status := status_text (pay_status p), pl_gateway_status := pay_gateway_status p,
     pl_fraud_status := pay_fraud_status p, pl_payment_type := pay_type p,
     pl_amount := pay_amount p, pl_refunded_amount := pay_refunded_amount p,
     pl_currency := pay_currency p, pl_metadata := pay_metadata p, pl_created_at := t,
     pl_gateway_data := pay_gateway_data p\<rparr>"

definition payment_event :: "time \<Rightarrow> payment \<Rightarrow> etype \<Rightarrow> string \<Rightarrow> string \<Rightarrow> event" where
  "payment_event t p ty gateway_event_id dedupe = zero_event\<lparr>ev_application_id := pay_application_id p,
     ev_type := ty, ev_gateway := pay_gateway p, ev_payment_id := pay_id p,
     ev_gateway_event_id := gateway_event_id, ev_dedupe_key := dedupe,
     ev_payload := build_payload t p ty\<rparr>"

definition publish_payment_event :: "payment \<Rightarrow> etype \<Rightarrow> string \<Rightarrow> ('g, unit) routine" where
  "publish_payment_event p ty gateway_event_id =
     bindE (gets now) (\<lambda>t. ignore_error (publish (payment_event t p ty gateway_event_id
       (payment_dedupe_key (pay_id p) ty (payment_discriminator p ty)))))"

subsection \<open>Accounts and adapters\<close>

definition account_for :: "application \<Rightarrow> ('g, account) routine" where
  "account_for app =
     bindE (catchE (if app_gateway_account_id app \<noteq> [] then account_get (app_gateway_account_id app)
                    else account_default ''midtrans'')
         (\<lambda>e. if is_not_found e then throw GatewayNotConfigured else throw e) succeed) (\<lambda>a.
     if usable a then succeed a else throw GatewayNotConfigured)"

definition adapter_for :: "'g registry \<Rightarrow> payment \<Rightarrow> ('g, 'g adapter) routine" where
  "adapter_for reg p =
     bindE (account_get (pay_gateway_account_id p)) (\<lambda>a. lift_result (registry_for reg a))"

subsection \<open>Creating\<close>

text \<open>\<open>DELETE FROM payments\<close> with what its foreign keys do: the details, refunds and gateway
  transactions go with the payment, other tables forget it.\<close>

definition remove_payment :: "string \<Rightarrow> db \<Rightarrow> db" where
  "remove_payment i d = d\<lparr>payments := filter (\<lambda>p. pay_id p \<noteq> i) (payments d),
     customers := filter (\<lambda>c. fst c \<noteq> i) (customers d),
     items := filter (\<lambda>x. fst x \<noteq> i) (items d),
     refunds := filter (\<lambda>r. rf_payment_id r \<noteq> i) (refunds d),
     gw_txns := filter (\<lambda>(_, p, _). p \<noteq> i) (gw_txns d),
     idem_keys := map (\<lambda>k. if ik_payment_id k = i then k\<lparr>ik_payment_id := []\<rparr> else k) (idem_keys d),
     gw_events := map (\<lambda>e. if ge_payment_id e = i then e\<lparr>ge_payment_id := []\<rparr> else e) (gw_events d),
     events := map (\<lambda>e. if ev_payment_id e = i then e\<lparr>ev_payment_id := []\<rparr> else e) (events d)\<rparr>"

definition delete_payment :: "string \<Rightarrow> ('g, unit) routine" where
  "delete_payment i = exec_stmt (remove_payment i)"

definition new_payment :: "string \<Rightarrow> string \<Rightarrow> create_input \<Rightarrow> account \<Rightarrow> jmap \<Rightarrow> payment" where
  "new_payment i o_id ci a options = zero_payment\<lparr>pay_id := i,
     pay_application_id := app_id (ci_application ci), pay_gateway_account_id := acc_id a,
     pay_gateway := acc_gateway a, pay_application_order_id := ci_application_order_id ci,
     pay_gateway_order_id := o_id, pay_amount := ci_amount ci,
     pay_currency := normalize_currency (ci_currency ci), pay_status := Pending,
     pay_metadata := ci_metadata ci, pay_gateway_options := options,
     pay_customer := ci_customer ci, pay_items := ci_items ci, pay_expires_at := ci_expires_at ci\<rparr>"

definition create_request :: "create_input \<Rightarrow> payment \<Rightarrow> create_payment_request" where
  "create_request ci p = \<lparr>cr_order_id = pay_gateway_order_id p, cr_amount = pay_amount p,
     cr_currency = pay_currency p, cr_customer = to_gateway_customer (ci_customer ci),
     cr_items = to_gateway_items (ci_items ci), cr_enabled_methods = ci_enabled_methods ci,
     cr_expires_at = ci_expires_at ci, cr_callback_url = ci_callback_url ci,
     cr_custom_fields = ci_custom_fields ci, cr_options = ci_gateway_options ci\<rparr>"

text \<open>The row is stored; the gateway is asked; the row is completed or removed.\<close>

definition opened_payment :: "payment \<Rightarrow> gw_payment \<Rightarrow> payment" where
  "opened_payment p c = p\<lparr>pay_snap_token := gp_token c, pay_snap_redirect_url := gp_redirect_url c,
     pay_gateway_status := gp_status c,
     pay_expires_at := (case gp_expires_at c of None \<Rightarrow> pay_expires_at p | Some e \<Rightarrow> Some e)\<rparr>"

definition finish_open :: "payment \<Rightarrow> gw_payment \<Rightarrow> ('g, payment) routine" where
  "finish_open p c =
     bindE (set_checkout_session (pay_id p) (gp_token c) (gp_redirect_url c) (gp_expires_at c)) (\<lambda>_.
     bindE (publish_payment_event (opened_payment p c) PaymentCreated []) (\<lambda>_.
     succeed (opened_payment p c)))"

definition open_at_gateway :: "'g adapter \<Rightarrow> create_input \<Rightarrow> payment \<Rightarrow> ('g, payment) routine" where
  "open_at_gateway g ci p =
     catchE (call_out (ga_create_payment g (create_request ci p)))
       (\<lambda>e. bindE (ignore_error (delete_payment (pay_id p))) (\<lambda>_. throw e))
       (\<lambda>c. finish_open p c)"

definition store_payment :: "payment \<Rightarrow> ('g, payment) routine" where
  "store_payment p = catchE (payment_create p)
     (\<lambda>e. if is_unique_violation e [''payments_application_order_key''] then throw DuplicateOrderID else throw e)
     succeed"

definition create_payment :: "'g registry \<Rightarrow> create_input \<Rightarrow> ('g, payment) routine" where
  "create_payment reg ci0 =
     bindE (gets now) (\<lambda>t.
     bindE (lift_result (validate_create t ci0)) (\<lambda>ci.
     bindE (account_for (ci_application ci)) (\<lambda>a.
     if ci_key_mode ci \<noteq> None \<and> ci_key_mode ci \<noteq> Some (expected_key_mode a)
     then throw (KeyModeMismatch (the (ci_key_mode ci)) (acc_environment a))
     else
       bindE (lift_result (registry_for reg a)) (\<lambda>g.
       bindE (lift_result (decode_options (ci_gateway_options ci))) (\<lambda>options.
       bindE (fresh_id ''pay'') (\<lambda>i.
       bindE (fresh_id ''pmx'') (\<lambda>o_id.
       bindE (store_payment (new_payment i o_id ci a options)) (\<lambda>p.
       open_at_gateway g ci p))))))))"

subsection \<open>Reading and reconciling\<close>

definition service_get :: "string \<Rightarrow> string \<Rightarrow> ('g, payment) routine" where
  "service_get application_id i = bindE (get_for_application application_id i) load_details"

definition service_get_any :: "string \<Rightarrow> ('g, payment) routine" where
  "service_get_any i = bindE (payment_get i) load_details"

definition service_list :: "payment_filter \<Rightarrow> page \<Rightarrow> ('g, payment listing) routine" where
  "service_list f p = payment_list f p"

definition load_payment :: "string \<Rightarrow> string \<Rightarrow> ('g, payment) routine" where
  "load_payment application_id i =
     (if application_id = [] then payment_get i else get_for_application application_id i)"

definition transaction_update :: "gw_transaction \<Rightarrow> status \<Rightarrow> state_update" where
  "transaction_update x s = \<lparr>su_status = s, su_gateway_status = gt_status x,
     su_fraud_status = gt_fraud_status x, su_gateway_transaction_id = gt_transaction_id x,
     su_payment_type = gt_payment_type x, su_payment_method = gt_payment_type x,
     su_refunded_amount = None, su_gateway_data = gt_raw x,
     su_occurred_at = gt_settlement_time x, su_mark_synced = True\<rparr>"

definition publish_status :: "payment \<Rightarrow> ('g, unit) routine" where
  "publish_status p = (case type_for_status (pay_status p) of
     None \<Rightarrow> succeed () | Some ty \<Rightarrow> publish_payment_event p ty [])"

definition apply_gateway_transaction :: "payment \<Rightarrow> gw_transaction \<Rightarrow> ('g, payment) routine" where
  "apply_gateway_transaction p x =
     bindE (ignore_error (upsert_gateway_transaction (pay_id p) x)) (\<lambda>_.
     case gt_normalized x of
       None \<Rightarrow> bindE (touch_synced (pay_id p)) (\<lambda>_. succeed p)
     | Some s \<Rightarrow> catchE (apply_state (pay_id p) (transaction_update x s))
         (\<lambda>e. if e = StaleTransition then bindE (touch_synced (pay_id p)) (\<lambda>_. succeed p) else throw e)
         (\<lambda>updated. bindE (publish_status updated) (\<lambda>_. succeed updated)))"

definition sync_payment :: "'g registry \<Rightarrow> string \<Rightarrow> string \<Rightarrow> ('g, payment) routine" where
  "sync_payment reg application_id i =
     bindE (load_payment application_id i) (\<lambda>p.
     bindE (adapter_for reg p) (\<lambda>g.
     bindE (call_out (ga_get_transaction g (pay_gateway_order_id p))) (\<lambda>x.
     apply_gateway_transaction p x)))"

definition cancel_payment :: "'g registry \<Rightarrow> string \<Rightarrow> string \<Rightarrow> ('g, payment) routine" where
  "cancel_payment reg application_id i =
     bindE (load_payment application_id i) (\<lambda>p.
     if \<not> cancelable p then throw (NotCancelable (pay_status p))
     else
       bindE (adapter_for reg p) (\<lambda>g.
       bindE (call_out (ga_cancel_transaction g (pay_gateway_order_id p))) (\<lambda>x.
       apply_gateway_transaction p x)))"

definition expire_payment :: "'g registry \<Rightarrow> string \<Rightarrow> string \<Rightarrow> ('g, payment) routine" where
  "expire_payment reg application_id i =
     bindE (load_payment application_id i) (\<lambda>p.
     bindE (adapter_for reg p) (\<lambda>g.
     bindE (call_out (ga_expire_transaction g (pay_gateway_order_id p))) (\<lambda>x.
     apply_gateway_transaction p x)))"

definition cancel_checkout_session :: "'g registry \<Rightarrow> string \<Rightarrow> string \<Rightarrow> ('g, payment) routine" where
  "cancel_checkout_session reg application_id i =
     bindE (load_payment application_id i) (\<lambda>p.
     bindE (adapter_for reg p) (\<lambda>g.
     case ga_checkout g of
       None \<Rightarrow> throw NotSupported
     | Some retire \<Rightarrow>
         bindE (call_out (retire (pay_gateway_order_id p))) (\<lambda>_. sync_payment reg application_id i)))"

subsection \<open>Payments only move forward\<close>

text \<open>What the rest of the program may rely on: a later row of a payment has the same identity
  and amount, a status reached by allowed moves, and the paid time it had.\<close>

definition follows :: "payment \<Rightarrow> payment \<Rightarrow> bool" where
  "follows p q \<longleftrightarrow> pay_id q = pay_id p \<and> pay_application_id q = pay_application_id p \<and>
     pay_gateway q = pay_gateway p \<and> pay_gateway_order_id q = pay_gateway_order_id p \<and>
     pay_application_order_id q = pay_application_order_id p \<and>
     pay_gateway_account_id q = pay_gateway_account_id p \<and>
     pay_amount q = pay_amount p \<and> pay_currency q = pay_currency p \<and>
     pay_created_at q = pay_created_at p \<and>
     payment_status.reaches (pay_status p) (pay_status q) \<and>
     (pay_paid_at p \<noteq> None \<longrightarrow> pay_paid_at q = pay_paid_at p)"

lemma follows_refl: "follows p p"
  by (simp add: follows_def payment_status.reaches_refl)

lemma follows_trans: "follows p q \<Longrightarrow> follows q r \<Longrightarrow> follows p r"
  unfolding follows_def by (auto intro: payment_status.reaches_trans)

interpretation forward: row_evolution payments "\<lambda>rows d. d\<lparr>payments := rows\<rparr>" pay_id follows
  by unfold_locales (simp, rule follows_refl, erule (1) follows_trans, simp add: follows_def)

lemma follows_advanced: "pay_status p \<in> set (predecessors_of (su_status u)) \<Longrightarrow> follows p (advanced u t p)"
  by (auto simp: follows_def advanced_def stamp_def Let_def payment_status.preds_iff
      intro: payment_status.can_reaches)

lemma follows_touched:
  "follows p (p\<lparr>pay_last_synced_at := t\<rparr>)"
  "follows p (p\<lparr>pay_snap_token := a, pay_snap_redirect_url := b, pay_expires_at := e, pay_updated_at := u\<rparr>)"
  by (simp_all add: follows_def payment_status.reaches_refl)

text \<open>The statements that write payments.\<close>

lemma forward_apply_state: "forward.safe (apply_state i u)"
  unfolding apply_state_def
  by (intro forward.safe_intros forward.safe_update_checked forward.moves_on_map)
    (auto intro: follows_advanced follows_refl)

lemma forward_touch: "forward.safe (touch_synced i)"
  unfolding touch_synced_def
  by (intro forward.safe_intros forward.safe_exec forward.moves_on_map) (auto intro: follows_touched follows_refl)

lemma forward_session: "forward.safe (set_checkout_session i a b c)"
  unfolding set_checkout_session_def
  by (intro forward.safe_intros forward.safe_exec forward.moves_on_map) (auto intro: follows_touched follows_refl)

lemma forward_upsert: "forward.safe (upsert_gateway_transaction i x)"
  unfolding upsert_gateway_transaction_def
  by (intro forward.safe_intros forward.safe_run_stmt forward.moves_on_same) (auto split: if_splits)

lemma forward_publish: "forward.safe (publish e)"
  by (rule forward.safe_weaken[OF announces_weaken]) (auto simp: announce_rel_def intro: forward.moves_on_same)

lemma forward_publish_payment: "forward.safe (publish_payment_event p ty i)"
  unfolding publish_payment_event_def by (intro forward.safe_intros forward_publish)

lemma forward_publish_status: "forward.safe (publish_status p)"
  unfolding publish_status_def by (intro forward.safe_intros forward_publish_payment)

lemma forward_load: "forward.safe (load_payment a i)"
  unfolding load_payment_def payment_get_def get_for_application_def payment_where_def
  by (intro forward.safe_intros)

lemma forward_adapter: "forward.safe (adapter_for reg p)"
  unfolding adapter_for_def account_get_def by (intro forward.safe_intros)

lemma forward_apply_transaction: "forward.safe (apply_gateway_transaction p x)"
  unfolding apply_gateway_transaction_def
  by (intro forward.safe_intros forward_upsert forward_touch forward_apply_state forward_publish_status)

lemma forward_sync: "forward.safe (sync_payment reg a i)"
  unfolding sync_payment_def
  by (intro forward.safe_intros forward_load forward_adapter forward_apply_transaction)

lemma forward_cancel: "forward.safe (cancel_payment reg a i)"
  unfolding cancel_payment_def
  by (intro forward.safe_intros forward_load forward_adapter forward_apply_transaction)

lemma forward_expire: "forward.safe (expire_payment reg a i)"
  unfolding expire_payment_def
  by (intro forward.safe_intros forward_load forward_adapter forward_apply_transaction)

lemma forward_checkout: "forward.safe (cancel_checkout_session reg a i)"
  unfolding cancel_checkout_session_def
  by (intro forward.safe_intros forward_load forward_adapter forward_sync)

subsection \<open>An application sees and moves only its own payments\<close>

lemma still_load: "still.evolves (load_payment a i)"
  unfolding load_payment_def payment_get_def get_for_application_def payment_where_def
  by (intro still_intros)

lemma load_owned:
  assumes "load_payment a i w = (Inr p, v)" "a \<noteq> []"
  shows "p \<in> set (payments (db w)) \<and> pay_id p = i \<and> pay_application_id p = a"
  using assms query_row_Inr[of "\<lambda>d. List.find (\<lambda>p. pay_id p = i \<and> pay_application_id p = a) (payments d)" w p v]
  by (auto simp: load_payment_def get_for_application_def payment_where_def find_Some_iff)

definition owns :: "string \<Rightarrow> string \<Rightarrow> db \<Rightarrow> bool" where
  "owns a i d \<longleftrightarrow> (\<exists>p \<in> set (payments d). pay_id p = i \<and> pay_application_id p = a)"

lemma foreign_bind:
  assumes "\<not> owns a i (db w)" "a \<noteq> []"
  shows "isl (fst (bindE (load_payment a i) f w)) \<and> still_rel w (snd (bindE (load_payment a i) f w))"
proof (rule still_bind[OF still_load, of a i f w])
  fix x v
  assume "load_payment a i w = (Inr x, v)"
  then show ?thesis using load_owned[of a i w x v] assms by (auto simp: owns_def)
qed simp

lemma service_get_loads: "a \<noteq> [] \<Longrightarrow> service_get a i = bindE (load_payment a i) load_details"
  by (simp add: service_get_def load_payment_def)

subsection \<open>A missing address\<close>

text \<open>A customer stored without a billing or shipping address is read back with an empty
  one: the details of a payment do not survive the round trip.\<close>

theorem missing_address_reads_back_empty:
  assumes "outcomes w = []" "txn w \<noteq> Some True" "i \<notin> fst ` set (customers (db w))"
  shows "\<exists>v. insert_customer i (Some c) w = (Inr (), v) \<and>
    load_customer i v = (Inr (Some (c\<lparr>cu_billing := Some (coalesce (cu_billing c) zero_address),
      cu_shipping := Some (coalesce (cu_shipping c) zero_address)\<rparr>)), v)"
proof -
  let ?cs = "[(''payment_customers_pkey'', \<lambda>a b. fst a = fst b)] :: (string \<times> customer) constraint list"
  let ?v = "w\<lparr>db := (db w)\<lparr>customers := customers (db w) @ [(i, stored_customer c)]\<rparr>\<rparr>"
  have "violated ?cs (i, stored_customer c) (customers (db w)) = None"
    using assms(3) by (auto simp: violated_None)
  from insert_row_ok[OF assms(1,2), where get = customers and set_rows = "\<lambda>rows d. d\<lparr>customers := rows\<rparr>", OF this]
  have ins: "insert_customer i (Some c) w = (Inr (), ?v)"
    by (simp add: insert_customer_def bindE_run succeed_def)
  have "map_of (customers (db ?v)) i = Some (stored_customer c)"
    using assms(3) by (simp add: map_add_def map_of_eq_None_iff[THEN iffD2])
  then have "load_customer i ?v = (Inr (Some (stored_customer c)), ?v)"
    unfolding load_customer_def using assms(1,2) by (simp add: query_run)
  moreover have "stored_customer c = c\<lparr>cu_billing := Some (coalesce (cu_billing c) zero_address),
      cu_shipping := Some (coalesce (cu_shipping c) zero_address)\<rparr>"
    by (cases "cu_billing c"; cases "cu_shipping c")
      (simp_all add: stored_customer_def decode_address_def encode_address_def coalesce_def)
  ultimately show ?thesis using ins by auto
qed

theorem missing_address_reads_back_empty_witness:
  "\<exists>v. insert_customer ''pay_1'' (Some zero_customer) (quiet_world empty_db ()) = (Inr (), v) \<and>
     load_customer ''pay_1'' v = (Inr (Some (zero_customer\<lparr>cu_billing := Some zero_address,
       cu_shipping := Some zero_address\<rparr>)), v)"
  using missing_address_reads_back_empty[of "quiet_world empty_db ()" "''pay_1''" zero_customer]
  by (simp add: empty_db_def zero_customer_def coalesce_def)

subsection \<open>Orders the gateway opened are known\<close>

definition details_rel :: "db \<Rightarrow> db \<Rightarrow> bool" where
  "details_rel d e \<longleftrightarrow> payments e = payments d"

interpretation details: db_evolution details_rel
  by unfold_locales (auto simp: details_rel_def)

lemma details_customer: "details.safe (insert_customer i c)"
  unfolding insert_customer_def
  by (intro details.safe_intros details.safe_insert_row) (simp add: details_rel_def)

lemma details_items: "details.safe (insert_items i xs)"
  unfolding insert_items_def insert_item_def
  by (intro details.safe_intros details.safe_insert_checked) (simp add: details_rel_def)

lemma details_publish: "details.safe (publish e)"
  by (rule details.safe_weaken[OF announces_weaken]) (auto simp: announce_rel_def details_rel_def)

lemma details_run: "details.safe m \<Longrightarrow> m w = (r, v) \<Longrightarrow> payments (db v) = payments (db w)"
  using details.safe_db[of m w] by (simp add: details_rel_def)

lemma inert_create: "inert.evolves (payment_create p)"
  unfolding payment_create_def create_rows_def insert_customer_def insert_items_def insert_item_def
  by (intro inert_intros)

lemma create_rows_Inr:
  assumes "create_rows t p w = (Inr q, v)"
  shows "payments (db v) = payments (db w) @ [payment_row t p] \<and> pay_id q = pay_id p \<and>
    pay_gateway_order_id q = pay_gateway_order_id p \<and> pay_id p \<notin> pay_id ` set (payments (db w))"
proof -
  obtain row u1 where ins: "insert_checked payment_checks payment_constraints payments set_payments
         (payment_row t p) w = (Inr row, u1)"
      and r1: "bindE (insert_customer (pay_id p) (pay_customer p)) (\<lambda>_. bindE (insert_items (pay_id p) (pay_items p))
         (\<lambda>_. succeed (row\<lparr>pay_customer := pay_customer p, pay_items := pay_items p\<rparr>))) u1 = (Inr q, v)"
    using assms unfolding create_rows_def by (rule bindE_Inr_E)
  obtain x1 u2 where c: "insert_customer (pay_id p) (pay_customer p) u1 = (Inr x1, u2)"
      and r2: "bindE (insert_items (pay_id p) (pay_items p))
         (\<lambda>_. succeed (row\<lparr>pay_customer := pay_customer p, pay_items := pay_items p\<rparr>)) u2 = (Inr q, v)"
    using r1 by (rule bindE_Inr_E)
  obtain x2 u3 where i: "insert_items (pay_id p) (pay_items p) u2 = (Inr x2, u3)"
      and r3: "succeed (row\<lparr>pay_customer := pay_customer p, pay_items := pay_items p\<rparr>) u3 = (Inr q :: error + payment, v)"
    using r2 by (rule bindE_Inr_E)
  have ok: "row = payment_row t p" "payments (db u1) = payments (db w) @ [payment_row t p]"
      "violated payment_constraints (payment_row t p) (payments (db w)) = None"
    using insert_checked_Inr[OF ins] by simp_all
  then have "pay_id p \<notin> pay_id ` set (payments (db w))"
    by (auto simp: violated_None payment_constraints_def payment_row_def)
  then show ?thesis
    using ok succeed_Inr[OF r3] details_run[OF details_customer c] details_run[OF details_items i]
    by (simp add: payment_row_def)
qed

lemma payment_create_cases:
  assumes "payment_create p w = (r, u)" "txn w = None" "pay_id p \<noteq> []" "pay_gateway_order_id p \<noteq> []"
  obtains (failed) e where "r = Inl e" "db u = db w" "ext u = ext w" "txn u = None"
  | (stored) q t where "r = Inr q" "pay_id q = pay_id p" "pay_gateway_order_id q = pay_gateway_order_id p"
      "payments (db u) = payments (db w) @ [payment_row t p]" "ext u = ext w" "txn u = None"
      "pay_id p \<notin> pay_id ` set (payments (db w))"
proof -
  have same: "ext u = ext w" "txn u = None"
    using inert.evolvesD[OF inert_create assms(1)] assms(2) by (simp_all add: inert_rel_def)
  have tx: "in_tx (create_rows (now w) p) w = (r, u)"
    using assms(1,3,4)
    by (simp add: payment_create_def bindE_run[of "succeed _"] succeed_def[of _ w] bindE_run[of "gets now"] gets_def)
  show thesis
  proof (rule in_tx_cases[OF tx assms(2)])
    fix e
    assume "r = Inl e" "db u = db w"
    then show thesis using that(1) same by blast
  next
    fix q w1 w2
    assume h: "r = Inr q" "create_rows (now w) p w1 = (Inr q, w2)" "db w1 = db w" "db u = db w2"
    show thesis using create_rows_Inr[OF h(2)] h that(2)[of q "now w"] same by simp
  qed
qed

definition orders_kept :: "db \<Rightarrow> db \<Rightarrow> bool" where
  "orders_kept d e \<longleftrightarrow> pay_gateway_order_id ` set (payments d) \<subseteq> pay_gateway_order_id ` set (payments e)"

interpretation orders: db_evolution orders_kept
  by unfold_locales (auto simp: orders_kept_def)

lemma orders_map:
  "(\<And>p. pay_gateway_order_id (f p) = pay_gateway_order_id p) \<Longrightarrow> orders_kept d (set_payments (map f (payments d)) d)"
  by (simp add: orders_kept_def image_image)

lemma orders_session: "orders.safe (set_checkout_session i a b c)"
  unfolding set_checkout_session_def
  by (intro orders.safe_intros orders.safe_exec orders_map) simp

lemma orders_publish: "orders.safe (publish_payment_event p ty i)"
  unfolding publish_payment_event_def
  by (intro orders.safe_intros orders.safe_weaken[OF announces_weaken])
    (auto simp: announce_rel_def orders_kept_def)

text \<open>Every order the gateway opened belongs to a payment.\<close>

definition orders_known :: "('g \<Rightarrow> string set) \<Rightarrow> 'g world \<Rightarrow> bool" where
  "orders_known opened w \<longleftrightarrow> opened (ext w) \<subseteq> pay_gateway_order_id ` set (payments (db w))"

text \<open>What is relied on: a call that creates a payment opens at most the order it names, whether it is
  answered with a result or with an error.\<close>

definition opens_only :: "('g \<Rightarrow> string set) \<Rightarrow> 'g adapter \<Rightarrow> bool" where
  "opens_only opened g \<longleftrightarrow>
     (\<forall>req x. opened (snd (ga_create_payment g req x)) \<subseteq> insert (cr_order_id req) (opened x))"

text \<open>The one way an order can be lost: the gateway opened it, answered with an error all the same, and
  the caller gets that error. Every other order is still known.\<close>

definition order_lost :: "('g \<Rightarrow> string set) \<Rightarrow> 'g adapter \<Rightarrow> 'g world \<Rightarrow> (error + 'a) \<times> 'g world \<Rightarrow> bool" where
  "order_lost opened g w x \<longleftrightarrow> (\<exists>req e. ga_create_payment g req (ext w) = (Inl e, ext (snd x)) \<and> fst x = Inl e \<and>
     cr_order_id req \<in> opened (ext (snd x)) \<and>
     opened (ext (snd x)) \<subseteq> insert (cr_order_id req) (pay_gateway_order_id ` set (payments (db (snd x)))))"

lemma orders_known_still: "still_rel v w \<Longrightarrow> orders_known opened v \<Longrightarrow> orders_known opened w"
  by (simp add: still_rel_def orders_known_def)

lemma inert_session: "inert.evolves (set_checkout_session i a b c)"
  unfolding set_checkout_session_def by (intro inert_intros)

lemma inert_publish_payment: "inert.evolves (publish_payment_event p ty i)"
  unfolding publish_payment_event_def by (intro inert_intros inert_publish)

lemma delete_payment_db: "delete_payment i w = (r, v) \<Longrightarrow> (db v = db w \<or> db v = remove_payment i (db w)) \<and> ext v = ext w"
proof -
  assume st: "delete_payment i w = (r, v)"
  have "inert.evolves (delete_payment i)" unfolding delete_payment_def by (intro inert_intros)
  then have "ext v = ext w" using inert.evolvesD st by (auto simp: inert_rel_def)
  moreover have "db v = db w \<or> db v = remove_payment i (db w)"
  proof (cases r)
    case (Inr x)
    then show ?thesis using exec_stmt_Inr[of "remove_payment i" w x v] st by (simp add: delete_payment_def)
  next
    case (Inl e)
    then show ?thesis using st
      by (auto simp: delete_payment_def exec_stmt_def run_stmt_def next_outcome_def abort_txn_def
          split: if_splits option.splits list.splits)
  qed
  ultimately show ?thesis by blast
qed

lemma opens_onlyD: "opens_only opened g \<Longrightarrow> ga_create_payment g req x = (r, y) \<Longrightarrow>
   opened y \<subseteq> insert (cr_order_id req) (opened x)"
  unfolding opens_only_def by (metis snd_conv)

lemma create_request_order [simp]: "cr_order_id (create_request ci p) = pay_gateway_order_id p"
  by (simp add: create_request_def)

lemma open_at_gateway_refused:
  assumes "ga_create_payment g (create_request ci p) (ext w) = (Inl e, y)"
  shows "fst (open_at_gateway g ci p w) = Inl e \<and>
    snd (open_at_gateway g ci p w) = snd (delete_payment (pay_id p) (w\<lparr>ext := y\<rparr>))"
proof -
  obtain r v where d: "delete_payment (pay_id p) (w\<lparr>ext := y\<rparr>) = (r, v)" by fastforce
  have "ignore_error (delete_payment (pay_id p)) (w\<lparr>ext := y\<rparr>) = (Inr (), v)"
    using d by (rule ignore_error_run)
  then show ?thesis
    by (simp add: open_at_gateway_def catchE_def call_out_def assms bindE_run throw_def d)
qed

lemma open_at_gateway_accepted:
  "ga_create_payment g (create_request ci p) (ext w) = (Inr c, y) \<Longrightarrow>
   open_at_gateway g ci p w = finish_open p c (w\<lparr>ext := y\<rparr>)"
  by (simp add: open_at_gateway_def catchE_def call_out_def)

lemma finish_open_keeps:
  fixes w :: "'g world"
  shows "orders_kept (db w) (db (snd (finish_open p c w)))" "ext (snd (finish_open p c w)) = ext w"
proof -
  have "orders.safe (finish_open p c :: ('g, payment) routine)"
    unfolding finish_open_def by (intro orders.safe_intros orders_session orders_publish)
  then show "orders_kept (db w) (db (snd (finish_open p c w)))" by (rule orders.safe_db)
  have "inert.evolves (finish_open p c :: ('g, payment) routine)"
    unfolding finish_open_def by (intro inert_intros inert_session inert_publish_payment)
  then show "ext (snd (finish_open p c w)) = ext w" by (simp add: inert.evolves_def inert_rel_def)
qed

lemma open_at_gateway_known:
  assumes "opens_only opened g" "pay_gateway_order_id p \<in> pay_gateway_order_id ` set (payments (db w))"
    and "\<forall>o_id \<in> opened (ext w). \<exists>q \<in> set (payments (db w)). pay_gateway_order_id q = o_id \<and> pay_id q \<noteq> pay_id p"
  shows "orders_known opened (snd (open_at_gateway g ci p w)) \<or> order_lost opened g w (open_at_gateway g ci p w)"
proof -
  obtain s y where call: "ga_create_payment g (create_request ci p) (ext w) = (s, y)" by fastforce
  have rest: "opened (ext w) \<subseteq> pay_gateway_order_id ` set (filter (\<lambda>q. pay_id q \<noteq> pay_id p) (payments (db w)))"
    using assms(3) by force
  show ?thesis
  proof (cases s)
    case (Inl e)
    obtain r v where d: "delete_payment (pay_id p) (w\<lparr>ext := y\<rparr>) = (r, v)" by fastforce
    have y: "opened y \<subseteq> insert (pay_gateway_order_id p) (opened (ext w))"
      using opens_onlyD[OF assms(1) call] by simp
    have run: "open_at_gateway g ci p w = (Inl e, v)"
      using open_at_gateway_refused[of g ci p w e y] call Inl d by (simp add: prod_eq_iff)
    have v: "db v \<in> {db w, remove_payment (pay_id p) (db w)}" "ext v = y"
      using delete_payment_db[OF d] by auto
    show ?thesis
    proof (cases "orders_known opened v")
      case True
      then show ?thesis by (simp add: run)
    next
      case False
      then have "pay_gateway_order_id p \<in> opened y"
          "opened y \<subseteq> insert (pay_gateway_order_id p) (pay_gateway_order_id ` set (payments (db v)))"
        using v y rest assms(2) by (auto simp: orders_known_def remove_payment_def)
      then have "order_lost opened g w (open_at_gateway g ci p w)"
        unfolding order_lost_def run using call Inl v(2)
        by (intro exI[of _ "create_request ci p"] exI[of _ e]) simp
      then show ?thesis ..
    qed
  next
    case (Inr c)
    have y: "opened y \<subseteq> insert (pay_gateway_order_id p) (opened (ext w))"
      using opens_onlyD[OF assms(1) call] by simp
    have "opened y \<subseteq> pay_gateway_order_id ` set (payments (db w))" using y assms(2) rest by auto
    then have "orders_known opened (snd (open_at_gateway g ci p w))"
      using finish_open_keeps[where w = "w\<lparr>ext := y\<rparr>" and p = p and c = c] open_at_gateway_accepted[of g ci p w c y] call Inr
      by (auto simp: orders_known_def orders_kept_def)
    then show ?thesis ..
  qed
qed

definition draw :: "string \<Rightarrow> nat \<Rightarrow> 'g world \<Rightarrow> string" where
  "draw p n w = new_id p (word_of_int (unix_milli (now w))) (entropy w (draws w + n))"

lemma fresh_bind: "bindE (fresh_id p) f w = f (draw p 0 w) (w\<lparr>draws := draws w + 1\<rparr>)"
  by (simp add: bindE_run fresh_id_def draw_def)

lemma draw_nonempty: "draw p n w \<noteq> []"
  by (simp add: draw_def new_id_def)

text \<open>The part of \<open>Create\<close> that writes: the row is stored, then the gateway is asked.\<close>

definition store_and_open :: "'g adapter \<Rightarrow> create_input \<Rightarrow> account \<Rightarrow> jmap \<Rightarrow> ('g, payment) routine" where
  "store_and_open g ci a options =
     bindE (fresh_id ''pay'') (\<lambda>i.
     bindE (fresh_id ''pmx'') (\<lambda>o_id.
     bindE (store_payment (new_payment i o_id ci a options)) (\<lambda>p.
     open_at_gateway g ci p)))"

lemma store_and_open_known:
  assumes "opens_only opened g" "orders_known opened w" "txn w = None"
    and "draw ''pay'' 0 w \<notin> pay_id ` set (payments (db w))"
  shows "orders_known opened (snd (store_and_open g ci a options w)) \<or> order_lost opened g w (store_and_open g ci a options w)"
proof -
  let ?w2 = "w\<lparr>draws := draws w + 2\<rparr>"
  let ?p = "new_payment (draw ''pay'' 0 w) (draw ''pmx'' 1 w) ci a options"
  obtain r u where c: "payment_create ?p ?w2 = (r, u)" by fastforce
  have ids: "pay_id ?p \<noteq> []" "pay_gateway_order_id ?p \<noteq> []"
    by (simp_all add: new_payment_def draw_nonempty)
  have "draw ''pmx'' 0 (w\<lparr>draws := draws w + 1\<rparr>) = draw ''pmx'' 1 w" by (simp add: draw_def)
  then have run: "store_and_open g ci a options w = bindE (store_payment ?p) (open_at_gateway g ci) ?w2"
    by (simp add: store_and_open_def fresh_bind)
  show ?thesis
  proof (cases rule: payment_create_cases[OF c _ ids, consumes 0, case_names n failed stored])
    case n then show ?case using assms(3) by simp
  next
    case (failed e)
    have "\<exists>e'. store_payment ?p ?w2 = (Inl e', u)"
      using c failed(1) by (cases "is_unique_violation e [''payments_application_order_key'']")
        (simp_all add: store_payment_def catchE_def throw_def)
    then obtain e' where "store_payment ?p ?w2 = (Inl e', u)" ..
    then show ?thesis
      using failed(2,3) assms(2) by (simp add: run bindE_run orders_known_def)
  next
    case (stored q t)
    have "store_payment ?p ?w2 = (Inr q, u)"
      using c stored(1) by (simp add: store_payment_def catchE_def succeed_def)
    then have "store_and_open g ci a options w = open_at_gateway g ci q u" by (simp add: run bindE_run)
    moreover have "orders_known opened (snd (open_at_gateway g ci q u)) \<or> order_lost opened g u (open_at_gateway g ci q u)"
    proof (rule open_at_gateway_known[OF assms(1)])
      show "pay_gateway_order_id q \<in> pay_gateway_order_id ` set (payments (db u))"
        using stored(3,4) by (simp add: payment_row_def)
      show "\<forall>o_id \<in> opened (ext u). \<exists>x \<in> set (payments (db u)). pay_gateway_order_id x = o_id \<and> pay_id x \<noteq> pay_id q"
      proof
        fix o_id
        assume "o_id \<in> opened (ext u)"
        then obtain x where x: "x \<in> set (payments (db w))" "pay_gateway_order_id x = o_id"
          using assms(2) stored(5) by (auto simp: orders_known_def)
        then have "pay_id x \<noteq> pay_id q" using stored(2,7) by (metis image_eqI world.select_convs(1) world.update_convs(5) world.surjective)
        then show "\<exists>x \<in> set (payments (db u)). pay_gateway_order_id x = o_id \<and> pay_id x \<noteq> pay_id q"
          using x stored(4) by auto
      qed
    qed
    moreover have "ext u = ext w" using stored(5) by simp
    ultimately show ?thesis by (simp add: order_lost_def)
  qed
qed

lemma still_account_for: "still.evolves (account_for app)"
  unfolding account_for_def account_get_def account_default_def by (intro still_intros)

lemma create_payment_steps:
  "create_payment reg ci0 =
     bindE (gets now) (\<lambda>t.
     bindE (lift_result (validate_create t ci0)) (\<lambda>ci.
     bindE (account_for (ci_application ci)) (\<lambda>a.
     if ci_key_mode ci \<noteq> None \<and> ci_key_mode ci \<noteq> Some (expected_key_mode a)
     then throw (KeyModeMismatch (the (ci_key_mode ci)) (acc_environment a))
     else
       bindE (lift_result (registry_for reg a)) (\<lambda>g.
       bindE (lift_result (decode_options (ci_gateway_options ci))) (store_and_open g ci a)))))"
  by (simp add: create_payment_def store_and_open_def[abs_def] cong: if_cong)

text \<open>C20. Whichever statements fail, whatever the request is and however the gateway answers, after
  creating a payment every order open at the gateway belongs to a payment, with one exception: the
  gateway answered this call with an error although it opened the order - a timeout, say. Then the
  caller gets this error, and the order of the call is the only one that no payment accounts for. Of
  the gateway only this is relied on, that a call opens at most the order it names.\<close>

theorem opened_orders_are_known:
  fixes w :: "'g world"
  assumes "\<And>a g. registry_for reg a = Inr g \<Longrightarrow> opens_only opened g"
    and "orders_known opened w" "txn w = None"
    and "draw ''pay'' 0 w \<notin> pay_id ` set (payments (db w))"
  shows "orders_known opened (snd (create_payment reg ci w)) \<or>
    (\<exists>a g. registry_for reg a = Inr g \<and> order_lost opened g w (create_payment reg ci w))"
proof -
  let ?good = "\<lambda>x. orders_known opened (snd x) \<or> (\<exists>a g. registry_for reg a = Inr g \<and> order_lost opened g w x)"
  have step: "?good (store_and_open g ci' a options v)"
    if "still_rel w v" "registry_for reg a = Inr g" for v g ci' a options
  proof -
    have "orders_known opened (snd (store_and_open g ci' a options v)) \<or> order_lost opened g v (store_and_open g ci' a options v)"
    proof (rule store_and_open_known)
      show "opens_only opened g" using assms(1) that(2) by blast
      show "orders_known opened v" using assms(2) that(1) by (auto intro: orders_known_still)
      show "txn v = None" "draw ''pay'' 0 v \<notin> pay_id ` set (payments (db v))"
        using assms(3,4) that(1) by (simp_all add: still_rel_def draw_def)
    qed
    then show ?thesis using that by (auto simp: order_lost_def still_rel_def)
  qed
  have known: "orders_known opened v" if "still_rel w v" for v
    using assms(2) that by (auto intro: orders_known_still)
  have branch: "?good ((if b then throw e else m) v)"
    if "still_rel w v" "?good (m v)" for b e v and m :: "('g, payment) routine"
    using that known by (simp add: throw_def)
  note next_step = still_then[where P = ?good]
  show ?thesis
    unfolding create_payment_steps
  proof (rule next_step, rule still.evolves_gets)
    fix t v1
    assume v1: "still_rel w v1"
    show "?good (bindE (lift_result (validate_create t ci)) (\<lambda>ci.
       bindE (account_for (ci_application ci)) (\<lambda>a.
       if ci_key_mode ci \<noteq> None \<and> ci_key_mode ci \<noteq> Some (expected_key_mode a)
       then throw (KeyModeMismatch (the (ci_key_mode ci)) (acc_environment a))
       else bindE (lift_result (registry_for reg a)) (\<lambda>g.
         bindE (lift_result (decode_options (ci_gateway_options ci))) (store_and_open g ci a)))) v1)"
    proof (rule next_step, rule still.evolves_lift_result)
      fix ci v2
      assume "still_rel v1 v2"
      with v1 have v2: "still_rel w v2" by (rule still_rel_trans)
      show "?good (bindE (account_for (ci_application ci)) (\<lambda>a.
         if ci_key_mode ci \<noteq> None \<and> ci_key_mode ci \<noteq> Some (expected_key_mode a)
         then throw (KeyModeMismatch (the (ci_key_mode ci)) (acc_environment a))
         else bindE (lift_result (registry_for reg a)) (\<lambda>g.
           bindE (lift_result (decode_options (ci_gateway_options ci))) (store_and_open g ci a))) v2)"
      proof (rule next_step, rule still_account_for, rule branch)
        fix a v3
        assume "still_rel v2 v3"
        with v2 show v3: "still_rel w v3" by (rule still_rel_trans)
        show "?good (bindE (lift_result (registry_for reg a)) (\<lambda>g.
           bindE (lift_result (decode_options (ci_gateway_options ci))) (store_and_open g ci a)) v3)"
          using step known v3 by (auto simp: bindE_run lift_result_def split: sum.split)
      qed (use v2 known still_rel_trans in auto)
    qed (use v1 known still_rel_trans in auto)
  qed (use known in auto)
qed

text \<open>A gateway for the witnesses: its state is the list of the orders it opened, and every
  transaction it reports has the given status. With the flag set it opens orders and then
  reports a timeout.\<close>

definition sample_txn :: "status \<Rightarrow> string \<Rightarrow> gw_transaction" where
  "sample_txn s o_id = zero_gw_transaction\<lparr>gt_order_id := o_id, gt_transaction_id := ''t'' @ o_id,
     gt_status := ''ok'', gt_normalized := Some s\<rparr>"

definition sample_adapter :: "bool \<Rightarrow> status \<Rightarrow> string list adapter" where
  "sample_adapter timeout s = \<lparr>
     ga_create_payment = (\<lambda>req x. (if timeout then Inl (GatewayError ''timeout'')
       else Inr (zero_gw_payment\<lparr>gp_token := ''tok''\<rparr>), cr_order_id req # x)),
     ga_get_transaction = (\<lambda>o_id x. (Inr (sample_txn s o_id), x)),
     ga_cancel_transaction = (\<lambda>o_id x. (Inr (sample_txn Canceled o_id), x)),
     ga_expire_transaction = (\<lambda>o_id x. (Inr (sample_txn Expired o_id), x)),
     ga_verify_webhook = (\<lambda>req x. (if wh_headers req = [] then Inl InvalidSignature else Inr (), x)),
     ga_parse_webhook = (\<lambda>req x. (Inr \<lparr>gn_transaction = sample_txn s (wh_body req),
       gn_dedupe_key = wh_body req\<rparr>, x)),
     ga_refund = Some (\<lambda>req x. (Inr (zero_gw_refund\<lparr>gr_refund_id := rr_key req, gr_amount := rr_amount req\<rparr>),
       rr_key req # x)),
     ga_checkout = None, ga_subscriptions = None, ga_capabilities = None\<rparr>"

definition sample_account :: account where
  "sample_account = zero_account\<lparr>acc_id := ''gwa_1'', acc_gateway := ''midtrans'',
     acc_environment := Sandbox, acc_server_key := ''key'', acc_enabled := True, acc_is_default := True\<rparr>"

definition sample_registry :: "bool \<Rightarrow> status \<Rightarrow> string list registry" where
  "sample_registry timeout s = [(''midtrans'', \<lambda>_. Inr (sample_adapter timeout s))]"

definition sample_input :: create_input where
  "sample_input = \<lparr>ci_application = zero_application\<lparr>app_id := ''app_1''\<rparr>, ci_key_mode = Some KeyModeTest,
     ci_application_order_id = ''order-1'', ci_amount = 50000, ci_currency = [], ci_customer = None,
     ci_items = [], ci_enabled_methods = [], ci_expires_at = None, ci_callback_url = [],
     ci_custom_fields = [], ci_metadata = [], ci_gateway_options = None\<rparr>"

theorem opened_orders_are_known_witness:
  "let w = quiet_world (empty_db\<lparr>accounts := [sample_account]\<rparr>) [];
       v = snd (create_payment (sample_registry False Paid) sample_input w);
       u = snd (create_payment (sample_registry True Paid) sample_input w)
   in length (ext v) = 1 \<and> orders_known set v \<and> length (ext u) = 1 \<and> \<not> orders_known set u \<and>
     order_lost set (sample_adapter True Paid) w (create_payment (sample_registry True Paid) sample_input w)"
proof -
  let ?w = "quiet_world (empty_db\<lparr>accounts := [sample_account]\<rparr>) ([] :: string list)"
  let ?r = "\<lambda>b. create_payment (sample_registry b Paid) sample_input ?w"
  have adapter: "g = sample_adapter b Paid" if "registry_for (sample_registry b Paid) a = Inr g" for a g b
    using that by (auto simp: registry_for_def sample_registry_def split: if_splits)
  have "opens_only set (sample_adapter b Paid)" for b by (auto simp: opens_only_def sample_adapter_def)
  moreover have "orders_known set ?w" "draw ''pay'' 0 ?w \<notin> pay_id ` set (payments (db ?w))"
    by (simp_all add: orders_known_def empty_db_def)
  ultimately have "orders_known set (snd (?r b)) \<or>
      (\<exists>a g. registry_for (sample_registry b Paid) a = Inr g \<and> order_lost set g ?w (?r b))" for b
    by (intro opened_orders_are_known) (auto dest: adapter)
  then have outcome: "orders_known set (snd (?r b)) \<or> order_lost set (sample_adapter b Paid) ?w (?r b)" for b
    using adapter by blast
  have "length (ext (snd (?r False))) = 1" "length (ext (snd (?r True))) = 1"
    and ok: "\<not> isl (fst (?r False))" and lost: "\<not> orders_known set (snd (?r True))"
    by code_simp+
  moreover have "orders_known set (snd (?r False))"
    using outcome[of False] ok by (auto simp: order_lost_def)
  ultimately show ?thesis using outcome[of True] unfolding Let_def by blast
qed

text \<open>The assumption of the previous theorem is needed: when the gateway opens an order and
  the call still reports an error, such as a timeout, the payment is deleted all the same, and
  the order stays open at the gateway with nothing to attribute it to.\<close>

theorem gateway_error_forgets_order:
  assumes "ga_create_payment g (create_request ci p) (ext w) = (Inl e, y)"
    and "outcomes w = []" "txn w \<noteq> Some True"
    and "\<forall>q \<in> set (payments (db w)). pay_gateway_order_id q = pay_gateway_order_id p \<longrightarrow> pay_id q = pay_id p"
  shows "fst (open_at_gateway g ci p w) = Inl e \<and> ext (snd (open_at_gateway g ci p w)) = y \<and>
    pay_gateway_order_id p \<notin> pay_gateway_order_id ` set (payments (db (snd (open_at_gateway g ci p w))))"
proof -
  have "delete_payment (pay_id p) (w\<lparr>ext := y\<rparr>)
      = (Inr (), w\<lparr>ext := y, db := remove_payment (pay_id p) (db w)\<rparr>)"
    unfolding delete_payment_def using assms(2,3) by (simp add: exec_stmt_run)
  then show ?thesis
    using open_at_gateway_refused[OF assms(1)] assms(4) by (auto simp: remove_payment_def)
qed

theorem gateway_error_forgets_order_witness:
  "let p = zero_payment\<lparr>pay_id := ''pay_1'', pay_gateway_order_id := ''pmx_1''\<rparr>;
       w = quiet_world (empty_db\<lparr>payments := [p]\<rparr>) [];
       v = snd (open_at_gateway (sample_adapter True Paid) sample_input p w)
   in ext v = [''pmx_1''] \<and> ''pmx_1'' \<notin> pay_gateway_order_id ` set (payments (db v))"
proof -
  let ?p = "zero_payment\<lparr>pay_id := ''pay_1'', pay_gateway_order_id := ''pmx_1''\<rparr>"
  let ?w = "quiet_world (empty_db\<lparr>payments := [?p]\<rparr>) ([] :: string list)"
  have "ga_create_payment (sample_adapter True Paid) (create_request sample_input ?p) (ext ?w)
      = (Inl (GatewayError ''timeout''), [''pmx_1''])"
    by (simp add: sample_adapter_def)
  from gateway_error_forgets_order[OF this] show ?thesis by (simp add: Let_def)
qed

end
