(* ===== verification/Refunds.thy ===== *)
theory Refunds
  imports PaymentService
begin

text \<open>
  \<open>internal/payment/refund_repository.go\<close> and \<open>refund_service.go\<close>: the refunds of a payment and
  the two phases of making one. Phase one reads the balance with the payment's row locked and
  reserves a pending refund, in one transaction; phase two asks the gateway outside any
  transaction and records the outcome.
\<close>

subsection \<open>The repository\<close>

abbreviation set_refunds :: "refund list \<Rightarrow> db \<Rightarrow> db" where
  "set_refunds rows d \<equiv> d\<lparr>refunds := rows\<rparr>"

definition same_refund_key :: "refund \<Rightarrow> refund \<Rightarrow> bool" where
  "same_refund_key r x \<longleftrightarrow> rf_key r \<noteq> [] \<and> rf_key r = rf_key x \<and> rf_payment_id r = rf_payment_id x"

definition refund_constraints :: "refund constraint list" where
  "refund_constraints =
     [(''refunds_pkey'', \<lambda>r x. rf_id r = rf_id x), (''refunds_payment_refund_key'', same_refund_key)]"

definition refund_checks :: "refund check list" where
  "refund_checks = [(''refunds_amount_check'', \<lambda>r. 0 < rf_amount r)]"

definition create_refund :: "refund \<Rightarrow> ('g, refund) routine" where
  "create_refund r =
     bindE (if rf_id r = [] then fresh_id ''rfd'' else succeed (rf_id r)) (\<lambda>i.
     bindE (gets now) (\<lambda>t.
     insert_checked refund_checks refund_constraints refunds set_refunds
       (r\<lparr>rf_id := i, rf_created_at := t, rf_updated_at := t\<rparr>)))"

definition refund_outcome :: "refund \<Rightarrow> time \<Rightarrow> refund \<Rightarrow> refund" where
  "refund_outcome r t old = old\<lparr>
     rf_gateway_refund_id := keep_unless (rf_gateway_refund_id r) (rf_gateway_refund_id old),
     rf_status := rf_status r, rf_gateway_status := rf_gateway_status r,
     rf_failure_reason := rf_failure_reason r, rf_raw := rf_raw r, rf_updated_at := t\<rparr>"

definition update_refund :: "refund \<Rightarrow> ('g, refund) routine" where
  "update_refund r = bindE (gets now) (\<lambda>t.
     update_one refunds set_refunds (\<lambda>x. rf_id x = rf_id r) (refund_outcome r t))"

definition get_refund :: "string \<Rightarrow> string \<Rightarrow> ('g, refund) routine" where
  "get_refund payment_id i =
     query_row (\<lambda>d. List.find (\<lambda>r. rf_id r = i \<and> rf_payment_id r = payment_id) (refunds d))"

definition list_refunds :: "string \<Rightarrow> ('g, refund list) routine" where
  "list_refunds payment_id =
     query (\<lambda>d. order_desc rf_id (filter (\<lambda>r. rf_payment_id r = payment_id) (refunds d)))"

definition counted :: "string \<Rightarrow> refund \<Rightarrow> bool" where
  "counted payment_id r \<longleftrightarrow> rf_payment_id r = payment_id \<and> rf_status r = RefundSucceeded"

definition succeeded_total :: "string \<Rightarrow> refund list \<Rightarrow> int" where
  "succeeded_total payment_id rows = (\<Sum>r\<leftarrow>filter (counted payment_id) rows. rf_amount r)"

definition succeeded_refund_total :: "string \<Rightarrow> ('g, int) routine" where
  "succeeded_refund_total payment_id = query (\<lambda>d. succeeded_total payment_id (refunds d))"

record refund_filter =
  rff_application_id :: string
  rff_payment_id :: string
  rff_status :: "refund_status option"

definition refund_matches :: "refund_filter \<Rightarrow> refund \<Rightarrow> bool" where
  "refund_matches f r \<longleftrightarrow>
     (rff_application_id f \<noteq> [] \<longrightarrow> rf_application_id r = rff_application_id f) \<and>
     (rff_payment_id f \<noteq> [] \<longrightarrow> rf_payment_id r = rff_payment_id f) \<and>
     (case rff_status f of None \<Rightarrow> True | Some s \<Rightarrow> rf_status r = s)"

definition refund_page :: "refund_filter \<Rightarrow> page \<Rightarrow> db \<Rightarrow> refund listing" where
  "refund_page f p d = list_rows rf_id (refund_matches f) p (refunds d)"

definition list_all_refunds :: "refund_filter \<Rightarrow> page \<Rightarrow> ('g, refund listing) routine" where
  "list_all_refunds f p = query (refund_page f p)"

interpretation refund_listing: keyset_listing "refund_page f" rf_id
    "\<lambda>d. order_desc rf_id (filter (refund_matches f) (refunds d))" for f
  unfolding refund_page_def by (rule keyset_listing_rows)

subsection \<open>The service\<close>

record refund_input =
  ri_application_id :: string
  ri_payment_id :: string
  ri_amount :: int
  ri_reason :: string
  ri_key :: string

definition validate_refund :: "refund_input \<Rightarrow> error + unit" where
  "validate_refund ri =
     (if ri_amount ri < 0 then Inl (Validation ''amount'' ''must not be negative'')
      else if 255 < length (ri_reason ri)
        then Inl (Validation ''reason'' ''must be at most 255 characters'')
      else Inr ())"

text \<open>The amount to refund: all that is left when none is asked for.\<close>

definition refund_amount :: "payment \<Rightarrow> int \<Rightarrow> int \<Rightarrow> error + int" where
  "refund_amount p refunded requested =
     (let available = wrap64 (pay_amount p - refunded);
          amount = (if requested = 0 then available else requested)
      in if available \<le> 0 then Inl NotRefundable
         else if available < amount then Inl (RefundExceedsBalance amount available)
         else Inr amount)"

definition new_refund :: "refund_input \<Rightarrow> payment \<Rightarrow> string \<Rightarrow> int \<Rightarrow> refund" where
  "new_refund ri p key amount = zero_refund\<lparr>rf_payment_id := pay_id p,
     rf_application_id := pay_application_id p, rf_key := key, rf_amount := amount,
     rf_currency := pay_currency p, rf_reason := trim_space (ri_reason ri),
     rf_status := RefundPending\<rparr>"

text \<open>A reservation is the payment as it was read, the refund's row and the adapter that will
  make it.\<close>

type_synonym 'g reservation = "payment \<times> refund \<times> (refund_request \<Rightarrow> ('g, error, gw_refund) op)"

definition refund_adapter :: "'g registry \<Rightarrow> payment \<Rightarrow>
    ('g, refund_request \<Rightarrow> ('g, error, gw_refund) op) routine" where
  "refund_adapter reg p = bindE (adapter_for reg p) (\<lambda>g. case ga_refund g of
     None \<Rightarrow> throw NotSupported | Some call \<Rightarrow> succeed call)"

definition store_refund :: "refund \<Rightarrow> ('g, refund) routine" where
  "store_refund r = catchE (create_refund r)
     (\<lambda>e. if is_unique_violation e [''refunds_payment_refund_key''] then throw IdempotencyConflict else throw e)
     succeed"

definition reserve_refund :: "'g registry \<Rightarrow> refund_input \<Rightarrow> string \<Rightarrow> ('g, 'g reservation) routine" where
  "reserve_refund reg ri key =
     bindE (lock_for_update (ri_payment_id ri)) (\<lambda>p.
     if ri_application_id ri \<noteq> [] \<and> pay_application_id p \<noteq> ri_application_id ri then throw NotFound
     else if \<not> settled (pay_status p) then throw NotRefundable
     else
       bindE (succeeded_refund_total (pay_id p)) (\<lambda>refunded.
       bindE (lift_result (refund_amount p refunded (ri_amount ri))) (\<lambda>amount.
       bindE (refund_adapter reg p) (\<lambda>call.
       bindE (store_refund (new_refund ri p key amount)) (\<lambda>r.
       succeed (p, r, call))))))"

definition refund_call :: "payment \<Rightarrow> refund \<Rightarrow> refund_request" where
  "refund_call p r = \<lparr>rr_order_id = pay_gateway_order_id p,
     rr_transaction_id = pay_gateway_transaction_id p, rr_amount = rf_amount r,
     rr_reason = rf_reason r, rr_key = rf_key r\<rparr>"

definition refund_event :: "time \<Rightarrow> payment \<Rightarrow> refund \<Rightarrow> etype \<Rightarrow> event" where
  "refund_event t p r ty = zero_event\<lparr>ev_application_id := pay_application_id p, ev_type := ty,
     ev_gateway := pay_gateway p, ev_payment_id := pay_id p, ev_refund_id := rf_id r,
     ev_dedupe_key := refund_dedupe_key (rf_id r) ty,
     ev_payload := (build_payload t p ty)\<lparr>pl_refund_id := rf_id r, pl_amount := rf_amount r,
       pl_refunded_amount := pay_refunded_amount p\<rparr>\<rparr>"

definition publish_refund_event :: "payment \<Rightarrow> refund \<Rightarrow> etype \<Rightarrow> ('g, unit) routine" where
  "publish_refund_event p r ty =
     bindE (gets now) (\<lambda>t. ignore_error (publish (refund_event t p r ty)))"

definition refund_update :: "payment \<Rightarrow> gw_refund \<Rightarrow> int \<Rightarrow> state_update" where
  "refund_update p gr refunded = \<lparr>su_status = coalesce (gr_payment_status gr)
       (if pay_amount p \<le> refunded then Refunded else PartiallyRefunded),
     su_gateway_status = gr_status gr, su_fraud_status = [], su_gateway_transaction_id = [],
     su_payment_type = [], su_payment_method = [], su_refunded_amount = Some refunded,
     su_gateway_data = gr_raw gr, su_occurred_at = None, su_mark_synced = False\<rparr>"

definition apply_refund_to_payment :: "payment \<Rightarrow> gw_refund \<Rightarrow> ('g, payment) routine" where
  "apply_refund_to_payment p gr =
     bindE (if gr_refunded_amount gr = 0 then succeeded_refund_total (pay_id p)
            else succeed (gr_refunded_amount gr)) (\<lambda>refunded.
     catchE (apply_state (pay_id p) (refund_update p gr refunded))
       (\<lambda>e. if e = StaleTransition then payment_get (pay_id p) else throw e)
       (\<lambda>updated. bindE (publish_status updated) (\<lambda>_. succeed updated)))"

definition failed_refund :: "error \<Rightarrow> refund \<Rightarrow> refund" where
  "failed_refund e r = r\<lparr>rf_status := RefundFailed, rf_failure_reason := error_text e\<rparr>"

definition done_refund :: "gw_refund \<Rightarrow> refund \<Rightarrow> refund" where
  "done_refund gr r = r\<lparr>rf_status := RefundSucceeded, rf_gateway_refund_id := gr_refund_id gr,
     rf_gateway_status := gr_status gr, rf_raw := coalesce (gr_raw gr) []\<rparr>"

definition refund_failed :: "payment \<Rightarrow> refund \<Rightarrow> error \<Rightarrow> ('g, refund \<times> payment) routine" where
  "refund_failed p r e =
     bindE (ignore_error (update_refund (failed_refund e r))) (\<lambda>_.
     bindE (publish_refund_event p (failed_refund e r) EvRefundFailed) (\<lambda>_. throw e))"

definition refund_done :: "payment \<Rightarrow> refund \<Rightarrow> gw_refund \<Rightarrow> ('g, refund \<times> payment) routine" where
  "refund_done p r gr =
     bindE (update_refund (done_refund gr r)) (\<lambda>stored.
     bindE (apply_refund_to_payment p gr) (\<lambda>updated.
     bindE (publish_refund_event updated stored EvRefundCompleted) (\<lambda>_.
     succeed (stored, updated))))"

definition settle_refund :: "'g reservation \<Rightarrow> ('g, refund \<times> payment) routine" where
  "settle_refund res = (case res of (p, r, call) \<Rightarrow>
     catchE (call_out (call (refund_call p r))) (refund_failed p r) (refund_done p r))"

definition refund_payment :: "'g registry \<Rightarrow> refund_input \<Rightarrow> ('g, refund \<times> payment) routine" where
  "refund_payment reg ri =
     bindE (lift_result (validate_refund ri)) (\<lambda>_.
     bindE (if ri_key ri = [] then fresh_id ''rfd'' else succeed (ri_key ri)) (\<lambda>key.
     bindE (in_tx (reserve_refund reg ri key)) settle_refund))"

definition service_list_refunds :: "string \<Rightarrow> string \<Rightarrow> ('g, refund list) routine" where
  "service_list_refunds application_id i =
     bindE (load_payment application_id i) (\<lambda>_. list_refunds i)"

definition service_list_all_refunds :: "refund_filter \<Rightarrow> page \<Rightarrow> ('g, refund listing) routine" where
  "service_list_all_refunds f p = list_all_refunds f p"

definition service_get_refund :: "string \<Rightarrow> string \<Rightarrow> string \<Rightarrow> ('g, refund) routine" where
  "service_get_refund application_id payment_id i =
     bindE (load_payment application_id payment_id) (\<lambda>_. get_refund payment_id i)"

subsection \<open>A payment is never refunded beyond its amount\<close>

text \<open>The refunds of a payment that count against its amount while refund \<open>i\<close> is being made:
  those that succeeded, and \<open>i\<close> itself whatever its status.\<close>

definition booked :: "string \<Rightarrow> string \<Rightarrow> refund \<Rightarrow> bool" where
  "booked i q r \<longleftrightarrow> rf_payment_id r = q \<and> (rf_status r = RefundSucceeded \<or> rf_id r = i)"

definition booked_total :: "string \<Rightarrow> string \<Rightarrow> refund list \<Rightarrow> int" where
  "booked_total i q rows = (\<Sum>r\<leftarrow>filter (booked i q) rows. rf_amount r)"

definition solvent :: "(string \<Rightarrow> refund list \<Rightarrow> int) \<Rightarrow> db \<Rightarrow> bool" where
  "solvent spent d \<longleftrightarrow> (\<forall>r \<in> set (refunds d). 0 < rf_amount r) \<and>
     (\<forall>p \<in> set (payments d). is_int64 (pay_amount p) \<and> spent (pay_id p) (refunds d) \<le> pay_amount p)"

abbreviation refunds_within :: "db \<Rightarrow> bool" where "refunds_within \<equiv> solvent succeeded_total"

definition booked_rel :: "string \<Rightarrow> db \<Rightarrow> db \<Rightarrow> bool" where
  "booked_rel i d e \<longleftrightarrow> (solvent (booked_total i) d \<longrightarrow> solvent (booked_total i) e)"

interpretation booking: db_evolution "booked_rel i" for i
  by unfold_locales (auto simp: booked_rel_def)

lemma succeeded_booked: "(\<forall>r \<in> set rows. 0 < rf_amount r) \<Longrightarrow> succeeded_total q rows \<le> booked_total i q rows"
  by (induction rows) (auto simp: succeeded_total_def booked_total_def counted_def booked_def)

lemma solvent_booked: "solvent (booked_total i) d \<Longrightarrow> refunds_within d"
  unfolding solvent_def using succeeded_booked by (blast intro: order_trans)

lemma solvent_append:
  assumes "refunds_within d" "rf_id r \<notin> rf_id ` set (refunds d)" "0 < rf_amount r"
    and "\<forall>p \<in> set (payments d). pay_id p = rf_payment_id r \<longrightarrow>
      succeeded_total (pay_id p) (refunds d) + rf_amount r \<le> pay_amount p"
  shows "solvent (booked_total (rf_id r)) (set_refunds (refunds d @ [r]) d)"
proof -
  have same: "booked_total (rf_id r) q rows = succeeded_total q rows" if "rf_id r \<notin> rf_id ` set rows" for q rows
    using that by (induction rows) (auto simp: succeeded_total_def booked_total_def counted_def booked_def)
  have "booked_total (rf_id r) q (refunds d @ [r]) = succeeded_total q (refunds d) +
      (if rf_payment_id r = q then rf_amount r else 0)" for q
    using same[OF assms(2)] by (auto simp: booked_total_def booked_def)
  then show ?thesis using assms by (auto simp: solvent_def)
qed

text \<open>The statements of the second phase keep what is booked.\<close>

lemma booked_outcome: "rf_id r = i \<Longrightarrow>
  booked_total i q (map (\<lambda>x. if rf_id x = rf_id r then refund_outcome r t x else x) rows) = booked_total i q rows"
  by (induction rows) (auto simp: booked_total_def booked_def refund_outcome_def)

lemma booking_update_refund: "rf_id r = i \<Longrightarrow> booking.safe i (update_refund r)"
  unfolding update_refund_def
  by (intro booking.safe_intros booking.safe_update_one)
    (auto simp: booked_rel_def solvent_def booked_outcome refund_outcome_def)

lemma booking_payments:
  "(\<And>p. pay_id (f p) = pay_id p \<and> pay_amount (f p) = pay_amount p) \<Longrightarrow>
   booked_rel i d (set_payments (map f (payments d)) d)"
  by (auto simp: booked_rel_def solvent_def)

lemma booking_apply_state: "booking.safe i (apply_state j u)"
  unfolding apply_state_def
  by (intro booking.safe_intros booking.safe_update_checked booking_payments)
    (simp add: advanced_def Let_def)

lemma booking_publish: "booking.safe i (publish e)"
  by (rule booking.safe_weaken[OF announces_weaken]) (auto simp: announce_rel_def booked_rel_def solvent_def)

lemma booking_publish_status: "booking.safe i (publish_status p)"
  unfolding publish_status_def publish_payment_event_def
  by (intro booking.safe_intros booking_publish)

lemma booking_apply_refund: "booking.safe i (apply_refund_to_payment p gr)"
  unfolding apply_refund_to_payment_def succeeded_refund_total_def payment_get_def payment_where_def
  by (intro booking.safe_intros booking_apply_state booking_publish_status)

lemma booking_settle: "booking.safe (rf_id r) (settle_refund (p, r, call))"
  unfolding settle_refund_def refund_failed_def refund_done_def publish_refund_event_def
  by (intro booking.safe_intros booking_update_refund booking_publish booking_apply_refund)
    (simp_all add: failed_refund_def done_refund_def)

subsection \<open>What a reservation is\<close>

lemma create_refund_Inr:
  assumes "create_refund r w = (Inr x, v)"
  shows "\<exists>i t. x = r\<lparr>rf_id := i, rf_created_at := t, rf_updated_at := t\<rparr> \<and> 0 < rf_amount x \<and>
    rf_id x \<notin> rf_id ` set (refunds (db w)) \<and> (\<forall>y \<in> set (refunds (db w)). \<not> same_refund_key x y) \<and>
    db v = set_refunds (refunds (db w) @ [x]) (db w)"
proof -
  obtain i u where i: "(if rf_id r = [] then fresh_id ''rfd'' else succeed (rf_id r)) w = (Inr i, u)"
      and rest: "bindE (gets now) (\<lambda>t. insert_checked refund_checks refund_constraints refunds set_refunds
       (r\<lparr>rf_id := i, rf_created_at := t, rf_updated_at := t\<rparr>)) u = (Inr x, v)"
    using assms unfolding create_refund_def by (rule bindE_Inr_E)
  have "db u = db w" using i fresh_id_Inr[of "''rfd''" w i u] by (auto simp: succeed_def split: if_splits)
  moreover have "insert_checked refund_checks refund_constraints refunds set_refunds
       (r\<lparr>rf_id := i, rf_created_at := now u, rf_updated_at := now u\<rparr>) u = (Inr x, v)"
    using rest by (simp add: bindE_run gets_def)
  ultimately show ?thesis
    using insert_checked_Inr[of refund_checks refund_constraints refunds "\<lambda>rows d. d\<lparr>refunds := rows\<rparr>"
        "r\<lparr>rf_id := i, rf_created_at := now u, rf_updated_at := now u\<rparr>" u x v]
    by (intro exI[of _ i] exI[of _ "now u"])
      (auto simp: violated_None refund_constraints_def refused_check_None refund_checks_def)
qed

lemma store_refund_Inr: "store_refund r w = (Inr x, v) \<Longrightarrow> create_refund r w = (Inr x, v)"
  by (auto simp: store_refund_def catchE_def throw_def succeed_def split: prod.splits sum.splits if_splits)

lemma still_refund_adapter: "still.evolves (refund_adapter reg p)"
  unfolding refund_adapter_def adapter_for_def account_get_def by (intro still_intros)

lemma reserve_refund_Inr:
  assumes "reserve_refund reg ri key w = (Inr (p, r, call), v)"
  shows "p \<in> set (payments (db w)) \<and> rf_payment_id r = pay_id p \<and> pay_id p = ri_payment_id ri \<and> rf_key r = key \<and>
    refund_amount p (succeeded_total (pay_id p) (refunds (db w))) (ri_amount ri) = Inr (rf_amount r) \<and>
    0 < rf_amount r \<and> rf_id r \<notin> rf_id ` set (refunds (db w)) \<and>
    (\<forall>y \<in> set (refunds (db w)). \<not> same_refund_key r y) \<and> rf_status r = RefundPending \<and>
    db v = set_refunds (refunds (db w) @ [r]) (db w)"
proof -
  let ?store = "\<lambda>q a. bindE (refund_adapter reg q) (\<lambda>call.
       bindE (store_refund (new_refund ri q key a)) (\<lambda>r. succeed (q, r, call)))"
  let ?sum = "\<lambda>q. bindE (succeeded_refund_total (pay_id q)) (\<lambda>n.
       bindE (lift_result (refund_amount q n (ri_amount ri))) (?store q))"
  obtain q u where q: "lock_for_update (ri_payment_id ri) w = (Inr q, u)" and rest: "?sum q u = (Inr (p, r, call), v)"
    using assms unfolding reserve_refund_def
    by (auto elim!: bindE_Inr_E simp: throw_def split: if_splits)
  have q': "q \<in> set (payments (db w))" "pay_id q = ri_payment_id ri" "db u = db w"
    using query_row_Inr[OF q[unfolded lock_for_update_def payment_where_def]] by (auto simp: find_Some_iff)
  obtain n u1 where n: "succeeded_refund_total (pay_id q) u = (Inr n, u1)"
      and rest1: "bindE (lift_result (refund_amount q n (ri_amount ri))) (?store q) u1 = (Inr (p, r, call), v)"
    using rest by (rule bindE_Inr_E)
  have n': "n = succeeded_total (pay_id q) (refunds (db w))" "db u1 = db w"
    using query_Inr[OF n[unfolded succeeded_refund_total_def]] q' by simp_all
  obtain a where a: "refund_amount q n (ri_amount ri) = Inr a" and rest2: "?store q a u1 = (Inr (p, r, call), v)"
    using rest1 by (auto simp: bindE_run lift_result_def split: sum.splits)
  obtain c u2 where c: "refund_adapter reg q u1 = (Inr c, u2)"
      and rest3: "bindE (store_refund (new_refund ri q key a)) (\<lambda>r. succeed (q, r, c)) u2 = (Inr (p, r, call), v)"
    using rest2 by (rule bindE_Inr_E)
  have "db u2 = db w" using still_Inr[OF still_refund_adapter c] n' by (simp add: still_rel_def)
  moreover have "create_refund (new_refund ri q key a) u2 = (Inr r, v)" "q = p"
    using rest3 store_refund_Inr by (auto elim!: bindE_Inr_E simp: succeed_def)
  ultimately show ?thesis
    using create_refund_Inr[of "new_refund ri q key a" u2 r v] q' n' a
    by (auto simp: new_refund_def)
qed

lemma refund_amount_room:
  "refund_amount p n k = Inr a \<Longrightarrow> is_int64 (pay_amount p) \<Longrightarrow> 0 \<le> n \<Longrightarrow> n \<le> pay_amount p \<Longrightarrow> n + a \<le> pay_amount p"
  by (auto simp: refund_amount_def Let_def is_int64_def max_int64_def min_int64_def split: if_splits)

lemma succeeded_total_nonneg: "(\<forall>r \<in> set rows. 0 < rf_amount r) \<Longrightarrow> 0 \<le> succeeded_total q rows"
  by (induction rows) (auto simp: succeeded_total_def intro: less_imp_le)

lemma reservation_books:
  assumes "reserve_refund reg ri key w = (Inr (p, r, call), v)" "refunds_within (db w)"
    and "distinct (map pay_id (payments (db w)))"
  shows "solvent (booked_total (rf_id r)) (db v)"
proof -
  note res = reserve_refund_Inr[OF assms(1)]
  let ?n = "succeeded_total (pay_id p) (refunds (db w))"
  have "0 \<le> ?n" "?n \<le> pay_amount p" "is_int64 (pay_amount p)"
    using assms(2) res succeeded_total_nonneg by (auto simp: solvent_def)
  then have room: "?n + rf_amount r \<le> pay_amount p"
    using res refund_amount_room by blast
  have "q = p" if "q \<in> set (payments (db w))" "pay_id q = pay_id p" for q
    using inj_onD[of pay_id "set (payments (db w))" q p] that res assms(3) by (simp add: distinct_map)
  then have "solvent (booked_total (rf_id r)) (set_refunds (refunds (db w) @ [r]) (db w))"
    using assms(2) res room by (intro solvent_append) auto
  then show ?thesis using res by simp
qed

lemma inert_reserve: "inert.evolves (reserve_refund reg ri key)"
  unfolding reserve_refund_def lock_for_update_def payment_where_def refund_adapter_def
    adapter_for_def account_get_def succeeded_refund_total_def store_refund_def create_refund_def
  by (intro inert_intros)

lemma refund_payment_run:
  assumes "txn w = None"
  obtains (refused) e v where "refund_payment reg ri w = (Inl e, v)" "db v = db w" "ext v = ext w"
  | (reserved) key r p c u w1 v where "refund_payment reg ri w = settle_refund (p, r, c) v"
      "reserve_refund reg ri key w1 = (Inr (p, r, c), u)" "db w1 = db w" "db v = db u" "txn v = None"
      "ext w1 = ext w" "ext v = ext u" "ri_key ri \<noteq> [] \<longrightarrow> key = ri_key ri"
proof (cases "validate_refund ri")
  case (Inl e)
  then show thesis by (intro refused[of e w]) (simp_all add: refund_payment_def bindE_run lift_result_def)
next
  case (Inr x)
  obtain key u0 where k: "(if ri_key ri = [] then fresh_id ''rfd'' else succeed (ri_key ri)) w = (Inr key, u0)"
    by (cases "ri_key ri = []") (auto simp: fresh_id_def succeed_def)
  have u0: "db u0 = db w" "txn u0 = None" "ext u0 = ext w" "ri_key ri \<noteq> [] \<longrightarrow> key = ri_key ri"
    using k assms by (auto simp: fresh_id_def succeed_def split: if_splits)
  obtain s v where t: "in_tx (reserve_refund reg ri key) u0 = (s, v)" by fastforce
  have run: "refund_payment reg ri w = (case s of Inl e \<Rightarrow> (Inl e, v) | Inr x \<Rightarrow> settle_refund x v)"
    using Inr k t by (simp add: refund_payment_def bindE_run lift_result_def)
  show thesis
  proof (cases rule: in_tx_cases[OF t u0(2), consumes 0, case_names failed committed])
    case (failed e)
    have "ext v = ext w"
      using inert.evolvesD[OF inert_in_tx[OF inert_reserve] t] u0(3) by (simp add: inert_rel_def)
    with failed run u0 refused show thesis by simp
  next
    case (committed x w1 w2)
    obtain p r c where x: "x = (p, r, c)" by (cases x)
    show thesis
      by (rule reserved[of p r c v key w1 w2]) (use committed run u0 x in simp_all)
  qed
qed

text \<open>C22. One refund after another never refunds more than was paid: for any gateway, any
  request and under any failures, a call of \<open>Refund\<close> that runs alone leaves the succeeded
  refunds of every payment within its amount.\<close>

theorem refunds_never_exceed:
  fixes w :: "'g world"
  assumes "refunds_within (db w)" "distinct (map pay_id (payments (db w)))" "txn w = None"
  shows "refunds_within (db (snd (refund_payment reg ri w)))"
proof (cases rule: refund_payment_run[OF assms(3), of reg ri, case_names refused reserved])
  case (refused e v)
  then show ?thesis using assms(1) by simp
next
  case (reserved key r p c u w1 v)
  have "solvent (booked_total (rf_id r)) (db v)"
    using reservation_books[OF reserved(2)] assms reserved by simp
  then have "solvent (booked_total (rf_id r)) (db (snd (settle_refund (p, r, c) v)))"
    using booking.safe_db[OF booking_settle, of r v p c] by (simp add: booked_rel_def)
  then show ?thesis using reserved(1) solvent_booked by simp
qed

text \<open>A refund key already used for a payment never reaches the gateway again: the call
  fails, no table changes and no request is sent, whatever else fails.\<close>

theorem refund_key_sent_once:
  fixes w :: "'g world"
  assumes "r \<in> set (refunds (db w))" "rf_payment_id r = ri_payment_id ri" "rf_key r = ri_key ri"
    and "ri_key ri \<noteq> []" "txn w = None"
  shows "\<exists>e v. refund_payment reg ri w = (Inl e, v) \<and> db v = db w \<and> ext v = ext w"
proof (cases rule: refund_payment_run[OF assms(5), of reg ri, case_names refused reserved])
  case (refused e v)
  then show ?thesis by blast
next
  case (reserved key q p c u w1 v)
  then show ?thesis
    using reserve_refund_Inr[OF reserved(2)] assms(1-4) by (auto simp: same_refund_key_def)
qed

text \<open>The worlds of the witnesses: one settled payment of 100 on the sample account.\<close>

definition settled_payment :: payment where
  "settled_payment = zero_payment\<lparr>pay_id := ''pay_1'', pay_application_id := ''app_1'',
     pay_gateway := ''midtrans'', pay_gateway_account_id := ''gwa_1'', pay_gateway_order_id := ''pmx_1'',
     pay_amount := 100, pay_currency := ''IDR'', pay_status := Paid\<rparr>"

definition sample_refund :: "string \<Rightarrow> int \<Rightarrow> refund_input" where
  "sample_refund key amount = \<lparr>ri_application_id = ''app_1'', ri_payment_id = ''pay_1'', ri_amount = amount,
     ri_reason = [], ri_key = key\<rparr>"

definition settled_world :: "string list world" where
  "settled_world = quiet_world (empty_db\<lparr>accounts := [sample_account], payments := [settled_payment]\<rparr>) []"

lemma settled_world_simps [simp]:
  "outcomes settled_world = []" "txn settled_world = None"
  "db settled_world = empty_db\<lparr>accounts := [sample_account], payments := [settled_payment]\<rparr>"
  by (simp_all add: settled_world_def)

theorem refunds_never_exceed_witness:
  "refunds_within (db (snd (refund_payment (sample_registry False Paid) (sample_refund ''k1'' 60) settled_world)))"
proof -
  have "refunds_within (db settled_world)"
    by (simp add: solvent_def succeeded_total_def empty_db_def settled_payment_def int64_defs)
  then show ?thesis by (rule refunds_never_exceed) simp_all
qed

theorem refund_key_sent_once_witness:
  "let r = zero_refund\<lparr>rf_id := ''rfd_1'', rf_payment_id := ''pay_1'', rf_key := ''k1'', rf_amount := 60\<rparr>;
       w = settled_world\<lparr>db := set_refunds [r] (db settled_world)\<rparr>
   in isl (fst (refund_payment (sample_registry False Paid) (sample_refund ''k1'' 30) w))"
proof -
  let ?r = "zero_refund\<lparr>rf_id := ''rfd_1'', rf_payment_id := ''pay_1'', rf_key := ''k1'', rf_amount := 60\<rparr>"
  let ?w = "settled_world\<lparr>db := set_refunds [?r] (db settled_world)\<rparr>"
  show ?thesis
    using refund_key_sent_once[of ?r ?w "sample_refund ''k1'' 30" "sample_registry False Paid"]
    by (auto simp: sample_refund_def Let_def)
qed

subsection \<open>Two refunds at the same time\<close>

definition grants :: "'g registry \<Rightarrow> refund_input \<Rightarrow> payment \<Rightarrow>
    (refund_request \<Rightarrow> ('g, error, gw_refund) op) \<Rightarrow> int \<Rightarrow> db \<Rightarrow> bool" where
  "grants reg ri p call a d \<longleftrightarrow> List.find (\<lambda>q. pay_id q = ri_payment_id ri) (payments d) = Some p \<and>
     (ri_application_id ri = [] \<or> pay_application_id p = ri_application_id ri) \<and> settled (pay_status p) \<and>
     refund_amount p (succeeded_total (pay_id p) (refunds d)) (ri_amount ri) = Inr a \<and> 0 < a \<and>
     (\<exists>x g. List.find (\<lambda>x. acc_id x = pay_gateway_account_id p) (accounts d) = Some x \<and>
        registry_for reg x = Inr g \<and> ga_refund g = Some call)"

definition reserved_row :: "refund_input \<Rightarrow> payment \<Rightarrow> string \<Rightarrow> int \<Rightarrow> 'g world \<Rightarrow> refund" where
  "reserved_row ri p key a w = (new_refund ri p key a)\<lparr>rf_id := draw ''rfd'' 0 w,
     rf_created_at := now w, rf_updated_at := now w\<rparr>"

lemma reserve_granted:
  assumes "outcomes w = []" "txn w = None" "grants reg ri p call a (db w)"
    and "\<forall>y \<in> set (refunds (db w)). rf_id y \<noteq> draw ''rfd'' 0 w \<and> \<not> (rf_payment_id y = pay_id p \<and> rf_key y = key)"
  shows "in_tx (reserve_refund reg ri key) w = (Inr (p, reserved_row ri p key a w, call),
    w\<lparr>db := set_refunds (refunds (db w) @ [reserved_row ri p key a w]) (db w), draws := draws w + 1\<rparr>)"
proof -
  let ?u = "w\<lparr>txn := Some False\<rparr>" and ?row = "reserved_row ri p key a w"
  obtain x g where x: "List.find (\<lambda>x. acc_id x = pay_gateway_account_id p) (accounts (db w)) = Some x"
      "registry_for reg x = Inr g" "ga_refund g = Some call"
    using assms(3) by (auto simp: grants_def)
  have "refund_adapter reg p ?u = (Inr call, ?u)"
    using x assms(1) by (simp add: refund_adapter_def adapter_for_def account_get_def op_simps)
  moreover have "create_refund (new_refund ri p key a) ?u =
      (Inr ?row, ?u\<lparr>db := set_refunds (refunds (db w) @ [?row]) (db w), draws := draws w + 1\<rparr>)"
  proof -
    have "refused_check refund_checks [?row] = None" "violated refund_constraints ?row (refunds (db w)) = None"
      using assms(3,4) by (auto simp: refused_check_None refund_checks_def violated_None refund_constraints_def
          reserved_row_def new_refund_def grants_def same_refund_key_def)
    then show ?thesis using assms(1)
      by (simp add: create_refund_def new_refund_def bindE_run fresh_id_def gets_def insert_checked_def run_stmt_def
          next_outcome_def reserved_row_def draw_def zero_refund_def)
  qed
  ultimately have "reserve_refund reg ri key ?u = (Inr (p, ?row, call),
      ?u\<lparr>db := set_refunds (refunds (db w) @ [?row]) (db w), draws := draws w + 1\<rparr>)"
    using assms(1,3) by (auto simp: reserve_refund_def lock_for_update_def payment_where_def succeeded_refund_total_def
        grants_def store_refund_def op_simps)
  note run = in_tx_run[OF assms(1,2), where body = "reserve_refund reg ri key", OF this]
  have "w\<lparr>db := d, draws := n, txn := None\<rparr> = w\<lparr>db := d, draws := n\<rparr>" for d n
    using assms(2) by (cases w) simp
  with run assms(1) show ?thesis by simp
qed

text \<open>Settling a reservation the gateway accepts.\<close>

definition ledger_rel :: "db \<Rightarrow> db \<Rightarrow> bool" where "ledger_rel d e \<longleftrightarrow> refunds e = refunds d"

interpretation ledger: db_evolution ledger_rel
  by unfold_locales (auto simp: ledger_rel_def)

lemma ledger_publish: "ledger.safe (publish e)"
  by (rule ledger.safe_weaken[OF announces_weaken]) (auto simp: announce_rel_def ledger_rel_def)

lemma ledger_apply_refund: "ledger.safe (apply_refund_to_payment p gr)"
  unfolding apply_refund_to_payment_def succeeded_refund_total_def payment_get_def payment_where_def
    apply_state_def publish_status_def publish_payment_event_def
  by (intro ledger.safe_intros ledger.safe_update_checked ledger_publish) (simp add: ledger_rel_def)

lemma ledger_publish_refund: "ledger.safe (publish_refund_event p r ty)"
  unfolding publish_refund_event_def by (intro ledger.safe_intros ledger_publish)

lemma inert_apply_refund: "inert.evolves (apply_refund_to_payment p gr)"
  unfolding apply_refund_to_payment_def succeeded_refund_total_def payment_get_def payment_where_def
    apply_state_def publish_status_def publish_payment_event_def
  by (intro inert_intros inert_publish)

lemma inert_publish_refund: "inert.evolves (publish_refund_event p r ty)"
  unfolding publish_refund_event_def by (intro inert_intros inert_publish)

lemma settle_accepted:
  assumes "outcomes w = []" "txn w = None" "filter (\<lambda>x. rf_id x = rf_id r) (refunds (db w)) = [y]"
    and "call (refund_call p r) (ext w) = (Inr gr, g)"
  shows "\<exists>s v. settle_refund (p, r, call) w = (s, v) \<and> outcomes v = [] \<and> txn v = None \<and>
    refunds (db v) = map (\<lambda>x. if rf_id x = rf_id r then refund_outcome (done_refund gr r) (now w) x else x)
      (refunds (db w))"
proof -
  let ?w = "w\<lparr>ext := g\<rparr>" and ?f = "refund_outcome (done_refund gr r) (now w)"
  let ?u = "?w\<lparr>db := set_refunds (map (\<lambda>x. if rf_id x = rf_id r then ?f x else x) (refunds (db w))) (db w)\<rparr>"
  have upd: "update_refund (done_refund gr r) ?w = (Inr (?f y), ?u)"
    using assms(1,2,3) by (simp add: update_refund_def bindE_run gets_def done_refund_def update_one_run)
  obtain s u2 where a: "apply_refund_to_payment p gr ?u = (s, u2)" by fastforce
  have a': "refunds (db u2) = refunds (db ?u)" "outcomes u2 = []" "txn u2 = None"
    using ledger.safe_db[OF ledger_apply_refund, of ?u p gr] inert.evolvesD[OF inert_apply_refund a] a assms(1,2)
    by (simp_all add: ledger_rel_def inert_rel_def)
  show ?thesis
  proof (cases s)
    case (Inl e)
    then show ?thesis using a a' upd assms(4) by (simp add: settle_refund_def refund_done_def call_out_def catchE_def bindE_run)
  next
    case (Inr q)
    obtain t u3 where e: "publish_refund_event q (?f y) EvRefundCompleted u2 = (t, u3)" by fastforce
    have "refunds (db u3) = refunds (db u2)" "outcomes u3 = []" "txn u3 = None"
      using ledger.safe_db[OF ledger_publish_refund, of u2 q "?f y" EvRefundCompleted]
        inert.evolvesD[OF inert_publish_refund e] e a'(2,3)
      by (simp_all add: ledger_rel_def inert_rel_def)
    then show ?thesis using a a' upd assms(4) Inr e
      by (cases t) (simp_all add: settle_refund_def refund_done_def call_out_def catchE_def bindE_run succeed_def)
  qed
qed

lemma succeeded_total_settled:
  "filter (\<lambda>x. rf_id x = rf_id r) rows = [r] \<Longrightarrow> rf_status r = RefundPending \<Longrightarrow>
   succeeded_total (rf_payment_id r)
     (map (\<lambda>x. if rf_id x = rf_id r then refund_outcome (done_refund gr r) t x else x) rows)
   = succeeded_total (rf_payment_id r) rows + rf_amount r"
proof (induction rows)
  case (Cons x xs)
  show ?case
  proof (cases "rf_id x = rf_id r")
    case True
    then have "x = r" "filter (\<lambda>x. rf_id x = rf_id r) xs = []" using Cons.prems by auto
    then show ?thesis
      using Cons.prems(2)
      by (simp add: succeeded_total_def counted_def refund_outcome_def done_refund_def filter_empty_conv cong: map_cong)
  next
    case False
    then show ?thesis using Cons by (simp add: succeeded_total_def counted_def)
  qed
qed simp

lemma outcome_id [simp]: "rf_id (refund_outcome q t x) = rf_id x"
  by (simp add: refund_outcome_def)

lemma settle_adds:
  assumes "outcomes w = []" "txn w = None" "filter (\<lambda>x. rf_id x = rf_id r) (refunds (db w)) = [r]"
    and "rf_status r = RefundPending" "rf_payment_id r = q" "\<forall>req x. \<exists>gr y. call req x = (Inr gr, y)"
  shows "\<exists>s v. settle_refund (p, r, call) w = (s, v) \<and> outcomes v = [] \<and> txn v = None \<and>
    succeeded_total q (refunds (db v)) = succeeded_total q (refunds (db w)) + rf_amount r \<and>
    (\<forall>i. i \<noteq> rf_id r \<longrightarrow> filter (\<lambda>x. rf_id x = i) (refunds (db v)) = filter (\<lambda>x. rf_id x = i) (refunds (db w)))"
proof -
  have other: "filter (\<lambda>x. rf_id x = i) (map (\<lambda>x. if rf_id x = rf_id r then refund_outcome b t x else x) rows)
      = filter (\<lambda>x. rf_id x = i) rows" if "i \<noteq> rf_id r" for i b t rows
    using that by (induction rows) auto
  obtain gr g where "call (refund_call p r) (ext w) = (Inr gr, g)" using assms(6) by blast
  from settle_accepted[of w r r call p, OF assms(1,2,3) this] obtain s v
    where v: "settle_refund (p, r, call) w = (s, v)" "outcomes v = []" "txn v = None"
      "refunds (db v) = map (\<lambda>x. if rf_id x = rf_id r then refund_outcome (done_refund gr r) (now w) x else x)
        (refunds (db w))" by blast
  then show ?thesis
    using succeeded_total_settled[OF assms(3,4), of gr "now w"] assms(5) other by auto
qed

text \<open>C24. The balance check does not see pending refunds: two requests that are each within the
  balance are both reserved when the second arrives before the first is settled, and when the
  gateway accepts both, the succeeded refunds grow by their sum, however far beyond the payment
  that is.\<close>

theorem concurrent_refunds_overdraw:
  fixes w :: "'g world"
  assumes quiet: "outcomes w = []" "txn w = None"
    and granted: "grants reg ri1 p call a1 (db w)" "grants reg ri2 p call a2 (db w)"
    and keys: "k1 \<noteq> k2" "\<forall>y \<in> set (refunds (db w)). rf_payment_id y = pay_id p \<longrightarrow> rf_key y \<notin> {k1, k2}"
    and ids: "\<forall>y \<in> set (refunds (db w)). rf_id y \<notin> {draw ''rfd'' 0 w, draw ''rfd'' 1 w}"
      "draw ''rfd'' 0 w \<noteq> draw ''rfd'' 1 w"
    and accepts: "\<forall>req x. \<exists>gr y. call req x = (Inr gr, y)"
  shows "\<exists>res1 res2 w1 w2. in_tx (reserve_refund reg ri1 k1) w = (Inr res1, w1) \<and>
    in_tx (reserve_refund reg ri2 k2) w1 = (Inr res2, w2) \<and>
    succeeded_total (pay_id p) (refunds (db (snd (settle_refund res2 (snd (settle_refund res1 w2))))))
      = succeeded_total (pay_id p) (refunds (db w)) + a1 + a2"
proof -
  let ?r1 = "reserved_row ri1 p k1 a1 w"
  let ?w1 = "w\<lparr>db := set_refunds (refunds (db w) @ [?r1]) (db w), draws := draws w + 1\<rparr>"
  let ?r2 = "reserved_row ri2 p k2 a2 ?w1"
  let ?w2 = "w\<lparr>db := set_refunds (refunds (db w) @ [?r1, ?r2]) (db w), draws := draws w + 2\<rparr>"
  have shape: "rf_id ?r1 = draw ''rfd'' 0 w" "rf_id ?r2 = draw ''rfd'' 1 w" "rf_amount ?r1 = a1" "rf_amount ?r2 = a2"
    "rf_payment_id ?r1 = pay_id p" "rf_payment_id ?r2 = pay_id p" "rf_status ?r1 = RefundPending"
    "rf_status ?r2 = RefundPending" "rf_key ?r1 = k1"
    by (simp_all add: reserved_row_def new_refund_def draw_def)
  have next_draw: "draw ''rfd'' 0 ?w1 = draw ''rfd'' 1 w" by (simp add: draw_def)
  have one: "in_tx (reserve_refund reg ri1 k1) w = (Inr (p, ?r1, call), ?w1)"
    using quiet granted keys ids by (intro reserve_granted) auto
  have pending: "succeeded_total (pay_id p) (rows @ [x]) = succeeded_total (pay_id p) rows"
    if "rf_status x = RefundPending" for rows x
    using that by (simp add: succeeded_total_def counted_def)
  have "grants reg ri2 p call a2 (db ?w1)"
    using granted(2) shape(7) by (simp add: grants_def pending)
  moreover have "\<forall>y \<in> set (refunds (db ?w1)). rf_id y \<noteq> draw ''rfd'' 0 ?w1 \<and> \<not> (rf_payment_id y = pay_id p \<and> rf_key y = k2)"
    using keys ids shape unfolding next_draw by auto
  ultimately have two: "in_tx (reserve_refund reg ri2 k2) ?w1 = (Inr (p, ?r2, call), ?w2)"
    using reserve_granted[of ?w1 reg ri2 p call a2 k2] quiet by simp
  have "filter (\<lambda>x. rf_id x = rf_id ?r1) (refunds (db ?w2)) = [?r1]"
      and only2: "filter (\<lambda>x. rf_id x = rf_id ?r2) (refunds (db ?w2)) = [?r2]"
    using ids shape by (auto simp: filter_empty_conv)
  then obtain s v where v: "settle_refund (p, ?r1, call) ?w2 = (s, v)" "outcomes v = []" "txn v = None"
      "succeeded_total (pay_id p) (refunds (db v)) = succeeded_total (pay_id p) (refunds (db ?w2)) + a1"
      "filter (\<lambda>x. rf_id x = rf_id ?r2) (refunds (db v)) = [?r2]"
    using settle_adds[of ?w2 ?r1 "pay_id p" call p] quiet shape accepts ids(2) by auto
  then obtain s' v' where v': "settle_refund (p, ?r2, call) v = (s', v')"
      "succeeded_total (pay_id p) (refunds (db v')) = succeeded_total (pay_id p) (refunds (db ?w2)) + a1 + a2"
    using settle_adds[of v ?r2 "pay_id p" call p] shape accepts by auto
  have "succeeded_total (pay_id p) (refunds (db ?w2)) = succeeded_total (pay_id p) (refunds (db w))"
    using pending[of ?r2 "refunds (db w) @ [?r1]"] pending[of ?r1 "refunds (db w)"] shape by simp
  with v'(2) have total: "succeeded_total (pay_id p) (refunds (db (snd (settle_refund (p, ?r2, call)
      (snd (settle_refund (p, ?r1, call) ?w2)))))) = succeeded_total (pay_id p) (refunds (db w)) + a1 + a2"
    by (simp only: v(1) v'(1) snd_conv)
  show ?thesis by (intro exI conjI, rule one, rule two, rule total)
qed

text \<open>Two requests for the whole balance of 100, both granted.\<close>

theorem concurrent_refunds_overdraw_witness:
  "\<exists>res1 res2 w1 w2. in_tx (reserve_refund (sample_registry False Paid) (sample_refund ''a'' 100) ''a'') settled_world = (Inr res1, w1) \<and>
    in_tx (reserve_refund (sample_registry False Paid) (sample_refund ''b'' 100) ''b'') w1 = (Inr res2, w2) \<and>
    succeeded_total ''pay_1'' (refunds (db (snd (settle_refund res2 (snd (settle_refund res1 w2)))))) = 200"
proof -
  let ?call = "\<lambda>req x. (Inr (zero_gw_refund\<lparr>gr_refund_id := rr_key req, gr_amount := rr_amount req\<rparr>), rr_key req # x)
    :: (error + gw_refund) \<times> string list"
  have g: "grants (sample_registry False Paid) (sample_refund k 100) settled_payment ?call 100 (db settled_world)" for k
    by (auto simp: grants_def sample_refund_def settled_payment_def empty_db_def refund_amount_def succeeded_total_def
        int64_defs sample_registry_def registry_for_def sample_account_def environment_valid_def sample_adapter_def)
  have "draw ''rfd'' 0 settled_world \<noteq> draw ''rfd'' 1 settled_world"
    by code_simp
  then show ?thesis
    using concurrent_refunds_overdraw[OF _ _ g[of "''a''"] g[of "''b''"], of "''a''" "''b''"]
    by (simp add: empty_db_def settled_payment_def succeeded_total_def)
qed

subsection \<open>The second partial refund\<close>

text \<open>A payment that is partially refunded does not take notice of a further partial
  refund: the transition is refused as stale, so neither the refunded amount nor the payment's
  events change, although the refund itself succeeded.\<close>

theorem later_partial_refund_unrecorded:
  assumes "outcomes w = []" "txn w \<noteq> Some True"
    and "List.find (\<lambda>q. pay_id q = pay_id p) (payments (db w)) = Some p"
    and "distinct (map pay_id (payments (db w)))" "pay_status p = PartiallyRefunded"
    and "gr_payment_status gr = None \<and> gr_refunded_amount gr < pay_amount p \<and> gr_refunded_amount gr \<noteq> 0
      \<or> gr_payment_status gr = Some PartiallyRefunded"
  shows "apply_refund_to_payment p gr w = (Inr p, w)"
proof -
  define n where "n = (if gr_refunded_amount gr = 0 then succeeded_total (pay_id p) (refunds (db w)) else gr_refunded_amount gr)"
  have read_total: "(if gr_refunded_amount gr = 0 then succeeded_refund_total (pay_id p) else succeed (gr_refunded_amount gr)) w
      = (Inr n, w)"
    using assms(1,2) by (simp add: succeeded_refund_total_def n_def query_run succeed_def)
  have status: "su_status (refund_update p gr n) = PartiallyRefunded"
    using assms(6) by (auto simp: refund_update_def coalesce_def n_def)
  have unique: "q = p" if "q \<in> set (payments (db w))" "pay_id q = pay_id p" for q
    using that assms(3,4) inj_onD[of pay_id "set (payments (db w))" q p]
    by (auto simp: find_Some_iff distinct_map)
  have "PartiallyRefunded \<notin> set (predecessors_of PartiallyRefunded)" by code_simp
  then have "pay_status q \<notin> set (predecessors_of PartiallyRefunded)"
    if "q \<in> set (payments (db w))" "pay_id q = pay_id p" for q
    using unique[OF that] assms(5) by simp
  then have none: "filter (\<lambda>q. pay_id q = pay_id p \<and> pay_status q \<in> set (predecessors_of PartiallyRefunded)) (payments (db w)) = []"
    by (auto simp: filter_empty_conv)
  have "apply_state (pay_id p) (refund_update p gr n) w = (Inl StaleTransition, w)"
    using update_checked_none[where w = w and get = payments and set_rows = set_payments and cs = "[]"
        and ks = payment_checks and f = "advanced (refund_update p gr n) (now w)", OF assms(1,2) none]
    by (simp add: apply_state_def status status_valid_iff all_statuses_def bindE_run gets_def catchE_def is_not_found_def throw_def)
  moreover have "payment_get (pay_id p) w = (Inr p, w)"
    using assms(1-3) by (simp add: payment_get_def payment_where_def query_row_run)
  ultimately show ?thesis
    by (simp add: apply_refund_to_payment_def bindE_run read_total catchE_def)
qed


theorem later_partial_refund_unrecorded_witness:
  "let p = settled_payment\<lparr>pay_status := PartiallyRefunded, pay_refunded_amount := 10\<rparr>;
       w = quiet_world (empty_db\<lparr>payments := [p]\<rparr>) ()
   in apply_refund_to_payment p (zero_gw_refund\<lparr>gr_refunded_amount := 30\<rparr>) w = (Inr p, w)"
proof -
  let ?p = "settled_payment\<lparr>pay_status := PartiallyRefunded, pay_refunded_amount := 10\<rparr>"
  let ?w = "quiet_world (empty_db\<lparr>payments := [?p]\<rparr>) ()"
  have "List.find (\<lambda>q. pay_id q = pay_id ?p) (payments (db ?w)) = Some ?p" by simp
  then show ?thesis
    using later_partial_refund_unrecorded[of ?w ?p "zero_gw_refund\<lparr>gr_refunded_amount := 30\<rparr>"]
    by (simp add: Let_def zero_gw_refund_def settled_payment_def)
qed

subsection \<open>Refunds only move a payment forward\<close>

lemma forward_reserve: "forward.safe (reserve_refund reg ri key)"
  unfolding reserve_refund_def lock_for_update_def payment_where_def refund_adapter_def
    succeeded_refund_total_def store_refund_def create_refund_def
  by (intro forward.safe_intros forward_adapter forward.safe_insert_checked forward.moves_on_same) simp

lemma forward_refund: "forward.safe (refund_payment reg ri)"
  unfolding refund_payment_def settle_refund_def refund_failed_def refund_done_def publish_refund_event_def
    apply_refund_to_payment_def succeeded_refund_total_def payment_get_def payment_where_def update_refund_def
  by (intro forward.safe_intros forward_reserve forward_apply_state forward_publish forward_publish_status
      forward.safe_update_one forward.moves_on_same) simp_all

subsection \<open>An application touches only its own payments\<close>

lemma reserve_refund_owned:
  assumes "reserve_refund reg ri key w = (Inr x, v)" "ri_application_id ri \<noteq> []"
  shows "owns (ri_application_id ri) (ri_payment_id ri) (db w)"
proof -
  obtain q u where q: "lock_for_update (ri_payment_id ri) w = (Inr q, u)" "pay_application_id q = ri_application_id ri"
    using assms unfolding reserve_refund_def by (auto elim!: bindE_Inr_E simp: throw_def split: if_splits)
  then show ?thesis
    using query_row_Inr[OF q(1)[unfolded lock_for_update_def payment_where_def]]
    by (auto simp: owns_def find_Some_iff)
qed

lemma foreign_refund:
  assumes "\<not> owns (ri_application_id ri) (ri_payment_id ri) (db w)" "ri_application_id ri \<noteq> []" "txn w = None"
  shows "isl (fst (refund_payment reg ri w)) \<and> db (snd (refund_payment reg ri w)) = db w \<and>
    ext (snd (refund_payment reg ri w)) = ext w"
proof (cases rule: refund_payment_run[OF assms(3), of reg ri, case_names refused reserved])
  case (reserved key q p c u w1 v)
  then show ?thesis using reserve_refund_owned[OF reserved(2) assms(2)] assms(1) by simp
qed simp

text \<open>C18. An application that names a payment it does not own gets an error from every operation on a
  payment - reading it, asking the gateway for its status, canceling it, expiring it, canceling its
  checkout, reading and listing its refunds, refunding it - whatever fails: no table changes and the
  gateway is not called. What a read does return belongs to the caller.\<close>

theorem foreign_payments_untouched:
  assumes "a \<noteq> []" "txn w = None"
  shows "(\<not> owns a i (db w) \<longrightarrow>
      list_all (\<lambda>m. isl (fst (m w)) \<and> still_rel w (snd (m w)))
        [service_get a i, sync_payment reg a i, cancel_payment reg a i, expire_payment reg a i,
         cancel_checkout_session reg a i] \<and>
      isl (fst (service_list_refunds a i w)) \<and> still_rel w (snd (service_list_refunds a i w)) \<and>
      isl (fst (service_get_refund a i j w)) \<and> still_rel w (snd (service_get_refund a i j w)) \<and>
      (ri_application_id ri = a \<and> ri_payment_id ri = i \<longrightarrow> isl (fst (refund_payment reg ri w)) \<and>
        db (snd (refund_payment reg ri w)) = db w \<and> ext (snd (refund_payment reg ri w)) = ext w)) \<and>
    (service_get a i w = (Inr p, v) \<longrightarrow> pay_application_id p = a \<and> pay_id p = i) \<and>
    (service_list_refunds a i w = (Inr rs, v) \<longrightarrow> owns a i (db w) \<and> (\<forall>r \<in> set rs. rf_payment_id r = i)) \<and>
    (service_get_refund a i j w = (Inr r, v) \<longrightarrow> owns a i (db w) \<and> rf_payment_id r = i \<and> rf_id r = j)"
proof (intro conjI impI)
  note get = service_get_loads[OF assms(1)]
  assume foreign: "\<not> owns a i (db w)"
  note bind = foreign_bind[OF foreign assms(1)]
  show "list_all (\<lambda>m. isl (fst (m w)) \<and> still_rel w (snd (m w)))
      [service_get a i, sync_payment reg a i, cancel_payment reg a i, expire_payment reg a i,
       cancel_checkout_session reg a i]"
    unfolding get sync_payment_def cancel_payment_def expire_payment_def cancel_checkout_session_def
    by (simp add: bind)
  show "isl (fst (service_list_refunds a i w))" "still_rel w (snd (service_list_refunds a i w))"
    "isl (fst (service_get_refund a i j w))" "still_rel w (snd (service_get_refund a i j w))"
    unfolding service_list_refunds_def service_get_refund_def by (simp_all add: bind)
  show "isl (fst (refund_payment reg ri w))" "db (snd (refund_payment reg ri w)) = db w"
    "ext (snd (refund_payment reg ri w)) = ext w"
    if "ri_application_id ri = a \<and> ri_payment_id ri = i"
    using foreign_refund[of ri w reg] foreign assms that by simp_all
next
  assume run: "service_get a i w = (Inr p, v)"
  obtain q u where q: "load_payment a i w = (Inr q, u)" "load_details q u = (Inr p, v)"
    using run unfolding service_get_loads[OF assms(1)] by (rule bindE_Inr_E)
  have "pay_application_id p = pay_application_id q" "pay_id p = pay_id q"
    using q(2) by (auto simp: load_details_def succeed_def elim!: bindE_Inr_E)
  then show "pay_application_id p = a" "pay_id p = i" using load_owned[OF q(1) assms(1)] by simp_all
next
  assume run: "service_list_refunds a i w = (Inr rs, v)"
  obtain q u where q: "load_payment a i w = (Inr q, u)" "list_refunds i u = (Inr rs, v)"
    using run unfolding service_list_refunds_def by (rule bindE_Inr_E)
  show "owns a i (db w)" using load_owned[OF q(1) assms(1)] by (auto simp: owns_def)
  show "\<forall>r \<in> set rs. rf_payment_id r = i"
    using query_Inr[OF q(2)[unfolded list_refunds_def]] by (auto simp: order_desc_def)
next
  assume run: "service_get_refund a i j w = (Inr r, v)"
  obtain q u where q: "load_payment a i w = (Inr q, u)" "get_refund i j u = (Inr r, v)"
    using run unfolding service_get_refund_def by (rule bindE_Inr_E)
  show "owns a i (db w)" using load_owned[OF q(1) assms(1)] by (auto simp: owns_def)
  show "rf_payment_id r = i" "rf_id r = j"
    using query_row_Inr[OF q(2)[unfolded get_refund_def]] by (auto simp: find_Some_iff)
qed

theorem foreign_payments_untouched_witness:
  "let w = quiet_world (empty_db\<lparr>payments := [zero_payment\<lparr>pay_id := ''pay_1'', pay_application_id := ''app_1''\<rparr>]\<rparr>) ();
       ri = \<lparr>ri_application_id = ''app_2'', ri_payment_id = ''pay_1'', ri_amount = 5, ri_reason = [], ri_key = ''k''\<rparr>
   in isl (fst (cancel_payment [] ''app_2'' ''pay_1'' w)) \<and> isl (fst (refund_payment [] ri w))"
proof -
  let ?w = "quiet_world (empty_db\<lparr>payments := [zero_payment\<lparr>pay_id := ''pay_1'', pay_application_id := ''app_1''\<rparr>]\<rparr>) ()"
  have "\<not> owns ''app_2'' ''pay_1'' (db ?w)" by (simp add: owns_def)
  then show ?thesis
    using foreign_payments_untouched[of "''app_2''" ?w "''pay_1''" "[]" _
        "\<lparr>ri_application_id = ''app_2'', ri_payment_id = ''pay_1'', ri_amount = 5, ri_reason = [], ri_key = ''k''\<rparr>"]
    by (simp add: Let_def)
qed

end
