(* ===== verification/Json.thy ===== *)
theory Json
  imports Prelude
begin

text \<open>
  How \<open>encoding/json\<close> fills a Go struct from a JSON value, for the types the gateway adapters
  decode. A struct is represented by the JSON object it encodes to, every field present, so a
  decoded value is again a \<open>json\<close>; the type is a \<open>jtype\<close>. Member names match without regard
  to case, a missing member leaves the zero value, \<open>null\<close> stands for it, a member of another
  type is an error, and of several members with one name the last one counts. Turning text
  into a JSON value is left to the \<open>parse\<close> argument of the definitions that read text.
\<close>

datatype jtype = TStr | TInt | TBool | TAny | TOpt jtype | TArr jtype | TMap jtype
  | TObj "(string \<times> jtype) list"

definition folded :: "jmap \<Rightarrow> jmap" where
  "folded m = rev (map (\<lambda>(k, v). (to_lower k, v)) m)"

definition member :: "string \<Rightarrow> jmap \<Rightarrow> json option" where
  "member name m = map_of (folded m) name"

fun collect :: "'a option list \<Rightarrow> 'a list option" where
  "collect [] = Some []"
| "collect (None # xs) = None"
| "collect (Some x # xs) = map_option (Cons x) (collect xs)"

text \<open>The zero value of a type and its decoder.\<close>

primrec codec :: "jtype \<Rightarrow> json \<times> (json \<Rightarrow> json option)" where
  "codec TStr = (JStr [], \<lambda>v. case v of JNull \<Rightarrow> Some (JStr []) | JStr s \<Rightarrow> Some v | _ \<Rightarrow> None)"
| "codec TInt = (JNum 0, \<lambda>v. case v of JNull \<Rightarrow> Some (JNum 0) | JNum n \<Rightarrow> Some v | _ \<Rightarrow> None)"
| "codec TBool = (JBool False, \<lambda>v. case v of JNull \<Rightarrow> Some (JBool False) | JBool b \<Rightarrow> Some v | _ \<Rightarrow> None)"
| "codec TAny = (JNull, \<lambda>v. Some v)"
| "codec (TOpt t) = (JNull, \<lambda>v. if v = JNull then Some JNull else snd (codec t) v)"
| "codec (TArr t) = (JNull, \<lambda>v. case v of JNull \<Rightarrow> Some JNull
     | JArr xs \<Rightarrow> map_option JArr (collect (map (snd (codec t)) xs)) | _ \<Rightarrow> None)"
| "codec (TMap t) = (JNull, \<lambda>v. case v of JNull \<Rightarrow> Some JNull
     | JObj m \<Rightarrow> map_option JObj (collect (map (\<lambda>(k, x). map_option (Pair k) (snd (codec t) x)) m)) | _ \<Rightarrow> None)"
| "codec (TObj fs) = (JObj (map (\<lambda>(n, c). (n, fst c)) (map (map_prod id codec) fs)),
     \<lambda>v. case v of JNull \<Rightarrow> Some (JObj (map (\<lambda>(n, c). (n, fst c)) (map (map_prod id codec) fs)))
     | JObj m \<Rightarrow> (let m' = folded m in map_option JObj (collect (map (\<lambda>(n, c). map_option (Pair n)
         (case map_of m' n of None \<Rightarrow> Some (fst c) | Some x \<Rightarrow> snd c x)) (map (map_prod id codec) fs)))) | _ \<Rightarrow> None)"

definition zero_json :: "jtype \<Rightarrow> json" where "zero_json t = fst (codec t)"

definition decode :: "jtype \<Rightarrow> json \<Rightarrow> json option" where "decode t = snd (codec t)"

text \<open>\<open>DisallowUnknownFields\<close>.\<close>

primrec known :: "jtype \<Rightarrow> json \<Rightarrow> bool" where
  "known TStr v = True"
| "known TInt v = True"
| "known TBool v = True"
| "known TAny v = True"
| "known (TOpt t) v = known t v"
| "known (TArr t) v = (case v of JArr xs \<Rightarrow> list_all (known t) xs | _ \<Rightarrow> True)"
| "known (TMap t) v = (case v of JObj m \<Rightarrow> list_all (\<lambda>(k, x). known t x) m | _ \<Rightarrow> True)"
| "known (TObj fs) v = (case v of JObj m \<Rightarrow>
       list_all (\<lambda>(k, x). list_ex (\<lambda>(n, f). n = to_lower k \<and> f x) (map (map_prod id known) fs)) m
     | _ \<Rightarrow> True)"

text \<open>Reading a field of a decoded struct.\<close>

definition jget :: "string \<Rightarrow> json \<Rightarrow> json" where
  "jget name v = (case v of JObj m \<Rightarrow> coalesce (map_of m name) JNull | _ \<Rightarrow> JNull)"

definition jstr :: "string \<Rightarrow> json \<Rightarrow> string" where
  "jstr name v = (case jget name v of JStr s \<Rightarrow> s | _ \<Rightarrow> [])"

definition jint :: "string \<Rightarrow> json \<Rightarrow> int" where
  "jint name v = (case jget name v of JNum n \<Rightarrow> n | _ \<Rightarrow> 0)"

definition jbool :: "string \<Rightarrow> json \<Rightarrow> bool" where
  "jbool name v = (case jget name v of JBool b \<Rightarrow> b | _ \<Rightarrow> False)"

definition jarr :: "string \<Rightarrow> json \<Rightarrow> json list" where
  "jarr name v = (case jget name v of JArr xs \<Rightarrow> xs | _ \<Rightarrow> [])"

definition jstrs :: "json list \<Rightarrow> string list" where
  "jstrs = map (\<lambda>v. case v of JStr s \<Rightarrow> s | _ \<Rightarrow> [])"

definition members :: "json \<Rightarrow> jmap" where
  "members v = (case v of JObj m \<Rightarrow> m | _ \<Rightarrow> [])"

text \<open>\<open>omitempty\<close> members of an encoded struct.\<close>

definition ostr :: "string \<Rightarrow> string \<Rightarrow> jmap" where "ostr n s = (if s = [] then [] else [(n, JStr s)])"

definition oint :: "string \<Rightarrow> int \<Rightarrow> jmap" where "oint n i = (if i = 0 then [] else [(n, JNum i)])"

definition obool :: "string \<Rightarrow> bool \<Rightarrow> jmap" where "obool n b = (if b then [(n, JBool b)] else [])"

definition oarr :: "string \<Rightarrow> json list \<Rightarrow> jmap" where "oarr n xs = (if xs = [] then [] else [(n, JArr xs)])"

definition oobj :: "string \<Rightarrow> json option \<Rightarrow> jmap" where
  "oobj n v = (case v of None \<Rightarrow> [] | Some x \<Rightarrow> [(n, x)])"

subsection \<open>A decoded struct has the fields of its type\<close>

lemma collect_Some: "collect xs = Some ys \<Longrightarrow> xs = map Some ys"
  by (induction xs arbitrary: ys rule: collect.induct) auto

lemma collect_map_Some: "collect (map Some ys) = Some ys"
  by (induction ys) auto

lemma collect_names:
  "collect (map (\<lambda>(n, c). map_option (Pair n) (g c n)) fs) = Some ys \<Longrightarrow> map fst ys = map fst fs"
proof (induction fs arbitrary: ys)
  case (Cons f fs)
  obtain n c where f: "f = (n, c)" by (cases f)
  obtain x where x: "g c n = Some x" using Cons.prems f by (cases "g c n") auto
  then obtain zs where "ys = (n, x) # zs"
      "collect (map (\<lambda>(n, c). map_option (Pair n) (g c n)) fs) = Some zs"
    using Cons.prems f by auto
  with Cons.IH f show ?case by auto
qed simp

lemma decode_fields:
  assumes "decode (TObj fs) v = Some w"
  shows "\<exists>m. w = JObj m \<and> map fst m = map fst fs"
proof (cases v)
  case (JObj m)
  then obtain ys where w: "w = JObj ys"
      and ys: "collect (map (\<lambda>(n, c). map_option (Pair n)
         (case map_of (folded m) n of None \<Rightarrow> Some (fst c) | Some x \<Rightarrow> snd c x)) (map (map_prod id codec) fs)) = Some ys"
    using assms by (auto simp: decode_def Let_def)
  have "map fst ys = map fst (map (map_prod id codec) fs)"
    by (rule collect_names[where g = "\<lambda>c n. case map_of (folded m) n of None \<Rightarrow> Some (fst c) | Some x \<Rightarrow> snd c x"]) (rule ys)
  then show ?thesis using w by simp
qed (use assms in \<open>auto simp: decode_def case_prod_beta o_def\<close>)

end
