(* ===== verification/Midtrans.thy ===== *)
theory Midtrans
  imports Gateway Money Json
begin

text \<open>
  \<open>internal/gateway/midtrans\<close> without the disbursement product: the HTTP client, the mapping of
  Midtrans statuses, notifications and their signature, and the operations that make it an
  adapter. What the code takes from elsewhere is a \<open>platform\<close>: the HTTP round trip, the parser
  of JSON text, the two hash functions (giving lower-case hexadecimal digests), the reading and
  writing of timestamps, and the clock.
\<close>

record http_call =
  hc_method :: string
  hc_url :: string
  hc_key :: string
  hc_idempotency_key :: string
  hc_body :: "json option"

text \<open>The answer is the status and the body, \<open>None\<close> when it cannot be read; a failure to get an
  answer is \<open>Inl\<close>.\<close>

record 'g platform =
  pf_http :: "http_call \<Rightarrow> ('g, unit, int \<times> string option) op"
  pf_parse :: "string \<Rightarrow> json option"
  pf_sha512 :: "string \<Rightarrow> string"
  pf_sha256 :: "string \<Rightarrow> string"
  pf_read_time :: "string \<Rightarrow> time option"
  pf_format_time :: "time \<Rightarrow> string"
  pf_clock :: "'g \<Rightarrow> time"

definition adapter_name :: string where "adapter_name = ''midtrans''"

subsection \<open>Statuses\<close>

definition normalize_status :: "string \<Rightarrow> string \<Rightarrow> status option" where
  "normalize_status transaction_status fraud_status =
     (let s = to_lower (trim_space transaction_status); f = to_lower (trim_space fraud_status) in
      if s = ''pending'' then Some Pending
      else if s = ''authorize'' then Some Authorized
      else if s = ''capture'' then
        (if f = ''challenge'' then Some Authorized else if f = ''deny'' then Some Failed else Some Paid)
      else if s = ''settlement'' then Some Paid
      else if s = ''deny'' \<or> s = ''failure'' then Some Failed
      else if s = ''cancel'' then Some Canceled
      else if s = ''expire'' then Some Expired
      else if s = ''refund'' then Some Refunded
      else if s = ''partial_refund'' then Some PartiallyRefunded
      else None)"

definition normalize_subscription_status :: "string \<Rightarrow> subscription_status" where
  "normalize_subscription_status status =
     (let s = to_lower (trim_space status) in
      if s = ''active'' then SubActive else if s = ''inactive'' then SubInactive else SubCanceled)"

definition parse_time :: "'g platform \<Rightarrow> string \<Rightarrow> time option" where
  "parse_time pf v = (let v = trim_space v in if v = [] then None else pf_read_time pf v)"

subsection \<open>The transaction response\<close>

definition refund_entry_type :: jtype where
  "refund_entry_type = TObj [(''refund_chargeback_id'', TInt), (''refund_amount'', TStr), (''reason'', TStr),
     (''refund_key'', TStr), (''refund_method'', TStr), (''bank_confirmed_at'', TStr), (''created_at'', TStr)]"

definition response_type :: jtype where
  "response_type = TObj (map (\<lambda>n. (n, TStr)) [''status_code'', ''status_message'', ''transaction_id'',
       ''order_id'', ''gross_amount'', ''currency'', ''payment_type'', ''transaction_time'',
       ''transaction_status'', ''fraud_status'', ''settlement_time'', ''expiry_time'', ''signature_key'',
       ''merchant_id'', ''approval_code'', ''bank''] @
     [(''va_numbers'', TArr (TObj [(''bank'', TStr), (''va_number'', TStr)]))] @
     map (\<lambda>n. (n, TStr)) [''permata_va_number'', ''bill_key'', ''biller_code'', ''payment_code'', ''store'',
       ''issuer'', ''acquirer'', ''masked_card'', ''card_type'', ''channel_response_code'',
       ''channel_response_message'', ''refund_amount'', ''refund_chargeback_amount''] @
     [(''refunds'', TArr refund_entry_type)])"

definition to_raw :: "json \<Rightarrow> jmap" where
  "to_raw v = filter (\<lambda>(k, _). k \<noteq> ''signature_key'') (members v)"

definition sensitive_keys :: "string list" where
  "sensitive_keys = [''signature_key'', ''card_number'', ''card_cvv'', ''card_exp_month'', ''card_exp_year'']"

definition redact_payload :: "jmap option \<Rightarrow> jmap" where
  "redact_payload payload = (case payload of
     None \<Rightarrow> [] | Some m \<Rightarrow> filter (\<lambda>(k, _). to_lower k \<notin> set sensitive_keys) m)"

definition or_idr :: "string \<Rightarrow> string" where "or_idr c = (if c = [] then ''IDR'' else c)"

definition amount_or_zero :: "string \<Rightarrow> string \<Rightarrow> int" where
  "amount_or_zero v currency = (case money_parse v currency of Inl _ \<Rightarrow> 0 | Inr n \<Rightarrow> n)"

definition to_transaction :: "'g platform \<Rightarrow> json \<Rightarrow> gw_transaction" where
  "to_transaction pf r =
     (let currency = or_idr (jstr ''currency'' r) in
      \<lparr>gt_order_id = jstr ''order_id'' r, gt_transaction_id = jstr ''transaction_id'' r,
       gt_status = jstr ''transaction_status'' r, gt_fraud_status = jstr ''fraud_status'' r,
       gt_normalized = normalize_status (jstr ''transaction_status'' r) (jstr ''fraud_status'' r),
       gt_payment_type = jstr ''payment_type'' r,
       gt_gross_amount = amount_or_zero (jstr ''gross_amount'' r) currency,
       gt_currency = normalize_currency currency,
       gt_transaction_time = parse_time pf (jstr ''transaction_time'' r),
       gt_settlement_time = parse_time pf (jstr ''settlement_time'' r), gt_raw = Some (to_raw r)\<rparr>)"

subsection \<open>Notifications\<close>

definition signature :: "'g platform \<Rightarrow> string \<Rightarrow> string \<Rightarrow> string \<Rightarrow> string \<Rightarrow> string" where
  "signature pf order_id status_code gross_amount server_key =
     pf_sha512 pf (order_id @ status_code @ gross_amount @ server_key)"

definition verify_signature :: "'g platform \<Rightarrow> string \<Rightarrow> string \<Rightarrow> string \<Rightarrow> string \<Rightarrow> string \<Rightarrow> bool" where
  "verify_signature pf order_id status_code gross_amount provided server_key \<longleftrightarrow>
     provided \<noteq> [] \<and> to_lower (trim_space provided) = signature pf order_id status_code gross_amount server_key"

text \<open>The body of a notification: the JSON text must decode and name an order.\<close>

definition read_notification :: "'g platform \<Rightarrow> webhook \<Rightarrow> error + json" where
  "read_notification pf req =
     (case (case pf_parse pf (wh_body req) of None \<Rightarrow> None | Some v \<Rightarrow> decode response_type v) of
        None \<Rightarrow> Inl (OtherError ''midtrans: notification body is not valid JSON'')
      | Some r \<Rightarrow> if jstr ''order_id'' r = []
          then Inl (OtherError ''midtrans: notification is missing order_id'') else Inr r)"

definition midtrans_verify :: "'g platform \<Rightarrow> account \<Rightarrow> webhook \<Rightarrow> error + unit" where
  "midtrans_verify pf a req = (case read_notification pf req of
     Inl e \<Rightarrow> Inl e
   | Inr r \<Rightarrow> if verify_signature pf (jstr ''order_id'' r) (jstr ''status_code'' r) (jstr ''gross_amount'' r)
        (jstr ''signature_key'' r) (acc_server_key a) then Inr () else Inl InvalidSignature)"

definition midtrans_dedupe_key :: "'g platform \<Rightarrow> json \<Rightarrow> string" where
  "midtrans_dedupe_key pf r = pf_sha256 pf (jstr ''order_id'' r @ CHR ''|'' # jstr ''transaction_id'' r @
     CHR ''|'' # jstr ''transaction_status'' r @ CHR ''|'' # jstr ''fraud_status'' r @ CHR ''|'' #
     jstr ''status_code'' r)"

definition midtrans_parse :: "'g platform \<Rightarrow> webhook \<Rightarrow> error + gw_notification" where
  "midtrans_parse pf req = (case read_notification pf req of
     Inl e \<Rightarrow> Inl e
   | Inr r \<Rightarrow>
       (case money_parse (jstr ''gross_amount'' r) (or_idr (jstr ''currency'' r)) of
          Inl _ \<Rightarrow> Inl (OtherError ''midtrans: notification gross_amount is not usable'')
        | Inr n \<Rightarrow> Inr \<lparr>gn_transaction = to_transaction pf r, gn_dedupe_key = midtrans_dedupe_key pf r\<rparr>))"

subsection \<open>The client\<close>

record client =
  cl_snap_url :: string
  cl_core_url :: string
  cl_server_key :: string

definition new_client :: "environment \<Rightarrow> string \<Rightarrow> client" where
  "new_client env key =
     (if env = Sandbox
      then \<lparr>cl_snap_url = ''https://app.sandbox.midtrans.com'', cl_core_url = ''https://api.sandbox.midtrans.com'', cl_server_key = key\<rparr>
      else \<lparr>cl_snap_url = ''https://app.midtrans.com'', cl_core_url = ''https://api.midtrans.com'', cl_server_key = key\<rparr>)"

definition trim_right_slash :: "string \<Rightarrow> string" where
  "trim_right_slash s = rev (dropWhile (\<lambda>c. c = CHR ''/'') (rev s))"

definition snap_endpoint :: "client \<Rightarrow> string \<Rightarrow> string" where
  "snap_endpoint c path = trim_right_slash (cl_snap_url c) @ path"

definition core_endpoint :: "client \<Rightarrow> string \<Rightarrow> string" where
  "core_endpoint c path = trim_right_slash (cl_core_url c) @ path"

definition starts_with :: "string \<Rightarrow> string \<Rightarrow> bool" where
  "starts_with p s \<longleftrightarrow> take (length p) s = p"

fun contains :: "string \<Rightarrow> string \<Rightarrow> bool" where
  "contains sub [] \<longleftrightarrow> sub = []"
| "contains sub (c # cs) \<longleftrightarrow> starts_with sub (c # cs) \<or> contains sub cs"

definition status_from_code :: "string \<Rightarrow> int" where
  "status_from_code code =
     (if code = [] then 502
      else if starts_with ''4'' code then
        (let n = int (dec_val (takeWhile is_digit code)) in if 400 \<le> n \<and> n < 600 then n else 400)
      else 502)"

text \<open>Decoding the error envelope ignores errors, so a member of another type counts as missing.\<close>

definition loose_str :: "string \<Rightarrow> json option \<Rightarrow> string" where
  "loose_str n v = (case v of Some (JObj m) \<Rightarrow> (case member n m of Some (JStr s) \<Rightarrow> s | _ \<Rightarrow> []) | _ \<Rightarrow> [])"

definition loose_strs :: "string \<Rightarrow> json option \<Rightarrow> string list" where
  "loose_strs n v = (case v of Some (JObj m) \<Rightarrow> (case member n m of Some (JArr xs) \<Rightarrow> jstrs xs | _ \<Rightarrow> []) | _ \<Rightarrow> [])"

fun join :: "string \<Rightarrow> string list \<Rightarrow> string" where
  "join sep [] = []"
| "join sep [x] = x"
| "join sep (x # y # xs) = x @ sep @ join sep (y # xs)"

definition envelope_message :: "int \<Rightarrow> json option \<Rightarrow> string" where
  "envelope_message http_status v =
     (let message = (if loose_strs ''error_messages'' v \<noteq> [] then join ''; '' (loose_strs ''error_messages'' v)
        else if loose_strs ''validation_messages'' v \<noteq> [] then join ''; '' (loose_strs ''validation_messages'' v)
        else loose_str ''status_message'' v)
      in if message = [] then ''the gateway rejected the request (HTTP '' @ format_int http_status @ '')''
         else message)"

definition check_response :: "'g platform \<Rightarrow> int \<Rightarrow> string \<Rightarrow> error option" where
  "check_response pf http_status raw =
     (let v = pf_parse pf raw; code = loose_str ''status_code'' v in
      if http_status < 400 \<and> (code = [] \<or> starts_with ''2'' code) then None
      else
        let status = (if http_status < 400 then status_from_code code else http_status)
        in Some (GatewayFault \<lparr>gf_gateway = adapter_name, gf_status = status, gf_code = code,
             gf_message = envelope_message http_status v, gf_retryable = 500 \<le> status \<or> status = 429\<rparr>))"

definition own_fault :: "int \<Rightarrow> string \<Rightarrow> bool \<Rightarrow> error" where
  "own_fault status message retry = GatewayFault \<lparr>gf_gateway = adapter_name, gf_status = status,
     gf_code = [], gf_message = message, gf_retryable = retry\<rparr>"

definition read_answer :: "'g platform \<Rightarrow> jtype option \<Rightarrow> int \<Rightarrow> string \<Rightarrow> error + json" where
  "read_answer pf out status raw = (case check_response pf status raw of
     Some e \<Rightarrow> Inl e
   | None \<Rightarrow> (case out of
       None \<Rightarrow> Inr JNull
     | Some ty \<Rightarrow> (case (case pf_parse pf raw of None \<Rightarrow> None | Some v \<Rightarrow> decode ty v) of
           None \<Rightarrow> Inl (own_fault status ''the gateway returned an unreadable response'' False)
         | Some v \<Rightarrow> Inr v)))"

definition exchange :: "'g platform \<Rightarrow> client \<Rightarrow> string \<Rightarrow> string \<Rightarrow> json option \<Rightarrow> jtype option \<Rightarrow>
    ('g, error, json) op" where
  "exchange pf c http_method url body out =
     catchE (pf_http pf \<lparr>hc_method = http_method, hc_url = url, hc_key = cl_server_key c,
         hc_idempotency_key = [], hc_body = body\<rparr>)
       (\<lambda>_. throw (own_fault 0 ''could not reach the payment gateway'' True))
       (\<lambda>(status, answer). case answer of
          None \<Rightarrow> throw (own_fault status ''could not read the gateway response'' True)
        | Some raw \<Rightarrow> lift_result (read_answer pf out status raw))"

subsection \<open>What a signature covers\<close>

lemma dedupe_status:
  assumes "inj (pf_sha256 pf)" "midtrans_dedupe_key pf r = midtrans_dedupe_key pf r'"
    and "\<forall>x \<in> {r, r'}. CHR ''|'' \<notin> set (jstr ''order_id'' x) \<union> set (jstr ''transaction_id'' x) \<union> set (jstr ''transaction_status'' x)"
  shows "jstr ''transaction_status'' r = jstr ''transaction_status'' r'"
proof -
  let ?rest = "\<lambda>x. jstr ''fraud_status'' x @ CHR ''|'' # jstr ''status_code'' x"
  have whole: "jstr ''order_id'' r @ CHR ''|'' # jstr ''transaction_id'' r @ CHR ''|'' # jstr ''transaction_status'' r @ CHR ''|'' # ?rest r
      = jstr ''order_id'' r' @ CHR ''|'' # jstr ''transaction_id'' r' @ CHR ''|'' # jstr ''transaction_status'' r' @ CHR ''|'' # ?rest r'"
    using assms(1,2) by (simp add: midtrans_dedupe_key_def inj_eq)
  have free: "CHR ''|'' \<notin> set (jstr n x)" if "n \<in> {''order_id'', ''transaction_id'', ''transaction_status''}" "x \<in> {r, r'}" for n x
    using assms(3) that by auto
  have "jstr ''transaction_id'' r @ CHR ''|'' # jstr ''transaction_status'' r @ CHR ''|'' # ?rest r
      = jstr ''transaction_id'' r' @ CHR ''|'' # jstr ''transaction_status'' r' @ CHR ''|'' # ?rest r'"
    using sep_inject[OF _ _ whole] free by simp
  note two = sep_inject[OF _ _ this]
  have "jstr ''transaction_status'' r @ CHR ''|'' # ?rest r = jstr ''transaction_status'' r' @ CHR ''|'' # ?rest r'"
    using two free by simp
  from sep_inject[OF _ _ this] show ?thesis using free by simp
qed

text \<open>The verdict on a notification depends on its order, status code, amount and signature
  only: an accepted one stays accepted when its transaction status, fraud status, transaction or
  payment type is exchanged, and with another transaction status it also gets another dedupe key,
  so that it is not taken for a repetition.\<close>

theorem signature_leaves_status_open:
  assumes "midtrans_verify pf a req = Inr ()"
    and "read_notification pf req = Inr r" "read_notification pf req' = Inr r'"
    and "\<forall>n \<in> {''order_id'', ''status_code'', ''gross_amount'', ''signature_key''}. jstr n r' = jstr n r"
    and "inj (pf_sha256 pf)" "jstr ''transaction_status'' r' \<noteq> jstr ''transaction_status'' r"
    and "\<forall>x \<in> {r, r'}. CHR ''|'' \<notin> set (jstr ''order_id'' x) \<union> set (jstr ''transaction_id'' x) \<union> set (jstr ''transaction_status'' x)"
  shows "midtrans_verify pf a req' = Inr () \<and> midtrans_dedupe_key pf r' \<noteq> midtrans_dedupe_key pf r"
proof
  show "midtrans_verify pf a req' = Inr ()"
    using assms(1-4) by (simp add: midtrans_verify_def split: if_splits)
  show "midtrans_dedupe_key pf r' \<noteq> midtrans_dedupe_key pf r"
    using dedupe_status[OF assms(5) _ assms(7)] assms(6) by metis
qed

text \<open>A platform for the witnesses: the text of a body is the status it reports, the hashes are
  the identity.\<close>

definition sample_body :: "string \<Rightarrow> json" where
  "sample_body s = JObj [(''order_id'', JStr ''pmx_1''), (''status_code'', JStr ''201''),
     (''gross_amount'', JStr ''5000.00''), (''signature_key'', JStr ''pmx_12015000.00key''),
     (''transaction_status'', JStr s)]"

definition sample_platform :: "unit platform" where
  "sample_platform = \<lparr>pf_http = (\<lambda>_. throw ()), pf_parse = (\<lambda>s. Some (sample_body s)), pf_sha512 = id,
     pf_sha256 = id, pf_read_time = (\<lambda>_. None), pf_format_time = (\<lambda>_. []), pf_clock = (\<lambda>_. 0)\<rparr>"

definition sample_notice :: "string \<Rightarrow> json" where
  "sample_notice s = the (decode response_type (sample_body s))"

lemmas decode_eval = decode_def folded_def to_lower_def char_lower_def jstr_def jget_def coalesce_def

lemma sample_notice_values:
  "decode response_type (sample_body s) = Some (sample_notice s)"
  "jstr ''order_id'' (sample_notice s) = ''pmx_1''" "jstr ''status_code'' (sample_notice s) = ''201''"
  "jstr ''gross_amount'' (sample_notice s) = ''5000.00''" "jstr ''transaction_id'' (sample_notice s) = []"
  "jstr ''signature_key'' (sample_notice s) = ''pmx_12015000.00key''"
  "jstr ''transaction_status'' (sample_notice s) = s"
  by (simp_all add: decode_eval sample_notice_def response_type_def refund_entry_type_def sample_body_def)

lemma sample_hash: "pf_sha512 sample_platform = id" by (simp add: sample_platform_def)

lemma sample_read:
  "read_notification sample_platform \<lparr>wh_headers = h, wh_body = s\<rparr> = Inr (sample_notice s)"
  by (simp add: read_notification_def sample_platform_def sample_notice_values)

theorem signature_leaves_status_open_witness:
  "midtrans_verify sample_platform (zero_account\<lparr>acc_server_key := ''key''\<rparr>)
     \<lparr>wh_headers = [], wh_body = ''settlement''\<rparr> = Inr () \<and>
   midtrans_dedupe_key sample_platform (sample_notice ''settlement'') \<noteq>
     midtrans_dedupe_key sample_platform (sample_notice ''pending'')"
proof (rule signature_leaves_status_open[where req = "\<lparr>wh_headers = [], wh_body = ''pending''\<rparr>"])
  have "to_lower (trim_space ''pmx_12015000.00key'') = ''pmx_12015000.00key''" by code_simp
  then show "midtrans_verify sample_platform (zero_account\<lparr>acc_server_key := ''key''\<rparr>)
      \<lparr>wh_headers = [], wh_body = ''pending''\<rparr> = Inr ()"
    by (simp add: midtrans_verify_def sample_read sample_notice_values verify_signature_def signature_def
        sample_hash zero_account_def)
  show "inj (pf_sha256 sample_platform)" by (simp add: sample_platform_def)
qed (simp_all add: sample_read sample_notice_values)

end
