(* ===== verification/MidtransAdapter.thy ===== *)
theory MidtransAdapter
  imports Midtrans
begin

text \<open>
  The operations of the Midtrans adapter: checkout sessions (\<open>snap.go\<close>), transactions
  (\<open>transaction.go\<close>), refunds (\<open>refund.go\<close>), subscriptions (\<open>subscription.go\<close>) and the adapter
  record they make up (\<open>adapter.go\<close>).
\<close>

subsection \<open>Checkout options\<close>

definition wallet_type :: jtype where
  "wallet_type = TObj [(''callback_url'', TStr), (''enable_callback'', TBool), (''tokenization_id'', TStr)]"

definition credit_card_type :: jtype where
  "credit_card_type = TObj [(''secure'', TOpt TBool), (''bank'', TStr), (''channel'', TStr), (''type'', TStr),
     (''authentication'', TStr), (''save_card'', TBool), (''whitelist_bins'', TArr TStr),
     (''installment'', TOpt (TObj [(''required'', TBool), (''terms'', TMap (TArr TInt))]))]"

definition options_type :: jtype where
  "options_type = TObj [(''credit_card'', TOpt credit_card_type),
     (''bank_transfer'', TOpt (TObj [(''bank'', TStr), (''va_number'', TStr), (''recipient_name'', TStr), (''free_text'', TStr)])),
     (''gopay'', TOpt wallet_type), (''shopeepay'', TOpt wallet_type),
     (''cstore'', TOpt (TObj [(''store'', TStr), (''message'', TStr)])),
     (''page_expiry_minutes'', TInt), (''error_redirect_url'', TStr), (''user_id'', TStr)]"

definition known_bank :: "string \<Rightarrow> bool" where
  "known_bank bank \<longleftrightarrow> to_lower bank \<in> set [''bca'', ''bni'', ''bri'', ''permata'', ''cimb'', ''mandiri'',
     ''danamon'', ''maybank'', ''mega'']"

definition known_store :: "string \<Rightarrow> bool" where
  "known_store store \<longleftrightarrow> to_lower store \<in> set [''indomaret'', ''alfamart'']"

definition validate_options :: "json \<Rightarrow> error + unit" where
  "validate_options opts =
     (let bank = jstr ''bank'' (jget ''bank_transfer'' opts); store = jstr ''store'' (jget ''cstore'' opts) in
      if jint ''page_expiry_minutes'' opts < 0
        then Inl (OtherError ''midtrans: page_expiry_minutes must not be negative'')
      else if bank \<noteq> [] \<and> \<not> known_bank bank
        then Inl (OtherError ''midtrans: bank_transfer.bank is not a recognised bank'')
      else if store \<noteq> [] \<and> \<not> known_store store
        then Inl (OtherError ''midtrans: cstore.store is not a recognised store'')
      else Inr ())"

definition parse_options :: "json option \<Rightarrow> error + json" where
  "parse_options raw = (case raw of
     None \<Rightarrow> Inr (zero_json options_type)
   | Some JNull \<Rightarrow> Inr (zero_json options_type)
   | Some v \<Rightarrow>
       (case (if known options_type v then decode options_type v else None) of
          None \<Rightarrow> Inl (OtherError ''midtrans: gateway_options are not valid'')
        | Some opts \<Rightarrow> (case validate_options opts of Inl e \<Rightarrow> Inl e | Inr _ \<Rightarrow> Inr opts)))"

subsection \<open>Building a checkout session\<close>

definition item_line :: "string \<Rightarrow> gw_item \<Rightarrow> error + json" where
  "item_line currency i = (case money_format (gi_price i) currency of
     Inl _ \<Rightarrow> Inl (OtherError ''midtrans: item price'')
   | Inr price \<Rightarrow> Inr (JObj (ostr ''id'' (gi_sku i) @ [(''name'', JStr (clip_text (gi_name i) 50)), (''price'', JStr price),
       (''quantity'', JNum (gi_quantity i))] @ ostr ''category'' (gi_category i) @
       ostr ''merchant_name'' (gi_merchant i) @ ostr ''url'' (gi_url i))))"

text \<open>The loop over the items: the running total and the lines so far.\<close>

fun item_lines :: "string \<Rightarrow> int \<Rightarrow> gw_item list \<Rightarrow> error + int \<times> json list" where
  "item_lines currency acc [] = Inr (acc, [])"
| "item_lines currency acc (i # rest) = (case item_line currency i of
     Inl e \<Rightarrow> Inl e
   | Inr line \<Rightarrow>
       (case item_lines currency (wrap64 (acc + wrap64 (gi_price i * gi_quantity i))) rest of
          Inl e \<Rightarrow> Inl e
        | Inr (n, lines) \<Rightarrow> Inr (n, line # lines)))"

definition build_items :: "create_payment_request \<Rightarrow> error + json list" where
  "build_items req =
     (if cr_items req = [] then Inr []
      else case item_lines (cr_currency req) 0 (cr_items req) of
        Inl e \<Rightarrow> Inl e
      | Inr (n, lines) \<Rightarrow>
          if n \<noteq> cr_amount req
          then Inl (OtherError ''midtrans: item details total does not equal the payment amount'')
          else Inr lines)"

definition snap_address :: "address \<Rightarrow> json" where
  "snap_address a = JObj (ostr ''first_name'' (ad_first_name a) @ ostr ''last_name'' (ad_last_name a) @
     ostr ''phone'' (ad_phone a) @ ostr ''address'' (ad_address a) @ ostr ''city'' (ad_city a) @
     ostr ''postal_code'' (ad_postal_code a) @ ostr ''country_code'' (ad_country_code a))"

definition build_customer :: "customer \<Rightarrow> json option" where
  "build_customer c =
     (if cu_first_name c = [] \<and> cu_last_name c = [] \<and> cu_email c = [] \<and> cu_phone c = [] then None
      else Some (JObj (ostr ''first_name'' (cu_first_name c) @ ostr ''last_name'' (cu_last_name c) @
        ostr ''email'' (cu_email c) @ ostr ''phone'' (cu_phone c) @
        oobj ''billing_address'' (map_option snap_address (cu_billing c)) @
        oobj ''shipping_address'' (map_option snap_address (cu_shipping c)))))"

text \<open>\<open>Time.Sub\<close> saturates; the sum with the rounding term is an \<open>int64\<close> that may wrap.\<close>

definition time_sub :: "time \<Rightarrow> time \<Rightarrow> duration" where
  "time_sub a b = max min_int64 (min max_int64 (a - b))"

definition expiry_minutes :: "time \<Rightarrow> time \<Rightarrow> int" where
  "expiry_minutes start expires_at =
     (let m = go_quot (wrap64 (wrap64 (time_sub expires_at start + minute) - 1)) minute
      in if m < 1 then 1 else m)"

definition build_expiry :: "'g platform \<Rightarrow> time \<Rightarrow> time option \<Rightarrow> json option" where
  "build_expiry pf start expires_at = (case expires_at of
     None \<Rightarrow> None
   | Some e \<Rightarrow> Some (JObj (ostr ''start_time'' (pf_format_time pf start) @
       [(''unit'', JStr ''minute''), (''duration'', JNum (expiry_minutes start e))])))"

definition card_options :: "json \<Rightarrow> json" where
  "card_options cc =
     (let secure = (case jget ''secure'' cc of JBool b \<Rightarrow> b | _ \<Rightarrow> True) in
      JObj ([(''secure'', JBool secure)] @ ostr ''bank'' (jstr ''bank'' cc) @ ostr ''channel'' (jstr ''channel'' cc) @
        ostr ''type'' (jstr ''type'' cc) @ ostr ''authentication'' (jstr ''authentication'' cc) @
        obool ''save_card'' (jbool ''save_card'' cc) @
        (case jget ''installment'' cc of JNull \<Rightarrow> []
         | i \<Rightarrow> [(''installment'', JObj ([(''required'', JBool (jbool ''required'' i))] @
             (case jget ''terms'' i of JObj (t # ts) \<Rightarrow> [(''terms'', JObj (t # ts))] | _ \<Rightarrow> [])))]) @
        oarr ''whitelist_bins'' (jarr ''whitelist_bins'' cc)))"

definition bank_options :: "json \<Rightarrow> json" where
  "bank_options bt = JObj (ostr ''bank'' (to_lower (jstr ''bank'' bt)) @ ostr ''va_number'' (jstr ''va_number'' bt) @
     (if jstr ''recipient_name'' bt = [] then []
      else [(''permata'', JObj [(''recipient_name'', JStr (jstr ''recipient_name'' bt))])]) @
     ostr ''free_text'' (jstr ''free_text'' bt))"

definition channel_options :: "json \<Rightarrow> jmap" where
  "channel_options opts =
     [(''credit_card'', card_options (jget ''credit_card'' opts))] @
     (case jget ''bank_transfer'' opts of JNull \<Rightarrow> [] | bt \<Rightarrow> [(''bank_transfer'', bank_options bt)]) @
     (case jget ''gopay'' opts of JNull \<Rightarrow> []
      | g \<Rightarrow> [(''gopay'', JObj (obool ''enable_callback'' (jbool ''enable_callback'' g) @
          ostr ''callback_url'' (jstr ''callback_url'' g) @ ostr ''tokenization_id'' (jstr ''tokenization_id'' g)))]) @
     (case jget ''shopeepay'' opts of JNull \<Rightarrow> []
      | s \<Rightarrow> [(''shopeepay'', JObj (ostr ''callback_url'' (jstr ''callback_url'' s)))]) @
     (case jget ''cstore'' opts of JNull \<Rightarrow> []
      | c \<Rightarrow> [(''cstore'', JObj (ostr ''store'' (to_lower (jstr ''store'' c)) @ ostr ''message'' (jstr ''message'' c)))])"

definition custom_field :: "nat \<Rightarrow> string list \<Rightarrow> jmap" where
  "custom_field n fs = (if n < length fs
     then ostr (''custom_field'' @ dec_nat (Suc n)) (fs ! n) else [])"

definition build_snap_request :: "'g platform \<Rightarrow> time \<Rightarrow> create_payment_request \<Rightarrow> json \<Rightarrow> error + json" where
  "build_snap_request pf start req opts = (case money_format (cr_amount req) (cr_currency req) of
     Inl _ \<Rightarrow> Inl (OtherError ''midtrans: currency'')
   | Inr gross \<Rightarrow>
       (case build_items req of
          Inl e \<Rightarrow> Inl e
        | Inr lines \<Rightarrow>
            Inr (JObj ([(''transaction_details'', JObj [(''order_id'', JStr (cr_order_id req)), (''gross_amount'', JStr gross)])] @
              oarr ''item_details'' lines @ oobj ''customer_details'' (build_customer (cr_customer req)) @
              oarr ''enabled_payments'' (map JStr (cr_enabled_methods req)) @
              custom_field 0 (cr_custom_fields req) @ custom_field 1 (cr_custom_fields req) @
              custom_field 2 (cr_custom_fields req) @
              (if cr_callback_url req \<noteq> [] \<or> jstr ''error_redirect_url'' opts \<noteq> []
               then [(''callbacks'', JObj (ostr ''finish'' (cr_callback_url req) @
                 ostr ''error'' (jstr ''error_redirect_url'' opts)))] else []) @
              oobj ''expiry'' (build_expiry pf start (cr_expires_at req)) @
              (if 0 < jint ''page_expiry_minutes'' opts
               then [(''page_expiry'', JObj [(''duration'', JNum (jint ''page_expiry_minutes'' opts)), (''unit'', JStr ''minutes'')])]
               else []) @
              ostr ''user_id'' (jstr ''user_id'' opts) @ channel_options opts))))"

definition snap_response_type :: jtype where
  "snap_response_type = TObj [(''token'', TStr), (''redirect_url'', TStr), (''error_messages'', TArr TStr)]"

definition create_snap_transaction :: "'g platform \<Rightarrow> client \<Rightarrow> create_payment_request \<Rightarrow> ('g, error, gw_payment) op" where
  "create_snap_transaction pf c req =
     bindE (lift_result (parse_options (cr_options req))) (\<lambda>opts.
     bindE (gets (pf_clock pf)) (\<lambda>start.
     bindE (lift_result (build_snap_request pf start req opts)) (\<lambda>payload.
     bindE (exchange pf c ''POST'' (snap_endpoint c ''/snap/v1/transactions'') (Some payload) (Some snap_response_type)) (\<lambda>r.
     if jstr ''token'' r = [] then throw (own_fault 0 ''the gateway did not return a checkout token'' False)
     else succeed \<lparr>gp_token = jstr ''token'' r, gp_redirect_url = jstr ''redirect_url'' r,
       gp_status = ''pending'', gp_expires_at = cr_expires_at req\<rparr>))))"

subsection \<open>Transactions\<close>

text \<open>\<open>url.PathEscape\<close>.\<close>

definition path_safe :: "char \<Rightarrow> bool" where
  "path_safe c \<longleftrightarrow> (let n = (of_char c :: nat) in is_digit c \<or> (65 \<le> n \<and> n \<le> 90) \<or> (97 \<le> n \<and> n \<le> 122) \<or>
     c \<in> set ''-_.~$&+=:@'')"

definition hex_upper :: "nat \<Rightarrow> char" where
  "hex_upper d = (if d < 10 then digit_char d else char_of (55 + d))"

definition path_escape :: "string \<Rightarrow> string" where
  "path_escape s = concat (map (\<lambda>c. if path_safe c then [c]
     else [CHR ''%'', hex_upper (of_char c div 16), hex_upper (of_char c mod 16)]) s)"

definition translate_not_found :: "error \<Rightarrow> error" where
  "translate_not_found e = (case e of
     GatewayFault f \<Rightarrow> if gf_code f = ''404'' \<or> gf_status f = 404 then TransactionNotFound else e
   | _ \<Rightarrow> e)"

definition with_error :: "(error \<Rightarrow> error) \<Rightarrow> ('g, error, 'a) op \<Rightarrow> ('g, error, 'a) op" where
  "with_error h m = catchE m (\<lambda>e. throw (h e)) succeed"

definition transaction_call :: "'g platform \<Rightarrow> client \<Rightarrow> string \<Rightarrow> string \<Rightarrow> string \<Rightarrow> ('g, error, gw_transaction) op" where
  "transaction_call pf c http_method action order_id =
     bindE (with_error translate_not_found
       (exchange pf c http_method (core_endpoint c (''/v2/'' @ path_escape order_id @ action)) None (Some response_type)))
       (\<lambda>r. succeed (to_transaction pf r))"

definition get_transaction :: "'g platform \<Rightarrow> client \<Rightarrow> string \<Rightarrow> ('g, error, gw_transaction) op" where
  "get_transaction pf c order_id = transaction_call pf c ''GET'' ''/status'' order_id"

definition cancel_transaction :: "'g platform \<Rightarrow> client \<Rightarrow> string \<Rightarrow> ('g, error, gw_transaction) op" where
  "cancel_transaction pf c order_id = transaction_call pf c ''POST'' ''/cancel'' order_id"

definition expire_transaction :: "'g platform \<Rightarrow> client \<Rightarrow> string \<Rightarrow> ('g, error, gw_transaction) op" where
  "expire_transaction pf c order_id = transaction_call pf c ''POST'' ''/expire'' order_id"

subsection \<open>Refunds\<close>

definition translate_refund_error :: "error \<Rightarrow> error" where
  "translate_refund_error e = (case e of
     GatewayFault f \<Rightarrow>
       (let message = to_lower (gf_message f) in
        if gf_code f = ''404'' then TransactionNotFound
        else if contains ''not allowed'' message \<and> contains ''refund'' message then NotSupported
        else e)
   | _ \<Rightarrow> e)"

definition echoed_amount :: "string \<Rightarrow> json list \<Rightarrow> string \<Rightarrow> int \<Rightarrow> int" where
  "echoed_amount key entries currency requested =
     (case List.find (\<lambda>x. jstr ''refund_key'' x \<noteq> [] \<and> jstr ''refund_key'' x = key) entries of
        None \<Rightarrow> requested
      | Some x \<Rightarrow> (case money_parse (jstr ''refund_amount'' x) currency of Inl _ \<Rightarrow> requested | Inr n \<Rightarrow> n))"

definition to_refund :: "json \<Rightarrow> refund_request \<Rightarrow> gw_refund" where
  "to_refund r req =
     (let currency = or_idr (jstr ''currency'' r);
          amount = echoed_amount (rr_key req) (jarr ''refunds'' r) currency (rr_amount req)
      in \<lparr>gr_refund_id = [],
          gr_amount = (if amount = 0 then amount_or_zero (jstr ''gross_amount'' r) currency else amount),
          gr_status = jstr ''transaction_status'' r,
          gr_payment_status = normalize_status (jstr ''transaction_status'' r) (jstr ''fraud_status'' r),
          gr_refunded_amount = amount_or_zero (jstr ''refund_amount'' r) currency,
          gr_raw = Some (to_raw r)\<rparr>)"

definition refund_transaction :: "'g platform \<Rightarrow> client \<Rightarrow> refund_request \<Rightarrow> ('g, error, gw_refund) op" where
  "refund_transaction pf c req =
     (let amount = (if 0 < rr_amount req then rr_amount req else 0);
          payload = JObj (ostr ''refund_key'' (rr_key req) @ oint ''amount'' amount @
            ostr ''reason'' (clip_text (rr_reason req) 255))
      in bindE (with_error translate_refund_error
           (exchange pf c ''POST'' (core_endpoint c (''/v2/'' @ path_escape (rr_order_id req) @ ''/refund''))
             (Some payload) (Some response_type)))
         (\<lambda>r. succeed (to_refund r req)))"

subsection \<open>Subscriptions\<close>

definition schedule_type :: jtype where
  "schedule_type = TObj [(''interval'', TInt), (''interval_unit'', TStr), (''max_interval'', TInt), (''start_time'', TStr)]"

definition subscription_type :: jtype where
  "subscription_type = TObj [(''id'', TStr), (''name'', TStr), (''amount'', TStr), (''currency'', TStr),
     (''created_at'', TStr), (''schedule'', schedule_type), (''status'', TStr), (''token'', TStr),
     (''payment_type'', TStr), (''transaction_ids'', TArr TStr), (''metadata'', TMap TAny),
     (''status_message'', TStr), (''status_code'', TStr)]"

definition valid_interval_unit :: "string \<Rightarrow> bool" where
  "valid_interval_unit u \<longleftrightarrow> u = ''day'' \<or> u = ''week'' \<or> u = ''month''"

definition to_subscription :: "json \<Rightarrow> gw_subscription" where
  "to_subscription r =
     (let currency = or_idr (jstr ''currency'' r) in
      \<lparr>gs_id = jstr ''id'' r, gs_name = jstr ''name'' r,
       gs_amount = amount_or_zero (jstr ''amount'' r) currency, gs_currency = normalize_currency currency,
       gs_status = jstr ''status'' r, gs_normalized = normalize_subscription_status (jstr ''status'' r),
       gs_payment_type = jstr ''payment_type'' r, gs_interval_unit = jstr ''interval_unit'' (jget ''schedule'' r),
       gs_interval_count = jint ''interval'' (jget ''schedule'' r), gs_raw = Some (to_raw r)\<rparr>)"

definition translate_subscription_error :: "error \<Rightarrow> error" where
  "translate_subscription_error e = (case e of
     GatewayFault f \<Rightarrow>
       (let message = to_lower (gf_message f) in
        if gf_status f = 404 \<or> gf_code f = ''404'' then TransactionNotFound
        else if contains ''not activated'' message \<or> contains ''not enabled'' message \<or> contains ''not allowed'' message
          then NotSupported
        else e)
   | _ \<Rightarrow> e)"

definition subscription_path :: "client \<Rightarrow> string \<Rightarrow> string" where
  "subscription_path c i = core_endpoint c (''/v1/subscriptions/'' @ path_escape i)"

definition subscription_call :: "'g platform \<Rightarrow> client \<Rightarrow> string \<Rightarrow> string \<Rightarrow> json option \<Rightarrow> jtype option \<Rightarrow>
    ('g, error, json) op" where
  "subscription_call pf c http_method url body out =
     with_error translate_subscription_error (exchange pf c http_method url body out)"

definition subscription_payload :: "'g platform \<Rightarrow> create_subscription_request \<Rightarrow> string \<Rightarrow> string \<Rightarrow> json" where
  "subscription_payload pf req amount unit = JObj ([(''name'', JStr (cs_name req)), (''amount'', JStr amount),
     (''currency'', JStr (normalize_currency (cs_currency req))),
     (''payment_type'', JStr (if cs_payment_type req = [] then ''credit_card'' else cs_payment_type req)),
     (''token'', JStr (cs_payment_token req)),
     (''schedule'', JObj ([(''interval'', JNum (if cs_interval_count req < 1 then 1 else cs_interval_count req)),
        (''interval_unit'', JStr unit)] @ oint ''max_interval'' (cs_max_interval req) @
        (case cs_start_time req of None \<Rightarrow> [] | Some t \<Rightarrow> ostr ''start_time'' (pf_format_time pf t))))] @
     (case cs_metadata req of Some (x # m) \<Rightarrow> [(''metadata'', JObj (x # m))] | _ \<Rightarrow> []) @
     oobj ''customer_details'' (build_customer (cs_customer req)))"

definition create_subscription :: "'g platform \<Rightarrow> client \<Rightarrow> create_subscription_request \<Rightarrow> ('g, error, gw_subscription) op" where
  "create_subscription pf c req = (case money_format (cs_amount req) (cs_currency req) of
     Inl _ \<Rightarrow> throw (OtherError ''midtrans: currency'')
   | Inr amount \<Rightarrow>
       (let unit = to_lower (cs_interval_unit req) in
        if cs_payment_token req = []
          then throw (OtherError ''midtrans: a payment token is required to create a subscription'')
        else if \<not> valid_interval_unit unit then throw (OtherError ''midtrans: interval unit is not supported'')
        else bindE (subscription_call pf c ''POST'' (core_endpoint c ''/v1/subscriptions'')
               (Some (subscription_payload pf req amount unit)) (Some subscription_type))
             (\<lambda>r. succeed (to_subscription r))))"

definition get_subscription :: "'g platform \<Rightarrow> client \<Rightarrow> string \<Rightarrow> ('g, error, gw_subscription) op" where
  "get_subscription pf c i =
     bindE (subscription_call pf c ''GET'' (subscription_path c i) None (Some subscription_type))
       (\<lambda>r. succeed (to_subscription r))"

definition schedule_patch :: "update_subscription_request \<Rightarrow> error + jmap" where
  "schedule_patch req =
     (let count = (case us_interval_count req of None \<Rightarrow> [] | Some n \<Rightarrow> [(''interval'', JNum n)]) in
      case us_interval_unit req of
        Some u \<Rightarrow> if valid_interval_unit (to_lower u)
          then Inr [(''schedule'', JObj ((''interval_unit'', JStr (to_lower u)) # count))]
          else Inl (OtherError ''midtrans: interval unit is not supported'')
      | None \<Rightarrow> Inr (if count = [] then [] else [(''schedule'', JObj count)]))"

definition amount_patch :: "'g platform \<Rightarrow> client \<Rightarrow> string \<Rightarrow> update_subscription_request \<Rightarrow> ('g, error, jmap) op" where
  "amount_patch pf c i req = (case us_amount req of
     None \<Rightarrow> succeed []
   | Some n \<Rightarrow> bindE (get_subscription pf c i) (\<lambda>current.
       case money_format n (gs_currency current) of
         Inl _ \<Rightarrow> throw (OtherError ''midtrans: currency'')
       | Inr v \<Rightarrow> succeed [(''amount'', JStr v)]))"

definition update_subscription :: "'g platform \<Rightarrow> client \<Rightarrow> string \<Rightarrow> update_subscription_request \<Rightarrow>
    ('g, error, gw_subscription) op" where
  "update_subscription pf c i req =
     bindE (amount_patch pf c i req) (\<lambda>amount.
     bindE (lift_result (schedule_patch req)) (\<lambda>schedule.
     let payload = (case us_name req of None \<Rightarrow> [] | Some n \<Rightarrow> [(''name'', JStr n)]) @ amount @
           (case us_payment_token req of None \<Rightarrow> [] | Some t \<Rightarrow> [(''token'', JStr t)]) @ schedule
     in if payload = [] then get_subscription pf c i
        else bindE (subscription_call pf c ''PATCH'' (subscription_path c i) (Some (JObj payload)) None)
               (\<lambda>_. get_subscription pf c i)))"

definition subscription_action :: "'g platform \<Rightarrow> client \<Rightarrow> string \<Rightarrow> string \<Rightarrow> ('g, error, unit) op" where
  "subscription_action pf c action i =
     bindE (subscription_call pf c ''POST'' (subscription_path c i @ CHR ''/'' # action) None None) (\<lambda>_. succeed ())"

subsection \<open>The adapter\<close>

definition midtrans_capabilities :: "account \<Rightarrow> capabilities" where
  "midtrans_capabilities a = \<lparr>cap_checkout = True, cap_refund = True, cap_partial_refund = True,
     cap_subscriptions = cap_subscriptions (acc_capabilities a), cap_cancel = True, cap_expire = True,
     cap_disbursement = can_disburse a\<rparr>"

definition midtrans_adapter :: "'g platform \<Rightarrow> account \<Rightarrow> client \<Rightarrow> 'g adapter" where
  "midtrans_adapter pf a c = \<lparr>
     ga_create_payment = create_snap_transaction pf c,
     ga_get_transaction = get_transaction pf c,
     ga_cancel_transaction = cancel_transaction pf c,
     ga_expire_transaction = expire_transaction pf c,
     ga_verify_webhook = (\<lambda>req. lift_result (midtrans_verify pf a req)),
     ga_parse_webhook = (\<lambda>req. lift_result (midtrans_parse pf req)),
     ga_refund = Some (refund_transaction pf c),
     ga_checkout = Some (\<lambda>order_id. bindE (expire_transaction pf c order_id) (\<lambda>_. succeed ())),
     ga_subscriptions = Some \<lparr>sg_create = create_subscription pf c, sg_get = get_subscription pf c,
       sg_update = update_subscription pf c, sg_enable = subscription_action pf c ''enable'',
       sg_disable = subscription_action pf c ''disable'', sg_cancel = subscription_action pf c ''cancel''\<rparr>,
     ga_capabilities = Some (midtrans_capabilities a)\<rparr>"

definition new_adapter :: "'g platform \<Rightarrow> 'g factory" where
  "new_adapter pf a =
     (if acc_gateway a \<noteq> adapter_name then Inl (OtherError ''midtrans: account is not configured for midtrans'')
      else if \<not> environment_valid (acc_environment a)
        then Inl (OtherError ''midtrans: account environment must be sandbox or production'')
      else if acc_server_key a = [] then Inl (OtherError ''midtrans: account has no server key'')
      else Inr (midtrans_adapter pf a (new_client (acc_environment a) (acc_server_key a))))"

subsection \<open>A checkout session charges the payment's amount\<close>

lemma wrap64_mod: "wrap64 x mod 18446744073709551616 = x mod 18446744073709551616"
  unfolding wrap64_def by (simp add: mod_add_left_eq)

lemma wrap64_cong: "x mod 18446744073709551616 = y mod 18446744073709551616 \<Longrightarrow> wrap64 x = wrap64 y"
  using mod_diff_cong[of x 18446744073709551616 y min_int64 min_int64] by (simp add: wrap64_def)

lemma wrap64_add: "wrap64 (wrap64 a + b) = wrap64 (a + b)" "wrap64 (a + wrap64 b) = wrap64 (a + b)"
  using mod_add_cong[OF wrap64_mod[of a] refl, of b] mod_add_cong[OF refl wrap64_mod[of b], of a]
  by (auto intro: wrap64_cong)

lemma item_lines_total:
  "item_lines c acc is = Inr (n, ls) \<Longrightarrow>
   wrap64 n = wrap64 (acc + (\<Sum>i\<leftarrow>is. gi_price i * gi_quantity i)) \<and> length ls = length is"
proof (induction "is" arbitrary: acc n ls)
  case (Cons i rest)
  then obtain line ls' where "item_lines c (wrap64 (acc + wrap64 (gi_price i * gi_quantity i))) rest = Inr (n, ls')"
      "ls = line # ls'"
    by (auto split: sum.splits)
  with Cons.IH show ?case by (simp add: wrap64_add add.assoc)
qed simp

lemma build_items_total:
  assumes "build_items req = Inr ls" "cr_items req \<noteq> []"
  shows "wrap64 (\<Sum>i\<leftarrow>cr_items req. gi_price i * gi_quantity i) = wrap64 (cr_amount req) \<and>
    length ls = length (cr_items req)"
proof -
  obtain n where "item_lines (cr_currency req) 0 (cr_items req) = Inr (n, ls)" "n = cr_amount req"
    using assms by (auto simp: build_items_def split: sum.splits if_splits)
  then show ?thesis using item_lines_total[of "cr_currency req" 0 "cr_items req" n ls] by simp
qed

lemma build_snap_ok:
  "money_format (cr_amount req) (cr_currency req) = Inr g \<Longrightarrow> build_items req = Inr ls \<Longrightarrow>
   \<exists>payload. build_snap_request pf start req opts = Inr payload"
  by (simp add: build_snap_request_def)

text \<open>C27. The request that opens a checkout session names the order and charges exactly the
  payment's amount: the decimal it carries reads back as that amount, and when there are items,
  there is a line for each and their prices times quantities add up to the amount, exactly where
  the sum is an \<open>int64\<close>.\<close>

theorem checkout_adds_up:
  assumes "build_snap_request pf start req opts = Inr payload"
    and "min_int64 < cr_amount req" "cr_amount req \<le> max_int64"
  shows "jstr ''order_id'' (jget ''transaction_details'' payload) = cr_order_id req \<and>
    money_parse (jstr ''gross_amount'' (jget ''transaction_details'' payload)) (cr_currency req) = Inr (cr_amount req) \<and>
    (cr_items req \<noteq> [] \<longrightarrow> length (jarr ''item_details'' payload) = length (cr_items req) \<and>
       (is_int64 (\<Sum>i\<leftarrow>cr_items req. gi_price i * gi_quantity i) \<longrightarrow>
          (\<Sum>i\<leftarrow>cr_items req. gi_price i * gi_quantity i) = cr_amount req))"
proof -
  obtain gross ls where parts: "money_format (cr_amount req) (cr_currency req) = Inr gross" "build_items req = Inr ls"
    using assms(1) by (auto simp: build_snap_request_def split: sum.splits)
  then have payload: "jget ''transaction_details'' payload = JObj [(''order_id'', JStr (cr_order_id req)), (''gross_amount'', JStr gross)]"
      "cr_items req \<noteq> [] \<Longrightarrow> ls \<noteq> [] \<Longrightarrow> jarr ''item_details'' payload = ls"
    using assms(1) by (auto simp: build_snap_request_def jget_def jarr_def oarr_def coalesce_def)
  have "supported (cr_currency req)"
    using parts(1) by (auto simp: supported_exponent money_format_def split: sum.splits)
  then have "money_parse gross (cr_currency req) = Inr (cr_amount req)"
    using parse_of_format[of "cr_currency req" "cr_amount req"] assms(2,3) parts(1) by auto
  moreover have "is_int64 (cr_amount req)" using assms(2,3) by (simp add: is_int64_def)
  moreover have "cr_items req \<noteq> [] \<Longrightarrow> ls \<noteq> []" using build_items_total[OF parts(2)] by auto
  ultimately show ?thesis
    using payload build_items_total[OF parts(2)] by (auto simp: jstr_def jget_def coalesce_def)
qed

definition sample_request :: create_payment_request where
  "sample_request = zero_create_payment_request\<lparr>cr_order_id := ''pmx_1'', cr_amount := 5000, cr_currency := ''IDR'',
     cr_items := [\<lparr>gi_sku = [], gi_name = ''tea'', gi_price = 2500, gi_quantity = 2, gi_category = [],
       gi_merchant = [], gi_url = []\<rparr>]\<rparr>"

lemma sample_request_builds:
  "\<exists>payload. build_snap_request sample_platform 0 sample_request (zero_json options_type) = Inr payload"
proof -
  have idr: "supported ''IDR''" by code_simp
  obtain g h where "money_format 5000 ''IDR'' = Inr g" "money_format 2500 ''IDR'' = Inr h"
    using parse_of_format[OF idr, of 5000] parse_of_format[OF idr, of 2500] by (auto simp: int64_defs)
  then show ?thesis
    by (intro build_snap_ok[of _ g]) (simp_all add: sample_request_def build_items_def item_line_def int64_defs)
qed

theorem checkout_adds_up_witness:
  "\<exists>payload. build_snap_request sample_platform 0 sample_request (zero_json options_type) = Inr payload \<and>
     money_parse (jstr ''gross_amount'' (jget ''transaction_details'' payload)) ''IDR'' = Inr 5000 \<and>
     length (jarr ''item_details'' payload) = 1"
proof -
  obtain payload where p: "build_snap_request sample_platform 0 sample_request (zero_json options_type) = Inr payload"
    using sample_request_builds by (rule exE)
  have small: "cr_amount sample_request = 5000" "cr_currency sample_request = ''IDR''" "cr_items sample_request \<noteq> []"
      "length (cr_items sample_request) = 1" by (simp_all add: sample_request_def)
  have "min_int64 < cr_amount sample_request" "cr_amount sample_request \<le> max_int64"
    unfolding small by (simp_all add: int64_defs)
  note facts = checkout_adds_up[OF p this, unfolded small]
  show ?thesis by (intro exI[of _ payload] conjI p) (use facts small in blast)+
qed

subsection \<open>The expiry of a session\<close>

text \<open>The duration sent for an expiry is rounded up to whole minutes: it covers the time
  left, exceeds it by less than a minute, and is one minute when less is left, for every expiry
  less than 285 years away.\<close>

theorem expiry_covers:
  assumes "start \<le> e" "e - start \<le> 9000000000000000000"
  shows "e \<le> start + expiry_minutes start e * minute \<and>
    (e = start \<or> start + expiry_minutes start e * minute < e + minute) \<and> 1 \<le> expiry_minutes start e"
proof -
  let ?d = "e - start"
  have sub: "time_sub e start = ?d" using assms by (simp add: time_sub_def int64_defs)
  have "wrap64 (wrap64 (?d + minute) - 1) = ?d + minute - 1"
    using assms by (simp add: int64_defs duration_defs)
  then have m: "go_quot (wrap64 (wrap64 (time_sub e start + minute) - 1)) minute = (?d + minute - 1) div minute"
    using assms by (simp add: sub go_quot_nonneg duration_defs)
  have q: "expiry_minutes start e = (if (?d + minute - 1) div minute < 1 then 1 else (?d + minute - 1) div minute)"
    by (simp add: expiry_minutes_def m)
  have "?d \<le> (?d + minute - 1) div minute * minute" "(?d + minute - 1) div minute * minute < ?d + minute"
    "0 < ?d \<Longrightarrow> 1 \<le> (?d + minute - 1) div minute" "?d = 0 \<Longrightarrow> (?d + minute - 1) div minute = 0"
    using assms by (simp_all add: duration_defs)
  then show ?thesis using assms(1) unfolding q by (auto simp: duration_defs)
qed

theorem expiry_covers_witness:
  "61 * second \<le> 0 + expiry_minutes 0 (61 * second) * minute \<and> expiry_minutes 0 (61 * second) = 2"
proof -
  have "expiry_minutes 0 (61 * second) = 2" by code_simp
  then show ?thesis using expiry_covers[of 0 "61 * second"] by (simp add: duration_defs)
qed

end
