(* ===== verification/Notification.thy ===== *)
theory Notification
  imports PaymentService Midtrans
begin

text \<open>
  \<open>internal/notification\<close>: the notifications a gateway sends, as they are recorded
  (\<open>repository.go\<close>), and the pipeline that verifies one, records it, attributes it to a payment,
  moves the payment and publishes the event (\<open>processor.go\<close>). Metrics and logging are left out.
\<close>

subsection \<open>The repository\<close>

abbreviation set_gw_events :: "gateway_event list \<Rightarrow> db \<Rightarrow> db" where
  "set_gw_events rows d \<equiv> d\<lparr>gw_events := rows\<rparr>"

definition gateway_event_constraints :: "gateway_event constraint list" where
  "gateway_event_constraints =
     [(''gateway_events_pkey'', \<lambda>a b. ge_id a = ge_id b),
      (''gateway_events_dedupe_key'', \<lambda>a b. ge_gateway a = ge_gateway b \<and> ge_dedupe_key a = ge_dedupe_key b)]"

definition record_event :: "gateway_event \<Rightarrow> ('g, gateway_event) routine" where
  "record_event e =
     bindE (if ge_id e = [] then fresh_id ''gev'' else succeed (ge_id e)) (\<lambda>i.
     bindE (gets now) (\<lambda>t.
     catchE (insert_row gateway_event_constraints gw_events set_gw_events
         (e\<lparr>ge_id := i, ge_received_at := t, ge_processed_at := None\<rparr>))
       (\<lambda>err. if is_unique_violation err [''gateway_events_dedupe_key''] then throw NotificationDuplicate else throw err)
       succeed))"

definition marked :: "routing \<Rightarrow> string \<Rightarrow> string \<Rightarrow> string \<Rightarrow> time \<Rightarrow> gateway_event \<Rightarrow> gateway_event" where
  "marked r reason payment_id application_id t e = e\<lparr>ge_routing := r,
     ge_routing_error := clip_text reason 1000,
     ge_payment_id := keep_unless payment_id (ge_payment_id e),
     ge_application_id := keep_unless application_id (ge_application_id e), ge_processed_at := Some t\<rparr>"

definition mark_processed :: "string \<Rightarrow> routing \<Rightarrow> string \<Rightarrow> string \<Rightarrow> string \<Rightarrow> ('g, unit) routine" where
  "mark_processed i r reason payment_id application_id =
     bindE (gets now) (\<lambda>t. exec_stmt (\<lambda>d. set_gw_events
       (map (\<lambda>e. if ge_id e = i then marked r reason payment_id application_id t e else e) (gw_events d)) d))"

definition gateway_event_get :: "string \<Rightarrow> ('g, gateway_event) routine" where
  "gateway_event_get i = query_row (\<lambda>d. List.find (\<lambda>e. ge_id e = i) (gw_events d))"

record notification_filter =
  nf_payment_id :: string
  nf_application_id :: string
  nf_routing :: "routing option"
  nf_gateway :: string

definition notification_matches :: "notification_filter \<Rightarrow> gateway_event \<Rightarrow> bool" where
  "notification_matches f e \<longleftrightarrow>
     (nf_payment_id f \<noteq> [] \<longrightarrow> ge_payment_id e = nf_payment_id f) \<and>
     (nf_application_id f \<noteq> [] \<longrightarrow> ge_application_id e = nf_application_id f) \<and>
     (case nf_routing f of None \<Rightarrow> True | Some r \<Rightarrow> ge_routing e = r) \<and>
     (nf_gateway f \<noteq> [] \<longrightarrow> ge_gateway e = nf_gateway f)"

definition notification_page :: "notification_filter \<Rightarrow> page \<Rightarrow> db \<Rightarrow> gateway_event listing" where
  "notification_page f p d = list_rows ge_id (notification_matches f) p (gw_events d)"

definition notification_list :: "notification_filter \<Rightarrow> page \<Rightarrow> ('g, gateway_event listing) routine" where
  "notification_list f p = query (notification_page f p)"

interpretation notification_listing: keyset_listing "notification_page f" ge_id
    "\<lambda>d. order_desc ge_id (filter (notification_matches f) (gw_events d))" for f
  unfolding notification_page_def by (rule keyset_listing_rows)

definition count_unrouted :: "time \<Rightarrow> ('g, int) routine" where
  "count_unrouted since = query (\<lambda>d. count_rows (\<lambda>e.
     ge_routing e \<in> {Unrouted, RoutingRejected} \<and> since \<le> ge_received_at e) (gw_events d))"

subsection \<open>The processor\<close>

record outcome =
  oc_routing :: routing
  oc_gateway_event_id :: string
  oc_payment_id :: string
  oc_application_id :: string
  oc_published :: "event option"
  oc_reason :: string

definition new_record :: "string \<Rightarrow> account \<Rightarrow> gw_notification \<Rightarrow> bool \<Rightarrow> gateway_event" where
  "new_record gw a n verified =
     (let x = gn_transaction n in zero_gateway_event\<lparr>ge_gateway := gw, ge_gateway_account_id := acc_id a,
        ge_gateway_order_id := gt_order_id x, ge_gateway_transaction_id := gt_transaction_id x,
        ge_gateway_status := gt_status x, ge_fraud_status := gt_fraud_status x,
        ge_dedupe_key := gn_dedupe_key n, ge_signature_verified := verified,
        ge_payload := redact_payload (gt_raw x), ge_routing := Routed\<rparr>)"

definition rejected_record :: "gateway_event \<Rightarrow> gateway_event" where
  "rejected_record e = e\<lparr>ge_routing := RoutingRejected, ge_routing_error := ''signature verification failed''\<rparr>"

definition attributed :: "payment option \<Rightarrow> gateway_event \<Rightarrow> gateway_event" where
  "attributed owner e = (case owner of
     Some p \<Rightarrow> e\<lparr>ge_payment_id := pay_id p, ge_application_id := pay_application_id p\<rparr>
   | None \<Rightarrow> e\<lparr>ge_routing := Unrouted, ge_routing_error := ''no payment matches this gateway order id''\<rparr>)"

definition notified_transaction :: "gw_transaction \<Rightarrow> gw_transaction" where
  "notified_transaction x = x\<lparr>gt_normalized := None, gt_raw := Some (redact_payload (gt_raw x))\<rparr>"

definition notified_update :: "gw_transaction \<Rightarrow> status \<Rightarrow> state_update" where
  "notified_update x s = \<lparr>su_status = s, su_gateway_status = gt_status x, su_fraud_status = gt_fraud_status x,
     su_gateway_transaction_id = gt_transaction_id x, su_payment_type = gt_payment_type x,
     su_payment_method = gt_payment_type x, su_refunded_amount = None,
     su_gateway_data = Some (redact_payload (gt_raw x)),
     su_occurred_at = (case gt_settlement_time x of None \<Rightarrow> gt_transaction_time x | Some t \<Rightarrow> Some t),
     su_mark_synced = False\<rparr>"

definition notified_event :: "time \<Rightarrow> payment \<Rightarrow> etype \<Rightarrow> string \<Rightarrow> event" where
  "notified_event t p ty record_id = payment_event t p ty record_id (payment_dedupe_key (pay_id p) ty [])"

definition ignored :: "gateway_event \<Rightarrow> payment \<Rightarrow> string \<Rightarrow> ('g, outcome) routine" where
  "ignored e owner reason =
     bindE (mark_processed (ge_id e) Ignored reason (pay_id owner) (pay_application_id owner)) (\<lambda>_.
     succeed \<lparr>oc_routing = Ignored, oc_gateway_event_id = ge_id e, oc_payment_id = pay_id owner,
       oc_application_id = pay_application_id owner, oc_published = None, oc_reason = reason\<rparr>)"

definition announce :: "gateway_event \<Rightarrow> payment \<Rightarrow> payment \<Rightarrow> etype \<Rightarrow> ('g, outcome) routine" where
  "announce e owner updated ty =
     bindE (gets now) (\<lambda>t.
     bindE (publish (notified_event t updated ty (ge_id e))) (\<lambda>r.
     let dup = pb_duplicate r; routing = (if dup then Duplicate else Routed);
         reason = (if dup then ''this event had already been published'' else [])
     in bindE (mark_processed (ge_id e) routing reason (pay_id updated) (pay_application_id updated)) (\<lambda>_.
        succeed \<lparr>oc_routing = routing, oc_gateway_event_id = ge_id e, oc_payment_id = pay_id owner,
          oc_application_id = pay_application_id owner, oc_published = pb_event r, oc_reason = reason\<rparr>)))"

definition apply_notification :: "gateway_event \<Rightarrow> payment \<Rightarrow> gw_transaction \<Rightarrow> ('g, outcome) routine" where
  "apply_notification e owner x = (case gt_normalized x of
     None \<Rightarrow> ignored e owner (''gateway reported an unrecognised status: '' @ gt_status x)
   | Some s \<Rightarrow>
       bindE (ignore_error (upsert_gateway_transaction (pay_id owner) (notified_transaction x))) (\<lambda>_.
       catchE (apply_state (pay_id owner) (notified_update x s))
         (\<lambda>err. if err = StaleTransition
            then ignored e owner (''payment is already '' @ status_text (pay_status owner) @ ''; '' @ status_text s
              @ '' would move it backwards'')
            else throw err)
         (\<lambda>updated. case type_for_status (pay_status updated) of
            None \<Rightarrow> ignored e owner (''no event type is defined for status '' @ status_text (pay_status updated))
          | Some ty \<Rightarrow> announce e owner updated ty)))"

definition find_owner :: "string \<Rightarrow> string \<Rightarrow> ('g, payment option) routine" where
  "find_owner gw order_id = catchE (get_by_gateway_order_id gw order_id)
     (\<lambda>e. if is_not_found e then succeed None else throw e) (\<lambda>p. succeed (Some p))"

definition process_rejected :: "gateway_event \<Rightarrow> ('g, outcome) routine" where
  "process_rejected rec = bindE (record_event (rejected_record rec)) (\<lambda>e.
     succeed \<lparr>oc_routing = RoutingRejected, oc_gateway_event_id = ge_id e, oc_payment_id = [],
       oc_application_id = [], oc_published = None, oc_reason = ''signature verification failed''\<rparr>)"

definition process_verified :: "string \<Rightarrow> gateway_event \<Rightarrow> gw_transaction \<Rightarrow> ('g, outcome) routine" where
  "process_verified gw rec x =
     bindE (find_owner gw (gt_order_id x)) (\<lambda>owner.
     catchE (record_event (attributed owner rec))
       (\<lambda>err. if err = NotificationDuplicate
          then succeed \<lparr>oc_routing = Duplicate, oc_gateway_event_id = [],
            oc_payment_id = ge_payment_id (attributed owner rec),
            oc_application_id = ge_application_id (attributed owner rec), oc_published = None, oc_reason = []\<rparr>
          else throw err)
       (\<lambda>e. case owner of
          None \<Rightarrow> succeed \<lparr>oc_routing = Unrouted, oc_gateway_event_id = ge_id e, oc_payment_id = [],
            oc_application_id = [], oc_published = None, oc_reason = ''no payment matches this gateway order id''\<rparr>
        | Some p \<Rightarrow> apply_notification e p x))"

definition default_adapter :: "'g registry \<Rightarrow> string \<Rightarrow> ('g, account \<times> 'g adapter) routine" where
  "default_adapter reg gw =
     bindE (catchE (account_default gw)
       (\<lambda>e. if is_not_found e then throw (OtherError ''notification: no gateway account is configured'') else throw e)
       succeed) (\<lambda>a.
     bindE (lift_result (registry_for reg a)) (\<lambda>g. succeed (a, g)))"

definition verified :: "'g adapter \<Rightarrow> webhook \<Rightarrow> ('g, bool) routine" where
  "verified g req = catchE (call_out (ga_verify_webhook g req)) (\<lambda>_. succeed False) (\<lambda>_. succeed True)"

definition process_notification :: "'g registry \<Rightarrow> string \<Rightarrow> webhook \<Rightarrow> ('g, outcome) routine" where
  "process_notification reg gw req =
     bindE (default_adapter reg gw) (\<lambda>(a, g).
     bindE (verified g req) (\<lambda>ok.
     bindE (call_out (ga_parse_webhook g req)) (\<lambda>n.
     let rec = new_record gw a n ok in
     if \<not> ok then process_rejected rec else process_verified gw rec (gn_transaction n))))"

subsection \<open>What an unverified notification can do\<close>

text \<open>The tables after a notification that failed verification: rejected records are added to
  the recorded notifications and nothing else changes.\<close>

definition only_rejects :: "db \<Rightarrow> db \<Rightarrow> bool" where
  "only_rejects d e \<longleftrightarrow> (\<exists>rows. e = set_gw_events (gw_events d @ rows) d \<and>
     list_all (\<lambda>r. ge_routing r = RoutingRejected \<and> \<not> ge_signature_verified r) rows)"

interpretation rejects: db_evolution only_rejects
proof
  show "only_rejects d d" for d unfolding only_rejects_def by (rule exI[of _ "[]"]) simp
  show "only_rejects d e \<Longrightarrow> only_rejects e f \<Longrightarrow> only_rejects d f" for d e f
    unfolding only_rejects_def by (elim exE conjE, rule_tac x = "rows @ rowsa" in exI) simp
qed

lemma rejects_record:
  "\<not> ge_signature_verified e \<Longrightarrow> rejects.safe (record_event (rejected_record e))"
  unfolding record_event_def
  by (intro rejects.safe_intros rejects.safe_insert_row)
    (auto simp: only_rejects_def rejected_record_def intro!: exI[of _ "[_]"])

lemma rejects_rejected: "\<not> ge_signature_verified e \<Longrightarrow> rejects.safe (process_rejected e)"
  unfolding process_rejected_def by (intro rejects.safe_intros rejects_record)

lemma rejects_default: "rejects.safe (default_adapter reg gw)"
  unfolding default_adapter_def account_default_def by (intro rejects.safe_intros)

lemma rejects_verified: "rejects.safe (verified g req)"
  unfolding verified_def by (intro rejects.safe_intros)

lemma default_adapter_Inr:
  assumes "default_adapter reg gw w = (Inr (a, g), v)" shows "registry_for reg a = Inr g"
  using assms by (auto simp: default_adapter_def bindE_run lift_result_def succeed_def split: prod.splits sum.splits)

definition refuses :: "'g adapter \<Rightarrow> webhook \<Rightarrow> bool" where
  "refuses g req \<longleftrightarrow> (\<forall>x. isl (fst (ga_verify_webhook g req x)))"

lemma verified_refused:
  assumes "refuses g req" obtains y where "verified g req w = (Inr False, w\<lparr>ext := y\<rparr>)"
proof -
  obtain e y where "ga_verify_webhook g req (ext w) = (Inl e, y)"
    using assms by (metis refuses_def isl_def prod.collapse)
  then show thesis by (intro that) (simp add: verified_def call_out_def catchE_def succeed_def)
qed

text \<open>C29. A notification that fails verification touches nothing: whatever it claims, whatever
  the state is and whichever statements fail, it can only leave rejected records.\<close>

theorem unverified_only_recorded:
  fixes w :: "'g world"
  assumes "\<And>a g. registry_for reg a = Inr g \<Longrightarrow> refuses g req"
  shows "only_rejects (db w) (db (snd (process_notification reg gw req w)))"
proof -
  have "rejects.safe (process_notification reg gw req)"
    unfolding process_notification_def
  proof (intro rejects.ev.evolves_bind_of[OF rejects_default] rejects.ev.evolves_case_prod)
    fix s t :: "'g world" and x a g
    assume "default_adapter reg gw s = (Inr x, t)" and x: "x = (a, g)"
    then have "refuses g req" using default_adapter_Inr assms by blast
    then have "ok = False" if "verified g req u = (Inr ok, v)" for ok and u v :: "'g world"
      using that verified_refused[OF \<open>refuses g req\<close>, of u] by auto
    then show "rejects.safe (bindE (verified g req) (\<lambda>ok. bindE (call_out (ga_parse_webhook g req)) (\<lambda>n.
       let rec = new_record gw a n ok in
       if \<not> ok then process_rejected rec else process_verified gw rec (gn_transaction n))))"
      by (intro rejects.ev.evolves_bind_of[OF rejects_verified]) (auto simp: Let_def new_record_def
        zero_gateway_event_def intro!: rejects.safe_intros rejects_rejected)
  qed
  then show ?thesis by (rule rejects.safe_db)
qed

definition noticed_payment :: payment where
  "noticed_payment = zero_payment\<lparr>pay_id := ''pay_1'', pay_application_id := ''app_1'', pay_gateway := ''midtrans'',
     pay_gateway_order_id := ''pmx_1'', pay_amount := 100, pay_status := Pending\<rparr>"

definition noticed_world :: "string list world" where
  "noticed_world = quiet_world (empty_db\<lparr>accounts := [sample_account], payments := [noticed_payment]\<rparr>) []"

lemma noticed_simps [simp]: "outcomes noticed_world = []" "txn noticed_world = None"
  "payments (db noticed_world) = [noticed_payment]" "gw_events (db noticed_world) = []"
  by (simp_all add: noticed_world_def empty_db_def)

lemma sample_registry_adapter: "registry_for (sample_registry b s) a = Inr g \<Longrightarrow> g = sample_adapter b s"
  by (auto simp: registry_for_def sample_registry_def split: if_splits)

abbreviation forged_notice :: webhook where "forged_notice \<equiv> \<lparr>wh_headers = [], wh_body = ''pmx_1''\<rparr>"

theorem unverified_only_recorded_witness:
  "only_rejects (db noticed_world)
     (db (snd (process_notification (sample_registry False Paid) ''midtrans'' forged_notice noticed_world)))"
  by (rule unverified_only_recorded)
    (auto dest!: sample_registry_adapter simp: refuses_def sample_adapter_def)

subsection \<open>A recorded notification is final\<close>

definition recorded :: "string \<Rightarrow> string \<Rightarrow> db \<Rightarrow> bool" where
  "recorded gw k d \<longleftrightarrow> (\<exists>e \<in> set (gw_events d). ge_gateway e = gw \<and> ge_dedupe_key e = k)"

lemma record_blocked:
  assumes "recorded gw k (db w)" "ge_gateway e = gw" "ge_dedupe_key e = k"
  shows "\<exists>err v. record_event e w = (Inl err, v) \<and> db v = db w"
proof -
  obtain i u where i: "(if ge_id e = [] then fresh_id ''gev'' else succeed (ge_id e)) w = (Inr i, u)" "db u = db w"
    by (cases "ge_id e = []") (simp_all add: fresh_id_def succeed_def)
  let ?row = "e\<lparr>ge_id := i, ge_received_at := now u, ge_processed_at := None\<rparr>"
  obtain r v where ins: "insert_row gateway_event_constraints gw_events set_gw_events ?row u = (r, v)" by fastforce
  obtain x where x: "x \<in> set (gw_events (db u))" "ge_gateway ?row = ge_gateway x" "ge_dedupe_key ?row = ge_dedupe_key x"
    using assms i(2) by (auto simp: recorded_def)
  then have "violated gateway_event_constraints ?row (gw_events (db u)) \<noteq> None"
    unfolding violated_None gateway_event_constraints_def by auto
  then have "r \<noteq> Inr x" for x
    using insert_row_Inr[of gateway_event_constraints gw_events "\<lambda>rows d. d\<lparr>gw_events := rows\<rparr>" ?row u x v] ins
    by auto
  then obtain err where err: "r = Inl err" by (cases r) auto
  have "db v = db u" using ins unfolding err by (rule insert_row_Inl)
  then show ?thesis
    using i ins err by (simp add: record_event_def bindE_run catchE_def gets_def throw_def)
qed

lemma rejected_blocked:
  assumes "recorded gw k (db w)" "ge_gateway rec = gw" "ge_dedupe_key rec = k"
  shows "db (snd (process_rejected rec w)) = db w"
  using record_blocked[OF assms(1), of "rejected_record rec"] assms(2,3)
  by (auto simp: process_rejected_def bindE_run rejected_record_def)

lemma verified_blocked:
  assumes "recorded gw k (db w)" "ge_gateway rec = gw" "ge_dedupe_key rec = k"
  shows "db (snd (process_verified gw rec x w)) = db w"
proof -
  have find: "still.evolves (find_owner gw (gt_order_id x))"
    unfolding find_owner_def get_by_gateway_order_id_def payment_where_def by (intro still_intros)
  show ?thesis
    unfolding process_verified_def
  proof (rule still_then[OF find])
    fix owner v
    assume "still_rel w v"
    then have v: "db v = db w" by (simp add: still_rel_def)
    have "ge_gateway (attributed owner rec) = gw" "ge_dedupe_key (attributed owner rec) = k"
      using assms(2,3) by (simp_all add: attributed_def split: option.split)
    with record_blocked[of gw k v "attributed owner rec"] obtain err u
      where rec: "record_event (attributed owner rec) v = (Inl err, u)" "db u = db w"
      using assms(1) v by auto
    show "db (snd (catchE (record_event (attributed owner rec))
        (\<lambda>err. if err = NotificationDuplicate
          then succeed \<lparr>oc_routing = Duplicate, oc_gateway_event_id = [],
            oc_payment_id = ge_payment_id (attributed owner rec),
            oc_application_id = ge_application_id (attributed owner rec), oc_published = None, oc_reason = []\<rparr>
          else throw err)
        (\<lambda>e. case owner of
          None \<Rightarrow> succeed \<lparr>oc_routing = Unrouted, oc_gateway_event_id = ge_id e, oc_payment_id = [],
            oc_application_id = [], oc_published = None, oc_reason = ''no payment matches this gateway order id''\<rparr>
        | Some p \<Rightarrow> apply_notification e p x) v)) = db w"
      by (simp add: catchE_def rec succeed_def throw_def)
  qed (simp add: still_rel_def)
qed

lemma still_default: "still.evolves (default_adapter reg gw)"
  unfolding default_adapter_def account_default_def by (intro still_intros)

text \<open>C30. A notification whose key is recorded changes nothing any more, whatever it says, whichever
  statements fail, and whatever became of the one that was recorded.\<close>

theorem recorded_notification_is_final:
  fixes w :: "'g world"
  assumes "recorded gw k (db w)"
    and "\<And>a g n x y. registry_for reg a = Inr g \<Longrightarrow> ga_parse_webhook g req x = (Inr n, y) \<Longrightarrow> gn_dedupe_key n = k"
  shows "db (snd (process_notification reg gw req w)) = db w"
  unfolding process_notification_def
proof (rule still_then[OF still_default])
  fix x v
  assume st: "still_rel w v" and d: "default_adapter reg gw w = (Inr x, v)"
  obtain a g where x: "x = (a, g)" by (cases x)
  then have reg: "registry_for reg a = Inr g" using d default_adapter_Inr by blast
  obtain s y where "ga_verify_webhook g req (ext v) = (s, y)" by fastforce
  then have ver: "verified g req v = (Inr (\<not> isl s), v\<lparr>ext := y\<rparr>)"
    by (cases s) (simp_all add: verified_def call_out_def catchE_def succeed_def)
  obtain r z where parse: "ga_parse_webhook g req y = (r, z)" by fastforce
  have rec: "recorded gw k (db (v\<lparr>ext := z\<rparr>))" using assms(1) st by (simp add: still_rel_def)
  have row: "ge_gateway (new_record gw a n (\<not> isl s)) = gw" "ge_dedupe_key (new_record gw a n (\<not> isl s)) = k" if "r = Inr n" for n
    using that assms(2)[OF reg] parse by (simp_all add: new_record_def Let_def)
  have "db v = db w" using st by (simp add: still_rel_def)
  then show "db (snd ((case x of (a, g) \<Rightarrow> bindE (verified g req) (\<lambda>ok. bindE (call_out (ga_parse_webhook g req)) (\<lambda>n.
      let rec = new_record gw a n ok in
      if \<not> ok then process_rejected rec else process_verified gw rec (gn_transaction n)))) v)) = db w"
    using rejected_blocked[OF rec row] verified_blocked[OF rec row]
    by (cases r) (auto simp: x bindE_run ver call_out_def parse Let_def)
qed (simp add: still_rel_def)

text \<open>The forged notification is recorded as rejected and takes the key; the genuine one that
  follows is a duplicate, and the payment it reports as paid stays pending.\<close>

abbreviation genuine_notice :: webhook where "genuine_notice \<equiv> \<lparr>wh_headers = [(''s'', ''s'')], wh_body = ''pmx_1''\<rparr>"

theorem recorded_notification_is_final_witness:
  "let reg = sample_registry False Paid; w = snd (process_notification reg ''midtrans'' forged_notice noticed_world);
       v = snd (process_notification reg ''midtrans'' genuine_notice w)
   in map ge_routing (gw_events (db w)) = [RoutingRejected] \<and> map pay_status (payments (db w)) = [Pending] \<and> db v = db w"
proof -
  let ?w = "snd (process_notification (sample_registry False Paid) ''midtrans'' forged_notice noticed_world)"
  have w: "map ge_routing (gw_events (db ?w)) = [RoutingRejected]"
     "map (\<lambda>e. (ge_gateway e, ge_dedupe_key e)) (gw_events (db ?w)) = [(''midtrans'', ''pmx_1'')]"
     "map pay_status (payments (db ?w)) = [Pending]"
    by code_simp+
  from w(2) have "recorded ''midtrans'' ''pmx_1'' (db ?w)" by (auto simp: recorded_def map_eq_Cons_conv)
  then have "db (snd (process_notification (sample_registry False Paid) ''midtrans'' genuine_notice ?w)) = db ?w"
    by (rule recorded_notification_is_final) (auto dest!: sample_registry_adapter simp: sample_adapter_def)
  with w show ?thesis by (simp add: Let_def)
qed

subsection \<open>A verified notification moves the payment\<close>

definition moved_rows :: "string \<Rightarrow> state_update \<Rightarrow> time \<Rightarrow> payment list \<Rightarrow> payment list" where
  "moved_rows i u t = map (\<lambda>q. if pay_id q = i \<and> can_transition (pay_status q) (su_status u) then advanced u t q else q)"

definition rows_checked :: "payment list \<Rightarrow> bool" where
  "rows_checked = list_all (\<lambda>q. 0 < pay_amount q \<and> 0 \<le> pay_refunded_amount q)"

lemma apply_state_moves:
  assumes "outcomes w = []" "txn w \<noteq> Some True" "rows_checked (payments (db w))" "su_refunded_amount u = None"
    and valid: "status_valid (su_status u)"
  shows "\<exists>r. apply_state i u w = (r, w\<lparr>db := set_payments (moved_rows i u (now w) (payments (db w))) (db w)\<rparr>) \<and>
    (\<forall>e. r = Inl e \<longrightarrow> e = StaleTransition)"
proof -
  let ?p = "\<lambda>q. pay_id q = i \<and> pay_status q \<in> set (predecessors_of (su_status u))"
  let ?rows = "map (\<lambda>q. if ?p q then advanced u (now w) q else q) (payments (db w))"
  have moved: "?rows = moved_rows i u (now w) (payments (db w))"
    by (simp add: moved_rows_def payment_status.preds_iff cong: if_cong)
  have ok: "refused_check payment_checks (map (advanced u (now w)) (filter ?p (payments (db w)))) = None"
    using assms(3,4) by (auto simp: refused_check_None payment_checks_def rows_checked_def list_all_iff advanced_def
        Let_def coalesce_def)
  have upd: "update_checked payment_checks [] payments set_payments ?p (advanced u (now w)) w
      = (case first_row (map (advanced u (now w)) (filter ?p (payments (db w)))) of
          None \<Rightarrow> (Inl NotFound, w\<lparr>db := set_payments ?rows (db w)\<rparr>)
        | Some q \<Rightarrow> (Inr q, w\<lparr>db := set_payments ?rows (db w)\<rparr>))"
    using assms(1,2) ok by (simp add: update_checked_def one_row_run[OF run_stmt_ok])
  show ?thesis
    using upd valid unfolding moved
    by (cases "first_row (map (advanced u (now w)) (filter ?p (payments (db w))))")
      (simp_all add: apply_state_def bindE_run gets_def catchE_def is_not_found_def throw_def succeed_def)
qed

lemma details_mark: "details.safe (mark_processed i r reason p a)"
  unfolding mark_processed_def by (intro details.safe_intros details.safe_exec) (simp add: details_rel_def)

lemma details_ignored: "details.safe (ignored e p reason)"
  unfolding ignored_def by (intro details.safe_intros details_mark)

lemma details_announce: "details.safe (announce e p q ty)"
  unfolding announce_def Let_def by (intro details.safe_intros details_publish details_mark)

lemma details_upsert: "details.safe (upsert_gateway_transaction i x)"
  unfolding upsert_gateway_transaction_def
  by (intro details.safe_intros details.safe_run_stmt) (auto simp: details_rel_def split: if_splits)

lemma inert_upsert: "inert.evolves (upsert_gateway_transaction i x)"
  unfolding upsert_gateway_transaction_def by (intro inert_intros inert_run_stmt)

lemma apply_notification_moves:
  fixes w :: "'g world"
  assumes "outcomes w = []" "txn w = None" "rows_checked (payments (db w))"
    and "gt_normalized x = Some s" "status_valid s"
  shows "payments (db (snd (apply_notification e p x w)))
    = moved_rows (pay_id p) (notified_update x s) (now w) (payments (db w))"
proof -
  let ?u = "notified_update x s"
  let ?after = "\<lambda>updated. case type_for_status (pay_status updated) of
      None \<Rightarrow> ignored e p (''no event type is defined for status '' @ status_text (pay_status updated))
    | Some ty \<Rightarrow> announce e p updated ty"
  let ?stale = "ignored e p (''payment is already '' @ status_text (pay_status p) @ ''; '' @ status_text s
    @ '' would move it backwards'')"
  obtain r v where up: "upsert_gateway_transaction (pay_id p) (notified_transaction x) w = (r, v)" by fastforce
  have ign: "ignore_error (upsert_gateway_transaction (pay_id p) (notified_transaction x)) w = (Inr (), v)"
    using up by (rule ignore_error_run)
  have v: "payments (db v) = payments (db w)" "outcomes v = []" "txn v = None" "now v = now w"
    using details_run[OF details_upsert up] inert.evolvesD[OF inert_upsert up] assms(1,2)
    by (simp_all add: inert_rel_def)
  obtain q where ap: "apply_state (pay_id p) ?u v
      = (q, v\<lparr>db := set_payments (moved_rows (pay_id p) ?u (now w) (payments (db w))) (db v)\<rparr>)"
      and only: "\<forall>err. q = Inl err \<longrightarrow> err = StaleTransition"
    using apply_state_moves[of v ?u "pay_id p"] v assms by (auto simp: notified_update_def)
  have kept: "payments (db (snd (?stale u))) = payments (db u)" "payments (db (snd (?after updated u))) = payments (db u)"
    for u :: "'g world" and updated
    using details.safe_db[OF details_ignored] details.safe_db[OF details_announce]
    by (auto simp: details_rel_def split: option.split)
  show ?thesis
    using kept only by (cases q) (simp_all add: apply_notification_def assms(4) bindE_run ign catchE_def ap)
qed

text \<open>C31. With a working database, a verified notification that is not recorded yet and names a
  known order moves exactly that payment, and exactly when the status machine allows it; whatever
  happens to the event afterwards leaves the move in place.\<close>

theorem verified_notification_moves_payment:
  fixes w :: "'g world"
  assumes quiet: "outcomes w = []" "txn w = None" "rows_checked (payments (db w))"
    and configured: "default_of gw (accounts (db w)) = Some a" "registry_for reg a = Inr g"
    and accepted: "ga_verify_webhook g req (ext w) = (Inr (), y)" "ga_parse_webhook g req y = (Inr n, z)"
    and status: "gt_normalized (gn_transaction n) = Some s" "status_valid s"
    and fresh: "\<not> recorded gw (gn_dedupe_key n) (db w)" "draw ''gev'' 0 w \<notin> ge_id ` set (gw_events (db w))"
    and owner: "List.find (\<lambda>p. pay_gateway p = gw \<and> pay_gateway_order_id p = gt_order_id (gn_transaction n))
      (payments (db w)) = Some p"
  shows "payments (db (snd (process_notification reg gw req w)))
    = moved_rows (pay_id p) (notified_update (gn_transaction n) s) (now w) (payments (db w))"
proof -
  let ?x = "gn_transaction n" and ?w = "w\<lparr>ext := z\<rparr>"
  let ?rec = "new_record gw a n True"
  have def: "default_adapter reg gw w = (Inr (a, g), w)"
    using quiet configured by (simp add: default_adapter_def bindE_run catchE_def account_default_def query_row_run
      lift_result_def succeed_def)
  have own: "find_owner gw (gt_order_id ?x) ?w = (Inr (Some p), ?w)"
    using quiet owner by (simp add: find_owner_def get_by_gateway_order_id_def payment_where_def query_row_run
      catchE_def succeed_def)
  have blank: "ge_id (attributed (Some p) ?rec) = []" "ge_gateway (attributed (Some p) ?rec) = gw"
      "ge_dedupe_key (attributed (Some p) ?rec) = gn_dedupe_key n"
    by (simp_all add: attributed_def new_record_def Let_def zero_gateway_event_def)
  let ?row = "(attributed (Some p) ?rec)\<lparr>ge_id := draw ''gev'' 0 w, ge_received_at := now w, ge_processed_at := None\<rparr>"
  let ?v = "w\<lparr>ext := z, draws := draws w + 1, db := set_gw_events (gw_events (db w) @ [?row]) (db w)\<rparr>"
  have "violated gateway_event_constraints ?row (gw_events (db w)) = None"
    using fresh blank by (auto simp: violated_None gateway_event_constraints_def recorded_def)
  then have rec: "record_event (attributed (Some p) ?rec) ?w = (Inr ?row, ?v)"
    using quiet blank insert_row_ok[where w = "w\<lparr>ext := z, draws := draws w + 1\<rparr>" and get = gw_events]
    by (simp add: record_event_def bindE_run fresh_id_def draw_def gets_def catchE_def succeed_def)
  have "process_notification reg gw req w = apply_notification ?row p ?x ?v"
    using accepted by (simp add: process_notification_def bindE_run def verified_def call_out_def catchE_def
      succeed_def process_verified_def own rec Let_def[of "new_record gw a n True"])
  then show ?thesis using apply_notification_moves[of ?v ?x s] quiet status by simp
qed

theorem verified_notification_moves_payment_witness:
  "map pay_status (payments (db (snd
     (process_notification (sample_registry False Paid) ''midtrans'' genuine_notice noticed_world)))) = [Paid]"
proof -
  let ?x = "sample_txn Paid ''pmx_1''"
  have setting: "default_of ''midtrans'' (accounts (db noticed_world)) = Some sample_account"
      "rows_checked (payments (db noticed_world))"
      "List.find (\<lambda>p. pay_gateway p = ''midtrans'' \<and> pay_gateway_order_id p = gt_order_id ?x) (payments (db noticed_world))
        = Some noticed_payment" "status_valid Paid" "can_transition Pending Paid"
    by code_simp+
  have adapter: "registry_for (sample_registry False Paid) sample_account = Inr (sample_adapter False Paid)"
    by (simp add: registry_for_def sample_registry_def sample_account_def environment_valid_def)
  have "payments (db (snd (process_notification (sample_registry False Paid) ''midtrans'' genuine_notice noticed_world)))
      = moved_rows (pay_id noticed_payment) (notified_update ?x Paid) (now noticed_world) (payments (db noticed_world))"
    using verified_notification_moves_payment[of noticed_world "''midtrans''" sample_account "sample_registry False Paid"
        "sample_adapter False Paid" genuine_notice "[]" "\<lparr>gn_transaction = ?x, gn_dedupe_key = ''pmx_1''\<rparr>" "[]" Paid]
      setting adapter by (simp add: sample_adapter_def noticed_world_def recorded_def empty_db_def sample_txn_def)
  then show ?thesis
    using setting(5) by (simp add: moved_rows_def noticed_payment_def advanced_def Let_def notified_update_def)
qed

end
