(* ===== verification/Payout.thy ===== *)
theory Payout
  imports Delivery Gateway
begin

text \<open>
  \<open>internal/payout\<close> without its service: what a payout may be asked (\<open>model.go\<close>), the statements
  on payouts, their history and the limits of an application (\<open>repository.go\<close>), and the
  beneficiaries (\<open>beneficiary_repository.go\<close>).
\<close>

subsection \<open>The model\<close>

definition bn_usable :: "beneficiary \<Rightarrow> bool" where "bn_usable b \<longleftrightarrow> bn_disabled_at b = None"

definition bn_verified :: "beneficiary \<Rightarrow> bool" where "bn_verified b \<longleftrightarrow> bn_verified_at b \<noteq> None"

definition needs_approval :: "payout \<Rightarrow> bool" where "needs_approval p \<longleftrightarrow> po_status p = Requested"

definition submittable :: "payout \<Rightarrow> bool" where "submittable p \<longleftrightarrow> po_status p = Approved"

definition recoverable :: "time \<Rightarrow> payout \<Rightarrow> bool" where
  "recoverable t p \<longleftrightarrow> po_status p = Unresolved \<and>
     (case po_idempotency_expires_at p of None \<Rightarrow> False | Some e \<Rightarrow> t < e)"

definition stranded :: "time \<Rightarrow> payout \<Rightarrow> bool" where
  "stranded t p \<longleftrightarrow> po_status p = Unresolved \<and> \<not> recoverable t p"

record limits =
  lm_enabled :: bool
  lm_requires_approval :: bool
  lm_max_amount :: "int option"
  lm_daily_limit :: "int option"

subsection \<open>Payouts\<close>

abbreviation set_payouts :: "payout list \<Rightarrow> db \<Rightarrow> db" where
  "set_payouts rows d \<equiv> d\<lparr>payouts := rows\<rparr>"

text \<open>The checks and unique indexes of the table.\<close>

definition payout_checks :: "payout check list" where
  "payout_checks =
     [(''payouts_amount_check'', \<lambda>p. 0 < po_amount p),
      (''payouts_dual_control'', \<lambda>p. po_approved_by p = None \<or> po_requested_by p = None \<or>
         po_approved_by p \<noteq> po_requested_by p),
      (''payouts_not_both_outcomes'', \<lambda>p. po_approved_at p = None \<or> po_rejected_at p = None)]"

definition same_reference :: "payout \<Rightarrow> payout \<Rightarrow> bool" where
  "same_reference p x \<longleftrightarrow> po_reference_no p \<noteq> None \<and> po_reference_no p = po_reference_no x \<and>
     po_gateway_account_id p = po_gateway_account_id x"

definition payout_constraints :: "payout constraint list" where
  "payout_constraints =
     [(''payouts_pkey'', \<lambda>p x. po_id p = po_id x),
      (''payouts_application_reference_key'', \<lambda>p x. po_application_id p = po_application_id x \<and>
         po_application_payout_id p = po_application_payout_id x),
      (''payouts_idempotency_key'', \<lambda>p x. po_idempotency_key p = po_idempotency_key x),
      (''payouts_gateway_reference_key'', same_reference)]"

text \<open>An absent JSON value is stored as the empty object.\<close>

definition encode_json :: "json option \<Rightarrow> json option" where
  "encode_json v = (case v of None \<Rightarrow> Some (JObj []) | Some j \<Rightarrow> Some j)"

text \<open>The row of a new payout: the columns the statement does not mention have their defaults.\<close>

definition payout_row :: "time \<Rightarrow> payout \<Rightarrow> payout" where
  "payout_row t p = p\<lparr>po_reference_no := None, po_status_rank := payout_rank (po_status p),
     po_gateway_status := [], po_failure_code := [], po_failure_reason := [], po_approved_by := None,
     po_approved_at := None, po_rejected_by := None, po_rejected_at := None, po_reject_reason := [],
     po_submitted_at := None, po_completed_at := None, po_failed_at := None, po_last_synced_at := None,
     po_idempotency_expires_at := None, po_gateway_data := Some (JObj []),
     po_metadata := encode_json (po_metadata p), po_created_at := t, po_updated_at := t\<rparr>"

definition payout_create :: "payout \<Rightarrow> ('g, payout) routine" where
  "payout_create p =
     bindE (if po_id p = [] then fresh_id ''pyo'' else succeed (po_id p)) (\<lambda>i.
     bindE (gets now) (\<lambda>t.
     catchE (insert_checked payout_checks payout_constraints payouts set_payouts
         (payout_row t (p\<lparr>po_id := i, po_idempotency_key :=
           (if po_idempotency_key p = [] then i else po_idempotency_key p)\<rparr>)))
       (\<lambda>e. if is_unique_violation e [''payouts_application_reference_key''] then throw DuplicatePayoutID else throw e)
       succeed))"

definition payout_where :: "(payout \<Rightarrow> bool) \<Rightarrow> ('g, payout) routine" where
  "payout_where cond = catchE (query_row (\<lambda>d. List.find cond (payouts d)))
     (\<lambda>e. if is_not_found e then throw PayoutNotFound else throw e) succeed"

definition payout_get :: "string \<Rightarrow> ('g, payout) routine" where
  "payout_get i = payout_where (\<lambda>p. po_id p = i)"

definition payout_get_for_application :: "string \<Rightarrow> string \<Rightarrow> ('g, payout) routine" where
  "payout_get_for_application a i = payout_where (\<lambda>p. po_id p = i \<and> po_application_id p = a)"

definition get_by_application_reference :: "string \<Rightarrow> string \<Rightarrow> ('g, payout) routine" where
  "get_by_application_reference a reference =
     payout_where (\<lambda>p. po_application_id p = a \<and> po_application_payout_id p = reference)"

text \<open>\<open>LIKE\<close>, and \<open>ILIKE\<close> on ASCII.\<close>

fun like :: "string \<Rightarrow> string \<Rightarrow> bool" where
  "like [] s = (s = [])"
| "like (p # ps) s =
     (if p = CHR ''%'' then list_ex (\<lambda>k. like ps (drop k s)) [0..<Suc (length s)]
      else if p = CHR ''_'' then (case s of [] \<Rightarrow> False | _ # t \<Rightarrow> like ps t)
      else if p = CHR 0x5C then
        (case ps of [] \<Rightarrow> False | q # qs \<Rightarrow> (case s of [] \<Rightarrow> False | c # t \<Rightarrow> c = q \<and> like qs t))
      else (case s of [] \<Rightarrow> False | c # t \<Rightarrow> c = p \<and> like ps t))"

definition ilike :: "string \<Rightarrow> string \<Rightarrow> bool" where
  "ilike pat s = like (to_lower pat) (to_lower s)"

record payout_filter =
  pyf_application_id :: string
  pyf_status :: string
  pyf_beneficiary_id :: string
  pyf_search :: string

definition payout_matches :: "payout_filter \<Rightarrow> payout \<Rightarrow> bool" where
  "payout_matches f p \<longleftrightarrow>
     (pyf_application_id f \<noteq> [] \<longrightarrow> po_application_id p = pyf_application_id f) \<and>
     (pyf_status f \<noteq> [] \<longrightarrow> payout_status_text (po_status p) = pyf_status f) \<and>
     (pyf_beneficiary_id f \<noteq> [] \<longrightarrow> po_beneficiary_id p = Some (pyf_beneficiary_id f)) \<and>
     (pyf_search f \<noteq> [] \<longrightarrow>
        ilike (''%'' @ pyf_search f @ ''%'') (po_application_payout_id p) \<or>
        ilike (''%'' @ pyf_search f @ ''%'') (po_beneficiary_name p))"

text \<open>\<open>ORDER BY created_at DESC, id DESC\<close>. The query does not read the page's cursor.\<close>

definition newest_first :: "('a \<Rightarrow> time) \<Rightarrow> ('a \<Rightarrow> string) \<Rightarrow> 'a list \<Rightarrow> 'a list" where
  "newest_first created key rows = rev (sort_key created (sort_key key rows))"

definition payout_page :: "payout_filter \<Rightarrow> page \<Rightarrow> db \<Rightarrow> payout listing" where
  "payout_page f p d = new_list (take (nat (fetch_limit p))
     (newest_first po_created_at po_id (filter (payout_matches f) (payouts d)))) p"

definition payout_list :: "payout_filter \<Rightarrow> page \<Rightarrow> ('g, payout listing) routine" where
  "payout_list f p = query (payout_page f p)"

subsection \<open>Advancing a payout\<close>

record payout_update =
  pu_status :: payout_status
  pu_gateway_status :: string
  pu_reference_no :: string
  pu_failure_code :: string
  pu_failure_reason :: string
  pu_gateway_data :: "json option"
  pu_approved_by :: string
  pu_rejected_by :: string
  pu_reject_reason :: string
  pu_idempotency_expires_at :: "time option"
  pu_mark_synced :: bool

definition no_update :: "payout_status \<Rightarrow> payout_update" where
  "no_update s = \<lparr>pu_status = s, pu_gateway_status = [], pu_reference_no = [], pu_failure_code = [],
     pu_failure_reason = [], pu_gateway_data = None, pu_approved_by = [], pu_rejected_by = [],
     pu_reject_reason = [], pu_idempotency_expires_at = None, pu_mark_synced = False\<rparr>"

text \<open>\<open>CASE WHEN ... AND x IS NULL THEN now() ELSE x END\<close> and \<open>coalesce(nullif(v, ''), x)\<close> for a
  nullable column.\<close>

definition mark_once :: "bool \<Rightarrow> time \<Rightarrow> time option \<Rightarrow> time option" where
  "mark_once cond t old = (if cond \<and> old = None then Some t else old)"

definition keep_opt :: "string \<Rightarrow> string option \<Rightarrow> string option" where
  "keep_opt v old = (if v = [] then old else Some v)"

definition payout_advanced :: "payout_update \<Rightarrow> time \<Rightarrow> payout \<Rightarrow> payout" where
  "payout_advanced u t p = (let s = pu_status u in p\<lparr>
     po_status := s, po_status_rank := payout_rank s,
     po_gateway_status := keep_unless (pu_gateway_status u) (po_gateway_status p),
     po_reference_no := keep_opt (pu_reference_no u) (po_reference_no p),
     po_failure_code := keep_unless (pu_failure_code u) (po_failure_code p),
     po_failure_reason := keep_unless (pu_failure_reason u) (po_failure_reason p),
     po_gateway_data := (case pu_gateway_data u of None \<Rightarrow> po_gateway_data p | Some v \<Rightarrow> Some v),
     po_approved_by := keep_opt (pu_approved_by u) (po_approved_by p),
     po_approved_at := mark_once (s = Approved) t (po_approved_at p),
     po_rejected_by := keep_opt (pu_rejected_by u) (po_rejected_by p),
     po_rejected_at := mark_once (s = Rejected) t (po_rejected_at p),
     po_reject_reason := keep_unless (pu_reject_reason u) (po_reject_reason p),
     po_submitted_at := mark_once (s = Submitted) t (po_submitted_at p),
     po_completed_at := mark_once (s = Completed) t (po_completed_at p),
     po_failed_at := mark_once (s = PayoutFailed) t (po_failed_at p),
     po_idempotency_expires_at :=
       (case pu_idempotency_expires_at u of None \<Rightarrow> po_idempotency_expires_at p | Some e \<Rightarrow> Some e),
     po_last_synced_at := (if pu_mark_synced u then Some t else po_last_synced_at p),
     po_updated_at := t\<rparr>)"

definition payout_apply_state :: "string \<Rightarrow> payout_update \<Rightarrow> ('g, payout) routine" where
  "payout_apply_state i u =
     (if \<not> payout_valid (pu_status u) then throw (OtherError ''payout: cannot apply unknown status'')
      else bindE (gets now) (\<lambda>t.
        catchE (update_checked payout_checks payout_constraints payouts set_payouts
            (\<lambda>p. po_id p = i \<and> po_status p \<in> set (payout_predecessors_of (pu_status u))) (payout_advanced u t))
          (\<lambda>e. if is_not_found e then throw PayoutStale else throw e)
          succeed))"

definition payout_touch_synced :: "string \<Rightarrow> ('g, unit) routine" where
  "payout_touch_synced i = bindE (gets now) (\<lambda>t. exec_stmt (\<lambda>d. set_payouts
     (map (\<lambda>p. if po_id p = i then p\<lparr>po_last_synced_at := Some t\<rparr> else p) (payouts d)) d))"

text \<open>The payouts waiting for the reconciler: released ones first, then those read longest ago.
  The row locks end with the transaction of the claim and no other method is interleaved with
  it, so they have no effect.\<close>

definition unsettled :: "time \<Rightarrow> duration \<Rightarrow> payout \<Rightarrow> bool" where
  "unsettled t wait p \<longleftrightarrow> po_status p = Approved \<or>
     (po_status p = Submitted \<or> po_status p = Unresolved) \<and>
     (case po_last_synced_at p of None \<Rightarrow> True | Some s \<Rightarrow> s < t - wait) \<and> po_updated_at p < t - wait"

definition claim_order :: "payout list \<Rightarrow> payout list" where
  "claim_order rows = (let (released, sent) = partition (\<lambda>p. po_status p = Approved) rows;
       by_sync = (\<lambda>ps. filter (\<lambda>p. po_last_synced_at p = None) ps @
         sort_key (\<lambda>p. coalesce (po_last_synced_at p) 0) (filter (\<lambda>p. po_last_synced_at p \<noteq> None) ps))
     in by_sync released @ by_sync sent)"

definition claim_unsettled :: "int \<Rightarrow> duration \<Rightarrow> ('g, payout list) routine" where
  "claim_unsettled limit wait = bindE (gets now) (\<lambda>t.
     query (\<lambda>d. take (nat limit) (claim_order (filter (unsettled t wait) (payouts d)))))"

text \<open>The statement adds \<open>numeric\<close> values; a sum beyond \<open>int64\<close> cannot be scanned.\<close>

definition committed :: "payout_status \<Rightarrow> bool" where
  "committed s \<longleftrightarrow> s \<in> {Requested, Approved, Submitted, Unresolved, Completed}"

definition sent_total :: "time \<Rightarrow> string \<Rightarrow> payout list \<Rightarrow> int" where
  "sent_total t a rows = (\<Sum>p\<leftarrow>filter (\<lambda>p. po_application_id p = a \<and> t - 24 * hour \<le> po_created_at p \<and>
     committed (po_status p)) rows. po_amount p)"

definition sent_today :: "string \<Rightarrow> ('g, int) routine" where
  "sent_today a = bindE (gets now) (\<lambda>t. bindE (query (\<lambda>d. sent_total t a (payouts d))) (\<lambda>n.
     if is_int64 n then succeed n else throw (OtherError ''payout: sent today'')))"

subsection \<open>The history of a payout\<close>

definition record_transition :: "transition \<Rightarrow> ('g, unit) routine" where
  "record_transition r =
     bindE (if tr_id r = [] then fresh_id ''trn'' else succeed (tr_id r)) (\<lambda>i.
     bindE (gets now) (\<lambda>t.
     bindE (insert_row [(''payout_transitions_pkey'', \<lambda>a b. tr_id a = tr_id b)] transitions
        (\<lambda>rows d. d\<lparr>transitions := rows\<rparr>)
        (r\<lparr>tr_id := i, tr_gateway_data := encode_json (tr_gateway_data r), tr_created_at := t\<rparr>)) (\<lambda>_.
     succeed ())))"

definition transitions_of :: "string \<Rightarrow> ('g, transition list) routine" where
  "transitions_of payout_id = query (\<lambda>d. sort_key tr_created_at (sort_key tr_id
     (filter (\<lambda>r. tr_payout_id r = payout_id) (transitions d))))"

subsection \<open>The limits of an application\<close>

definition limits_for :: "string \<Rightarrow> ('g, limits) routine" where
  "limits_for a = catchE (query_row (\<lambda>d. map_option (\<lambda>x. \<lparr>lm_enabled = app_payout_enabled x,
       lm_requires_approval = app_payout_requires_approval x, lm_max_amount = app_payout_max_amount x,
       lm_daily_limit = app_payout_daily_limit x\<rparr>)
       (List.find (\<lambda>x. app_id x = a \<and> app_disabled_at x = None) (applications d))))
     (\<lambda>e. if is_not_found e then throw PayoutsDisabled else throw e) succeed"

definition limit_positive :: "int option \<Rightarrow> bool" where
  "limit_positive l = (case l of None \<Rightarrow> True | Some n \<Rightarrow> 0 < n)"

definition application_checks :: "application check list" where
  "application_checks =
     [(''applications_payout_daily_positive'', \<lambda>x. limit_positive (app_payout_daily_limit x)),
      (''applications_payout_max_positive'', \<lambda>x. limit_positive (app_payout_max_amount x))]"

definition with_limits :: "limits \<Rightarrow> time \<Rightarrow> application \<Rightarrow> application" where
  "with_limits l t x = x\<lparr>app_payout_enabled := lm_enabled l,
     app_payout_requires_approval := lm_requires_approval l, app_payout_max_amount := lm_max_amount l,
     app_payout_daily_limit := lm_daily_limit l, app_updated_at := t\<rparr>"

definition set_limits :: "string \<Rightarrow> limits \<Rightarrow> ('g, unit) routine" where
  "set_limits a l = bindE (gets now) (\<lambda>t.
     catchE (update_checked application_checks [] applications (\<lambda>rows d. d\<lparr>applications := rows\<rparr>)
         (\<lambda>x. app_id x = a) (with_limits l t))
       (\<lambda>e. if is_not_found e then succeed () else throw e) (\<lambda>_. succeed ()))"

subsection \<open>Beneficiaries\<close>

abbreviation set_beneficiaries :: "beneficiary list \<Rightarrow> db \<Rightarrow> db" where
  "set_beneficiaries rows d \<equiv> d\<lparr>beneficiaries := rows\<rparr>"

definition beneficiary_checks :: "beneficiary check list" where
  "beneficiary_checks =
     [(''beneficiaries_account_present'', \<lambda>b. bn_account b \<noteq> []),
      (''beneficiaries_alias_present'', \<lambda>b. bn_alias b \<noteq> []),
      (''beneficiaries_bank_present'', \<lambda>b. bn_bank b \<noteq> [])]"

definition beneficiary_constraints :: "beneficiary constraint list" where
  "beneficiary_constraints =
     [(''beneficiaries_pkey'', \<lambda>b x. bn_id b = bn_id x),
      (''beneficiaries_alias_key'', \<lambda>b x. bn_application_id b = bn_application_id x \<and>
         to_lower (bn_alias b) = to_lower (bn_alias x))]"

definition create_beneficiary :: "beneficiary \<Rightarrow> ('g, beneficiary) routine" where
  "create_beneficiary b =
     bindE (if bn_id b = [] then fresh_id ''ben'' else succeed (bn_id b)) (\<lambda>i.
     bindE (gets now) (\<lambda>t.
     catchE (insert_checked beneficiary_checks beneficiary_constraints beneficiaries set_beneficiaries
         (b\<lparr>bn_id := i, bn_verified_at := None, bn_verified_name := [], bn_disabled_at := None,
            bn_metadata := encode_json (bn_metadata b), bn_created_at := t, bn_updated_at := t\<rparr>))
       (\<lambda>e. if is_unique_violation e [''beneficiaries_alias_key''] then throw DuplicateAlias else throw e)
       succeed))"

definition beneficiary_where :: "(beneficiary \<Rightarrow> bool) \<Rightarrow> ('g, beneficiary) routine" where
  "beneficiary_where cond = catchE (query_row (\<lambda>d. List.find cond (beneficiaries d)))
     (\<lambda>e. if is_not_found e then throw BeneficiaryNotFound else throw e) succeed"

definition get_beneficiary :: "string \<Rightarrow> string \<Rightarrow> ('g, beneficiary) routine" where
  "get_beneficiary a i = beneficiary_where (\<lambda>b. bn_id b = i \<and> bn_application_id b = a)"

definition get_beneficiary_by_alias :: "string \<Rightarrow> string \<Rightarrow> ('g, beneficiary) routine" where
  "get_beneficiary_by_alias a name =
     beneficiary_where (\<lambda>b. bn_application_id b = a \<and> to_lower (bn_alias b) = to_lower name)"

definition list_beneficiaries :: "string \<Rightarrow> page \<Rightarrow> ('g, beneficiary listing) routine" where
  "list_beneficiaries a p = query (\<lambda>d. new_list (take (nat (fetch_limit p))
     (newest_first bn_created_at bn_id (filter (\<lambda>b. bn_application_id b = a) (beneficiaries d)))) p)"

record beneficiary_update =
  bu_name :: "string option"
  bu_account :: "string option"
  bu_bank :: "string option"
  bu_email :: "string option"
  bu_disabled :: "bool option"

definition updated_beneficiary :: "beneficiary_update \<Rightarrow> time \<Rightarrow> beneficiary \<Rightarrow> beneficiary" where
  "updated_beneficiary u t b = (let moved = bu_account u \<noteq> None \<or> bu_bank u \<noteq> None in b\<lparr>
     bn_name := coalesce (bu_name u) (bn_name b), bn_account := coalesce (bu_account u) (bn_account b),
     bn_bank := coalesce (bu_bank u) (bn_bank b), bn_email := coalesce (bu_email u) (bn_email b),
     bn_disabled_at := (case bu_disabled u of None \<Rightarrow> bn_disabled_at b
        | Some True \<Rightarrow> (case bn_disabled_at b of None \<Rightarrow> Some t | Some old \<Rightarrow> Some old)
        | Some False \<Rightarrow> None),
     bn_verified_at := (if moved then None else bn_verified_at b),
     bn_verified_name := (if moved then [] else bn_verified_name b), bn_updated_at := t\<rparr>)"

definition owned_beneficiary :: "string \<Rightarrow> string \<Rightarrow> beneficiary \<Rightarrow> bool" where
  "owned_beneficiary a i b \<longleftrightarrow> bn_id b = i \<and> bn_application_id b = a"

definition update_beneficiary :: "string \<Rightarrow> string \<Rightarrow> beneficiary_update \<Rightarrow> ('g, beneficiary) routine" where
  "update_beneficiary a i u = bindE (gets now) (\<lambda>t.
     catchE (update_checked beneficiary_checks [] beneficiaries set_beneficiaries
         (owned_beneficiary a i) (updated_beneficiary u t))
       (\<lambda>e. if is_not_found e then throw BeneficiaryNotFound else throw e) succeed)"

definition mark_beneficiary_verified :: "string \<Rightarrow> string \<Rightarrow> string \<Rightarrow> time \<Rightarrow> ('g, unit) routine" where
  "mark_beneficiary_verified a i name checked_at = bindE (gets now) (\<lambda>t.
     bindE (update_where beneficiaries set_beneficiaries (owned_beneficiary a i)
       (\<lambda>b. b\<lparr>bn_verified_at := Some checked_at, bn_verified_name := name, bn_updated_at := t\<rparr>)) (\<lambda>rows.
     if rows = [] then throw BeneficiaryNotFound else succeed ()))"

text \<open>\<open>DELETE\<close> with the foreign key of the payouts, which sets their reference to \<open>NULL\<close>.\<close>

definition remove_beneficiary :: "string \<Rightarrow> string \<Rightarrow> db \<Rightarrow> db" where
  "remove_beneficiary a i d =
     (if list_ex (owned_beneficiary a i) (beneficiaries d)
      then d\<lparr>beneficiaries := filter (\<lambda>b. \<not> owned_beneficiary a i b) (beneficiaries d),
             payouts := map (\<lambda>p. if po_beneficiary_id p = Some i then p\<lparr>po_beneficiary_id := None\<rparr> else p) (payouts d)\<rparr>
      else d)"

definition delete_beneficiary :: "string \<Rightarrow> string \<Rightarrow> ('g, unit) routine" where
  "delete_beneficiary a i =
     bindE (run_stmt (\<lambda>d. Inr (list_ex (owned_beneficiary a i) (beneficiaries d), remove_beneficiary a i d))) (\<lambda>found.
     if found then succeed () else throw BeneficiaryNotFound)"

end
