(* ===== verification/PayoutService.thy ===== *)
theory PayoutService
  imports Payout
begin

text \<open>
  \<open>internal/payout/service.go\<close> and \<open>payload.go\<close>: requesting, releasing and refusing payouts,
  handing them to the gateway and settling the ones whose outcome is open. The disbursement
  client is a parameter: a record of functions on the gateway's state \<open>'g\<close>, optional where the
  code asserts an interface. Metrics and logging are left out.
\<close>

subsection \<open>The disbursement gateway\<close>

record account_validation =
  av_account_name :: string
  av_account_number :: string
  av_raw :: "json option"

record balance =
  bl_amount :: int
  bl_currency :: string
  bl_raw :: "json option"

type_synonym bank = "string \<times> string"

record 'g disburser =
  dg_create :: "payout_request \<Rightarrow> ('g, error, payout_result) op"
  dg_get :: "string \<Rightarrow> ('g, error, payout_result) op"
  dg_approve :: "string list \<Rightarrow> string \<Rightarrow> ('g, error, unit) op"
  dg_reject :: "string list \<Rightarrow> string \<Rightarrow> ('g, error, unit) op"
  dg_validate :: "(string \<Rightarrow> string \<Rightarrow> ('g, error, account_validation) op) option"
  dg_balance :: "('g, error, balance) op option"
  dg_banks :: "('g, error, bank list) op option"

type_synonym 'g disbursement = "(account \<Rightarrow> error + 'g disburser) option"

definition client_for_account :: "'g disbursement \<Rightarrow> string \<Rightarrow> ('g, 'g disburser) routine" where
  "client_for_account mk i = bindE (account_get i) (\<lambda>a. case mk of
     None \<Rightarrow> throw PayoutsNotSupported | Some f \<Rightarrow> lift_result (f a))"

definition client_for :: "'g disbursement \<Rightarrow> payout \<Rightarrow> ('g, 'g disburser) routine" where
  "client_for mk p = client_for_account mk (po_gateway_account_id p)"

subsection \<open>Events\<close>

definition payout_payload :: "time \<Rightarrow> payout \<Rightarrow> etype \<Rightarrow> payload" where
  "payout_payload t p ty = zero_payload\<lparr>pl_type := ty, pl_gateway := po_gateway p,
     pl_application_id := po_application_id p, pl_payout_id := po_id p,
     pl_application_payout_id := po_application_payout_id p, pl_status := payout_status_text (po_status p),
     pl_gateway_status := po_gateway_status p, pl_amount := po_amount p, pl_currency := po_currency p,
     pl_beneficiary_name := po_beneficiary_name p, pl_beneficiary_account := po_beneficiary_account p,
     pl_beneficiary_bank := po_beneficiary_bank p, pl_notes := po_notes p,
     pl_failure_code := po_failure_code p, pl_failure_reason := po_failure_reason p,
     pl_reject_reason := po_reject_reason p, pl_completed_at := po_completed_at p, pl_created_at := t,
     pl_reference_no := coalesce (po_reference_no p) [],
     pl_metadata := (case po_metadata p of Some (JObj m) \<Rightarrow> m | _ \<Rightarrow> [])\<rparr>"

definition payout_event :: "time \<Rightarrow> payout \<Rightarrow> etype \<Rightarrow> event" where
  "payout_event t p ty = zero_event\<lparr>ev_application_id := po_application_id p, ev_type := ty,
     ev_gateway := po_gateway p, ev_payout_id := po_id p, ev_dedupe_key := payout_dedupe_key (po_id p) ty,
     ev_payload := payout_payload t p ty\<rparr>"

definition publish_payout :: "payout \<Rightarrow> etype \<Rightarrow> ('g, unit) routine" where
  "publish_payout p ty = bindE (gets now) (\<lambda>t. ignore_error (publish (payout_event t p ty)))"

subsection \<open>Moving a payout\<close>

definition transition_row :: "payout \<Rightarrow> payout_update \<Rightarrow> string \<Rightarrow> string \<Rightarrow> string \<Rightarrow> transition" where
  "transition_row p u actor actor_id reason = zero_transition\<lparr>tr_payout_id := po_id p,
     tr_from := Some (po_status p), tr_to := pu_status u, tr_actor_kind := actor, tr_actor_id := actor_id,
     tr_reason := reason, tr_gateway_data := pu_gateway_data u\<rparr>"

definition payout_transition :: "payout \<Rightarrow> payout_update \<Rightarrow> string \<Rightarrow> string \<Rightarrow> string \<Rightarrow> ('g, payout) routine" where
  "payout_transition p u actor actor_id reason = in_tx (
     bindE (payout_apply_state (po_id p) u) (\<lambda>updated.
     bindE (record_transition (transition_row p u actor actor_id reason)) (\<lambda>_. succeed updated)))"

subsection \<open>Requesting\<close>

record request_input =
  rq_application_id :: string
  rq_gateway_account_id :: string
  rq_gateway :: string
  rq_application_payout_id :: string
  rq_beneficiary_id :: string
  rq_beneficiary_alias :: string
  rq_amount :: int
  rq_currency :: string
  rq_notes :: string
  rq_metadata :: "json option"
  rq_requested_by :: string

definition find_request :: "request_input \<Rightarrow> ('g, payout option) routine" where
  "find_request ri = catchE (get_by_application_reference (rq_application_id ri) (rq_application_payout_id ri))
     (\<lambda>e. if e = PayoutNotFound then succeed None else throw e) (\<lambda>p. succeed (Some p))"

definition within_daily_limit :: "request_input \<Rightarrow> limits \<Rightarrow> ('g, unit) routine" where
  "within_daily_limit ri l = (case lm_daily_limit l of
     None \<Rightarrow> succeed ()
   | Some n \<Rightarrow> bindE (sent_today (rq_application_id ri)) (\<lambda>sent.
       if n < wrap64 (sent + rq_amount ri) then throw (ExceedsDailyLimit sent n) else succeed ()))"

definition resolve_beneficiary :: "request_input \<Rightarrow> ('g, beneficiary) routine" where
  "resolve_beneficiary ri =
     bindE (if rq_beneficiary_id ri \<noteq> [] then get_beneficiary (rq_application_id ri) (rq_beneficiary_id ri)
            else if rq_beneficiary_alias ri \<noteq> []
              then get_beneficiary_by_alias (rq_application_id ri) (rq_beneficiary_alias ri)
            else throw BeneficiaryNotFound) (\<lambda>b.
     if bn_usable b then succeed b else throw BeneficiaryDisabled)"

definition first_status :: "limits \<Rightarrow> payout_status" where
  "first_status l = (if lm_requires_approval l then Requested else Approved)"

definition new_payout :: "request_input \<Rightarrow> limits \<Rightarrow> beneficiary \<Rightarrow> payout" where
  "new_payout ri l b = zero_payout\<lparr>po_application_id := rq_application_id ri,
     po_gateway_account_id := rq_gateway_account_id ri, po_gateway := rq_gateway ri,
     po_application_payout_id := rq_application_payout_id ri, po_beneficiary_id := Some (bn_id b),
     po_beneficiary_name := bn_name b, po_beneficiary_account := bn_account b,
     po_beneficiary_bank := bn_bank b, po_beneficiary_email := bn_email b, po_amount := rq_amount ri,
     po_currency := to_upper (rq_currency ri), po_notes := rq_notes ri, po_status := first_status l,
     po_metadata := rq_metadata ri, po_requested_by := nullif (rq_requested_by ri)\<rparr>"

definition first_transition :: "request_input \<Rightarrow> payout \<Rightarrow> transition" where
  "first_transition ri p = zero_transition\<lparr>tr_payout_id := po_id p, tr_to := po_status p,
     tr_actor_kind := (if rq_requested_by ri = [] then ''application'' else ''admin''),
     tr_actor_id := rq_requested_by ri\<rparr>"

definition store_payout :: "request_input \<Rightarrow> payout \<Rightarrow> ('g, payout) routine" where
  "store_payout ri p = in_tx (
     bindE (payout_create p) (\<lambda>row.
     bindE (record_transition (first_transition ri row)) (\<lambda>_. succeed row)))"

definition announce_request :: "payout \<Rightarrow> ('g, payout) routine" where
  "announce_request p =
     bindE (publish_payout p EvPayoutRequested) (\<lambda>_.
     bindE (if po_status p = Approved then publish_payout p EvPayoutApproved else succeed ()) (\<lambda>_. succeed p))"

definition make_request :: "request_input \<Rightarrow> limits \<Rightarrow> ('g, payout) routine" where
  "make_request ri l =
     bindE (within_daily_limit ri l) (\<lambda>_.
     bindE (resolve_beneficiary ri) (\<lambda>b.
     bindE (store_payout ri (new_payout ri l b)) announce_request))"

definition request_payout :: "request_input \<Rightarrow> ('g, payout) routine" where
  "request_payout ri =
     (if rq_amount ri \<le> 0 then throw (OtherError ''payout: amount must be positive'')
      else if rq_application_payout_id ri = [] then throw (OtherError ''payout: a payout reference is required'')
      else
        bindE (limits_for (rq_application_id ri)) (\<lambda>l.
        if \<not> lm_enabled l then throw PayoutsDisabled
        else if (case lm_max_amount l of None \<Rightarrow> False | Some n \<Rightarrow> n < rq_amount ri)
          then throw (ExceedsMaxAmount (the (lm_max_amount l)))
        else bindE (find_request ri) (\<lambda>existing. case existing of
            Some p \<Rightarrow> succeed p
          | None \<Rightarrow> make_request ri l)))"

subsection \<open>Releasing and refusing\<close>

definition approve_payout :: "string \<Rightarrow> string \<Rightarrow> ('g, payout) routine" where
  "approve_payout i admin =
     bindE (payout_get i) (\<lambda>p.
     if \<not> needs_approval p then throw (NotPending (po_status p))
     else if po_requested_by p = Some admin then throw SelfApproval
     else
       bindE (payout_transition p ((no_update Approved)\<lparr>pu_approved_by := admin\<rparr>) ''admin'' admin []) (\<lambda>updated.
       bindE (publish_payout updated EvPayoutApproved) (\<lambda>_. succeed updated)))"

definition reject_payout :: "string \<Rightarrow> string \<Rightarrow> string \<Rightarrow> ('g, payout) routine" where
  "reject_payout i admin reason =
     bindE (payout_get i) (\<lambda>p.
     if \<not> needs_approval p then throw (NotPending (po_status p))
     else
       bindE (payout_transition p ((no_update Rejected)\<lparr>pu_rejected_by := admin, pu_reject_reason := reason\<rparr>)
         ''admin'' admin reason) (\<lambda>updated.
       bindE (publish_payout updated EvPayoutRejected) (\<lambda>_. succeed updated)))"

subsection \<open>Handing over\<close>

definition payout_call :: "payout \<Rightarrow> payout_request" where
  "payout_call p = \<lparr>pr_idempotency_key = po_idempotency_key p, pr_amount = po_amount p,
     pr_currency = po_currency p, pr_beneficiary_name = po_beneficiary_name p,
     pr_beneficiary_account = po_beneficiary_account p, pr_beneficiary_bank = po_beneficiary_bank p,
     pr_beneficiary_email = po_beneficiary_email p, pr_notes = po_notes p\<rparr>"

definition idempotency_window :: duration where "idempotency_window = 20 * hour"

definition outcome_unknown :: "error \<Rightarrow> bool" where
  "outcome_unknown e = (case e of OutcomeUnknown _ \<Rightarrow> True | _ \<Rightarrow> False)"

text \<open>With an unknown outcome the caller gets the payout and the error; the model keeps the error.\<close>

definition record_submission_failure :: "payout \<Rightarrow> error \<Rightarrow> ('g, payout) routine" where
  "record_submission_failure p e =
     (if outcome_unknown e
      then bindE (payout_transition p ((no_update Unresolved)\<lparr>pu_failure_reason := error_text e,
             pu_idempotency_expires_at := Some (po_created_at p + idempotency_window)\<rparr>)
             ''gateway'' [] ''outcome unknown'') (\<lambda>_. throw e)
      else bindE (payout_transition p ((no_update PayoutFailed)\<lparr>pu_failure_reason := error_text e\<rparr>)
             ''gateway'' [] ''rejected by the gateway'') (\<lambda>updated.
           bindE (publish_payout updated EvPayoutFailed) (\<lambda>_. succeed updated)))"

definition result_update :: "payout_result \<Rightarrow> payout_update" where
  "result_update r = \<lparr>pu_status = ps_status r, pu_gateway_status = ps_gateway_status r,
     pu_reference_no = ps_reference_no r, pu_failure_code = ps_failure_code r,
     pu_failure_reason = ps_failure_reason r, pu_gateway_data = ps_raw r, pu_approved_by = [],
     pu_rejected_by = [], pu_reject_reason = [], pu_idempotency_expires_at = None, pu_mark_synced = True\<rparr>"

definition apply_gateway_result :: "payout \<Rightarrow> payout_result \<Rightarrow> string \<Rightarrow> ('g, payout) routine" where
  "apply_gateway_result p r reason =
     (if \<not> payout_can_transition (po_status p) (ps_status r)
      then bindE (payout_touch_synced (po_id p)) (\<lambda>_. succeed p)
      else bindE (payout_transition p (result_update r) ''gateway'' [] reason) (\<lambda>updated.
           case type_for_payout_status (po_status updated) of
             None \<Rightarrow> succeed updated
           | Some ty \<Rightarrow> bindE (publish_payout updated ty) (\<lambda>_. succeed updated)))"

definition submit_payout :: "'g disbursement \<Rightarrow> string \<Rightarrow> ('g, payout) routine" where
  "submit_payout mk i =
     bindE (payout_get i) (\<lambda>p.
     if \<not> submittable p then throw (OtherError ''payout: not awaiting submission'')
     else bindE (client_for mk p) (\<lambda>c.
       catchE (call_out (dg_create c (payout_call p)))
         (record_submission_failure p) (\<lambda>r. apply_gateway_result p r [])))"

subsection \<open>Settling\<close>

definition touch :: "payout \<Rightarrow> ('g, payout) routine" where
  "touch p = bindE (payout_touch_synced (po_id p)) (\<lambda>_. succeed p)"

definition resolve_unknown :: "'g disbursement \<Rightarrow> payout \<Rightarrow> ('g, payout) routine" where
  "resolve_unknown mk p =
     bindE (gets now) (\<lambda>t.
     if \<not> recoverable t p then touch p
     else bindE (client_for mk p) (\<lambda>c.
       catchE (call_out (dg_create c (payout_call p)))
         (\<lambda>e. if outcome_unknown e then touch p else record_submission_failure p e)
         (\<lambda>r. apply_gateway_result p r ''resolved under the original idempotency key'')))"

definition read_back :: "'g disbursement \<Rightarrow> payout \<Rightarrow> ('g, payout) routine" where
  "read_back mk p = (case po_reference_no p of
     None \<Rightarrow> touch p
   | Some reference \<Rightarrow> bindE (client_for mk p) (\<lambda>c.
       catchE (call_out (dg_get c reference))
         (\<lambda>e. if e = GwPayoutNotFound then touch p else throw e)
         (\<lambda>r. apply_gateway_result p r ''reconciled'')))"

definition reconcile :: "'g disbursement \<Rightarrow> payout \<Rightarrow> ('g, payout) routine" where
  "reconcile mk p =
     (if po_status p = Approved then submit_payout mk (po_id p)
      else if po_status p = Submitted then read_back mk p
      else if po_status p = Unresolved then resolve_unknown mk p
      else succeed p)"

definition reconcile_one :: "'g disbursement \<Rightarrow> payout \<Rightarrow> ('g, int) routine" where
  "reconcile_one mk p = catchE (reconcile mk p)
     (\<lambda>e. succeed (if outcome_unknown e then 1 else 0)) (\<lambda>_. succeed 1)"

definition reconcile_batch :: "'g disbursement \<Rightarrow> int \<Rightarrow> duration \<Rightarrow> ('g, int) routine" where
  "reconcile_batch mk limit min_age =
     bindE (in_tx (claim_unsettled limit min_age)) (\<lambda>claimed.
     bindE (mapE (reconcile_one mk) claimed) (\<lambda>counts. succeed (sum_list counts)))"

subsection \<open>Beneficiaries, balances and reads\<close>

definition verify_beneficiary :: "'g disbursement \<Rightarrow> string \<Rightarrow> string \<Rightarrow> string \<Rightarrow> ('g, beneficiary) routine" where
  "verify_beneficiary mk a i account_id =
     bindE (get_beneficiary a i) (\<lambda>b.
     bindE (client_for_account mk account_id) (\<lambda>c. case dg_validate c of
       None \<Rightarrow> throw PayoutsNotSupported
     | Some validate \<Rightarrow>
         bindE (call_out (validate (bn_account b) (bn_bank b))) (\<lambda>r.
         bindE (gets now) (\<lambda>t.
         bindE (mark_beneficiary_verified a i (av_account_name r) t) (\<lambda>_. get_beneficiary a i)))))"

definition payout_balance :: "'g disbursement \<Rightarrow> string \<Rightarrow> ('g, balance) routine" where
  "payout_balance mk account_id = bindE (client_for_account mk account_id) (\<lambda>c.
     case dg_balance c of None \<Rightarrow> throw PayoutsNotSupported | Some call \<Rightarrow> call_out call)"

definition payout_banks :: "'g disbursement \<Rightarrow> string \<Rightarrow> ('g, bank list) routine" where
  "payout_banks mk account_id = bindE (client_for_account mk account_id) (\<lambda>c.
     case dg_banks c of None \<Rightarrow> throw PayoutsNotSupported | Some call \<Rightarrow> call_out call)"

definition service_get_payout :: "string \<Rightarrow> string \<Rightarrow> ('g, payout) routine" where
  "service_get_payout a i = (if a = [] then payout_get i else payout_get_for_application a i)"

definition service_list_payouts :: "payout_filter \<Rightarrow> page \<Rightarrow> ('g, payout listing) routine" where
  "service_list_payouts f p = payout_list f p"

definition service_transitions :: "string \<Rightarrow> ('g, transition list) routine" where
  "service_transitions i = transitions_of i"

end
