(* ===== verification/PayoutHistory.thy ===== *)
theory PayoutHistory
  imports PayoutService
begin

text \<open>
  What the payout operations keep true, under any failures of the database and whatever the
  gateway answers: a payout only moves on along its allow-list and keeps its destination, its
  history tells the moves it made, and the gateway is only asked for transfers that were released.
\<close>

subsection \<open>Payouts only move on\<close>

definition payout_follows :: "payout \<Rightarrow> payout \<Rightarrow> bool" where
  "payout_follows p q \<longleftrightarrow> po_id q = po_id p \<and> po_application_id q = po_application_id p \<and>
     po_application_payout_id q = po_application_payout_id p \<and>
     po_gateway_account_id q = po_gateway_account_id p \<and> payout_call q = payout_call p \<and>
     po_requested_by q = po_requested_by p \<and> po_created_at q = po_created_at p \<and>
     payout_machine.reaches (po_status p) (po_status q)"

lemma payout_follows_refl: "payout_follows p p"
  by (simp add: payout_follows_def payout_machine.reaches_refl)

lemma payout_follows_trans: "payout_follows p q \<Longrightarrow> payout_follows q r \<Longrightarrow> payout_follows p r"
  unfolding payout_follows_def by (auto intro: payout_machine.reaches_trans)

interpretation pays: row_evolution payouts "\<lambda>rows d. d\<lparr>payouts := rows\<rparr>" po_id payout_follows
  by unfold_locales (simp, rule payout_follows_refl, erule (1) payout_follows_trans, simp add: payout_follows_def)

lemma payout_follows_advanced:
  "po_status p \<in> set (payout_predecessors_of (pu_status u)) \<Longrightarrow> payout_follows p (payout_advanced u t p)"
  by (auto simp: payout_follows_def payout_advanced_def Let_def payout_call_def payout_machine.preds_iff
      intro: payout_machine.can_reaches)

lemma payout_follows_touched:
  "payout_follows p (p\<lparr>po_last_synced_at := t\<rparr>)" "payout_follows p (p\<lparr>po_beneficiary_id := b\<rparr>)"
  by (simp_all add: payout_follows_def payout_call_def payout_machine.reaches_refl)

lemma pays_apply_state: "pays.safe (payout_apply_state i u)"
  unfolding payout_apply_state_def
  by (intro pays.safe_intros pays.safe_update_checked pays.moves_on_map)
    (auto intro: payout_follows_advanced payout_follows_refl)

lemma pays_touch: "pays.safe (payout_touch_synced i)"
  unfolding payout_touch_synced_def
  by (intro pays.safe_intros pays.safe_exec pays.moves_on_map) (auto intro: payout_follows_touched payout_follows_refl)

lemma pays_record: "pays.safe (record_transition r)"
  unfolding record_transition_def
  by (intro pays.safe_intros pays.safe_insert_row pays.moves_on_same) simp

lemma pays_transition: "pays.safe (payout_transition p u a b c)"
  unfolding payout_transition_def by (intro pays.safe_intros pays_apply_state pays_record)

lemma pays_publish: "pays.safe (publish_payout p ty)"
  unfolding publish_payout_def
  by (intro pays.safe_intros pays.safe_weaken[OF announces_weaken])
    (auto simp: announce_rel_def intro: pays.moves_on_same)

lemma pays_get: "pays.safe (payout_get i)"
  unfolding payout_get_def payout_where_def by (intro pays.safe_intros)

lemma pays_client: "pays.safe (client_for mk p)" "pays.safe (client_for_account mk i)"
  unfolding client_for_def client_for_account_def account_get_def by (intro pays.safe_intros)+

lemma pays_result: "pays.safe (apply_gateway_result p r reason)"
  unfolding apply_gateway_result_def by (intro pays.safe_intros pays_touch pays_transition pays_publish)

lemma pays_failure: "pays.safe (record_submission_failure p e)"
  unfolding record_submission_failure_def by (intro pays.safe_intros pays_transition pays_publish)

lemma pays_submit: "pays.safe (submit_payout mk i)"
  unfolding submit_payout_def by (intro pays.safe_intros pays_get pays_client pays_result pays_failure)

lemma pays_reconcile: "pays.safe (reconcile mk p)"
  unfolding reconcile_def read_back_def resolve_unknown_def touch_def
  by (intro pays.safe_intros pays_submit pays_client pays_result pays_failure pays_touch)

lemma pays_batch: "pays.safe (reconcile_batch mk n t)"
  unfolding reconcile_batch_def reconcile_one_def claim_unsettled_def
  by (intro pays.safe_intros pays_reconcile)

lemma pays_approve: "pays.safe (approve_payout i a)"
  unfolding approve_payout_def by (intro pays.safe_intros pays_get pays_transition pays_publish)

lemma pays_reject: "pays.safe (reject_payout i a r)"
  unfolding reject_payout_def by (intro pays.safe_intros pays_get pays_transition pays_publish)

lemma pays_request: "pays.safe (request_payout ri)"
  unfolding request_payout_def limits_for_def find_request_def get_by_application_reference_def payout_where_def
    make_request_def within_daily_limit_def sent_today_def resolve_beneficiary_def get_beneficiary_def
    get_beneficiary_by_alias_def beneficiary_where_def store_payout_def payout_create_def announce_request_def
  by (intro pays.safe_intros pays_record pays_publish pays.safe_insert_checked pays.moves_on_append)

lemma pays_remove_beneficiary: "pays.moves_on d (remove_beneficiary a i d)"
proof -
  let ?f = "\<lambda>p. if po_beneficiary_id p = Some i then p\<lparr>po_beneficiary_id := None\<rparr> else p"
  let ?e = "set_beneficiaries (filter (\<lambda>b. \<not> owned_beneficiary a i b) (beneficiaries d)) d"
  have "pays.moves_on d ?e" by (rule pays.moves_on_same) simp
  moreover have "pays.moves_on ?e (set_payouts (map ?f (payouts ?e)) ?e)"
    by (rule pays.moves_on_map) (simp add: payout_follows_touched payout_follows_refl)
  ultimately have "pays.moves_on d (set_payouts (map ?f (payouts ?e)) ?e)" by (rule pays.D_trans)
  then show ?thesis by (simp add: remove_beneficiary_def pays.D_refl)
qed

lemma pays_delete_beneficiary: "pays.safe (delete_beneficiary a i)"
  unfolding delete_beneficiary_def
  by (intro pays.safe_intros pays.safe_run_stmt) (auto intro: pays_remove_beneficiary)

definition stored_payout :: "string \<Rightarrow> db \<Rightarrow> payout option" where
  "stored_payout i d = List.find (\<lambda>p. po_id p = i) (payouts d)"

lemma pays_run:
  "pays.safe m \<Longrightarrow> stored_payout i (db w) = Some p \<Longrightarrow>
   \<exists>q. stored_payout i (db (snd (m w))) = Some q \<and> payout_follows p q"
  using pays.safe_db[of m w] by (simp add: pays.moves_on_def pays.lookup_def stored_payout_def)

text \<open>C32. Whatever operation runs and whichever statements fail, a payout stays the transfer it was
  requested as: same key, amount, destination and requester, in a status reachable from the one
  it had. Deleting its beneficiary does not change where it goes.\<close>

theorem payouts_only_advance:
  fixes w :: "'g world"
  assumes "stored_payout i (db w) = Some p"
  shows "list_all (\<lambda>m. \<exists>q. stored_payout i (db (snd (m w))) = Some q \<and> payout_follows p q)
      [request_payout ri, approve_payout j admin, reject_payout j admin reason, submit_payout mk j, reconcile mk r] \<and>
    (\<exists>q. stored_payout i (db (snd (reconcile_batch mk n age w))) = Some q \<and> payout_follows p q) \<and>
    (\<exists>q. stored_payout i (db (snd (delete_beneficiary a b w))) = Some q \<and> payout_follows p q)"
  using pays_run[OF pays_request assms] pays_run[OF pays_approve assms] pays_run[OF pays_reject assms]
    pays_run[OF pays_submit assms] pays_run[OF pays_reconcile assms] pays_run[OF pays_batch assms]
    pays_run[OF pays_delete_beneficiary assms] by simp

theorem payouts_only_advance_witness:
  "let w = quiet_world (empty_db\<lparr>payouts := [zero_payout\<lparr>po_id := ''pyo_1'', po_status := Requested\<rparr>]\<rparr>) ()
   in \<exists>q. stored_payout ''pyo_1'' (db (snd (approve_payout ''pyo_1'' ''adm_1'' w))) = Some q \<and>
        payout_follows (zero_payout\<lparr>po_id := ''pyo_1'', po_status := Requested\<rparr>) q"
proof -
  let ?p = "zero_payout\<lparr>po_id := ''pyo_1'', po_status := Requested\<rparr>"
  let ?w = "quiet_world (empty_db\<lparr>payouts := [?p]\<rparr>) ()"
  have "stored_payout ''pyo_1'' (db ?w) = Some ?p" by (simp add: stored_payout_def)
  from payouts_only_advance[OF this] show ?thesis by (simp add: Let_def)
qed

subsection \<open>The history of a payout\<close>

definition trail :: "string \<Rightarrow> db \<Rightarrow> payout_status list" where
  "trail i d = map tr_to (filter (\<lambda>r. tr_payout_id r = i) (transitions d))"

definition tells :: "payout_status list \<Rightarrow> payout_status \<Rightarrow> bool" where
  "tells hs s \<longleftrightarrow> hs \<noteq> [] \<and> hd hs \<in> {Requested, Approved} \<and> last hs = s \<and> successively payout_can_transition hs"

definition history_ok :: "db \<Rightarrow> bool" where
  "history_ok d \<longleftrightarrow> distinct (map po_id (payouts d)) \<and>
     (\<forall>r \<in> set (transitions d). tr_payout_id r \<in> po_id ` set (payouts d)) \<and>
     (\<forall>p \<in> set (payouts d). tells (trail (po_id p) d) (po_status p))"

definition history_rel :: "db \<Rightarrow> db \<Rightarrow> bool" where
  "history_rel d e \<longleftrightarrow> (history_ok d \<longrightarrow> history_ok e)"

interpretation hist: db_evolution history_rel
  by unfold_locales (auto simp: history_rel_def)

definition kept :: "'g world \<Rightarrow> bool" where
  "kept w \<longleftrightarrow> txn w = None \<and> history_ok (db w)"

lemma kept_of_hist:
  fixes m :: "('g, 'a) routine"
  assumes "hist.safe m" shows "keeps.evolves kept m"
proof (rule keeps.evolvesI)
  fix w :: "'g world"
  have "hist.R w (snd (m w))" using assms by (simp add: hist.ev.evolves_def)
  then show "keeps_rel kept w (snd (m w))" by (auto simp: hist.R_def keeps_rel_def kept_def history_rel_def)
qed

lemma history_rel_same:
  "payouts e = payouts d \<Longrightarrow> transitions e = transitions d \<Longrightarrow> history_rel d e"
  by (simp add: history_rel_def history_ok_def trail_def)

lemma history_rel_map:
  "(\<And>p. po_id (f p) = po_id p \<and> po_status (f p) = po_status p) \<Longrightarrow>
   history_rel d (set_payouts (map f (payouts d)) d)"
  by (auto simp: history_rel_def history_ok_def trail_def comp_def image_image)

lemma hist_touch: "hist.safe (payout_touch_synced i)"
  unfolding payout_touch_synced_def
  by (intro hist.safe_intros hist.safe_exec history_rel_map) simp

lemma hist_publish: "hist.safe (publish_payout p ty)"
  unfolding publish_payout_def
  by (intro hist.safe_intros hist.safe_weaken[OF announces_weaken])
    (auto simp: announce_rel_def intro: history_rel_same)

lemma record_transition_Inr:
  assumes "record_transition r w = (Inr x, v)"
  shows "\<exists>r'. tr_payout_id r' = tr_payout_id r \<and> tr_to r' = tr_to r \<and>
    db v = (db w)\<lparr>transitions := transitions (db w) @ [r']\<rparr>"
proof -
  obtain i u where i: "(if tr_id r = [] then fresh_id ''trn'' else succeed (tr_id r)) w = (Inr i, u)" "db u = db w"
    by (cases "tr_id r = []") (simp_all add: fresh_id_def succeed_def)
  let ?row = "r\<lparr>tr_id := i, tr_gateway_data := encode_json (tr_gateway_data r), tr_created_at := now u\<rparr>"
  let ?ins = "insert_row [(''payout_transitions_pkey'', \<lambda>a b. tr_id a = tr_id b)] transitions
      (\<lambda>rows d. d\<lparr>transitions := rows\<rparr>) ?row"
  obtain s v' where ins: "?ins u = (s, v')" by fastforce
  have "s = Inr ?row \<and> v' = v"
    using assms i ins insert_row_Inr[of _ transitions _ ?row u]
    by (cases s) (auto simp: record_transition_def bindE_run gets_def succeed_def dest: insert_row_Inr)
  then show ?thesis using insert_row_Inr[of _ transitions _ ?row u ?row v] ins i(2)
    by (intro exI[of _ ?row]) simp
qed

lemma tells_append: "tells hs s \<Longrightarrow> payout_can_transition s t \<Longrightarrow> tells (hs @ [t]) t"
  by (auto simp: tells_def successively_append_iff)

lemma trail_append: "trail i (d\<lparr>transitions := transitions d @ [r]\<rparr>) = trail i d @ (if tr_payout_id r = i then [tr_to r] else [])"
  by (simp add: trail_def)

lemma history_advanced:
  assumes ok: "history_ok d" and r: "tr_payout_id r = i" "tr_to r = pu_status u"
    and some: "filter (\<lambda>p. po_id p = i \<and> po_status p \<in> set (payout_predecessors_of (pu_status u))) (payouts d) = x # xs"
  shows "history_ok (d\<lparr>payouts := map (\<lambda>p. if po_id p = i \<and> po_status p \<in> set (payout_predecessors_of (pu_status u))
      then payout_advanced u t p else p) (payouts d), transitions := transitions d @ [r]\<rparr>)"
proof -
  let ?c = "\<lambda>p. po_id p = i \<and> po_status p \<in> set (payout_predecessors_of (pu_status u))"
  let ?f = "\<lambda>p. if ?c p then payout_advanced u t p else p"
  have x: "x \<in> set (payouts d)" "?c x" using some by (auto simp: filter_eq_Cons_iff)
  have only: "?c p" if "p \<in> set (payouts d)" "po_id p = i" for p
    using inj_onD[of po_id "set (payouts d)" p x] that x ok by (simp add: history_ok_def distinct_map)
  have ids: "po_id (?f p) = po_id p" for p by (simp add: payout_advanced_def Let_def)
  have told: "tells (trail (po_id p) d @ (if i = po_id p then [pu_status u] else [])) (po_status (?f p))"
    if p: "p \<in> set (payouts d)" for p
  proof (cases "po_id p = i")
    case True
    then have "?c p" using only p by blast
    moreover have "tells (trail i d) (po_status p)" using ok p True by (auto simp: history_ok_def)
    ultimately show ?thesis
      using tells_append[of "trail i d" "po_status p" "pu_status u"]
      by (simp add: payout_machine.preds_iff payout_advanced_def Let_def)
  next
    case False
    then show ?thesis using ok p by (simp add: history_ok_def)
  qed
  let ?e = "d\<lparr>payouts := map ?f (payouts d), transitions := transitions d @ [r]\<rparr>"
  have rows: "payouts ?e = map ?f (payouts d)" "transitions ?e = transitions d @ [r]" by simp_all
  have trails: "trail j ?e = trail j d @ (if i = j then [pu_status u] else [])" for j
    using r by (simp add: trail_def)
  have same: "map po_id (payouts ?e) = map po_id (payouts d)" using ids by simp
  then have set: "po_id ` set (payouts ?e) = po_id ` set (payouts d)" by (metis set_map)
  show ?thesis
    unfolding history_ok_def same set
  proof (intro conjI ballI)
    show "distinct (map po_id (payouts d))" using ok by (simp add: history_ok_def)
    show "tr_payout_id y \<in> po_id ` set (payouts d)" if "y \<in> set (transitions ?e)" for y
    proof -
      have "i \<in> po_id ` set (payouts d)" using x by force
      then show ?thesis using that ok r(1) by (auto simp: history_ok_def)
    qed
    show "tells (trail (po_id q) ?e) (po_status q)" if "q \<in> set (payouts ?e)" for q
    proof -
      have "q \<in> ?f ` set (payouts d)" using that unfolding rows set_map .
      then obtain p where "p \<in> set (payouts d)" "q = ?f p" by (rule imageE)
      then show ?thesis using told[of p] by (simp only: trails ids)
    qed
  qed
qed

lemma payout_apply_state_Inr:
  assumes "payout_apply_state i u w = (Inr q, v)"
  shows "\<exists>t x xs. filter (\<lambda>p. po_id p = i \<and> po_status p \<in> set (payout_predecessors_of (pu_status u))) (payouts (db w)) = x # xs \<and>
    q = payout_advanced u t x \<and>
    db v = set_payouts (map (\<lambda>p. if po_id p = i \<and> po_status p \<in> set (payout_predecessors_of (pu_status u))
      then payout_advanced u t p else p) (payouts (db w))) (db w) \<and> same_context w v"
proof -
  have "update_checked payout_checks payout_constraints payouts set_payouts
      (\<lambda>p. po_id p = i \<and> po_status p \<in> set (payout_predecessors_of (pu_status u))) (payout_advanced u (now w)) w = (Inr q, v)"
    using assms by (auto simp: payout_apply_state_def bindE_run gets_def catchE_def throw_def succeed_def
        split: if_splits prod.splits sum.splits)
  from update_checked_Inr[OF this] show ?thesis by blast
qed

lemma keeps_transition: "keeps.evolves kept (payout_transition p u actor j reason)"
proof (rule keeps.evolvesI)
  fix w :: "'g world"
  obtain r v where run: "payout_transition p u actor j reason w = (r, v)" by fastforce
  show "keeps_rel kept w (snd (payout_transition p u actor j reason w))"
  proof (cases "kept w")
    case True
    then have "txn w = None" by (simp add: kept_def)
    from run[unfolded payout_transition_def] this show ?thesis
    proof (cases rule: in_tx_cases)
      case (failed e)
      then show ?thesis using True run by (simp add: keeps_rel_def kept_def)
    next
      case (committed q w1 w2)
      obtain q' u1 where a: "payout_apply_state (po_id p) u w1 = (Inr q', u1)"
          and r: "bindE (record_transition (transition_row p u actor j reason)) (\<lambda>_. succeed q') u1 = (Inr q, w2)"
        using committed(2) by (rule bindE_Inr_E)
      obtain x where rec: "record_transition (transition_row p u actor j reason) u1 = (Inr x, w2)"
        using r by (auto elim!: bindE_Inr_E simp: succeed_def)
      obtain row where row: "tr_payout_id row = po_id p" "tr_to row = pu_status u"
          "db w2 = (db u1)\<lparr>transitions := transitions (db u1) @ [row]\<rparr>"
        using record_transition_Inr[OF rec] by (auto simp: transition_row_def)
      have "history_ok (db w1)" using True committed by (simp add: kept_def)
      then have "history_ok (db w2)"
        using payout_apply_state_Inr[OF a] history_advanced[OF _ row(1,2)] row(3) by auto
      then show ?thesis using run committed by (simp add: keeps_rel_def kept_def)
    qed
  qed (simp add: keeps_rel_def)
qed

lemma payout_create_Inr:
  assumes "payout_create p w = (Inr row, v)"
  shows "payouts (db v) = payouts (db w) @ [row] \<and> transitions (db v) = transitions (db w) \<and>
    po_status row = po_status p \<and> po_id row \<notin> po_id ` set (payouts (db w)) \<and> po_amount row = po_amount p \<and>
    po_application_id row = po_application_id p"
proof -
  obtain i u where i: "(if po_id p = [] then fresh_id ''pyo'' else succeed (po_id p)) w = (Inr i, u)" "db u = db w"
    by (cases "po_id p = []") (simp_all add: fresh_id_def succeed_def)
  let ?row = "payout_row (now u) (p\<lparr>po_id := i, po_idempotency_key :=
      (if po_idempotency_key p = [] then i else po_idempotency_key p)\<rparr>)"
  have "insert_checked payout_checks payout_constraints payouts set_payouts ?row u = (Inr row, v)"
    using assms i by (auto simp: payout_create_def bindE_run gets_def catchE_def throw_def succeed_def
        split: if_splits prod.splits sum.splits)
  from insert_checked_Inr[OF this] show ?thesis
    using i(2) by (auto simp: violated_None payout_constraints_def payout_row_def)
qed

lemma history_created:
  assumes ok: "history_ok d" and new: "po_id p \<notin> po_id ` set (payouts d)" "po_status p \<in> {Requested, Approved}"
    and r: "tr_payout_id r = po_id p" "tr_to r = po_status p"
    and e: "payouts e = payouts d @ [p]" "transitions e = transitions d @ [r]"
  shows "history_ok e"
proof -
  have trails: "trail j e = trail j d @ (if po_id p = j then [po_status p] else [])" for j
    using r by (simp add: trail_def e(2))
  have "tr_payout_id x \<noteq> po_id p" if "x \<in> set (transitions d)" for x
  proof -
    have "tr_payout_id x \<in> po_id ` set (payouts d)" using ok that by (simp add: history_ok_def)
    then show ?thesis using new(1) by metis
  qed
  then have empty: "trail (po_id p) d = []" by (simp add: trail_def filter_empty_conv)
  have "tells (trail (po_id q) e) (po_status q)" if q: "q \<in> set (payouts e)" for q
  proof (cases "q = p")
    case True
    then show ?thesis using empty new(2) by (auto simp: trails tells_def)
  next
    case False
    then have "q \<in> set (payouts d)" using q by (simp add: e(1))
    moreover from this have "po_id p \<noteq> po_id q" using new(1) by (metis imageI)
    ultimately show ?thesis using ok by (simp add: trails history_ok_def)
  qed
  then show ?thesis using ok new(1) r(1) by (auto simp: history_ok_def e)
qed

lemma keeps_store:
  assumes "po_status p \<in> {Requested, Approved}"
  shows "keeps.evolves kept (store_payout ri p)"
proof (rule keeps.evolvesI)
  fix w :: "'g world"
  obtain r v where run: "store_payout ri p w = (r, v)" by fastforce
  show "keeps_rel kept w (snd (store_payout ri p w))"
  proof (cases "kept w")
    case True
    then have "txn w = None" by (simp add: kept_def)
    from run[unfolded store_payout_def] this show ?thesis
    proof (cases rule: in_tx_cases)
      case (failed e)
      then show ?thesis using True run by (simp add: keeps_rel_def kept_def)
    next
      case (committed q w1 w2)
      obtain row u1 where a: "payout_create p w1 = (Inr row, u1)"
          and r: "bindE (record_transition (first_transition ri row)) (\<lambda>_. succeed row) u1 = (Inr q, w2)"
        using committed(2) by (rule bindE_Inr_E)
      obtain x where rec: "record_transition (first_transition ri row) u1 = (Inr x, w2)"
        using r by (auto elim!: bindE_Inr_E simp: succeed_def)
      obtain tr where tr: "tr_payout_id tr = po_id row" "tr_to tr = po_status row"
          "db w2 = (db u1)\<lparr>transitions := transitions (db u1) @ [tr]\<rparr>"
        using record_transition_Inr[OF rec] by (auto simp: first_transition_def)
      have "history_ok (db w1)" using True committed by (simp add: kept_def)
      then have "history_ok (db w2)"
        using payout_create_Inr[OF a] history_created[OF _ _ _ tr(1,2), of "db w1" "db w2"] assms tr(3) by auto
      then show ?thesis using run committed by (simp add: keeps_rel_def kept_def)
    qed
  qed (simp add: keeps_rel_def)
qed

lemmas keeps_intros = keeps.evolves_intros[where I = kept] keeps_transition kept_of_hist[OF hist_touch] kept_of_hist[OF hist_publish]

lemma kept_reads:
  "keeps.evolves kept (payout_get i)" "keeps.evolves kept (client_for mk p)" "keeps.evolves kept (call_out f)"
  "keeps.evolves kept (limits_for a)" "keeps.evolves kept (find_request ri)"
  "keeps.evolves kept (within_daily_limit ri l)" "keeps.evolves kept (resolve_beneficiary ri)"
  "keeps.evolves kept (in_tx (claim_unsettled n t))"
  unfolding payout_get_def payout_where_def client_for_def client_for_account_def account_get_def limits_for_def
    find_request_def get_by_application_reference_def within_daily_limit_def sent_today_def resolve_beneficiary_def
    get_beneficiary_def get_beneficiary_by_alias_def beneficiary_where_def claim_unsettled_def
  by (rule kept_of_hist, intro hist.safe_intros)+

lemma keeps_result: "keeps.evolves kept (apply_gateway_result p r reason)"
  unfolding apply_gateway_result_def by (intro keeps_intros)

lemma keeps_failure: "keeps.evolves kept (record_submission_failure p e)"
  unfolding record_submission_failure_def by (intro keeps_intros)

lemma keeps_submit: "keeps.evolves kept (submit_payout mk i)"
  unfolding submit_payout_def by (intro keeps_intros kept_reads keeps_result keeps_failure)

lemma keeps_reconcile: "keeps.evolves kept (reconcile mk p)"
  unfolding reconcile_def read_back_def resolve_unknown_def touch_def
  by (intro keeps_intros kept_reads keeps_submit keeps_result keeps_failure)

lemma keeps_batch: "keeps.evolves kept (reconcile_batch mk n t)"
  unfolding reconcile_batch_def reconcile_one_def by (intro keeps_intros kept_reads keeps_reconcile)

lemma keeps_approve: "keeps.evolves kept (approve_payout i a)"
  unfolding approve_payout_def by (intro keeps_intros kept_reads)

lemma keeps_reject: "keeps.evolves kept (reject_payout i a r)"
  unfolding reject_payout_def by (intro keeps_intros kept_reads)

lemma keeps_request: "keeps.evolves kept (request_payout ri)"
  unfolding request_payout_def make_request_def announce_request_def
  by (intro keeps_intros kept_reads keeps_store) (simp add: new_payout_def first_status_def)

lemma ascent_length:
  "successively payout_can_transition hs \<Longrightarrow> hs \<noteq> [] \<Longrightarrow> payout_depth (hd hs) + length hs \<le> Suc (payout_depth (last hs))"
proof (induction hs)
  case (Cons s hs)
  then show ?case
    using payout_depth_increases[of s "hd hs"] by (cases hs) (auto simp: successively_Cons)
qed simp

lemma tells_short: "tells hs s \<Longrightarrow> length hs \<le> 5"
proof -
  assume "tells hs s"
  then have "length hs \<le> Suc (payout_depth (last hs))"
    using ascent_length[of hs] by (auto simp: tells_def)
  moreover have "payout_depth t \<le> 4" for t by (cases t) simp_all
  ultimately show ?thesis by (metis Suc_le_mono dual_order.trans eval_nat_numeral(3) numeral_code(2) numeral_eq_Suc pred_numeral_simps(3))
qed

definition tracked :: "db \<Rightarrow> bool" where
  "tracked d \<longleftrightarrow> history_ok d \<and> (\<forall>p \<in> set (payouts d). length (trail (po_id p) d) \<le> 5)"

lemma kept_run:
  fixes w :: "'g world"
  assumes "keeps.evolves kept m" "history_ok (db w)" "txn w = None"
  shows "tracked (db (snd (m w)))"
proof -
  have "keeps_rel kept w (snd (m w))" using assms(1) by (simp add: keeps.evolves_def)
  then have "history_ok (db (snd (m w)))" using assms(2,3) by (simp add: keeps_rel_def kept_def)
  then show ?thesis using tells_short by (auto simp: tracked_def history_ok_def)
qed

text \<open>C33. The history of a payout tells every move it made, in order and without gaps, from the
  status it was created in to the one it has, under any failures; so a payout settles after at
  most four moves, whatever is attempted on it and however often.\<close>

theorem payout_history_tells:
  fixes w :: "'g world"
  assumes "history_ok (db w)" "txn w = None"
  shows "list_all (\<lambda>m. tracked (db (snd (m w))))
      [request_payout ri, approve_payout i admin, reject_payout i admin reason, submit_payout mk i, reconcile mk p] \<and>
    tracked (db (snd (reconcile_batch mk n age w)))"
  using kept_run[OF keeps_request assms] kept_run[OF keeps_approve assms] kept_run[OF keeps_reject assms]
    kept_run[OF keeps_submit assms] kept_run[OF keeps_reconcile assms] kept_run[OF keeps_batch assms] by simp

theorem payout_history_tells_witness:
  "let p = zero_payout\<lparr>po_id := ''pyo_1'', po_amount := 5, po_status := Requested\<rparr>;
       r = zero_transition\<lparr>tr_payout_id := ''pyo_1'', tr_to := Requested\<rparr>;
       w = quiet_world (empty_db\<lparr>payouts := [p], transitions := [r]\<rparr>) ();
       v = snd (approve_payout ''pyo_1'' ''adm_1'' w)
   in tracked (db v)"
proof -
  let ?p = "zero_payout\<lparr>po_id := ''pyo_1'', po_amount := 5, po_status := Requested\<rparr>"
  let ?r = "zero_transition\<lparr>tr_payout_id := ''pyo_1'', tr_to := Requested\<rparr>"
  have "history_ok (db (quiet_world (empty_db\<lparr>payouts := [?p], transitions := [?r]\<rparr>) ()))"
    by (simp add: history_ok_def trail_def tells_def)
  from payout_history_tells[OF this] show ?thesis by (simp add: Let_def)
qed

subsection \<open>Transfers are released payouts\<close>

definition grow_rel :: "db \<Rightarrow> db \<Rightarrow> bool" where
  "grow_rel d e \<longleftrightarrow> (\<exists>rows. transitions e = transitions d @ rows)"

interpretation grow: db_evolution grow_rel
  by unfold_locales (auto simp: grow_rel_def)

lemma grow_trail: "grow_rel d e \<Longrightarrow> set (trail i d) \<subseteq> set (trail i e)"
  by (auto simp: grow_rel_def trail_def)

text \<open>The contract with the gateway: it makes no transfer but those it is asked to create.\<close>

definition sends_as_told :: "('g \<Rightarrow> payout_request set) \<Rightarrow> 'g disburser \<Rightarrow> bool" where
  "sends_as_told sent c \<longleftrightarrow> (\<forall>req x. sent (snd (dg_create c req x)) \<subseteq> insert req (sent x)) \<and>
     (\<forall>r x. sent (snd (dg_get c r x)) \<subseteq> sent x)"

definition released_call :: "payout_request \<Rightarrow> db \<Rightarrow> bool" where
  "released_call req d \<longleftrightarrow> (\<exists>p \<in> set (payouts d). payout_call p = req \<and> Approved \<in> set (trail (po_id p) d))"

text \<open>Every transfer the gateway made is a payout that was approved; and the payouts a caller holds
  are still stored, the ones it may send approved.\<close>

definition accounted :: "('g \<Rightarrow> payout_request set) \<Rightarrow> payout list \<Rightarrow> 'g world \<Rightarrow> bool" where
  "accounted sent held w \<longleftrightarrow> kept w \<and> (\<forall>req \<in> sent (ext w). released_call req (db w)) \<and>
     (\<forall>p \<in> set held. po_status p = Approved \<or> po_status p = Unresolved \<longrightarrow> released_call (payout_call p) (db w))"

lemma released_call_later:
  assumes "history_ok d" "pays.moves_on d e" "grow_rel d e" "released_call req d"
  shows "released_call req e"
proof -
  obtain p where p: "p \<in> set (payouts d)" "payout_call p = req" "Approved \<in> set (trail (po_id p) d)"
    using assms(4) by (auto simp: released_call_def)
  have "pays.lookup (po_id p) d = Some p" using pays.lookup_unique p(1) assms(1) by (simp add: history_ok_def)
  then obtain q where q: "pays.lookup (po_id p) e = Some q" "payout_follows p q"
    using assms(2) by (auto simp: pays.moves_on_def)
  then have "q \<in> set (payouts e)" "po_id q = po_id p" "payout_call q = payout_call p"
    using pays.lookup_member by (auto simp: payout_follows_def)
  moreover have "Approved \<in> set (trail (po_id p) e)" using p(3) grow_trail[OF assms(3), of "po_id p"] by auto
  ultimately show ?thesis using p(2) unfolding released_call_def by metis
qed

lemma accounted_quiet:
  fixes m :: "('g, 'a) routine"
  assumes "keeps.evolves kept m" "inert.evolves m" "pays.safe m" "grow.safe m"
  shows "keeps.evolves (accounted sent held) m"
proof (rule keeps.evolvesI)
  fix w :: "'g world"
  have h: "keeps_rel kept w (snd (m w))" "inert_rel w (snd (m w))" "pays.moves_on (db w) (db (snd (m w)))"
      "grow_rel (db w) (db (snd (m w)))"
    using assms pays.safe_db grow.safe_db by (auto simp: keeps.evolves_def inert.evolves_def)
  show "keeps_rel (accounted sent held) w (snd (m w))"
    using h released_call_later[OF _ h(3,4)] by (auto simp: keeps_rel_def accounted_def inert_rel_def kept_def)
qed

lemma grow_record: "grow.safe (record_transition r)"
  unfolding record_transition_def
  by (intro grow.safe_intros grow.safe_insert_row) (simp add: grow_rel_def)

lemma grow_same: "transitions e = transitions d \<Longrightarrow> grow_rel d e"
  by (simp add: grow_rel_def)

lemma grow_moves: "grow.safe (payout_transition p u a b c)" "grow.safe (payout_touch_synced i)"
  "grow.safe (publish_payout q ty)"
  unfolding payout_transition_def payout_apply_state_def payout_touch_synced_def publish_payout_def
  by (intro grow.safe_intros grow_record grow.safe_update_checked grow.safe_exec grow_same
      grow.safe_weaken[OF announces_weaken], auto simp: announce_rel_def grow_rel_def)+

lemma inert_moves: "inert.evolves (payout_transition p u a b c)" "inert.evolves (payout_touch_synced i)"
  "inert.evolves (publish_payout q ty)"
  unfolding payout_transition_def payout_apply_state_def record_transition_def payout_touch_synced_def publish_payout_def
  by (intro inert_intros inert_publish)+

lemma accounted_moves:
  "keeps.evolves (accounted sent held) (payout_transition p u a b c)"
  "keeps.evolves (accounted sent held) (payout_touch_synced i)"
  "keeps.evolves (accounted sent held) (publish_payout q ty)"
  by (intro accounted_quiet keeps_transition kept_of_hist hist_touch hist_publish inert_moves pays_transition
      pays_touch pays_publish grow_moves)+


lemma tells_unreleased:
  "successively payout_can_transition hs \<Longrightarrow> hs \<noteq> [] \<Longrightarrow> \<not> released (hd hs) \<Longrightarrow> Approved \<notin> set hs \<Longrightarrow>
   \<not> released (last hs)"
proof (induction hs)
  case (Cons s hs)
  then show ?case using unreleased_step[of s "hd hs"] by (cases hs) (auto simp: successively_Cons)
qed simp

lemma tells_released: "tells hs s \<Longrightarrow> s \<in> {Approved, Unresolved} \<Longrightarrow> Approved \<in> set hs"
  using tells_unreleased[of hs] by (cases hs) (auto simp: tells_def released_def)

lemma released_row:
  assumes "history_ok d" "p \<in> set (payouts d)" "po_status p \<in> {Approved, Unresolved}"
  shows "released_call (payout_call p) d"
  using assms tells_released[of "trail (po_id p) d" "po_status p"] by (auto simp: released_call_def history_ok_def)

lemma accounted_read:
  fixes m :: "('g, 'a) routine"
  assumes "\<And>w r (v :: 'g world). m w = (r, v) \<Longrightarrow> db v = db w \<and> ext v = ext w \<and> (txn w = None \<longrightarrow> txn v = None)"
  shows "keeps.evolves (accounted sent held) m"
proof (rule keeps.evolvesI)
  fix w :: "'g world"
  show "keeps_rel (accounted sent held) w (snd (m w))"
    using assms[of w "fst (m w)" "snd (m w)"] by (auto simp: keeps_rel_def accounted_def kept_def)
qed

lemma accounted_create:
  fixes c :: "'g disburser"
  assumes "sends_as_told sent c" "p \<in> set held" "po_status p \<in> {Approved, Unresolved}"
  shows "keeps.evolves (accounted sent held) (call_out (dg_create c (payout_call p)))"
proof (rule keeps.evolvesI)
  fix w :: "'g world"
  have "sent (snd (dg_create c (payout_call p) (ext w))) \<subseteq> insert (payout_call p) (sent (ext w))"
    using assms(1) by (simp add: sends_as_told_def)
  then show "keeps_rel (accounted sent held) w (snd (call_out (dg_create c (payout_call p)) w))"
    using assms(2,3) by (auto simp: keeps_rel_def accounted_def kept_def call_out_def split: prod.splits)
qed

lemma accounted_get:
  fixes c :: "'g disburser"
  assumes "sends_as_told sent c"
  shows "keeps.evolves (accounted sent held) (call_out (dg_get c r))"
proof (rule keeps.evolvesI)
  fix w :: "'g world"
  have "sent (snd (dg_get c r (ext w))) \<subseteq> sent (ext w)" using assms by (simp add: sends_as_told_def)
  then show "keeps_rel (accounted sent held) w (snd (call_out (dg_get c r) w))"
    by (auto simp: keeps_rel_def accounted_def kept_def call_out_def split: prod.splits)
qed

lemmas accounted_intros = keeps.evolves_intros[where I = "accounted sent held" for sent held] accounted_moves

lemma accounted_result: "keeps.evolves (accounted sent held) (apply_gateway_result p r reason)"
  unfolding apply_gateway_result_def by (intro accounted_intros)

lemma accounted_failure: "keeps.evolves (accounted sent held) (record_submission_failure p e)"
  unfolding record_submission_failure_def by (intro accounted_intros)


definition as_told :: "('g \<Rightarrow> payout_request set) \<Rightarrow> 'g disbursement \<Rightarrow> bool" where
  "as_told sent mk \<longleftrightarrow> (\<forall>f a c. mk = Some f \<longrightarrow> f a = Inr c \<longrightarrow> sends_as_told sent c)"

lemma client_for_told: "client_for mk p w = (Inr c, v) \<Longrightarrow> as_told sent mk \<Longrightarrow> sends_as_told sent c"
  by (auto simp: client_for_def client_for_account_def as_told_def lift_result_def throw_def elim!: bindE_Inr_E
      split: option.splits)

lemma accounted_client: "keeps.evolves (accounted sent held) (client_for mk p)"
proof (intro accounted_quiet kept_reads pays_client)
  show "inert.evolves (client_for mk p)" "grow.safe (client_for mk p)"
    unfolding client_for_def client_for_account_def account_get_def by (intro inert_intros grow.safe_intros)+
qed

lemma accounted_gets: "keeps.evolves (accounted sent held) (gets f)"
  by (intro accounted_intros)

text \<open>Sending a payout the caller holds, whatever it then does with the answer.\<close>

lemma accounted_sending:
  fixes mk :: "'g disbursement"
  assumes "as_told sent mk" "p \<in> set held" "po_status p \<in> {Approved, Unresolved}"
    and "\<And>e. keeps.evolves (accounted sent held) (h e)"
  shows "keeps.evolves (accounted sent held) (bindE (client_for mk p) (\<lambda>c.
     catchE (call_out (dg_create c (payout_call p))) h (\<lambda>r. apply_gateway_result p r reason)))"
proof (rule keeps.evolves_bind_of)
  show "keeps.evolves (accounted sent held) (client_for mk p)" by (rule accounted_client)
  fix w :: "'g world" and c v
  assume "client_for mk p w = (Inr c, v)"
  then have "sends_as_told sent c" using client_for_told assms(1) by blast
  then show "keeps.evolves (accounted sent held)
      (catchE (call_out (dg_create c (payout_call p))) h (\<lambda>r. apply_gateway_result p r reason))"
    using assms(2-4) by (intro keeps.evolves_catchE accounted_create accounted_result)
qed

lemma accounted_hold:
  "accounted sent held w \<Longrightarrow> set new \<subseteq> set (payouts (db w)) \<Longrightarrow> accounted sent (new @ held) w"
  using released_row by (fastforce simp: accounted_def kept_def)

lemma accounted_drop: "accounted sent (new @ held) w \<Longrightarrow> accounted sent held w"
  by (auto simp: accounted_def)

text \<open>Rows read from the store may be held from then on.\<close>

lemma accounted_reading:
  fixes m :: "('g, 'a) routine"
  assumes read: "keeps.evolves (accounted sent held) m" "\<And>w x v. m w = (Inr x, v) \<Longrightarrow> txn w = None \<Longrightarrow> set (rows x) \<subseteq> set (payouts (db v))"
    and next_: "\<And>x. keeps.evolves (accounted sent (rows x @ held)) (f x)"
  shows "keeps.evolves (accounted sent held) (bindE m f)"
proof (rule keeps.evolvesI)
  fix w :: "'g world"
  obtain r v where m: "m w = (r, v)" by fastforce
  have v: "keeps_rel (accounted sent held) w v" using read(1) m by (rule keeps.evolvesD)
  show "keeps_rel (accounted sent held) w (snd (bindE m f w))"
  proof (cases r)
    case (Inr x)
    show ?thesis
      unfolding keeps_rel_def
    proof
      assume w: "accounted sent held w"
      then have idle: "txn w = None" by (simp add: accounted_def kept_def)
      from w have "accounted sent held v" using v by (simp add: keeps_rel_def)
      then have "accounted sent (rows x @ held) v" by (rule accounted_hold) (rule read(2)[OF m[unfolded Inr] idle])
      then have after: "accounted sent (rows x @ held) (snd (f x v))"
        using next_[of x] by (simp add: keeps.evolves_def keeps_rel_def)
      have "bindE m f w = f x v" using m Inr by (intro bindE_Inr) simp
      then show "accounted sent held (snd (bindE m f w))" using accounted_drop[OF after] by simp
    qed
  next
    case (Inl e)
    then have "bindE m f w = (Inl e, v)" using m by (intro bindE_Inl) simp
    then show ?thesis using v by simp
  qed
qed

lemma payout_get_row: "payout_get i w = (Inr p, v) \<Longrightarrow> p \<in> set (payouts (db v))"
  by (auto simp: payout_get_def payout_where_def catchE_def throw_def succeed_def find_Some_iff
      split: prod.splits sum.splits if_splits dest!: query_row_Inr)

lemma accounted_payout_get: "keeps.evolves (accounted sent held) (payout_get i)"
proof (intro accounted_quiet kept_reads pays_get)
  show "inert.evolves (payout_get i)" "grow.safe (payout_get i)"
    unfolding payout_get_def payout_where_def by (intro inert_intros grow.safe_intros)+
qed

lemma accounted_submit:
  assumes "as_told sent mk"
  shows "keeps.evolves (accounted sent held) (submit_payout mk i)"
  unfolding submit_payout_def
proof (rule accounted_reading[where rows = "\<lambda>p. [p]", OF accounted_payout_get])
  show "set [p] \<subseteq> set (payouts (db v))" if "payout_get i w = (Inr p, v)" for w :: "'a world" and p v
    using payout_get_row[OF that] by simp
  show "keeps.evolves (accounted sent ([p] @ held)) (if \<not> submittable p then throw (OtherError ''payout: not awaiting submission'')
      else bindE (client_for mk p) (\<lambda>c. catchE (call_out (dg_create c (payout_call p)))
         (record_submission_failure p) (\<lambda>r. apply_gateway_result p r [])))" for p
    by (intro accounted_intros accounted_sending assms accounted_failure) (auto simp: submittable_def)
qed


lemma claimed_rows: "in_tx (claim_unsettled n t) w = (Inr ps, v) \<Longrightarrow> txn w = None \<Longrightarrow> set ps \<subseteq> set (payouts (db v))"
  by (erule in_tx_cases, assumption)
    (auto simp: claim_unsettled_def claim_order_def Let_def gets_def dest!: query_Inr in_set_takeD elim!: bindE_Inr_E)

lemma accounted_claim: "keeps.evolves (accounted sent held) (in_tx (claim_unsettled n t))"
proof (intro accounted_quiet kept_reads)
  show "inert.evolves (in_tx (claim_unsettled n t))" "pays.safe (in_tx (claim_unsettled n t))"
    "grow.safe (in_tx (claim_unsettled n t))"
    unfolding claim_unsettled_def by (intro inert_intros grow.safe_intros pays.safe_intros)+
qed

lemma accounted_reconcile:
  assumes "as_told sent mk" "p \<in> set held"
  shows "keeps.evolves (accounted sent held) (reconcile mk p)"
proof -
  have "keeps.evolves (accounted sent held) (bindE (client_for mk p) (\<lambda>c. catchE (call_out (dg_get c r))
      (\<lambda>e. if e = GwPayoutNotFound then touch p else throw e) (\<lambda>r. apply_gateway_result p r ''reconciled'')))" for r
    unfolding touch_def
  proof (rule keeps.evolves_bind_of[OF accounted_client], goal_cases)
    case (1 w c v)
    then have "sends_as_told sent c" using client_for_told assms(1) by blast
    then show ?case by (intro accounted_intros accounted_get accounted_result)
  qed
  then have "keeps.evolves (accounted sent held) (read_back mk p)"
    by (cases "po_reference_no p") (simp add: read_back_def touch_def keeps.evolves_bindE keeps.evolves_succeed
        accounted_moves, simp add: read_back_def)
  moreover have "keeps.evolves (accounted sent held) (resolve_unknown mk p)"
    if "po_status p = Unresolved"
    unfolding resolve_unknown_def touch_def
    by (intro accounted_intros accounted_sending accounted_failure assms) (simp_all add: that)
  ultimately show ?thesis
    unfolding reconcile_def by (intro accounted_intros accounted_submit assms) simp_all
qed

lemma accounted_batch:
  assumes "as_told sent mk"
  shows "keeps.evolves (accounted sent held) (reconcile_batch mk n t)"
  unfolding reconcile_batch_def reconcile_one_def
proof (rule accounted_reading[where rows = "\<lambda>ps. ps", OF accounted_claim])
  show "set ps \<subseteq> set (payouts (db v))" if "in_tx (claim_unsettled n t) w = (Inr ps, v)" "txn w = None"
    for w :: "'a world" and ps v using that by (rule claimed_rows)
qed (intro accounted_intros keeps.evolves_mapE_in accounted_reconcile assms, simp)


lemma accounted_store:
  assumes "po_status p \<in> {Requested, Approved}"
  shows "keeps.evolves (accounted sent held) (store_payout ri p)"
proof (intro accounted_quiet keeps_store assms)
  show "pays.safe (store_payout ri p)"
    unfolding store_payout_def payout_create_def
    by (intro pays.safe_intros pays_record pays.safe_insert_checked pays.moves_on_append)
  show "grow.safe (store_payout ri p)"
    unfolding store_payout_def payout_create_def
    by (intro grow.safe_intros grow_record grow.safe_insert_checked grow_same) simp
  show "inert.evolves (store_payout ri p)"
    unfolding store_payout_def payout_create_def record_transition_def by (intro inert_intros)
qed

lemma accounted_lookups:
  "keeps.evolves (accounted sent held) (limits_for a)" "keeps.evolves (accounted sent held) (find_request ri)"
  "keeps.evolves (accounted sent held) (within_daily_limit ri l)"
  "keeps.evolves (accounted sent held) (resolve_beneficiary ri)"
  by (intro accounted_quiet kept_reads;
      unfold limits_for_def find_request_def get_by_application_reference_def payout_where_def
        within_daily_limit_def sent_today_def resolve_beneficiary_def get_beneficiary_def
        get_beneficiary_by_alias_def beneficiary_where_def;
      intro inert_intros grow.safe_intros pays.safe_intros)+

lemma accounted_request: "keeps.evolves (accounted sent held) (request_payout ri)"
  unfolding request_payout_def make_request_def announce_request_def
  by (intro accounted_intros accounted_lookups accounted_store) (simp add: new_payout_def first_status_def)

lemma accounted_approve: "keeps.evolves (accounted sent held) (approve_payout i a)"
  unfolding approve_payout_def by (intro accounted_intros accounted_payout_get)

lemma accounted_reject: "keeps.evolves (accounted sent held) (reject_payout i a r)"
  unfolding reject_payout_def by (intro accounted_intros accounted_payout_get)

text \<open>What the theorem promises of a world: the books are in order, and every transfer the gateway
  was asked for is that of a stored payout whose history shows its release.\<close>

definition authorized :: "('g \<Rightarrow> payout_request set) \<Rightarrow> 'g world \<Rightarrow> bool" where
  "authorized sent w \<longleftrightarrow> txn w = None \<and> history_ok (db w) \<and>
     (\<forall>req \<in> sent (ext w). \<exists>p \<in> set (payouts (db w)). payout_call p = req \<and> Approved \<in> set (trail (po_id p) (db w)))"

lemma authorized_accounted: "authorized sent w = accounted sent [] w"
  by (simp add: authorized_def accounted_def kept_def released_call_def)

lemma authorized_run:
  fixes w :: "'g world"
  assumes "keeps.evolves (accounted sent []) m" "authorized sent w"
  shows "authorized sent (snd (m w))"
  using assms by (simp add: authorized_accounted keeps.evolves_def keeps_rel_def)


text \<open>A gateway that keeps the requests it was sent.\<close>

definition recording_disburser :: "payout_request list disburser" where
  "recording_disburser = \<lparr>dg_create = (\<lambda>req s. (Inl (OutcomeUnknown ''timeout''), req # s)),
     dg_get = (\<lambda>r s. (Inl GwPayoutNotFound, s)), dg_approve = (\<lambda>rs c s. (Inr (), s)),
     dg_reject = (\<lambda>rs c s. (Inr (), s)), dg_validate = None, dg_balance = None, dg_banks = None\<rparr>"



subsection \<open>An answer the allow-list refuses\<close>

lemma find_mapped: "(\<And>x. c (f x) = c x) \<Longrightarrow> List.find c (map f xs) = map_option f (List.find c xs)"
  by (induction xs) simp_all

lemma submit_asks:
  assumes "outcomes u = []" "txn u = None" "stored_payout i (db u) = Some q" "po_status q = Approved"
    "List.find (\<lambda>a. acc_id a = po_gateway_account_id q) (accounts (db u)) = Some a" "f a = Inr c"
  shows "submit_payout (Some f) i u = (case dg_create c (payout_call q) (ext u) of
    (Inl e, g) \<Rightarrow> record_submission_failure q e (u\<lparr>ext := g\<rparr>) | (Inr r, g) \<Rightarrow> apply_gateway_result q r [] (u\<lparr>ext := g\<rparr>))"
proof -
  have "payout_get i u = (Inr q, u)" "account_get (po_gateway_account_id q) u = (Inr a, u)"
    using assms by (simp_all add: payout_get_def payout_where_def account_get_def stored_payout_def op_simps)
  then show ?thesis using assms
    by (simp add: submit_payout_def submittable_def client_for_def client_for_account_def call_out_def op_simps
        split: prod.splits sum.splits)
qed

lemma result_dropped:
  assumes "outcomes u = []" "txn u = None" "po_status q = Approved" "ps_status r \<in> {Completed, Rejected}"
  shows "apply_gateway_result q r x u = (Inr q, u\<lparr>db := set_payouts
    (map (\<lambda>p. if po_id p = po_id q then p\<lparr>po_last_synced_at := Some (now u)\<rparr> else p) (payouts (db u))) (db u)\<rparr>)"
proof -
  have "\<not> payout_can_transition (po_status q) (ps_status r)"
    using assms(3,4) by (auto simp: payout_machine_defs)
  then show ?thesis using assms(1,2) by (simp add: apply_gateway_result_def payout_touch_synced_def op_simps)
qed

lemma inert_outcome: "inert.evolves (record_submission_failure q e)" "inert.evolves (apply_gateway_result q r x)"
  unfolding record_submission_failure_def apply_gateway_result_def by (intro inert_intros inert_moves)+

lemma submit_asks_once:
  assumes "outcomes u = []" "txn u = None" "stored_payout i (db u) = Some q" "po_status q = Approved"
    "List.find (\<lambda>a. acc_id a = po_gateway_account_id q) (accounts (db u)) = Some a" "f a = Inr c"
  shows "ext (snd (submit_payout (Some f) i u)) = snd (dg_create c (payout_call q) (ext u))"
proof -
  have "ext (snd (m w)) = ext w" if "inert.evolves m" for m :: "('a, 'b) routine" and w
    using that by (simp add: inert.evolves_def inert_rel_def)
  from this[OF inert_outcome(1)] this[OF inert_outcome(2)] show ?thesis
    by (simp add: submit_asks[of u i q a f c] assms split: prod.splits sum.splits)
qed

lemma sweep_of_one:
  assumes "outcomes u = []" "txn u = None" "filter (unsettled (now u) age) (payouts (db u)) = [q]" "1 \<le> n"
    "po_status q = Approved"
  shows "snd (reconcile_batch mk n age u) = snd (submit_payout mk (po_id q) u)"
proof -
  have "claim_order [q] = [q]" by (cases "po_last_synced_at q") (simp_all add: claim_order_def assms(5))
  moreover have "take (nat n) [q] = [q]" using assms(4) by (cases "nat n") simp_all
  ultimately have "in_tx (claim_unsettled n age) u = (Inr [q], u)"
    using assms(1-3) by (simp add: claim_unsettled_def in_tx_def next_outcome_def op_simps)
  then show ?thesis
    using assms(5) by (simp add: reconcile_batch_def reconcile_one_def reconcile_def bindE_def catchE_def op_simps split: prod.splits sum.splits)
qed

lemma unsettled_alone:
  assumes "distinct (map po_id rows)" "List.find (\<lambda>p. po_id p = i) rows = Some p" "unsettled t age (f p)"
    "\<And>q. q \<in> set rows \<Longrightarrow> po_id q \<noteq> i \<Longrightarrow> \<not> unsettled t age q"
  shows "filter (unsettled t age) (map (\<lambda>q. if po_id q = i then f q else q) rows) = [f p]"
  using assms
proof (induction rows)
  case (Cons r rows)
  have rest: "filter (unsettled t age) (map (\<lambda>q. if po_id q = i then f q else q) rows) = []" if "po_id r = i"
    using that Cons.prems(1,4) by (auto simp: filter_empty_conv image_iff)
  show ?case using Cons rest by (auto split: if_splits)
qed simp

text \<open>C35. A payout that was handed over but whose answer was not recorded is still \<open>APPROVED\<close>; when
  the gateway then reports it finished - completed, or rejected - the answer is dropped: the payout
  is returned as it was, and only the time of the attempt is stored. The next sweep, whenever it runs
  and whatever ages it asks for, takes the payout up - here with no other one to settle - and asks the
  gateway for the same transfer again, under the same key; and if the gateway again reports it
  finished, nothing but the time of the attempt changes either.\<close>

theorem finished_payout_is_submitted_again:
  assumes calm: "outcomes w = []" "txn w = None" "distinct (map po_id (payouts (db w)))"
    and stored: "stored_payout i (db w) = Some p" "po_status p = Approved"
    and account: "List.find (\<lambda>a. acc_id a = po_gateway_account_id p) (accounts (db w)) = Some a"
    and client: "f a = Inr c" "dg_create c (payout_call p) (ext w) = (Inr r, g)"
    and finished: "ps_status r \<in> {Completed, Rejected}"
    and sweep: "1 \<le> n" "\<And>q. q \<in> set (payouts (db w)) \<Longrightarrow> po_id q \<noteq> i \<Longrightarrow> \<not> unsettled t age q"
  shows "\<exists>v. submit_payout (Some f) i w = (Inr p, v) \<and> ext v = g \<and>
    stored_payout i (db v) = Some (p\<lparr>po_last_synced_at := Some (now w)\<rparr>) \<and>
    (let u = snd (reconcile_batch (Some f) n age (v\<lparr>now := t\<rparr>)) in
      ext u = snd (dg_create c (payout_call p) g) \<and>
      (\<forall>r'. fst (dg_create c (payout_call p) g) = Inr r' \<and> ps_status r' \<in> {Completed, Rejected} \<longrightarrow>
        stored_payout i (db u) = Some (p\<lparr>po_last_synced_at := Some t\<rparr>)))"
proof -
  have i: "po_id p = i" using stored(1) by (auto simp: stored_payout_def find_Some_iff)
  let ?rows = "map (\<lambda>q. if po_id q = i then q\<lparr>po_last_synced_at := Some (now w)\<rparr> else q) (payouts (db w))"
  let ?p = "p\<lparr>po_last_synced_at := Some (now w)\<rparr>"
  let ?v = "w\<lparr>ext := g, db := set_payouts ?rows (db w)\<rparr>" let ?t = "?v\<lparr>now := t\<rparr>"
  have first: "submit_payout (Some f) i w = (Inr p, ?v)"
    using submit_asks[of w i p a f c] calm(1,2) stored account client
      result_dropped[of "w\<lparr>ext := g\<rparr>" p r] finished i by simp
  have kept: "stored_payout i (db ?v) = Some ?p"
    using stored(1) i by (simp add: stored_payout_def find_mapped)
  have "filter (unsettled t age) ?rows = [?p]"
    using unsettled_alone[OF calm(3) stored(1)[unfolded stored_payout_def], of t age] stored(2) sweep(2)
    by (simp add: unsettled_def)
  then have swept: "snd (reconcile_batch (Some f) n age ?t) = snd (submit_payout (Some f) i ?t)"
    using sweep_of_one[of ?t age ?p n] calm sweep(1) stored(2) i by simp
  have call: "payout_call ?p = payout_call p" by (simp add: payout_call_def)
  note there = submit_asks[of ?t i ?p a f c] submit_asks_once[of ?t i ?p a f c]
  have again: "ext (snd (submit_payout (Some f) i ?t)) = snd (dg_create c (payout_call p) g)"
    using there(2) calm kept stored(2) account client(1) call by simp
  have later: "stored_payout i (db (snd (submit_payout (Some f) i ?t))) = Some (p\<lparr>po_last_synced_at := Some t\<rparr>)"
    if "fst (dg_create c (payout_call p) g) = Inr r'" "ps_status r' \<in> {Completed, Rejected}" for r'
  proof -
    have "dg_create c (payout_call p) g = (Inr r', snd (dg_create c (payout_call p) g))" using that(1) by (simp add: prod_eq_iff)
    then obtain g' where "dg_create c (payout_call p) g = (Inr r', g')" ..
    then have "submit_payout (Some f) i ?t = apply_gateway_result ?p r' [] (?t\<lparr>ext := g'\<rparr>)"
      using there(1) calm kept stored(2) account client(1) call by simp
    then show ?thesis
      using result_dropped[of "?t\<lparr>ext := g'\<rparr>" ?p r'] calm stored that(2) i
      by (simp add: stored_payout_def find_mapped)
  qed
  have "ext ?v = g" by simp
  then show ?thesis
    unfolding Let_def by (intro exI[of _ ?v] conjI allI impI first kept) (use swept again later in auto)
qed


definition finishing_disburser :: "nat disburser" where
  "finishing_disburser = \<lparr>dg_create = (\<lambda>req n. (Inr (zero_payout_result\<lparr>ps_reference_no := ''ref'', ps_status := Completed,
       ps_gateway_status := ''completed''\<rparr>), Suc n)),
     dg_get = (\<lambda>r n. (Inl GwPayoutNotFound, n)), dg_approve = (\<lambda>rs c n. (Inr (), n)),
     dg_reject = (\<lambda>rs c n. (Inr (), n)), dg_validate = None, dg_balance = None, dg_banks = None\<rparr>"

theorem finished_payout_is_submitted_again_witness:
  "let p = zero_payout\<lparr>po_id := ''pyo_1'', po_amount := 5, po_status := Approved, po_gateway_account_id := ''gwa_1''\<rparr>;
       w = quiet_world (empty_db\<lparr>payouts := [p], accounts := [zero_account\<lparr>acc_id := ''gwa_1''\<rparr>]\<rparr>) (0::nat)
   in \<exists>v. submit_payout (Some (\<lambda>a. Inr finishing_disburser)) ''pyo_1'' w = (Inr p, v) \<and> ext v = 1 \<and>
        ext (snd (reconcile_batch (Some (\<lambda>a. Inr finishing_disburser)) 10 0 (v\<lparr>now := 99\<rparr>))) = 2"
proof -
  let ?p = "zero_payout\<lparr>po_id := ''pyo_1'', po_amount := 5, po_status := Approved, po_gateway_account_id := ''gwa_1''\<rparr>"
  let ?w = "quiet_world (empty_db\<lparr>payouts := [?p], accounts := [zero_account\<lparr>acc_id := ''gwa_1''\<rparr>]\<rparr>) (0::nat)"
  let ?a = "zero_account\<lparr>acc_id := ''gwa_1''\<rparr>" let ?f = "\<lambda>a. Inr finishing_disburser"
  let ?r = "zero_payout_result\<lparr>ps_reference_no := ''ref'', ps_status := Completed, ps_gateway_status := ''completed''\<rparr>"
  have create: "dg_create finishing_disburser req x = (Inr ?r, Suc x)" for req x by (simp add: finishing_disburser_def)
  obtain v where "submit_payout (Some ?f) ''pyo_1'' ?w = (Inr ?p, v)" "ext v = 1"
    "ext (snd (reconcile_batch (Some ?f) 10 0 (v\<lparr>now := 99\<rparr>))) = snd (dg_create finishing_disburser (payout_call ?p) 1)"
    using finished_payout_is_submitted_again[of ?w "''pyo_1''" ?p ?a ?f finishing_disburser ?r 1 10 99 0]
    by (auto simp: Let_def stored_payout_def quiet_world_def create)
  then show ?thesis unfolding Let_def create by (intro exI[of _ v]) simp
qed

end
