(* ===== verification/PayoutRows.thy ===== *)
theory PayoutRows
  imports PayoutService
begin

text \<open>
  The form of a stored payout: a known status with its rank, the checks of the table, and the times
  that tell what happened to it. Every operation of the service keeps it, whatever fails.
\<close>

text \<open>A payout that was handed over, or settled, carries the time of it, and only a settled one carries
  the time of the outcome; an approver comes with the time of the approval, which is never that of a
  payout still waiting for one or refused. A payout that needed no approval has neither.\<close>

definition stamped :: "payout \<Rightarrow> bool" where
  "stamped p \<longleftrightarrow> (po_status p = Submitted \<longrightarrow> po_submitted_at p \<noteq> None) \<and>
     (po_completed_at p \<noteq> None \<longleftrightarrow> po_status p = Completed) \<and>
     (po_failed_at p \<noteq> None \<longleftrightarrow> po_status p = PayoutFailed) \<and>
     (po_rejected_at p \<noteq> None \<longleftrightarrow> po_status p = Rejected) \<and>
     (po_approved_by p \<noteq> None \<longrightarrow> po_approved_at p \<noteq> None) \<and>
     (po_rejected_by p \<noteq> None \<longrightarrow> po_rejected_at p \<noteq> None) \<and>
     (po_approved_at p \<noteq> None \<longrightarrow> po_status p \<notin> {Requested, Rejected})"

definition well_formed_payout :: "payout \<Rightarrow> bool" where
  "well_formed_payout p \<longleftrightarrow> payout_valid (po_status p) \<and> po_status_rank p = payout_rank (po_status p) \<and> stamped p \<and>
     0 < po_amount p \<and> (po_approved_by p = None \<or> po_requested_by p = None \<or> po_approved_by p \<noteq> po_requested_by p) \<and>
     (po_approved_at p = None \<or> po_rejected_at p = None)"

definition formed_rel :: "db \<Rightarrow> db \<Rightarrow> bool" where
  "formed_rel d e \<longleftrightarrow> (list_all well_formed_payout (payouts d) \<longrightarrow> list_all well_formed_payout (payouts e))"

interpretation formed: db_evolution formed_rel
  by unfold_locales (auto simp: formed_rel_def)

context db_evolution
begin

lemma safe_update_refused:
  "(\<And>d. refused_check ks (map f (filter p (get d))) = None \<Longrightarrow>
      D d (set_rows (map (\<lambda>r. if p r then f r else r) (get d)) d)) \<Longrightarrow>
   safe (update_checked ks cs get set_rows p f)"
  unfolding update_checked_def
  by (intro safe_one_row safe_run_stmt) (auto simp: Let_def split: option.splits)

end

text \<open>Who approved and who rejected is only written together with that status.\<close>

definition signed_by_status :: "payout_update \<Rightarrow> bool" where
  "signed_by_status u \<longleftrightarrow> (pu_approved_by u = [] \<or> pu_status u = Approved) \<and> (pu_rejected_by u = [] \<or> pu_status u = Rejected)"

lemma signed_updates:
  "signed_by_status (no_update s)" "signed_by_status (result_update r)"
  "signed_by_status ((no_update Approved)\<lparr>pu_approved_by := a\<rparr>)"
  "signed_by_status ((no_update Rejected)\<lparr>pu_rejected_by := a, pu_reject_reason := b\<rparr>)"
  "signed_by_status ((no_update s)\<lparr>pu_failure_reason := c\<rparr>)"
  "signed_by_status ((no_update s)\<lparr>pu_failure_reason := c, pu_idempotency_expires_at := e\<rparr>)"
  by (simp_all add: signed_by_status_def no_update_def result_update_def)

lemma stamped_advanced:
  assumes "stamped p" "payout_can_transition (po_status p) (pu_status u)" "signed_by_status u"
    and "po_approved_at (payout_advanced u t p) = None \<or> po_rejected_at (payout_advanced u t p) = None"
  shows "stamped (payout_advanced u t p)"
  using assms
  by (cases "pu_status u"; cases "po_status p")
    (auto simp: stamped_def payout_advanced_def Let_def mark_once_def keep_opt_def signed_by_status_def payout_machine_defs
      split: if_splits)

lemma advanced_formed:
  assumes "well_formed_payout p" "payout_valid (pu_status u)" "signed_by_status u"
    "refused_check payout_checks (map (payout_advanced u t) (filter c rows)) = None" "p \<in> set rows" "c p"
    "\<And>q. c q \<Longrightarrow> po_status q \<in> set (payout_predecessors_of (pu_status u))"
  shows "well_formed_payout (payout_advanced u t p)"
proof -
  have "po_approved_at (payout_advanced u t p) = None \<or> po_rejected_at (payout_advanced u t p) = None"
    and checked: "0 < po_amount p" "po_approved_by (payout_advanced u t p) = None \<or> po_requested_by p = None \<or>
      po_approved_by (payout_advanced u t p) \<noteq> po_requested_by p"
    using assms(4-6) by (auto simp: refused_check_None payout_checks_def payout_advanced_def Let_def)
  then show ?thesis
    using stamped_advanced[of p u t] assms
    by (auto simp: well_formed_payout_def payout_predecessors_iff payout_advanced_def Let_def)
qed

lemma formed_apply_state: "signed_by_status u \<Longrightarrow> formed.safe (payout_apply_state i u)"
  unfolding payout_apply_state_def
  by (intro formed.safe_intros formed.safe_update_refused)
    (auto simp: formed_rel_def list_all_iff
      intro: advanced_formed[where c = "\<lambda>p. po_id p = i \<and> po_status p \<in> set (payout_predecessors_of (pu_status u))"])

lemma formed_create: "po_status p \<in> {Requested, Approved} \<Longrightarrow> formed.safe (payout_create p)"
  unfolding payout_create_def
  by (intro formed.safe_intros formed.safe_insert_checked)
    (auto simp: formed_rel_def well_formed_payout_def refused_check_None payout_checks_def payout_row_def stamped_def
      payout_valid_def payout_ranks_def)

lemma stamped_touched:
  "stamped (p\<lparr>po_last_synced_at := t\<rparr>) = stamped p" "stamped (p\<lparr>po_beneficiary_id := b\<rparr>) = stamped p"
  unfolding stamped_def by simp_all

lemma touched_formed:
  "well_formed_payout p \<Longrightarrow> well_formed_payout (p\<lparr>po_last_synced_at := t\<rparr>)"
  "well_formed_payout p \<Longrightarrow> well_formed_payout (p\<lparr>po_beneficiary_id := b\<rparr>)"
  by (simp_all add: well_formed_payout_def stamped_touched)

lemma formed_touch: "formed.safe (payout_touch_synced i)"
  unfolding payout_touch_synced_def
  by (intro formed.safe_intros formed.safe_exec)
    (auto simp: formed_rel_def list_all_iff intro: touched_formed)

lemma formed_same: "payouts e = payouts d \<Longrightarrow> formed_rel d e"
  by (simp add: formed_rel_def)

lemma formed_record: "formed.safe (record_transition r)"
  unfolding record_transition_def by (intro formed.safe_intros formed.safe_insert_row formed_same) simp

lemma formed_publish: "formed.safe (publish_payout p ty)"
  unfolding publish_payout_def
  by (intro formed.safe_intros formed.safe_weaken[OF announces_weaken]) (auto simp: announce_rel_def intro: formed_same)

lemma formed_transition: "signed_by_status u \<Longrightarrow> formed.safe (payout_transition p u a b c)"
  unfolding payout_transition_def by (intro formed.safe_intros formed_apply_state formed_record)

lemma formed_reads:
  "formed.safe (payout_get i)" "formed.safe (client_for mk p)" "formed.safe (limits_for a)"
  "formed.safe (find_request ri)" "formed.safe (within_daily_limit ri l)" "formed.safe (resolve_beneficiary ri)"
  unfolding payout_get_def payout_where_def client_for_def client_for_account_def account_get_def limits_for_def
    find_request_def get_by_application_reference_def within_daily_limit_def sent_today_def resolve_beneficiary_def
    get_beneficiary_def get_beneficiary_by_alias_def beneficiary_where_def
  by (intro formed.safe_intros)+

lemmas formed_intros = formed.safe_intros formed_reads formed_touch formed_publish formed_transition signed_updates

lemma formed_result: "formed.safe (apply_gateway_result p r reason)"
  unfolding apply_gateway_result_def by (intro formed_intros)

lemma formed_failure: "formed.safe (record_submission_failure p e)"
  unfolding record_submission_failure_def by (intro formed_intros)

lemma formed_submit: "formed.safe (submit_payout mk i)"
  unfolding submit_payout_def by (intro formed_intros formed_result formed_failure)

lemma formed_reconcile: "formed.safe (reconcile mk p)"
  unfolding reconcile_def read_back_def resolve_unknown_def touch_def
  by (intro formed_intros formed_submit formed_result formed_failure)

lemma formed_batch: "formed.safe (reconcile_batch mk n t)"
  unfolding reconcile_batch_def reconcile_one_def claim_unsettled_def by (intro formed_intros formed_reconcile)

lemma formed_approve: "formed.safe (approve_payout i a)"
  unfolding approve_payout_def by (intro formed_intros)

lemma formed_reject: "formed.safe (reject_payout i a r)"
  unfolding reject_payout_def by (intro formed_intros)

lemma formed_request: "formed.safe (request_payout ri)"
  unfolding request_payout_def make_request_def announce_request_def store_payout_def
  by (intro formed_intros formed_create formed_record) (simp add: new_payout_def first_status_def)

lemma formed_delete_beneficiary: "formed.safe (delete_beneficiary a i)"
  unfolding delete_beneficiary_def
  by (intro formed.safe_intros formed.safe_run_stmt)
    (auto simp: remove_beneficiary_def formed_rel_def list_all_iff intro: touched_formed)

lemma formed_run:
  "formed.safe m \<Longrightarrow> list_all well_formed_payout (payouts (db w)) \<Longrightarrow> list_all well_formed_payout (payouts (db (snd (m w))))"
  using formed.safe_db[of m w] by (simp add: formed_rel_def)

text \<open>C38. Every stored payout tells what happened to it - its status with the rank stored beside it; the
  time it was handed over, if it is \<open>SUBMITTED\<close>; the time it completed, failed or was rejected, exactly
  if that is its status; the time of its approval with its approver, and never on a payout that still
  waits or was rejected - and satisfies the checks of the table, a positive amount and an approver who
  is not the requester. Every operation keeps this, under any failures and whatever the gateway
  answers.\<close>

theorem payouts_stay_well_formed:
  fixes w :: "'g world"
  assumes "list_all well_formed_payout (payouts (db w))"
  shows "list_all (\<lambda>m. list_all well_formed_payout (payouts (db (snd (m w)))))
      [request_payout ri, approve_payout j admin, reject_payout j admin reason, submit_payout mk j, reconcile mk r] \<and>
    list_all well_formed_payout (payouts (db (snd (reconcile_batch mk n age w)))) \<and>
    list_all well_formed_payout (payouts (db (snd (delete_beneficiary a b w))))"
  using formed_run[OF formed_request assms] formed_run[OF formed_approve assms] formed_run[OF formed_reject assms]
    formed_run[OF formed_submit assms] formed_run[OF formed_reconcile assms] formed_run[OF formed_batch assms]
    formed_run[OF formed_delete_beneficiary assms] by simp

theorem payouts_stay_well_formed_witness:
  "let p = zero_payout\<lparr>po_id := ''pyo_1'', po_amount := 5, po_status := Requested, po_status_rank := 10\<rparr>;
       w = quiet_world (empty_db\<lparr>payouts := [p]\<rparr>) ()
   in list_all well_formed_payout (payouts (db (snd (reject_payout ''pyo_1'' ''adm_1'' ''no'' w))))"
proof -
  let ?p = "zero_payout\<lparr>po_id := ''pyo_1'', po_amount := 5, po_status := Requested, po_status_rank := 10\<rparr>"
  have "list_all well_formed_payout (payouts (db (quiet_world (empty_db\<lparr>payouts := [?p]\<rparr>) ())))"
    by (simp add: well_formed_payout_def stamped_def zero_payout_def payout_valid_def payout_ranks_def payout_rank_def)
  from payouts_stay_well_formed[OF this] show ?thesis by (simp add: Let_def)
qed

end
