(* ===== verification/Iris.thy ===== *)
theory Iris
  imports Midtrans PayoutService
begin

text \<open>
  \<open>internal/gateway/midtrans/iris.go\<close>: the disbursement product of Midtrans behind the
  disbursement contract. The platform of the payment adapter is extended by the reading of
  RFC 3339 timestamps and by whether \<open>net/http\<close> accepts a URL. The text of a transport error
  is left out, metrics too.
\<close>

record 'g iris_platform = "'g platform" +
  pf_read_rfc3339 :: "string \<Rightarrow> time option"
  pf_url_ok :: "string \<Rightarrow> bool"

record iris =
  ir_base_url :: string
  ir_creator_key :: string
  ir_approver_key :: string
  ir_environment :: environment

definition new_disburser :: "environment \<Rightarrow> string \<Rightarrow> string \<Rightarrow> error + iris" where
  "new_disburser env creator approver =
     (if \<not> environment_valid env
        then Inl (OtherError ''midtrans: disbursement environment must be sandbox or production'')
      else if creator = [] then Inl (OtherError ''midtrans: disbursement needs a creator API key'')
      else Inr \<lparr>ir_base_url = (if env = Sandbox then ''https://app.sandbox.midtrans.com/iris''
          else ''https://app.midtrans.com/iris''), ir_creator_key = creator, ir_approver_key = approver,
        ir_environment = env\<rparr>)"

definition can_approve :: "iris \<Rightarrow> bool" where "can_approve d \<longleftrightarrow> ir_approver_key d \<noteq> []"

subsection \<open>Wire types\<close>

definition create_response_type :: jtype where
  "create_response_type = TObj [
     (''payouts'', TArr (TObj [(''status'', TStr), (''reference_no'', TStr)])),
     (''error_message'', TStr), (''errors'', TAny)]"

definition details_type :: jtype where
  "details_type = TObj (map (\<lambda>n. (n, TStr)) [''amount'', ''beneficiary_name'', ''beneficiary_account'',
       ''bank'', ''reference_no'', ''notes'', ''status'', ''created_by'', ''created_at'', ''updated_at''] @
     [(''error_details'', TOpt (TObj [(''message'', TStr), (''code'', TStr)]))])"

definition account_response_type :: jtype where
  "account_response_type = TObj [(''account_name'', TStr), (''account_no'', TStr)]"

definition banks_response_type :: jtype where
  "banks_response_type = TObj [(''beneficiary_banks'', TArr (TObj [(''code'', TStr), (''name'', TStr)]))]"

definition approve_body :: "string list \<Rightarrow> string \<Rightarrow> json" where
  "approve_body refs otp = JObj ((''reference_nos'', JArr (map JStr refs)) # ostr ''otp'' otp)"

definition reject_body :: "string list \<Rightarrow> string \<Rightarrow> json" where
  "reject_body refs reason = JObj [(''reference_nos'', JArr (map JStr refs)), (''reject_reason'', JStr reason)]"

subsection \<open>Texts\<close>

definition statement_char :: "char \<Rightarrow> bool" where
  "statement_char c \<longleftrightarrow> (let n = (of_char c :: nat) in
     (97 \<le> n \<and> n \<le> 122) \<or> (65 \<le> n \<and> n \<le> 90) \<or> (48 \<le> n \<and> n \<le> 57) \<or> n = 32)"

text \<open>\<open>notesPattern.ReplaceAllString(notes, " ")\<close>: each longest run of other characters becomes a space.\<close>

function replace_runs :: "string \<Rightarrow> string" where
  "replace_runs [] = []"
| "replace_runs (c # cs) =
     (if statement_char c then c # replace_runs cs
      else CHR '' '' # replace_runs (dropWhile (\<lambda>x. \<not> statement_char x) cs))"
  by pat_completeness auto

termination replace_runs
  by (relation "measure length") (simp_all add: length_dropWhile_le le_imp_less_Suc)

text \<open>The longest runs of characters with a property; \<open>strings.Fields\<close> are those of the others than
  white space.\<close>

function runs :: "(char \<Rightarrow> bool) \<Rightarrow> string \<Rightarrow> string list" where
  "runs p s = (let t = dropWhile (\<lambda>c. \<not> p c) s in
     if t = [] then [] else takeWhile p t # runs p (dropWhile p t))"
  by pat_completeness auto

lemma length_dropWhile_less: "dropWhile q s = c # cs \<Longrightarrow> p c \<Longrightarrow> length (dropWhile p (c # cs)) < length s"
proof -
  assume "dropWhile q s = c # cs" "p c"
  then have "length (c # cs) \<le> length s" using length_dropWhile_le[of q s] by simp
  moreover have "length (dropWhile p cs) \<le> length cs" by (rule length_dropWhile_le)
  ultimately show ?thesis using \<open>p c\<close> by simp
qed

termination runs
proof (relation "measure (length \<circ> snd)")
  fix p s t
  assume t: "t = dropWhile (\<lambda>c. \<not> p c) (s :: string)" "t \<noteq> []"
  obtain c cs where c: "t = c # cs" using t(2) by (meson neq_Nil_conv)
  moreover from this have "p c" using t(1) hd_dropWhile[of "\<lambda>c. \<not> p c" s] by (metis list.distinct(1) list.sel(1))
  ultimately show "((p, dropWhile p t), (p, s)) \<in> measure (length \<circ> snd)"
    using t(1) length_dropWhile_less[of "\<lambda>c. \<not> p c" s c cs p] by simp
qed simp

declare runs.simps [simp del]

definition space_fields :: "string \<Rightarrow> string list" where
  "space_fields = runs (\<lambda>c. \<not> is_space c)"

definition max_notes_length :: nat where "max_notes_length = 100"

definition sanitise_notes :: "string \<Rightarrow> string" where
  "sanitise_notes notes =
     (let cleaned = trim_space (replace_runs notes);
          cleaned = join '' '' (space_fields cleaned)
      in clip_text cleaned max_notes_length)"

definition map_iris_status :: "string \<Rightarrow> error + payout_status" where
  "map_iris_status status =
     (let s = to_lower (trim_space status) in
      if s \<in> {''queued'', ''processed'', ''pending'', ''approved''} then Inr Submitted
      else if s \<in> {''completed'', ''success'', ''succeeded''} then Inr Completed
      else if s = ''failed'' then Inr PayoutFailed
      else if s = ''rejected'' then Inr Rejected
      else Inl (OtherError (''midtrans: unmapped payout status '' @ status)))"

definition parse_iris_time :: "'g iris_platform \<Rightarrow> string \<Rightarrow> time" where
  "parse_iris_time pf v = (if v = [] then 0 else coalesce (pf_read_rfc3339 pf v) 0)"

definition message_type :: jtype where
  "message_type = TObj [(''error_message'', TStr), (''errors'', TArr TStr)]"

definition iris_message :: "'g iris_platform \<Rightarrow> string \<Rightarrow> string" where
  "iris_message pf raw =
     (let rest = (if raw = [] then ''the disbursement gateway rejected the request'' else clip_text raw 300) in
      case (case pf_parse pf raw of None \<Rightarrow> None | Some v \<Rightarrow> decode message_type v) of
        None \<Rightarrow> rest
      | Some v \<Rightarrow> if jstr ''error_message'' v \<noteq> [] then jstr ''error_message'' v
          else if jarr ''errors'' v \<noteq> [] then join ''; '' (jstrs (jarr ''errors'' v))
          else rest)"

definition url_value :: "string \<Rightarrow> string" where
  "url_value v = concat (map (\<lambda>c. if c = CHR '' '' then ''%20'' else if c = CHR ''&'' then ''%26''
     else if c = CHR ''?'' then ''%3F'' else if c = CHR ''#'' then ''%23'' else [c]) v)"

subsection \<open>Transport\<close>

text \<open>What an answer means, \<open>None\<close> for a body that could not be read: the body and, where one is
  expected, its value.\<close>

definition iris_read ::
  "'g iris_platform \<Rightarrow> bool \<Rightarrow> string \<Rightarrow> jtype option \<Rightarrow> int \<Rightarrow> string option \<Rightarrow> error + string \<times> json" where
  "iris_read pf mutating path out status answer = (case answer of
     None \<Rightarrow> Inl (if mutating then OutcomeUnknown (''could not read the response to '' @ path)
        else own_fault status ''could not read the gateway response'' True)
   | Some raw \<Rightarrow>
       if status = 409 then Inl (GwKeyConflict (iris_message pf raw))
       else if 500 \<le> status then
         Inl (if mutating then OutcomeUnknown (path @ '' returned HTTP '' @ format_int status)
           else own_fault status (iris_message pf raw) True)
       else if 400 \<le> status then
         (let message = iris_message pf raw in
          Inl (if contains ''insufficient'' (to_lower message) then InsufficientBalance message
            else own_fault status message False))
       else (case out of
           None \<Rightarrow> Inr (raw, JNull)
         | Some ty \<Rightarrow> (case (case pf_parse pf raw of None \<Rightarrow> None | Some v \<Rightarrow> decode ty v) of
               Some v \<Rightarrow> Inr (raw, v)
             | None \<Rightarrow> Inl (if mutating then OutcomeUnknown (''the response to '' @ path @ '' was unreadable'')
                 else own_fault status ''the gateway returned an unreadable response'' False))))"

definition iris_send :: "'g iris_platform \<Rightarrow> iris \<Rightarrow> string \<Rightarrow> string \<Rightarrow> string \<Rightarrow> string \<Rightarrow> json option \<Rightarrow>
    jtype option \<Rightarrow> ('g, error, string \<times> json) op" where
  "iris_send pf d http_method path key idempotency_key body out =
     (let url = ir_base_url d @ path; mutating = (http_method = ''POST'') in
      if \<not> pf_url_ok pf url then throw (OtherError ''midtrans: build payout request'')
      else catchE (pf_http pf \<lparr>hc_method = http_method, hc_url = url, hc_key = key,
          hc_idempotency_key = clip_text idempotency_key 100, hc_body = body\<rparr>)
        (\<lambda>_. throw (if mutating then OutcomeUnknown (path @ '' did not answer'')
           else own_fault 0 ''could not reach the disbursement gateway'' True))
        (\<lambda>(status, answer). lift_result (iris_read pf mutating path out status answer)))"

subsection \<open>Operations\<close>

definition payout_body :: "payout_request \<Rightarrow> string \<Rightarrow> json" where
  "payout_body req amount = JObj [(''payouts'', JArr [JObj (
     [(''beneficiary_name'', JStr (pr_beneficiary_name req)),
      (''beneficiary_account'', JStr (pr_beneficiary_account req)),
      (''beneficiary_bank'', JStr (to_lower (pr_beneficiary_bank req)))] @
     ostr ''beneficiary_email'' (pr_beneficiary_email req) @
     [(''amount'', JStr amount)] @ ostr ''notes'' (sanitise_notes (pr_notes req)))])]"

definition created_result :: "payout_request \<Rightarrow> time \<Rightarrow> json \<Rightarrow> error + payout_result" where
  "created_result req t v = (case jarr ''payouts'' v of
     [] \<Rightarrow> Inl (OutcomeUnknown ''the gateway returned no payout'')
   | created # _ \<Rightarrow> (case map_iris_status (jstr ''status'' created) of
       Inl e \<Rightarrow> Inl e
     | Inr s \<Rightarrow> Inr \<lparr>ps_reference_no = jstr ''reference_no'' created, ps_status = s,
         ps_gateway_status = jstr ''status'' created, ps_amount = pr_amount req, ps_failure_code = [],
         ps_failure_reason = [], ps_updated_at = t, ps_raw = Some created\<rparr>))"

definition create_payout :: "'g iris_platform \<Rightarrow> iris \<Rightarrow> payout_request \<Rightarrow> ('g, error, payout_result) op" where
  "create_payout pf d req =
     (if pr_idempotency_key req = []
        then throw (OtherError ''midtrans: refusing to create a payout without an idempotency key'')
      else case money_format (pr_amount req) (pr_currency req) of
        Inl _ \<Rightarrow> throw (OtherError ''midtrans: payout amount is not usable'')
      | Inr amount \<Rightarrow>
          bindE (iris_send pf d ''POST'' ''/api/v1/payouts'' (ir_creator_key d) (pr_idempotency_key req)
            (Some (payout_body req amount)) (Some create_response_type)) (\<lambda>(raw, v).
          bindE (gets (pf_clock pf)) (\<lambda>t. lift_result (created_result req t v))))"

definition details_result :: "'g iris_platform \<Rightarrow> json \<Rightarrow> error + payout_result" where
  "details_result pf v = (case map_iris_status (jstr ''status'' v) of
     Inl e \<Rightarrow> Inl e
   | Inr s \<Rightarrow>
       (let details = jget ''error_details'' v in
        Inr \<lparr>ps_reference_no = jstr ''reference_no'' v, ps_status = s, ps_gateway_status = jstr ''status'' v,
          ps_amount = (case money_parse (jstr ''amount'' v) ''IDR'' of Inr n \<Rightarrow> n | Inl _ \<Rightarrow> 0),
          ps_failure_code = jstr ''code'' details, ps_failure_reason = jstr ''message'' details,
          ps_updated_at = parse_iris_time pf (jstr ''updated_at'' v), ps_raw = Some v\<rparr>))"

definition get_payout :: "'g iris_platform \<Rightarrow> iris \<Rightarrow> string \<Rightarrow> ('g, error, payout_result) op" where
  "get_payout pf d reference_no =
     (if reference_no = [] then throw (OtherError ''midtrans: no payout reference supplied'')
      else catchE (iris_send pf d ''GET'' (''/api/v1/payouts/'' @ reference_no) (ir_creator_key d) [] None (Some details_type))
        (\<lambda>e. case e of GatewayFault f \<Rightarrow> if gf_status f = 404 then throw GwPayoutNotFound else throw e | _ \<Rightarrow> throw e)
        (\<lambda>(raw, v). lift_result (details_result pf v)))"

definition approve_at_gateway :: "'g iris_platform \<Rightarrow> iris \<Rightarrow> string list \<Rightarrow> string \<Rightarrow> ('g, error, unit) op" where
  "approve_at_gateway pf d refs otp =
     (if refs = [] then throw (OtherError ''midtrans: no payout references to approve'')
      else if ir_approver_key d = [] then throw NotSupported
      else bindE (iris_send pf d ''POST'' ''/api/v1/payouts/approve'' (ir_approver_key d)
          (''approve-'' @ join ''-'' refs) (Some (approve_body refs otp)) None) (\<lambda>_. succeed ()))"

definition reject_at_gateway :: "'g iris_platform \<Rightarrow> iris \<Rightarrow> string list \<Rightarrow> string \<Rightarrow> ('g, error, unit) op" where
  "reject_at_gateway pf d refs reason =
     (if refs = [] then throw (OtherError ''midtrans: no payout references to reject'')
      else if ir_approver_key d = [] then throw NotSupported
      else bindE (iris_send pf d ''POST'' ''/api/v1/payouts/reject'' (ir_approver_key d)
          (''reject-'' @ join ''-'' refs)
          (Some (reject_body refs (if reason = [] then ''Rejected in PayMux'' else reason))) None) (\<lambda>_. succeed ()))"

definition validate_account :: "'g iris_platform \<Rightarrow> iris \<Rightarrow> string \<Rightarrow> string \<Rightarrow> ('g, error, account_validation) op" where
  "validate_account pf d account_no bank_code =
     (if account_no = [] \<or> bank_code = [] then throw (OtherError ''midtrans: account and bank are both required'')
      else bindE (iris_send pf d ''GET'' (''/api/v1/account_validation?bank='' @ url_value (to_lower bank_code) @
            ''&account='' @ url_value account_no) (ir_creator_key d) [] None (Some account_response_type)) (\<lambda>(raw, v).
          succeed \<lparr>av_account_name = jstr ''account_name'' v, av_account_number = jstr ''account_no'' v,
            av_raw = Some v\<rparr>))"

definition list_banks :: "'g iris_platform \<Rightarrow> iris \<Rightarrow> ('g, error, bank list) op" where
  "list_banks pf d = bindE (iris_send pf d ''GET'' ''/api/v1/beneficiary_banks'' (ir_creator_key d) [] None
       (Some banks_response_type)) (\<lambda>(raw, v).
     succeed (map (\<lambda>b. (jstr ''code'' b, jstr ''name'' b)) (jarr ''beneficiary_banks'' v)))"

definition get_balance :: "'g iris_platform \<Rightarrow> iris \<Rightarrow> ('g, error, balance) op" where
  "get_balance pf d = bindE (iris_send pf d ''GET'' ''/api/v1/balance'' (ir_creator_key d) [] None
       (Some (TObj [(''balance'', TStr)]))) (\<lambda>(raw, v).
     let text = jstr ''balance'' v in
     if text = [] then throw (OtherError (''midtrans: the balance response had no balance in it: '' @ clip_text raw 200))
     else (case money_parse text ''IDR'' of
         Inl _ \<Rightarrow> throw (OtherError (''midtrans: balance '' @ text @ '' is not a usable amount''))
       | Inr n \<Rightarrow> succeed \<lparr>bl_amount = n, bl_currency = ''IDR'', bl_raw = pf_parse pf raw\<rparr>))"

definition iris_disburser :: "'g iris_platform \<Rightarrow> iris \<Rightarrow> 'g disburser" where
  "iris_disburser pf d = \<lparr>dg_create = create_payout pf d, dg_get = get_payout pf d,
     dg_approve = approve_at_gateway pf d, dg_reject = reject_at_gateway pf d,
     dg_validate = Some (validate_account pf d), dg_balance = Some (get_balance pf d),
     dg_banks = Some (list_banks pf d)\<rparr>"

text \<open>The factory of \<open>internal/app/wire.go\<close>.\<close>

definition wired_disbursement :: "'g iris_platform \<Rightarrow> 'g disbursement" where
  "wired_disbursement pf = Some (\<lambda>a.
     if \<not> can_disburse a then Inl (OtherError ''payout: this gateway account has no disbursement credentials'')
     else case new_disburser (acc_environment a) (acc_creator_key a) (acc_approver_key a) of
       Inl e \<Rightarrow> Inl e | Inr d \<Rightarrow> Inr (iris_disburser pf d))"

subsection \<open>A note is its words\<close>

lemma runs_Nil [simp]: "runs p [] = []"
  by (simp add: runs.simps)

lemma runs_skip: "\<not> p c \<Longrightarrow> runs p (c # s) = runs p s"
  by (simp add: runs.simps[of p "c # s"] runs.simps[of p s])

lemma runs_drop: "\<forall>c \<in> set a. \<not> p c \<Longrightarrow> runs p (a @ s) = runs p s"
  by (induction a) (simp_all add: runs_skip)

lemma runs_take: "p c \<Longrightarrow> runs p (c # s) = (c # takeWhile p s) # runs p (dropWhile p s)"
  by (simp add: runs.simps[of p "c # s"] Let_def)

lemma runs_none: "\<forall>c \<in> set a. \<not> p c \<Longrightarrow> runs p a = []"
  using runs_drop[of a p "[]"] by simp

lemma runs_end: "\<forall>c \<in> set b. \<not> p c \<Longrightarrow> runs p (s @ b) = runs p s"
proof (induction p s rule: runs.induct)
  case (1 p s)
  show ?case
  proof (cases "dropWhile (\<lambda>c. \<not> p c) s")
    case Nil
    then have "\<forall>c \<in> set s. \<not> p c" by (simp add: dropWhile_eq_Nil_conv)
    then show ?thesis using 1(2) runs_none[of "s @ b" p] runs_none[of s p] by auto
  next
    case (Cons c t)
    have pc: "p c" using Cons hd_dropWhile[of "\<lambda>c. \<not> p c" s] by simp
    obtain a where a: "s = a @ c # t" "\<forall>x \<in> set a. \<not> p x"
      using Cons takeWhile_dropWhile_id[of "\<lambda>c. \<not> p c" s] by (metis set_takeWhileD)
    have whole: "runs p (s @ b) = runs p (c # (t @ b))" "runs p s = runs p (c # t)"
      using a runs_drop[of a p] by auto
    have IH: "runs p (dropWhile p t @ b) = runs p (dropWhile p t)"
      using 1(1)[OF refl _ 1(2)] Cons pc by simp
    show ?thesis
    proof (cases "dropWhile p t")
      case Nil
      then have "\<forall>x \<in> set t. p x" by (simp add: dropWhile_eq_Nil_conv)
      then have all: "takeWhile p t = t" by (simp add: takeWhile_eq_all_conv)
      have "takeWhile p (t @ b) = t" "dropWhile p (t @ b) = b"
        using \<open>\<forall>x \<in> set t. p x\<close> 1(2) by (cases b; simp)+
      then show ?thesis using whole pc Nil 1(2) by (simp add: runs_take runs_none all)
    next
      case (Cons d u)
      then have "\<not> (\<forall>x \<in> set t. p x)" using dropWhile_eq_Nil_conv[of p t] by simp
      then have "takeWhile p (t @ b) = takeWhile p t" "dropWhile p (t @ b) = dropWhile p t @ b"
        by (auto simp: takeWhile_append dropWhile_append)
      then show ?thesis using whole pc IH by (simp add: runs_take)
    qed
  qed
qed

lemma runs_trim: "runs (\<lambda>c. \<not> p c) (trim_both p s) = runs (\<lambda>c. \<not> p c) s"
proof -
  let ?t = "dropWhile p s" and ?q = "\<lambda>c. \<not> p c"
  have taken: "\<forall>c \<in> set (takeWhile p u). \<not> ?q c" for u by (auto dest: set_takeWhileD)
  have "runs ?q s = runs ?q ?t" using runs_drop[OF taken[of s], of ?t] by simp
  moreover have "rev (takeWhile p (rev ?t) @ dropWhile p (rev ?t)) = ?t" by simp
  then have "trim_both p s @ rev (takeWhile p (rev ?t)) = ?t"
    unfolding trim_both_def rev_append .
  then have "runs ?q ?t = runs ?q (trim_both p s)"
    using runs_end[of "rev (takeWhile p (rev ?t))" ?q "trim_both p s"] taken[of "rev ?t"] by simp
  ultimately show ?thesis by simp
qed

definition word_char :: "char \<Rightarrow> bool" where
  "word_char c \<longleftrightarrow> statement_char c \<and> \<not> is_space c"

lemma statement_chars:
  "statement_char c \<Longrightarrow> is_space c \<longleftrightarrow> \<not> word_char c" "\<not> statement_char c \<Longrightarrow> \<not> word_char c"
  "is_space (CHR '' '')" "\<not> word_char (CHR '' '')"
  by (simp_all add: word_char_def is_space_def)

lemma replaced_word:
  "takeWhile (\<lambda>c. \<not> is_space c) (replace_runs s) = takeWhile word_char s \<and>
   dropWhile (\<lambda>c. \<not> is_space c) (replace_runs s) = replace_runs (dropWhile word_char s)"
proof (induction s)
  case (Cons c s)
  then show ?case by (cases "statement_char c") (auto simp: statement_chars)
qed simp

lemma runs_replaced: "runs (\<lambda>c. \<not> is_space c) (replace_runs s) = runs word_char s"
proof (induction s rule: length_induct)
  case (1 s)
  show ?case
  proof (cases s)
    case (Cons c t)
    have drop_: "length (dropWhile q t) < length s" for q using Cons length_dropWhile_le[of q t] by simp
    have "runs word_char t = runs word_char (dropWhile (\<lambda>x. \<not> statement_char x) t)"
      using runs_drop[of "takeWhile (\<lambda>x. \<not> statement_char x) t" word_char "dropWhile (\<lambda>x. \<not> statement_char x) t"]
      by (metis set_takeWhileD statement_chars(2) takeWhile_dropWhile_id)
    then show ?thesis
      using Cons 1 drop_ replaced_word[of t]
      by (cases "statement_char c"; cases "word_char c") (auto simp: runs_skip runs_take statement_chars)
  qed simp
qed

lemma join_words: "\<forall>w \<in> set ws. \<forall>c \<in> set w. p c \<Longrightarrow> \<forall>c \<in> set sep. p c \<Longrightarrow> c \<in> set (join sep ws) \<Longrightarrow> p c"
  by (induction sep ws rule: join.induct) auto

lemma runs_chars: "w \<in> set (runs p s) \<Longrightarrow> c \<in> set w \<Longrightarrow> p c"
proof (induction p s rule: runs.induct)
  case (1 p s)
  then show ?case by (auto simp: runs.simps[of p s] Let_def dest: set_takeWhileD split: if_splits)
qed

text \<open>The statement note of a payout is computed with a pattern, a trim, a split and a join;
  it is the words of ASCII letters and digits of the note, separated by single spaces and cut at 100
  characters, and the gateway accepts its characters.\<close>

theorem notes_are_words:
  "sanitise_notes notes = clip_text (join '' '' (runs word_char notes)) 100 \<and>
   length (sanitise_notes notes) \<le> 100 \<and> list_all statement_char (sanitise_notes notes)"
proof -
  have eq: "sanitise_notes notes = clip_text (join '' '' (runs word_char notes)) 100"
    by (simp add: sanitise_notes_def space_fields_def trim_space_def runs_trim runs_replaced max_notes_length_def)
  have "statement_char c" if "c \<in> set (sanitise_notes notes)" for c
  proof (rule join_words[of "runs word_char notes" statement_char "'' ''"])
    show "c \<in> set (join '' '' (runs word_char notes))"
      using that by (auto simp: eq clip_text_def split: if_splits dest: in_set_takeD)
  qed (auto dest: runs_chars simp: word_char_def statement_char_def)
  then show ?thesis by (simp add: eq length_clip_text list_all_iff)
qed

subsection \<open>What a definite failure means\<close>

definition create_call :: "iris \<Rightarrow> payout_request \<Rightarrow> string \<Rightarrow> http_call" where
  "create_call d req amount = \<lparr>hc_method = ''POST'', hc_url = ir_base_url d @ ''/api/v1/payouts'',
     hc_key = ir_creator_key d, hc_idempotency_key = clip_text (pr_idempotency_key req) 100,
     hc_body = Some (payout_body req amount)\<rparr>"

definition refused :: "int \<Rightarrow> bool" where "refused status \<longleftrightarrow> 400 \<le> status \<and> status < 500"

definition names_unmapped_status :: "'g iris_platform \<Rightarrow> string \<Rightarrow> bool" where
  "names_unmapped_status pf raw = (case (case pf_parse pf raw of None \<Rightarrow> None | Some v \<Rightarrow> decode create_response_type v) of
     None \<Rightarrow> False
   | Some v \<Rightarrow> (case jarr ''payouts'' v of [] \<Rightarrow> False
       | created # _ \<Rightarrow> \<exists>e. map_iris_status (jstr ''status'' created) = Inl e))"

lemma iris_read_definite:
  assumes "iris_read pf True path (Some ty) status answer = Inl e" "\<not> outcome_unknown e"
  shows "\<exists>raw. answer = Some raw \<and> refused status"
  using assms
  by (cases answer) (auto simp: iris_read_def refused_def outcome_unknown_def Let_def split: if_splits option.splits)

lemma iris_read_value:
  assumes "iris_read pf True path (Some ty) status answer = Inr (raw, v)"
  shows "answer = Some raw \<and> status < 400 \<and>
    (case pf_parse pf raw of None \<Rightarrow> None | Some v \<Rightarrow> decode ty v) = Some v"
  using assms
  by (cases answer) (auto simp: iris_read_def Let_def split: if_splits option.splits)

lemma created_result_definite:
  assumes "created_result req t v = Inl e" "\<not> outcome_unknown e"
  shows "\<exists>created rest e'. jarr ''payouts'' v = created # rest \<and> map_iris_status (jstr ''status'' created) = Inl e'"
  using assms by (auto simp: created_result_def outcome_unknown_def split: list.splits sum.splits)

text \<open>C37. An error of the creation that is not the unknown outcome is never a transfer in the dark:
  either no request was made, or the gateway answered it with a refusal, or it accepted the payout
  with a status that is not mapped. A timeout, a server error and an unreadable answer are always
  the unknown outcome.\<close>

theorem definite_failure_was_answered:
  assumes "create_payout pf d req g = (Inl e, h)" "\<not> outcome_unknown e"
  shows "h = g \<or> (\<exists>amount status raw. money_format (pr_amount req) (pr_currency req) = Inr amount \<and>
    pf_http pf (create_call d req amount) g = (Inr (status, Some raw), h) \<and>
    (refused status \<or> status < 400 \<and> names_unmapped_status pf raw))"
proof (cases "pr_idempotency_key req = []")
  case True
  then show ?thesis using assms by (simp add: create_payout_def throw_def)
next
  case key: False
  show ?thesis
  proof (cases "money_format (pr_amount req) (pr_currency req)")
    case (Inl x)
    then show ?thesis using assms key by (simp add: create_payout_def throw_def)
  next
    case (Inr amount)
    show ?thesis
    proof (cases "pf_url_ok pf (ir_base_url d @ ''/api/v1/payouts'')")
      case False
      then show ?thesis using assms key Inr by (simp add: create_payout_def iris_send_def throw_def bindE_run)
    next
      case True
      obtain r k where http: "pf_http pf (create_call d req amount) g = (r, k)" by fastforce
      have run: "create_payout pf d req g = (case r of
          Inl _ \<Rightarrow> (Inl (OutcomeUnknown ''/api/v1/payouts did not answer''), k)
        | Inr (status, answer) \<Rightarrow> (case iris_read pf True ''/api/v1/payouts'' (Some create_response_type) status answer of
            Inl e \<Rightarrow> (Inl e, k) | Inr (raw, v) \<Rightarrow> (created_result req (pf_clock pf k) v, k)))"
        using key Inr True http
        by (auto simp: create_payout_def iris_send_def create_call_def bindE_run catchE_def throw_def
            lift_result_def gets_def split: sum.splits prod.splits)
      then obtain status answer where r: "r = Inr (status, answer)"
        using assms by (cases r) (auto simp: outcome_unknown_def)
      show ?thesis
      proof (cases "iris_read pf True ''/api/v1/payouts'' (Some create_response_type) status answer")
        case (Inl x)
        then have "x = e" "k = h" using run r assms(1) by simp_all
        then show ?thesis using iris_read_definite[OF Inl] assms(2) http r Inr by blast
      next
        case (Inr rv)
        obtain raw v where rv: "rv = (raw, v)" by fastforce
        then have e: "created_result req (pf_clock pf k) v = Inl e" "k = h" using run r assms(1) Inr by simp_all
        note got = iris_read_value[OF Inr[unfolded rv]]
        have "names_unmapped_status pf raw"
          using created_result_definite[OF e(1) assms(2)] got by (auto simp: names_unmapped_status_def)
        then show ?thesis using http r e(2) got \<open>money_format _ _ = Inr amount\<close> by blast
      qed
    qed
  qed
qed

text \<open>A gateway whose answers are all the word \<open>held\<close>, which is not mapped.\<close>

definition held_body :: json where
  "held_body = JObj [(''payouts'', JArr [JObj [(''status'', JStr ''held''), (''reference_no'', JStr ''r1'')]])]"

definition held_platform :: "nat iris_platform" where
  "held_platform = \<lparr>pf_http = (\<lambda>_ n. (Inr (201, Some ''held''), Suc n)), pf_parse = (\<lambda>_. Some held_body), pf_sha512 = id,
     pf_sha256 = id, pf_read_time = (\<lambda>_. None), pf_format_time = (\<lambda>_. []), pf_clock = (\<lambda>_. 0),
     pf_read_rfc3339 = (\<lambda>_. None), pf_url_ok = (\<lambda>_. True)\<rparr>"

definition held_iris :: iris where
  "held_iris = \<lparr>ir_base_url = ''https://x'', ir_creator_key = ''key'', ir_approver_key = [], ir_environment = Sandbox\<rparr>"

theorem definite_failure_was_answered_witness:
  "let req = zero_payout_request\<lparr>pr_idempotency_key := ''pyo_1'', pr_amount := 5, pr_currency := ''IDR''\<rparr>
   in \<exists>e. create_payout held_platform held_iris req 0 = (Inl e, 1) \<and> \<not> outcome_unknown e \<and>
     names_unmapped_status held_platform ''held''"
proof -
  let ?req = "zero_payout_request\<lparr>pr_idempotency_key := ''pyo_1'', pr_amount := 5, pr_currency := ''IDR''\<rparr>"
  have format: "money_format 5 ''IDR'' = Inr ''5''" by code_simp
  have "to_lower (trim_space ''held'') = ''held''" by code_simp
  then have unmapped: "map_iris_status ''held'' = Inl (OtherError (''midtrans: unmapped payout status '' @ ''held''))"
    by (simp add: map_iris_status_def)
  have run: "\<exists>t. create_payout held_platform held_iris ?req 0 = (Inl (OtherError t), 1)"
    using format unmapped
    by (auto simp: create_payout_def iris_send_def bindE_run catchE_def throw_def lift_result_def gets_def
        held_platform_def iris_read_def created_result_def create_response_type_def held_body_def
        decode_eval jarr_def)
  then obtain t where t: "create_payout held_platform held_iris ?req 0 = (Inl (OtherError t), 1)" by blast
  have definite: "\<not> outcome_unknown (OtherError t)" by (simp add: outcome_unknown_def)
  from definite_failure_was_answered[OF t definite] show ?thesis
    using t definite by (auto simp: Let_def held_platform_def refused_def outcome_unknown_def)
qed

end
