(* ===== verification/Subscription.thy ===== *)
theory Subscription
  imports PaymentService
begin

text \<open>
  Package \<open>internal/subscription\<close>: recurring charges, kept beside what the gateway reports about
  them. The adapter's subscription operations are those of the registry's adapters, absent where
  the code's type assertion fails; logging is left out.
\<close>

subsection \<open>Statements\<close>

abbreviation set_subscriptions :: "subscription list \<Rightarrow> db \<Rightarrow> db" where
  "set_subscriptions rows d \<equiv> d\<lparr>subscriptions := rows\<rparr>"

definition subscription_checks :: "subscription check list" where
  "subscription_checks = [(''subscriptions_amount_check'', \<lambda>s. 0 < sb_amount s)]"

definition subscription_constraints :: "subscription constraint list" where
  "subscription_constraints = [(''subscriptions_pkey'', \<lambda>s x. sb_id s = sb_id x),
     (''subscriptions_gateway_id_key'', \<lambda>s x. sb_gateway_subscription_id s \<noteq> [] \<and>
        sb_gateway s = sb_gateway x \<and> sb_gateway_subscription_id s = sb_gateway_subscription_id x)]"

definition subscription_active :: "subscription \<Rightarrow> bool" where
  "subscription_active s \<longleftrightarrow> sb_status s = SubActive"

definition subscription_create :: "subscription \<Rightarrow> ('g, subscription) routine" where
  "subscription_create s =
     bindE (if sb_id s = [] then fresh_id ''sub'' else succeed (sb_id s)) (\<lambda>i.
     bindE (gets now) (\<lambda>t. insert_checked subscription_checks subscription_constraints subscriptions
       set_subscriptions (s\<lparr>sb_id := i, sb_created_at := t, sb_updated_at := t\<rparr>)))"

definition subscription_get :: "string \<Rightarrow> ('g, subscription) routine" where
  "subscription_get i = query_row (\<lambda>d. List.find (\<lambda>s. sb_id s = i) (subscriptions d))"

definition subscription_get_for_application :: "string \<Rightarrow> string \<Rightarrow> ('g, subscription) routine" where
  "subscription_get_for_application a i =
     query_row (\<lambda>d. List.find (\<lambda>s. sb_id s = i \<and> sb_application_id s = a) (subscriptions d))"

definition subscription_list :: "string \<Rightarrow> page \<Rightarrow> ('g, subscription listing) routine" where
  "subscription_list a p = query (\<lambda>d. new_list (keyset_rows sb_id
     (\<lambda>s. a \<noteq> [] \<longrightarrow> sb_application_id s = a) p (subscriptions d)) p)"

definition updated_subscription :: "subscription \<Rightarrow> time \<Rightarrow> subscription \<Rightarrow> subscription" where
  "updated_subscription u t s = s\<lparr>
     sb_gateway_subscription_id := keep_unless (sb_gateway_subscription_id u) (sb_gateway_subscription_id s),
     sb_name := sb_name u, sb_amount := sb_amount u, sb_status := sb_status u,
     sb_gateway_status := sb_gateway_status u, sb_interval_unit := sb_interval_unit u,
     sb_interval_count := sb_interval_count u, sb_payment_type := sb_payment_type u,
     sb_payment_token := keep_unless (sb_payment_token u) (sb_payment_token s),
     sb_metadata := sb_metadata u, sb_gateway_data := sb_gateway_data u, sb_updated_at := t\<rparr>"

definition subscription_update :: "subscription \<Rightarrow> ('g, subscription) routine" where
  "subscription_update u = bindE (gets now) (\<lambda>t.
     update_checked subscription_checks subscription_constraints subscriptions set_subscriptions
       (\<lambda>s. sb_id s = sb_id u) (updated_subscription u t))"

definition subscription_set_status :: "string \<Rightarrow> subscription_status \<Rightarrow> ('g, subscription) routine" where
  "subscription_set_status i status = bindE (gets now) (\<lambda>t.
     update_one subscriptions set_subscriptions (\<lambda>s. sb_id s = i) (\<lambda>s. s\<lparr>sb_status := status, sb_updated_at := t\<rparr>))"

subsection \<open>Validation\<close>

record create_subscription_input =
  csi_application :: application
  csi_name :: string
  csi_amount :: int
  csi_currency :: string
  csi_payment_type :: string
  csi_payment_token :: string
  csi_interval_unit :: string
  csi_interval_count :: int
  csi_max_interval :: int
  csi_start_time :: "time option"
  csi_customer :: customer
  csi_metadata :: jmap

definition validate_subscription :: "time \<Rightarrow> create_subscription_input \<Rightarrow> error + create_subscription_input" where
  "validate_subscription t ci0 =
     (let ci = ci0\<lparr>csi_name := trim_space (csi_name ci0),
            csi_currency := (if csi_currency ci0 = [] then ''IDR'' else csi_currency ci0),
            csi_interval_unit := to_lower (csi_interval_unit ci0),
            csi_interval_count := (if csi_interval_count ci0 < 1 then 1 else csi_interval_count ci0)\<rparr> in
      if csi_name ci = [] then Inl (SubscriptionInvalid ''name'' ''must not be empty'')
      else if csi_amount ci \<le> 0 then Inl (SubscriptionInvalid ''amount'' ''must be greater than zero'')
      else if \<not> supported (csi_currency ci) then Inl (SubscriptionInvalid ''currency'' ''is not a supported currency'')
      else if csi_payment_token ci = []
        then Inl (SubscriptionInvalid ''payment_token'' ''must not be empty; PayMux never handles raw card details'')
      else if csi_interval_unit ci \<notin> {''day'', ''week'', ''month''}
        then Inl (SubscriptionInvalid ''interval_unit'' ''must be day, week or month'')
      else if (case csi_start_time ci of None \<Rightarrow> False | Some s \<Rightarrow> s < t - minute)
        then Inl (SubscriptionInvalid ''start_time'' ''must not be in the past'')
      else Inr ci)"

subsection \<open>Events\<close>

fun subscription_status_text :: "subscription_status \<Rightarrow> string" where
  "subscription_status_text SubActive = ''ACTIVE''"
| "subscription_status_text SubInactive = ''INACTIVE''"
| "subscription_status_text SubCanceled = ''CANCELED''"
| "subscription_status_text (OtherSub s) = s"

definition subscription_event :: "time \<Rightarrow> subscription \<Rightarrow> etype \<Rightarrow> event" where
  "subscription_event t s ty = zero_event\<lparr>ev_application_id := sb_application_id s, ev_type := ty,
     ev_gateway := sb_gateway s, ev_subscription_id := sb_id s,
     ev_dedupe_key := subscription_dedupe_key (sb_id s) ty (subscription_status_text (sb_status s)),
     ev_payload := zero_payload\<lparr>pl_type := ty, pl_gateway := sb_gateway s,
       pl_application_id := sb_application_id s, pl_subscription_id := sb_id s, pl_amount := sb_amount s,
       pl_currency := sb_currency s, pl_gateway_status := sb_gateway_status s, pl_metadata := sb_metadata s,
       pl_created_at := t, pl_gateway_data := sb_gateway_data s\<rparr>\<rparr>"

definition publish_subscription :: "subscription \<Rightarrow> etype \<Rightarrow> ('g, unit) routine" where
  "publish_subscription s ty = bindE (gets now) (\<lambda>t. ignore_error (publish (subscription_event t s ty)))"

subsection \<open>The service\<close>

definition subscription_account_for :: "application \<Rightarrow> ('g, account) routine" where
  "subscription_account_for app =
     bindE (catchE (if app_gateway_account_id app \<noteq> [] then account_get (app_gateway_account_id app)
                    else account_default ''midtrans'')
         (\<lambda>e. if is_not_found e then throw SubscriptionNotConfigured else throw e) succeed) (\<lambda>a.
     if usable a then succeed a else throw SubscriptionNotConfigured)"

definition subscription_gateway :: "'g registry \<Rightarrow> account \<Rightarrow> error + 'g sub_gateway" where
  "subscription_gateway reg a = (case registry_for reg a of
     Inl e \<Rightarrow> Inl e
   | Inr g \<Rightarrow> (case ga_subscriptions g of None \<Rightarrow> Inl NotSupported | Some s \<Rightarrow> Inr s))"

definition new_subscription :: "create_subscription_input \<Rightarrow> account \<Rightarrow> gw_subscription \<Rightarrow> subscription" where
  "new_subscription ci a c = zero_subscription\<lparr>sb_application_id := app_id (csi_application ci),
     sb_gateway_account_id := acc_id a, sb_gateway := acc_gateway a, sb_gateway_subscription_id := gs_id c,
     sb_name := csi_name ci, sb_amount := csi_amount ci, sb_currency := normalize_currency (csi_currency ci),
     sb_status := gs_normalized c, sb_gateway_status := gs_status c, sb_interval_unit := csi_interval_unit ci,
     sb_interval_count := csi_interval_count ci, sb_start_time := csi_start_time ci,
     sb_payment_type := gs_payment_type c, sb_payment_token := csi_payment_token ci,
     sb_metadata := csi_metadata ci, sb_gateway_data := coalesce (gs_raw c) [],
     sb_max_interval := (if 0 < csi_max_interval ci then Some (csi_max_interval ci) else None)\<rparr>"

definition gateway_request :: "create_subscription_input \<Rightarrow> create_subscription_request" where
  "gateway_request ci = \<lparr>cs_name = csi_name ci, cs_amount = csi_amount ci, cs_currency = csi_currency ci,
     cs_payment_type = csi_payment_type ci, cs_payment_token = csi_payment_token ci,
     cs_interval_unit = csi_interval_unit ci, cs_interval_count = csi_interval_count ci,
     cs_max_interval = csi_max_interval ci, cs_start_time = csi_start_time ci, cs_customer = csi_customer ci,
     cs_metadata = Some (csi_metadata ci)\<rparr>"

definition create_subscription_service :: "'g registry \<Rightarrow> create_subscription_input \<Rightarrow> ('g, subscription) routine" where
  "create_subscription_service reg ci0 =
     bindE (gets now) (\<lambda>t.
     bindE (lift_result (validate_subscription t ci0)) (\<lambda>ci.
     bindE (subscription_account_for (csi_application ci)) (\<lambda>a.
     bindE (lift_result (subscription_gateway reg a)) (\<lambda>g.
     bindE (call_out (sg_create g (gateway_request ci))) (\<lambda>c.
     bindE (subscription_create (new_subscription ci a c)) (\<lambda>s.
     bindE (publish_subscription s SubscriptionCreated) (\<lambda>_. succeed s)))))))"

definition service_get_subscription :: "string \<Rightarrow> string \<Rightarrow> ('g, subscription) routine" where
  "service_get_subscription a i = (if a = [] then subscription_get i else subscription_get_for_application a i)"

definition service_list_subscriptions :: "string \<Rightarrow> page \<Rightarrow> ('g, subscription listing) routine" where
  "service_list_subscriptions a p = subscription_list a p"

definition load_subscription :: "'g registry \<Rightarrow> string \<Rightarrow> string \<Rightarrow> ('g, subscription \<times> 'g sub_gateway) routine" where
  "load_subscription reg a i =
     bindE (service_get_subscription a i) (\<lambda>s.
     bindE (account_get (sb_gateway_account_id s)) (\<lambda>acc.
     bindE (lift_result (subscription_gateway reg acc)) (\<lambda>g.
     if sb_gateway_subscription_id s = []
       then throw (OtherError (''subscription: '' @ sb_id s @ '' has no gateway subscription id''))
     else succeed (s, g))))"

text \<open>\<open>applyGateway\<close>.\<close>

definition apply_gateway :: "subscription \<Rightarrow> gw_subscription \<Rightarrow> subscription" where
  "apply_gateway s c = s\<lparr>sb_gateway_subscription_id := gs_id c, sb_name := gs_name c,
     sb_amount := (if 0 < gs_amount c then gs_amount c else sb_amount s), sb_status := gs_normalized c,
     sb_gateway_status := gs_status c, sb_interval_unit := keep_unless (gs_interval_unit c) (sb_interval_unit s),
     sb_interval_count := (if 0 < gs_interval_count c then gs_interval_count c else sb_interval_count s),
     sb_payment_type := keep_unless (gs_payment_type c) (sb_payment_type s),
     sb_gateway_data := coalesce (gs_raw c) []\<rparr>"

definition sync_subscription :: "'g registry \<Rightarrow> string \<Rightarrow> string \<Rightarrow> ('g, subscription) routine" where
  "sync_subscription reg a i =
     bindE (load_subscription reg a i) (\<lambda>(s, g).
     bindE (call_out (sg_get g (sb_gateway_subscription_id s))) (\<lambda>c. subscription_update (apply_gateway s c)))"

definition update_subscription_service ::
  "'g registry \<Rightarrow> string \<Rightarrow> string \<Rightarrow> update_subscription_request \<Rightarrow> ('g, subscription) routine" where
  "update_subscription_service reg a i u =
     bindE (load_subscription reg a i) (\<lambda>(s, g).
     if (case us_amount u of None \<Rightarrow> False | Some n \<Rightarrow> n \<le> 0)
       then throw (SubscriptionInvalid ''amount'' ''must be greater than zero'')
     else bindE (call_out (sg_update g (sb_gateway_subscription_id s) u)) (\<lambda>c.
       let s1 = apply_gateway s c in
       bindE (subscription_update (s1\<lparr>sb_payment_token := coalesce (us_payment_token u) (sb_payment_token s1)\<rparr>)) (\<lambda>s2.
       bindE (publish_subscription s2 SubscriptionUpdated) (\<lambda>_. succeed s2))))"

definition lifecycle :: "'g registry \<Rightarrow> string \<Rightarrow> string \<Rightarrow> subscription_status \<Rightarrow> etype \<Rightarrow>
    ('g sub_gateway \<Rightarrow> string \<Rightarrow> ('g, error, unit) op) \<Rightarrow> ('g, subscription) routine" where
  "lifecycle reg a i status ty act =
     bindE (load_subscription reg a i) (\<lambda>(s, g).
     bindE (call_out (act g (sb_gateway_subscription_id s))) (\<lambda>_.
     bindE (subscription_set_status (sb_id s) status) (\<lambda>s1.
     bindE (publish_subscription s1 ty) (\<lambda>_. succeed s1))))"

definition enable_subscription :: "'g registry \<Rightarrow> string \<Rightarrow> string \<Rightarrow> ('g, subscription) routine" where
  "enable_subscription reg a i = lifecycle reg a i SubActive SubscriptionEnabled sg_enable"

definition disable_subscription :: "'g registry \<Rightarrow> string \<Rightarrow> string \<Rightarrow> ('g, subscription) routine" where
  "disable_subscription reg a i = lifecycle reg a i SubInactive SubscriptionDisabled sg_disable"

definition cancel_subscription :: "'g registry \<Rightarrow> string \<Rightarrow> string \<Rightarrow> ('g, subscription) routine" where
  "cancel_subscription reg a i = lifecycle reg a i SubCanceled SubscriptionCanceled sg_cancel"

end
