(* ===== verification/System.thy ===== *)
theory System
  imports Refunds Notification Subscription Idempotency Worker
begin

text \<open>
  The operations on one database together, and the ledger they implement: an application opens a
  payment, its status moves as the status machine allows, and a payment the gateway refused is
  withdrawn while it is still pending. Requests, notifications, the delivery worker and the outside
  world take turns; every statement of every operation may fail.
\<close>

subsection \<open>The abstract ledger\<close>

record entry =
  en_application :: string
  en_application_order :: string
  en_gateway_order :: string
  en_amount :: int
  en_currency :: string
  en_status :: status

type_synonym book = "string \<Rightarrow> entry option"

inductive book_step :: "book \<Rightarrow> book \<Rightarrow> bool" where
  opened: "b i = None \<Longrightarrow> en_status e = Pending \<Longrightarrow> 0 < en_amount e \<Longrightarrow> book_step b (b(i \<mapsto> e))"
| moved: "b i = Some e \<Longrightarrow> can_transition (en_status e) s \<Longrightarrow> book_step b (b(i \<mapsto> e\<lparr>en_status := s\<rparr>))"
| withdrawn: "b i = Some e \<Longrightarrow> en_status e = Pending \<Longrightarrow> book_step b (b(i := None))"

abbreviation book_steps :: "book \<Rightarrow> book \<Rightarrow> bool" where "book_steps \<equiv> book_step\<^sup>*\<^sup>*"

subsection \<open>The concrete steps\<close>

inductive system_step :: "'g registry \<Rightarrow> 'g sender \<Rightarrow> 'g world \<Rightarrow> 'g world \<Rightarrow> bool"
  for reg :: "'g registry" and send :: "'g sender" where
  create: "system_step reg send w (snd (create_payment reg ci w))"
| get: "system_step reg send w (snd (service_get a i w))"
| sync: "system_step reg send w (snd (sync_payment reg a i w))"
| cancel: "system_step reg send w (snd (cancel_payment reg a i w))"
| expire: "system_step reg send w (snd (expire_payment reg a i w))"
| retire: "system_step reg send w (snd (cancel_checkout_session reg a i w))"
| refund: "system_step reg send w (snd (refund_payment reg ri w))"
| notify: "system_step reg send w (snd (process_notification reg gw req w))"
| subscribe: "system_step reg send w (snd (create_subscription_service reg si w))"
| resubscribe: "system_step reg send w (snd (update_subscription_service reg a i u w))"
| resync: "system_step reg send w (snd (sync_subscription reg a i w))"
| lifecycle: "system_step reg send w (snd (lifecycle reg a i s ty act w))"
| claim_key: "system_step reg send w (snd (idem_claim scope h w))"
| complete_key: "system_step reg send w (snd (idem_complete scope p code body w))"
| release_key: "system_step reg send w (snd (idem_release scope w))"
| deliver: "system_step reg send w (snd (drain send jitter worker n w))"
| recover: "system_step reg send w (snd (recover_stale w))"
| outside: "system_step reg send w (w\<lparr>now := t, outcomes := os, ext := x\<rparr>)"

subsection \<open>What a row stands for\<close>

definition entry_of :: "payment \<Rightarrow> entry" where
  "entry_of p = \<lparr>en_application = pay_application_id p, en_application_order = pay_application_order_id p,
     en_gateway_order = pay_gateway_order_id p, en_amount = pay_amount p, en_currency = pay_currency p,
     en_status = pay_status p\<rparr>"

definition book_of :: "db \<Rightarrow> book" where
  "book_of d i = map_option entry_of (List.find (\<lambda>p. pay_id p = i) (payments d))"

lemma book_of_cong: "payments e = payments d \<Longrightarrow> book_of e = book_of d"
  by (rule ext) (simp add: book_of_def)

interpretation books: db_evolution "\<lambda>d e. book_steps (book_of d) (book_of e)"
  by unfold_locales (rule rtranclp.rtrancl_refl, erule (1) rtranclp_trans)

lemma books_same: "payments e = payments d \<Longrightarrow> book_steps (book_of d) (book_of e)"
  by (drule book_of_cong) simp

lemma books_weaken: "details.safe m \<Longrightarrow> books.safe m"
  by (rule books.safe_weaken[OF details.db_evolution_axioms], assumption)
    (rule books_same, simp add: details_rel_def)

lemma find_map_id:
  assumes "\<And>p. pay_id (f p) = pay_id p"
  shows "List.find (\<lambda>p. pay_id p = i) (map f rows) = map_option f (List.find (\<lambda>p. pay_id p = i) rows)"
  by (induction rows) (auto simp: assms)

lemma book_eqI:
  fixes b :: book
  assumes "\<And>j. j \<noteq> i \<Longrightarrow> b j = c j" "b i = c i"
  shows "b = c"
proof
  show "b j = c j" for j using assms by (cases "j = i") simp_all
qed

text \<open>An update that touches the rows of one payment only, and each as the status machine allows,
  is one move of the ledger or none.\<close>

lemma books_map:
  assumes "\<And>p. pay_id (f p) = pay_id p" "\<And>p. pay_id p \<noteq> i \<Longrightarrow> entry_of (f p) = entry_of p"
    and "\<And>p. entry_of (f p) = entry_of p \<or>
      (\<exists>s. can_transition (pay_status p) s \<and> entry_of (f p) = (entry_of p)\<lparr>en_status := s\<rparr>)"
  shows "book_steps (book_of d) (book_of (set_payments (map f (payments d)) d))"
proof -
  let ?e = "set_payments (map f (payments d)) d"
  have look: "book_of ?e j = map_option (entry_of \<circ> f) (List.find (\<lambda>p. pay_id p = j) (payments d))" for j
    by (simp add: book_of_def find_map_id[of f, OF assms(1)] option.map_comp)
  have other: "book_of ?e j = book_of d j" if "j \<noteq> i" for j
  proof (cases "List.find (\<lambda>p. pay_id p = j) (payments d)")
    case (Some p)
    then have "pay_id p = j" by (auto simp: find_Some_iff)
    then show ?thesis using assms(2)[of p] that Some unfolding look by (simp add: book_of_def)
  next
    case None
    then show ?thesis unfolding look by (simp add: book_of_def)
  qed
  show ?thesis
  proof (cases "List.find (\<lambda>p. pay_id p = i) (payments d)")
    case None
    then have "book_of ?e i = book_of d i" unfolding look by (simp add: book_of_def)
    with other have "book_of ?e = book_of d" by (intro book_eqI[of i]) simp_all
    then show ?thesis by simp
  next
    case (Some p)
    then have at_i: "book_of d i = Some (entry_of p)" "book_of ?e i = Some (entry_of (f p))"
      unfolding look by (simp_all add: book_of_def)
    from assms(3)[of p] show ?thesis
    proof (elim disjE exE conjE)
      assume "entry_of (f p) = entry_of p"
      with at_i have "book_of ?e i = book_of d i" by simp
      with other have "book_of ?e = book_of d" by (intro book_eqI[of i]) simp_all
      then show ?thesis by simp
    next
      fix s
      assume s: "can_transition (pay_status p) s" "entry_of (f p) = (entry_of p)\<lparr>en_status := s\<rparr>"
      have "book_step (book_of d) ((book_of d)(i \<mapsto> (entry_of p)\<lparr>en_status := s\<rparr>))"
        using at_i(1) s(1) by (intro book_step.moved) (simp_all add: entry_of_def)
      moreover have "book_of ?e = (book_of d)(i \<mapsto> (entry_of p)\<lparr>en_status := s\<rparr>)"
      proof
        fix j
        show "book_of ?e j = ((book_of d)(i \<mapsto> (entry_of p)\<lparr>en_status := s\<rparr>)) j"
          using at_i(2) other[of j] s(2) by (cases "j = i") simp_all
      qed
      ultimately show ?thesis by (simp add: r_into_rtranclp)
    qed
  qed
qed

lemma books_find_append: "List.find P (xs @ ys) = (case List.find P xs of None \<Rightarrow> List.find P ys | Some x \<Rightarrow> Some x)"
  by (induction xs) auto

lemma book_of_append:
  assumes "pay_id p \<notin> pay_id ` set (payments d)" "payments e = payments d @ [p]"
  shows "book_of e = (book_of d)(pay_id p \<mapsto> entry_of p)" "book_of d (pay_id p) = None"
proof -
  have none: "List.find (\<lambda>q. pay_id q = pay_id p) (payments d) = None"
    using assms(1) by (auto simp: find_None_iff image_iff)
  then show "book_of e = (book_of d)(pay_id p \<mapsto> entry_of p)"
    using assms(2) by (auto simp: fun_eq_iff book_of_def books_find_append split: option.split)
  show "book_of d (pay_id p) = None" using none by (simp add: book_of_def)
qed

lemma books_append:
  assumes "pay_id p \<notin> pay_id ` set (payments d)" "pay_status p = Pending" "0 < pay_amount p"
    and "payments e = payments d @ [p]"
  shows "book_step (book_of d) (book_of e)"
  using book_of_append[OF assms(1,4)] assms(2,3)
  by (simp only:) (rule book_step.opened, simp_all add: entry_of_def)

lemma find_removed:
  "List.find (\<lambda>p. pay_id p = j) (filter (\<lambda>p. pay_id p \<noteq> i) rows)
     = (if j = i then None else List.find (\<lambda>p. pay_id p = j) rows)"
  by (induction rows) auto

lemma books_remove:
  assumes "book_of d i = Some e" "en_status e = Pending"
  shows "book_step (book_of d) (book_of (remove_payment i d))"
proof -
  have "book_of (remove_payment i d) = (book_of d)(i := None)"
    by (simp add: fun_eq_iff book_of_def remove_payment_def find_removed)
  then show ?thesis by (simp only:) (rule book_step.withdrawn, rule assms(1), rule assms(2))
qed

subsection \<open>The operations\<close>

lemma entry_advanced: "pay_id (advanced u t p) = pay_id p"
  "entry_of (advanced u t p) = (entry_of p)\<lparr>en_status := su_status u\<rparr>"
  by (simp_all add: entry_of_def advanced_def Let_def)

lemma books_apply_state: "books.safe (apply_state i u)"
proof -
  have "book_steps (book_of d) (book_of (set_payments
      (map (\<lambda>p. if pay_id p = i \<and> pay_status p \<in> set (predecessors_of (su_status u)) then advanced u t p else p)
        (payments d)) d))" for t d
    by (rule books_map[of _ i])
      (auto simp: entry_advanced payment_status.preds_iff split: if_splits)
  then show ?thesis
    unfolding apply_state_def by (intro books.safe_intros books.safe_update_checked)
qed

lemma books_marks: "books.safe (touch_synced i)" "books.safe (set_checkout_session i a b c)"
proof -
  have mark: "book_steps (book_of d) (book_of (set_payments (map (\<lambda>p. if pay_id p = i then f p else p) (payments d)) d))"
    if "\<And>p. pay_id (f p) = pay_id p" "\<And>p. entry_of (f p) = entry_of p" for d f
    by (rule books_map[of _ i]) (auto simp: that)
  show "books.safe (touch_synced i)"
    unfolding touch_synced_def by (intro books.safe_intros books.safe_exec mark) (simp_all add: entry_of_def)
  show "books.safe (set_checkout_session i a b c)"
    unfolding set_checkout_session_def by (intro books.safe_intros books.safe_exec mark) (simp_all add: entry_of_def)
qed

lemma books_announce: "books.safe (publish_payment_event p ty i)" "books.safe (publish_status p)"
  unfolding publish_status_def publish_payment_event_def
  by (intro books.safe_intros books_weaken details_publish)+

lemma books_upsert: "books.safe (upsert_gateway_transaction i x)"
  by (rule books_weaken) (rule details_upsert)

lemma books_reads: "books.safe (load_payment a i)" "books.safe (adapter_for reg p)" "books.safe (account_for app)"
    "books.safe (lock_for_update i)" "books.safe (payment_get i)" "books.safe (load_details p)"
    "books.safe (default_adapter reg gw)" "books.safe (verified g req)" "books.safe (find_owner gw o_id)"
    "books.safe (get_for_application a i)"
  unfolding load_payment_def payment_get_def get_for_application_def payment_where_def adapter_for_def account_get_def
    account_for_def account_default_def lock_for_update_def load_details_def load_customer_def load_items_def
    default_adapter_def verified_def find_owner_def get_by_gateway_order_id_def
  by (intro books.safe_intros books.ev.evolves_case_prod)+

lemmas books_intros = books.safe_intros books.ev.evolves_case_prod books_reads books_upsert books_announce
  books_marks books_apply_state

lemma books_apply_transaction: "books.safe (apply_gateway_transaction p x)"
  unfolding apply_gateway_transaction_def by (intro books_intros)

lemma books_payment_ops: "books.safe (service_get a i)" "books.safe (sync_payment reg a i)"
    "books.safe (cancel_payment reg a i)" "books.safe (expire_payment reg a i)"
    "books.safe (cancel_checkout_session reg a i)"
  unfolding service_get_def sync_payment_def cancel_payment_def expire_payment_def cancel_checkout_session_def
  by (intro books_intros books_apply_transaction)+

lemma details_same: "(\<And>d x e. f d = Inr (x, e) \<Longrightarrow> payments e = payments d) \<Longrightarrow> details.safe (run_stmt f)"
  by (intro details.safe_run_stmt) (simp add: details_rel_def)

lemma details_rows:
  "(\<And>rows d. payments (set_rows rows d) = payments d) \<Longrightarrow> details.safe (insert_checked ks cs get set_rows r)"
  "(\<And>rows d. payments (set_rows rows d) = payments d) \<Longrightarrow> details.safe (update_checked ks cs get set_rows p f)"
  "(\<And>rows d. payments (set_rows rows d) = payments d) \<Longrightarrow> details.safe (update_one get set_rows p f)"
  "(\<And>rows d. payments (set_rows rows d) = payments d) \<Longrightarrow> details.safe (update_where get set_rows p f)"
  "(\<And>rows d. payments (set_rows rows d) = payments d) \<Longrightarrow> details.safe (insert_row cs get set_rows r)"
  by (intro details.safe_insert_checked details.safe_update_checked details.safe_update_one
      details.safe_update_where details.safe_insert_row; simp add: details_rel_def)+

lemma books_refund: "books.safe (refund_payment reg ri)"
proof -
  have "books.safe (create_refund r)" "books.safe (update_refund r)" "books.safe (publish_refund_event p r ty)"
    for r p ty
    unfolding create_refund_def update_refund_def publish_refund_event_def
    by (intro books_intros books_weaken[OF details_rows(1)] books_weaken[OF details_rows(3)]
        books_weaken[OF details_publish]; simp)+
  then show ?thesis
    unfolding refund_payment_def settle_refund_def refund_failed_def refund_done_def apply_refund_to_payment_def
      reserve_refund_def refund_adapter_def succeeded_refund_total_def store_refund_def
    by (intro books_intros)
qed

lemma books_notify: "books.safe (process_notification reg gw req)"
proof -
  have "books.safe (record_event e)" "books.safe (mark_processed i r reason p a)" for e i r reason p a
    unfolding record_event_def by (intro books_intros books_weaken[OF details_rows(1)] books_weaken[OF details_rows(5)]
        books_weaken[OF details_mark]; simp)+
  then show ?thesis
    unfolding process_notification_def process_rejected_def process_verified_def apply_notification_def announce_def
      ignored_def Let_def
    by (intro books_intros books_weaken[OF details_publish])
qed

subsection \<open>Opening a payment\<close>

lemma books_open_at_gateway:
  fixes w :: "'g world"
  assumes "book_of (db w) (pay_id p) = Some e" "en_status e = Pending"
  shows "book_steps (book_of (db w)) (book_of (db (snd (open_at_gateway g ci p w))))"
proof -
  obtain s y where call: "ga_create_payment g (create_request ci p) (ext w) = (s, y)" by fastforce
  show ?thesis
  proof (cases s)
    case (Inl err)
    obtain r v where d: "delete_payment (pay_id p) (w\<lparr>ext := y\<rparr>) = (r, v)" by fastforce
    have "snd (open_at_gateway g ci p w) = v"
      using open_at_gateway_refused[of g ci p w err y] call Inl d by simp
    moreover have "db v = db w \<or> db v = remove_payment (pay_id p) (db w)"
      using delete_payment_db[OF d] by simp
    moreover have "book_step (book_of (db w)) (book_of (remove_payment (pay_id p) (db w)))"
      using assms by (rule books_remove)
    ultimately show ?thesis by (auto intro: r_into_rtranclp)
  next
    case (Inr c)
    have "books.safe (finish_open p c :: ('g, payment) routine)"
      unfolding finish_open_def by (intro books_intros)
    then show ?thesis
      using books.safe_db[of "finish_open p c" "w\<lparr>ext := y\<rparr>"] open_at_gateway_accepted[of g ci p w c y] call Inr
      by simp
  qed
qed

lemma books_create_rows: "pay_status p = Pending \<Longrightarrow> books.safe (create_rows t p)"
proof -
  assume p: "pay_status p = Pending"
  have "book_steps (book_of d) (book_of (set_payments (payments d @ [payment_row t p]) d))"
    if "violated payment_constraints (payment_row t p) (payments d) = None"
      "refused_check payment_checks [payment_row t p] = None" for d
    using that p
    by (intro r_into_rtranclp books_append[of "payment_row t p"])
      (auto simp: violated_None refused_check_None payment_constraints_def payment_checks_def payment_row_def)
  then show ?thesis
    unfolding create_rows_def
    by (intro books.safe_intros books.safe_insert_checked books_weaken[OF details_customer]
        books_weaken[OF details_items])
qed

lemma books_store_and_open:
  fixes w :: "'g world"
  assumes "txn w = None"
  shows "book_steps (book_of (db w)) (book_of (db (snd (store_and_open g ci a options w))))"
proof -
  let ?w2 = "w\<lparr>draws := draws w + 2\<rparr>"
  let ?p = "new_payment (draw ''pay'' 0 w) (draw ''pmx'' 1 w) ci a options"
  obtain r u where c: "payment_create ?p ?w2 = (r, u)" by fastforce
  have ids: "pay_id ?p \<noteq> []" "pay_gateway_order_id ?p \<noteq> []" and pending: "pay_status ?p = Pending"
    by (simp_all add: new_payment_def draw_nonempty)
  have "books.safe (payment_create ?p :: ('g, payment) routine)"
    unfolding payment_create_def using pending by (intro books.safe_intros books_create_rows) simp_all
  then have stored: "book_steps (book_of (db w)) (book_of (db u))"
    using books.safe_db[of "payment_create ?p" ?w2] c by simp
  have "draw ''pmx'' 0 (w\<lparr>draws := draws w + 1\<rparr>) = draw ''pmx'' 1 w" by (simp add: draw_def)
  then have run: "store_and_open g ci a options w = bindE (store_payment ?p) (open_at_gateway g ci) ?w2"
    by (simp add: store_and_open_def fresh_bind)
  show ?thesis
  proof (cases r)
    case (Inl e)
    then have "\<exists>e'. store_payment ?p ?w2 = (Inl e', u)"
      using c by (cases "is_unique_violation e [''payments_application_order_key'']")
        (simp_all add: store_payment_def catchE_def throw_def)
    then show ?thesis using stored by (auto simp: run bindE_run)
  next
    case (Inr q)
    have "store_payment ?p ?w2 = (Inr q, u)"
      using c Inr by (simp add: store_payment_def catchE_def succeed_def)
    then have open_it: "store_and_open g ci a options w = open_at_gateway g ci q u" by (simp add: run bindE_run)
    have "pay_id q = pay_id ?p" "\<exists>t. payments (db u) = payments (db w) @ [payment_row t ?p]"
        "pay_id ?p \<notin> pay_id ` set (payments (db w))"
      by (rule payment_create_cases[OF c _ ids]; use assms Inr in auto)+
    then obtain t where "book_of (db u) = (book_of (db w))(pay_id q \<mapsto> entry_of (payment_row t ?p))"
      using book_of_append(1)[of "payment_row t ?p" "db w" "db u" for t] by (auto simp: payment_row_def)
    then have "book_of (db u) (pay_id q) = Some (entry_of ?p)" by (simp add: entry_of_def payment_row_def)
    moreover have "en_status (entry_of ?p) = Pending" using pending by (simp add: entry_of_def)
    ultimately show ?thesis
      using stored books_open_at_gateway[of u q "entry_of ?p" g ci] unfolding open_it by (metis rtranclp_trans)
  qed
qed

text \<open>A read before a method whose relation only holds outside transactions.\<close>

definition outside_books :: "('g, 'a) routine \<Rightarrow> bool" where
  "outside_books m \<longleftrightarrow> (\<forall>w. txn w = None \<longrightarrow> book_steps (book_of (db w)) (book_of (db (snd (m w)))))"

lemma outside_bind:
  assumes "books.safe m" "\<And>x. outside_books (f x)"
  shows "outside_books (bindE m f)"
  unfolding outside_books_def
proof (intro allI impI)
  fix w :: "'a world"
  assume w: "txn w = None"
  obtain r v where m: "m w = (r, v)" by fastforce
  have v: "book_steps (book_of (db w)) (book_of (db v))" "txn v = None"
    using books.ev.evolvesD[OF assms(1) m] w by (simp_all add: books.R_def)
  show "book_steps (book_of (db w)) (book_of (db (snd (bindE m f w))))"
  proof (cases r)
    case (Inr x)
    have "book_steps (book_of (db v)) (book_of (db (snd (f x v))))"
      using assms(2)[of x] v(2) by (simp add: outside_books_def)
    then show ?thesis using v(1) by (auto simp: bindE_run m Inr intro: rtranclp_trans)
  qed (use v(1) in \<open>simp add: bindE_run m\<close>)
qed

lemma outside_safe: "books.safe m \<Longrightarrow> outside_books m"
  unfolding outside_books_def using books.safe_db by blast

lemma outside_if: "outside_books m \<Longrightarrow> outside_books n \<Longrightarrow> outside_books (if b then m else n)"
  by simp

lemma books_create: "outside_books (create_payment reg ci)"
  unfolding create_payment_steps
  by (intro outside_bind outside_if books_intros outside_safe[OF books.ev.evolves_throw])
    (simp add: outside_books_def books_store_and_open)

subsection \<open>Everything else leaves the payments alone\<close>

lemmas details_intros = details.safe_intros details.ev.evolves_case_prod details_publish details_rows details_same

lemma details_reads: "details.safe (account_get i)" "details.safe (account_for app)"
    "details.safe (subscription_account_for app)" "details.safe (load_subscription reg a i)"
  unfolding account_get_def account_for_def subscription_account_for_def account_default_def load_subscription_def service_get_subscription_def
    subscription_get_def subscription_get_for_application_def
  by (intro details.safe_intros details.ev.evolves_case_prod)+

lemma details_subscriptions: "details.safe (create_subscription_service reg si)"
    "details.safe (update_subscription_service reg a i u)" "details.safe (sync_subscription reg a i)"
    "details.safe (lifecycle reg a i s ty act)"
  unfolding create_subscription_service_def update_subscription_service_def sync_subscription_def lifecycle_def
    subscription_create_def subscription_update_def subscription_set_status_def publish_subscription_def Let_def
  by (intro details_intros details_reads; simp)+

lemma details_idempotency: "details.safe (idem_claim scope h)" "details.safe (idem_complete scope p code body)"
    "details.safe (idem_release scope)"
  unfolding idem_claim_def idem_complete_def idem_release_def idem_get_def exec_stmt_def claim_upsert_def
  by (intro details_intros; auto simp: Let_def split: if_splits option.splits)+

lemma details_deliveries: "details.safe (drain send jitter worker n)" "details.safe recover_stale"
proof -
  have "details.safe (process send u x)" for u x
    unfolding process_def prepare_def event_get_def get_destination_def worker_record_failure_def record_failure_def
      record_success_def insert_attempt_def Let_def
    by (intro details_intros; auto split: if_splits)
  then show "details.safe (drain send jitter worker n)"
    unfolding drain_def claim_def by (intro details_intros; auto simp: Let_def)
  show "details.safe recover_stale"
    unfolding recover_stale_def release_stale_def by (intro details_intros; simp)
qed

subsection \<open>Refinement\<close>

interpretation calm: db_evolution "\<lambda>_ _. True"
  by unfold_locales simp_all

lemma calm_weaken: "books.safe m \<Longrightarrow> calm.safe m"
  by (rule calm.safe_weaken[OF books.db_evolution_axioms]) simp_all

lemma calm_create: "calm.safe (create_payment reg ci)"
proof -
  have "calm.safe (payment_create p)" for p
    unfolding payment_create_def create_rows_def
    by (intro calm.safe_intros calm.safe_insert_checked calm_weaken[OF books_weaken]
        details_customer details_items) simp_all
  moreover have "calm.safe (open_at_gateway g c p)" for g c p
    unfolding open_at_gateway_def finish_open_def delete_payment_def
    by (intro calm.safe_intros calm.safe_exec calm_weaken[OF books_marks(2)] calm_weaken[OF books_announce(1)]) simp
  ultimately show ?thesis
    unfolding create_payment_def store_payment_def account_for_def account_get_def account_default_def
    by (intro calm.safe_intros)
qed

lemma books_run:
  "books.safe m \<Longrightarrow> txn w = None \<Longrightarrow> txn (snd (m w)) = None \<and> book_steps (book_of (db w)) (book_of (db (snd (m w))))"
  by (simp add: books.ev.evolves_def books.R_def)

lemmas books_ops = books_payment_ops books_refund books_notify details_subscriptions[THEN books_weaken]
  details_idempotency[THEN books_weaken] details_deliveries[THEN books_weaken]

lemma system_step_books:
  assumes "system_step reg send w v" "txn w = None"
  shows "txn v = None \<and> book_steps (book_of (db w)) (book_of (db v))"
  using assms(1)
proof cases
  case (create ci)
  then show ?thesis
    using books_create[of reg ci] calm_create[of reg ci] assms(2)
    by (simp add: outside_books_def calm.ev.evolves_def calm.R_def)
next
  case outside
  then show ?thesis using assms(2) by simp
qed (use assms(2) in \<open>simp_all add: books_ops[THEN books_run]\<close>)

lemma system_steps_books:
  "(system_step reg send)\<^sup>*\<^sup>* w v \<Longrightarrow> txn w = None \<Longrightarrow>
   txn v = None \<and> book_steps (book_of (db w)) (book_of (db v))"
proof (induction rule: rtranclp_induct)
  case (step u v)
  then have u: "txn u = None" "book_steps (book_of (db w)) (book_of (db u))" by simp_all
  have "txn v = None \<and> book_steps (book_of (db u)) (book_of (db v))"
    using step.hyps(2) u(1) by (rule system_step_books)
  then show ?case using u(2) by (auto intro: rtranclp_trans)
qed simp

text \<open>C4. Whatever requests, notifications and deliveries are processed in whatever order, and
  whichever of their statements fail, the payments table moves only as the abstract ledger allows:
  a payment is opened pending with a positive amount, its status takes moves of the status machine
  while its owner, order, amount and currency stay, and it is removed only while it is pending.\<close>

theorem payments_refine_ledger:
  assumes "txn w = None" "(system_step reg send)\<^sup>*\<^sup>* w v"
  shows "txn v = None \<and> book_steps (book_of (db w)) (book_of (db v))"
  using assms(2,1) by (rule system_steps_books)

definition idle_sender :: "'g sender" where
  "idle_sender _ g = (\<lparr>sr_status_code = 200, sr_duration = 0, sr_response_body = [], sr_error = None\<rparr>, g)"

lemma sample_run:
  "(system_step (sample_registry False Paid) idle_sender)\<^sup>*\<^sup>* settled_world
     (snd (refund_payment (sample_registry False Paid) (sample_refund ''k1'' 60) settled_world))"
  by (rule r_into_rtranclp, rule system_step.refund)

lemma sample_run_status:
  "map pay_status (payments (db (snd
     (refund_payment (sample_registry False Paid) (sample_refund ''k1'' 60) settled_world)))) = [PartiallyRefunded]"
  by code_simp

theorem payments_refine_ledger_witness:
  "let v = snd (refund_payment (sample_registry False Paid) (sample_refund ''k1'' 60) settled_world)
   in book_steps (book_of (db settled_world)) (book_of (db v)) \<and>
      map pay_status (payments (db v)) = [PartiallyRefunded]"
  using payments_refine_ledger[OF _ sample_run] sample_run_status by (simp add: Let_def)

subsection \<open>What the ledger promises\<close>

lemma never_pending_again: "can_transition s t \<Longrightarrow> t \<noteq> Pending"
  by (cases s; cases t) (simp_all add: status_machine_defs)

lemma book_steps_keep:
  assumes "book_steps b c" "b i = Some e" "en_status e \<noteq> Pending"
  shows "\<exists>s. c i = Some (e\<lparr>en_status := s\<rparr>) \<and> s \<noteq> Pending \<and> payment_status.reaches (en_status e) s"
  using assms(1)
proof (induction rule: rtranclp_induct)
  case base
  then show ?case using assms(2,3) by (intro exI[of _ "en_status e"]) (simp add: payment_status.reaches_refl)
next
  case (step c d)
  then obtain s where s: "c i = Some (e\<lparr>en_status := s\<rparr>)" "s \<noteq> Pending" "payment_status.reaches (en_status e) s"
    by blast
  from step.hyps(2) show ?case
  proof cases
    case (moved j f t)
    show ?thesis
    proof (cases "j = i")
      case True
      then have t: "can_transition s t" "d i = Some (e\<lparr>en_status := t\<rparr>)" using moved s(1) by auto
      then have "payment_status.reaches (en_status e) t"
        using s(3) by (auto intro: payment_status.reaches_trans payment_status.can_reaches)
      then show ?thesis using t never_pending_again by blast
    next
      case False
      then show ?thesis using moved(1) s by auto
    qed
  qed (use s in \<open>auto split: if_splits\<close>)
qed

text \<open>C15. A payment that has left the pending status is never lost and never reopened: after any
  run of the system it is still there for the same application, order, amount and currency, in a
  status the status machine reaches from the one it had.\<close>

theorem payments_are_kept:
  assumes "txn w = None" "(system_step reg send)\<^sup>*\<^sup>* w v"
    and "book_of (db w) i = Some e" "en_status e \<noteq> Pending"
  shows "\<exists>s. book_of (db v) i = Some (e\<lparr>en_status := s\<rparr>) \<and> s \<noteq> Pending \<and> payment_status.reaches (en_status e) s"
  using system_steps_books[OF assms(2,1)] assms(3,4) book_steps_keep by blast

theorem payments_are_kept_witness:
  "let v = snd (refund_payment (sample_registry False Paid) (sample_refund ''k1'' 60) settled_world)
   in \<exists>s. book_of (db v) ''pay_1'' = Some ((entry_of settled_payment)\<lparr>en_status := s\<rparr>) \<and>
      s \<noteq> Pending \<and> payment_status.reaches Paid s"
proof -
  have "book_of (db settled_world) ''pay_1'' = Some (entry_of settled_payment)" "en_status (entry_of settled_payment) = Paid"
    by (simp_all add: book_of_def settled_payment_def entry_of_def empty_db_def)
  then show ?thesis using payments_are_kept[OF _ sample_run, of "''pay_1''"] by (simp add: Let_def)
qed

end
