(* ===== verification/Queue.thy ===== *)
theory Queue
  imports Worker
begin

text \<open>
  The delivery queue over time: a worker that keeps draining it (\<open>Worker.Run\<close> and \<open>drain\<close> of
  \<open>internal/delivery/worker.go\<close>) settles every delivery, whatever the destinations answer.
\<close>

text \<open>One wake-up of the worker at time \<open>t\<close>, and a sequence of them.\<close>

definition turn :: "'g sender \<Rightarrow> (string \<Rightarrow> rat) \<Rightarrow> string \<Rightarrow> int \<Rightarrow> time \<Rightarrow> 'g world \<Rightarrow> 'g world" where
  "turn send jitter worker n t w = snd (drain send jitter worker n (w\<lparr>now := t\<rparr>))"

primrec turns :: "'g sender \<Rightarrow> (string \<Rightarrow> rat) \<Rightarrow> string \<Rightarrow> int \<Rightarrow> time list \<Rightarrow> 'g world \<Rightarrow> 'g world" where
  "turns send jitter worker n [] w = w"
| "turns send jitter worker n (t # ts) w = turns send jitter worker n ts (turn send jitter worker n t w)"

abbreviation unsettled :: "delivery \<Rightarrow> bool" where "unsettled x \<equiv> \<not> dstate_terminal (dl_state x)"

text \<open>The worker wakes when something is due, as long as something is left to do.\<close>

primrec timely :: "'g sender \<Rightarrow> (string \<Rightarrow> rat) \<Rightarrow> string \<Rightarrow> int \<Rightarrow> time list \<Rightarrow> 'g world \<Rightarrow> bool" where
  "timely send jitter worker n [] w = True"
| "timely send jitter worker n (t # ts) w =
     ((list_ex unsettled (deliveries (db w)) \<longrightarrow> list_ex (due t) (deliveries (db w))) \<and>
      timely send jitter worker n ts (turn send jitter worker n t w))"

text \<open>The attempts that are left.\<close>

definition attempts_left :: "delivery \<Rightarrow> nat" where
  "attempts_left x = (if unsettled x then nat (dl_max_attempts x - dl_attempt_count x) else 0)"

definition work :: "db \<Rightarrow> nat" where "work d = sum_list (map attempts_left (deliveries d))"

definition deliverable :: "db \<Rightarrow> delivery \<Rightarrow> bool" where
  "deliverable d x \<longleftrightarrow> dl_attempt_count x < dl_max_attempts x \<and>
     List.find (\<lambda>y. ev_id y = dl_event_id x) (events d) \<noteq> None \<and>
     List.find (\<lambda>y. ds_id y = dl_destination_id x \<and> ds_application_id y = dl_application_id x) (destinations d) \<noteq> None"

definition healthy :: "'g world \<Rightarrow> bool" where
  "healthy w \<longleftrightarrow> outcomes w = [] \<and> txn w = None \<and> distinct (map dl_id (deliveries (db w))) \<and>
     (\<forall>x \<in> set (deliveries (db w)). unsettled x \<longrightarrow> (dl_state x = DPending \<or> dl_state x = DFailed) \<and> deliverable (db w) x)"

text \<open>The identifiers of the next \<open>k\<close> attempts, whenever they are drawn, are new.\<close>

definition mint :: "'g world \<Rightarrow> time \<Rightarrow> nat \<Rightarrow> string" where
  "mint w t n = new_id ''att'' (word_of_int (unix_milli t)) (entropy w (draws w + n))"

definition mints_fresh :: "nat \<Rightarrow> 'g world \<Rightarrow> bool" where
  "mints_fresh k w \<longleftrightarrow> (\<forall>n < k. \<forall>t. mint w t n \<notin> at_id ` set (attempts (db w)) \<and> (\<forall>m < n. \<forall>s. mint w t n \<noteq> mint w s m))"

lemma mints_fresh_mono: "mints_fresh k w \<Longrightarrow> j \<le> k \<Longrightarrow> mints_fresh j w"
  unfolding mints_fresh_def by (meson less_le_trans)

lemma mints_fresh_next:
  assumes "mints_fresh (Suc k) w" "draws v = Suc (draws w)" "entropy v = entropy w"
    and "at_id ` set (attempts (db v)) \<subseteq> insert (mint w t 0) (at_id ` set (attempts (db w)))"
  shows "mints_fresh k v"
proof -
  have shift: "mint v s n = mint w s (Suc n)" for s n using assms(2,3) by (simp add: mint_def)
  show ?thesis
    unfolding mints_fresh_def shift
  proof (intro allI impI conjI)
    fix n s
    assume n: "n < k"
    then have "mint w s (Suc n) \<notin> at_id ` set (attempts (db w))" "mint w s (Suc n) \<noteq> mint w t 0"
      using assms(1) by (simp_all add: mints_fresh_def)
    then show "mint w s (Suc n) \<notin> at_id ` set (attempts (db v))" using assms(4) by blast
    show "mint w s (Suc n) \<noteq> mint w r (Suc m)" if "m < n" for m r
      using assms(1) n that by (simp add: mints_fresh_def)
  qed
qed

lemma mints_fresh_first:
  assumes "mints_fresh (Suc k) w"
  shows "projr (fst (fresh_id ''att'' w)) \<notin> at_id ` set (attempts (db w))"
proof -
  have "mint w (now w) 0 \<notin> at_id ` set (attempts (db w))"
    using assms unfolding mints_fresh_def by blast
  then show ?thesis by (simp add: fresh_id_def mint_def)
qed

subsection \<open>One attempt\<close>

text \<open>The row after an attempt: settled, or failed with another attempt to come.\<close>

definition served :: "delivery \<Rightarrow> delivery \<Rightarrow> bool" where
  "served x y \<longleftrightarrow> dl_id y = dl_id x \<and> dl_event_id y = dl_event_id x \<and>
     dl_destination_id y = dl_destination_id x \<and> dl_application_id y = dl_application_id x \<and>
     dl_max_attempts y = dl_max_attempts x \<and>
     (unsettled y \<longrightarrow> dl_state y = DFailed \<and> dl_attempt_count y = dl_attempt_count x + 1 \<and>
        dl_attempt_count y < dl_max_attempts y)"

lemma attempt_world:
  assumes "v = w\<lparr>draws := Suc (draws w), db := d\<rparr>" "outcomes w = []" "txn w = None" "mints_fresh (Suc k) w"
    and "d = (db w)\<lparr>attempts := rows, deliveries := dls\<rparr>"
    and "at_id ` set rows \<subseteq> insert (projr (fst (fresh_id ''att'' w))) (at_id ` set (attempts (db w)))"
  shows "outcomes v = [] \<and> txn v = None \<and> mints_fresh k v \<and>
    events (db v) = events (db w) \<and> destinations (db v) = destinations (db w) \<and> deliveries (db v) = dls"
proof -
  have "projr (fst (fresh_id ''att'' w)) = mint w (now w) 0" by (simp add: fresh_id_def mint_def)
  then have "mints_fresh k v" using assms(1,5,6) by (intro mints_fresh_next[OF assms(4)]) simp_all
  then show ?thesis using assms by simp
qed

lemma process_run:
  assumes "outcomes w = []" "txn w = None" "x \<in> set (deliveries (db w))" "deliverable (db w) x"
    and "mints_fresh (Suc k) w"
  shows "\<exists>v f. process send u x w = (Inr (), v) \<and> outcomes v = [] \<and> txn v = None \<and> mints_fresh k v \<and>
    events (db v) = events (db w) \<and> destinations (db v) = destinations (db w) \<and>
    deliveries (db v) = map (\<lambda>y. if dl_id y = dl_id x then f y else y) (deliveries (db w)) \<and> served x (f x)"
proof -
  obtain e ds where r: "ready (db w) x e ds" using assms(3,4) by (auto simp: deliverable_def ready_def)
  obtain s g where call: "send (request_for x e ds) (ext w) = (s, g)" by fastforce
  define z where "z = w\<lparr>ext := g\<rparr>"
  define a where "a = attempt_of (dl_attempt_count x + 1) s"
  have n: "at_number a = dl_attempt_count x + 1"
    by (simp add: a_def attempt_of_def Let_def zero_attempt_def split: option.split)
  have z: "outcomes z = []" "txn z = None" "mints_fresh (Suc k) z" "events (db z) = events (db w)"
      "destinations (db z) = destinations (db w)" "deliveries (db z) = deliveries (db w)" "x \<in> set (deliveries (db z))"
    using assms by (simp_all add: z_def mints_fresh_def mint_def)
  have id: "projr (fst (fresh_id ''att'' z)) \<notin> at_id ` set (attempts (db z))"
    using z(3) by (rule mints_fresh_first)
  have run: "process send u x w = (if delivered s then ignore_error (record_success x a)
      else worker_record_failure u x a (retryable s)) z"
    using prepare_run[OF assms(1,2) r] call
    by (simp add: process_def catchE_def bindE_run call_out_def request_for_def Let_def z_def a_def)
  show ?thesis
  proof (cases "delivered s")
    case True
    define f :: "delivery \<Rightarrow> delivery" where "f = after_success (now z) a"
    obtain v y rows where rec: "record_success x a z = (Inr y, v)"
        "db v = (db z)\<lparr>attempts := rows, deliveries := map (\<lambda>y. if dl_id y = dl_id x then f y else y) (deliveries (db z))\<rparr>"
        "v = z\<lparr>draws := Suc (draws z), db := db v\<rparr>"
        "at_id ` set rows \<subseteq> insert (projr (fst (fresh_id ''att'' z))) (at_id ` set (attempts (db z)))"
      using record_success_run[OF z(1,2) id z(7) refl, of a] unfolding f_def by blast
    have "process send u x w = (Inr (), v)" using True rec(1) unfolding run by (simp add: ignore_error_run)
    moreover have "served x (f x)" by (simp add: served_def f_def after_success_def)
    ultimately show ?thesis using attempt_world[OF rec(3) z(1-3) rec(2,4)] unfolding z(4-6) by blast
  next
    case False
    define f :: "delivery \<Rightarrow> delivery" where "f = after_attempt u (now z) x a (retryable s)"
    obtain v y rows where rec: "record_failure u x a (retryable s) z = (Inr y, v)"
        "db v = (db z)\<lparr>attempts := rows, deliveries := map (\<lambda>y. if dl_id y = dl_id x then f y else y) (deliveries (db z))\<rparr>"
        "v = z\<lparr>draws := Suc (draws z), db := db v\<rparr>"
        "at_id ` set rows \<subseteq> insert (projr (fst (fresh_id ''att'' z))) (at_id ` set (attempts (db z)))"
      using record_failure_run[OF z(1,2) id z(7) refl, of u a "retryable s"] unfolding f_def by blast
    have "process send u x w = (Inr (), v)"
      using False rec(1) unfolding run worker_record_failure_def by (simp add: ignore_error_run)
    moreover have "served x (f x)" using n by (auto simp: served_def f_def after_attempt_def Let_def)
    ultimately show ?thesis using attempt_world[OF rec(3) z(1-3) rec(2,4)] unfolding z(4-6) by blast
  qed
qed

subsection \<open>One batch\<close>

lemma deliverable_cong: "events e = events d \<Longrightarrow> destinations e = destinations d \<Longrightarrow> deliverable e x = deliverable d x"
  by (simp add: deliverable_def)

lemma batch_run:
  fixes w :: "'g world"
  assumes "outcomes w = []" "txn w = None" "mints_fresh (length xs + k) w" "distinct (map dl_id xs)"
    and "distinct (map dl_id (deliveries (db w)))" "\<forall>x \<in> set xs. x \<in> set (deliveries (db w)) \<and> deliverable (db w) x"
  shows "\<exists>v ys f. mapE (\<lambda>x. process send (u x) x) xs w = (Inr ys, v) \<and> outcomes v = [] \<and> txn v = None \<and>
    mints_fresh k v \<and> events (db v) = events (db w) \<and> destinations (db v) = destinations (db w) \<and>
    deliveries (db v) = map f (deliveries (db w)) \<and>
    (\<forall>y \<in> set (deliveries (db w)). if y \<in> set xs then served y (f y) else f y = y)"
  using assms
proof (induction xs arbitrary: w)
  case Nil
  then show ?case by (intro exI[of _ w] exI[of _ "[]"] exI[of _ id]) (simp add: succeed_def)
next
  case (Cons x xs)
  have "x \<in> set (deliveries (db w))" "deliverable (db w) x" "mints_fresh (Suc (length xs + k)) w"
    using Cons.prems by simp_all
  from process_run[OF Cons.prems(1,2) this, of send "u x"]
  obtain w1 f where p: "process send (u x) x w = (Inr (), w1)" "outcomes w1 = []" "txn w1 = None"
      "mints_fresh (length xs + k) w1" "events (db w1) = events (db w)" "destinations (db w1) = destinations (db w)"
      "deliveries (db w1) = map (\<lambda>y. if dl_id y = dl_id x then f y else y) (deliveries (db w))" "served x (f x)"
    by blast
  have only: "y = x" if "y \<in> set (deliveries (db w))" "dl_id y = dl_id x" for y
    using that Cons.prems(5,6) by (auto simp: distinct_map dest: inj_onD)
  have g: "(if dl_id y = dl_id x then f y else y) = (if y = x then f x else y)" if "y \<in> set (deliveries (db w))" for y
    using only[OF that] by auto
  then have d1: "deliveries (db w1) = map (\<lambda>y. if y = x then f x else y) (deliveries (db w))"
    unfolding p(7) by (intro map_cong) auto
  have "map dl_id (deliveries (db w1)) = map dl_id (deliveries (db w))"
    using p(8) unfolding d1 by (auto simp: served_def)
  then have "distinct (map dl_id (deliveries (db w1)))" using Cons.prems(5) by simp
  moreover have rest: "\<forall>y \<in> set xs. y \<in> set (deliveries (db w1)) \<and> deliverable (db w1) y"
    using Cons.prems(4,6) p(5,6) deliverable_cong[of "db w1" "db w"] unfolding d1 by force
  moreover have "distinct (map dl_id xs)" using Cons.prems(4) by simp
  ultimately obtain v ys h where q: "mapE (\<lambda>x. process send (u x) x) xs w1 = (Inr ys, v)" "outcomes v = []" "txn v = None"
      "mints_fresh k v" "events (db v) = events (db w1)" "destinations (db v) = destinations (db w1)"
      "deliveries (db v) = map h (deliveries (db w1))"
      "\<forall>y \<in> set (deliveries (db w1)). if y \<in> set xs then served y (h y) else h y = y"
    using Cons.IH[OF p(2,3,4)] by blast
  have fx: "f x \<notin> set xs"
  proof
    assume "f x \<in> set xs"
    moreover have "dl_id (f x) = dl_id x" using p(8) by (simp add: served_def)
    ultimately have "dl_id x \<in> dl_id ` set xs" by (metis imageI)
    then show False using Cons.prems(4) by simp
  qed
  define m where "m = (\<lambda>y. h (if y = x then f x else y))"
  have "if y \<in> set (x # xs) then served y (m y) else m y = y" if y: "y \<in> set (deliveries (db w))" for y
  proof (cases "y = x")
    case True
    have "f x \<in> set (deliveries (db w1))" using y True unfolding d1 by auto
    then have "h (f x) = f x" using q(8) fx by auto
    then show ?thesis using True p(8) by (simp add: m_def)
  next
    case False
    then have "y \<in> set (deliveries (db w1))" using y unfolding d1 by auto
    then show ?thesis using q(8) False by (auto simp: m_def)
  qed
  moreover have "deliveries (db v) = map m (deliveries (db w))"
    using q(7) unfolding d1 by (simp add: m_def comp_def)
  moreover have "mapE (\<lambda>x. process send (u x) x) (x # xs) w = (Inr (() # ys), v)"
    using p(1) q(1) by (simp add: bindE_run succeed_def)
  ultimately show ?case using p(5,6) q(2-6) by metis
qed

subsection \<open>One wake-up\<close>

definition locked_row :: "time \<Rightarrow> string \<Rightarrow> delivery \<Rightarrow> delivery" where
  "locked_row t a x = x\<lparr>dl_state := Delivering, dl_locked_at := Some t, dl_locked_by := a, dl_updated_at := t\<rparr>"

lemma claim_run:
  assumes "outcomes w = []" "txn w = None" "0 < n"
  shows "let ids = set (due_ids (now w) n (deliveries (db w))) in
    claim a n w = (Inr (map (locked_row (now w) a) (filter (\<lambda>x. dl_id x \<in> ids) (deliveries (db w)))),
      w\<lparr>db := (db w)\<lparr>deliveries := map (\<lambda>x. if dl_id x \<in> ids then locked_row (now w) a x else x) (deliveries (db w))\<rparr>\<rparr>)"
  using assms
  by (simp add: claim_def bindE_run gets_def run_stmt_def next_outcome_def Let_def locked_row_def)

lemma locked_row_simps [simp]: "dl_id (locked_row t a x) = dl_id x" "dl_event_id (locked_row t a x) = dl_event_id x"
  "dl_destination_id (locked_row t a x) = dl_destination_id x" "dl_application_id (locked_row t a x) = dl_application_id x"
  "dl_max_attempts (locked_row t a x) = dl_max_attempts x" "dl_attempt_count (locked_row t a x) = dl_attempt_count x"
  "deliverable d (locked_row t a x) = deliverable d x"
  by (simp_all add: locked_row_def deliverable_def)

lemma served_left:
  assumes "served x y" "unsettled z" "dl_attempt_count z = dl_attempt_count x" "dl_max_attempts z = dl_max_attempts x"
    and "dl_attempt_count x < dl_max_attempts x"
  shows "Suc (attempts_left y) \<le> attempts_left z"
  using assms by (auto simp: served_def attempts_left_def)

lemma sum_drop:
  "(\<And>x. x \<in> set xs \<Longrightarrow> (g x :: nat) + (if P x then 1 else 0) \<le> f x) \<Longrightarrow>
   sum_list (map g xs) + length (filter P xs) \<le> sum_list (map f xs)"
proof (induction xs)
  case (Cons x xs)
  then have "g x + (if P x then 1 else 0) \<le> f x" "sum_list (map g xs) + length (filter P xs) \<le> sum_list (map f xs)"
    by simp_all
  then show ?case by (cases "P x") simp_all
qed simp

lemma turn_run:
  assumes "healthy w" "mints_fresh (work (db w)) w" "0 < n"
  shows "\<exists>k. healthy (turn send jitter worker n t w) \<and>
    mints_fresh (work (db (turn send jitter worker n t w))) (turn send jitter worker n t w) \<and>
    work (db (turn send jitter worker n t w)) + k \<le> work (db w) \<and>
    (list_ex (due t) (deliveries (db w)) \<longrightarrow> 0 < k) \<and>
    map dl_id (deliveries (db (turn send jitter worker n t w))) = map dl_id (deliveries (db w))"
proof -
  let ?rows = "deliveries (db w)"
  define ids where "ids = set (due_ids t n ?rows)"
  define taken where "taken = filter (\<lambda>x. dl_id x \<in> ids) ?rows"
  define lock where "lock = (\<lambda>x. if dl_id x \<in> ids then locked_row t worker x else x)"
  define v where "v = w\<lparr>now := t, db := (db w)\<lparr>deliveries := map lock ?rows\<rparr>\<rparr>"
  have claim: "claim worker n (w\<lparr>now := t\<rparr>) = (Inr (map (locked_row t worker) taken), v)"
    using claim_run[of "w\<lparr>now := t\<rparr>" n worker] assms(1,3)
    by (simp add: healthy_def Let_def ids_def taken_def lock_def v_def)
  have dist: "distinct (map dl_id ?rows)" using assms(1) by (simp add: healthy_def)
  have due_open: "unsettled x \<and> deliverable (db w) x" if x: "x \<in> set ?rows" "dl_id x \<in> ids" for x
  proof -
    obtain y where y: "y \<in> set ?rows" "dl_id y = dl_id x" "due t y"
      using due_ids_due[of "dl_id x" t n ?rows] x(2) unfolding ids_def by blast
    then have "y = x" using dist x(1) by (auto simp: distinct_map dest: inj_onD)
    then show ?thesis using y(3) assms(1) x(1) by (auto simp: healthy_def due_def)
  qed
  have left: "Suc 0 \<le> attempts_left x" if "x \<in> set ?rows" "dl_id x \<in> ids" for x
    using due_open[OF that] by (auto simp: attempts_left_def deliverable_def)
  have enough: "length taken \<le> work (db w)"
    using sum_drop[of ?rows "\<lambda>_. 0" "\<lambda>x. dl_id x \<in> ids" attempts_left] left by (simp add: work_def taken_def)
  have v: "outcomes v = []" "txn v = None" "events (db v) = events (db w)" "destinations (db v) = destinations (db w)"
      "deliveries (db v) = map lock ?rows" "attempts (db v) = attempts (db w)" "entropy v = entropy w" "draws v = draws w"
    using assms(1) by (simp_all add: v_def healthy_def)
  have lock_id: "dl_id (lock x) = dl_id x" for x by (simp add: lock_def)
  have keys: "map dl_id (deliveries (db v)) = map dl_id ?rows" by (simp add: v(5) lock_id)
  have "mints_fresh (length (map (locked_row t worker) taken) + (work (db w) - length taken)) v"
    using assms(2) enough v(6-8) by (simp add: mints_fresh_def mint_def)
  moreover have "distinct (map dl_id (map (locked_row t worker) taken))"
    using distinct_map_filter[OF dist] by (simp add: taken_def comp_def)
  moreover have "distinct (map dl_id (deliveries (db v)))" using dist keys by simp
  moreover have "\<forall>x \<in> set (map (locked_row t worker) taken). x \<in> set (deliveries (db v)) \<and> deliverable (db v) x"
    using due_open deliverable_cong[OF v(3,4)] by (auto simp: taken_def v(5) lock_def)
  ultimately obtain u ys f where u: "mapE (\<lambda>x. process send (jitter (dl_id x)) x) (map (locked_row t worker) taken) v = (Inr ys, u)"
      "outcomes u = []" "txn u = None" "mints_fresh (work (db w) - length taken) u" "events (db u) = events (db v)"
      "destinations (db u) = destinations (db v)" "deliveries (db u) = map f (deliveries (db v))"
      and f: "\<forall>y \<in> set (deliveries (db v)). if y \<in> set (map (locked_row t worker) taken) then served y (f y) else f y = y"
    using batch_run[OF v(1,2), of "map (locked_row t worker) taken" "work (db w) - length taken" send "\<lambda>x. jitter (dl_id x)"]
    by blast
  have turn: "turn send jitter worker n t w = u"
    using claim u(1) by (simp add: turn_def drain_def bindE_run succeed_def)
  have taken_row: "served (locked_row t worker x) (f (lock x))" if x: "x \<in> set ?rows" "dl_id x \<in> ids" for x
  proof -
    have "lock x = locked_row t worker x" "x \<in> set taken" using x by (simp_all add: lock_def taken_def)
    then show ?thesis using f x(1) unfolding v(5) by force
  qed
  have other_row: "f (lock x) = x" if x: "x \<in> set ?rows" "dl_id x \<notin> ids" for x
  proof -
    have "lock x = x" "x \<notin> set (map (locked_row t worker) taken)" using x by (auto simp: lock_def taken_def)
    then show ?thesis using f x(1) unfolding v(5) by force
  qed
  have rows: "deliveries (db u) = map (\<lambda>x. f (lock x)) ?rows" using u(7) v(5) by simp
  have same_id: "dl_id (f (lock x)) = dl_id x" if "x \<in> set ?rows" for x
    using taken_row[OF that] other_row[OF that] by (cases "dl_id x \<in> ids") (auto simp: served_def)
  have ids_same: "map dl_id (deliveries (db u)) = map dl_id ?rows" using same_id by (simp add: rows)
  have drop: "attempts_left (f (lock x)) + (if dl_id x \<in> ids then 1 else 0) \<le> attempts_left x" if x: "x \<in> set ?rows" for x
  proof (cases "dl_id x \<in> ids")
    case True
    then show ?thesis
      using served_left[OF taken_row[OF x True], of x] due_open[OF x True] by (simp add: deliverable_def)
  qed (use other_row[OF x] in simp)
  have "work (db u) + length taken \<le> work (db w)"
    using sum_drop[of ?rows "\<lambda>x. attempts_left (f (lock x))" "\<lambda>x. dl_id x \<in> ids" attempts_left, OF drop]
    by (simp add: work_def rows taken_def comp_def)
  moreover have "0 < length taken" if some: "list_ex (due t) ?rows"
  proof -
    have "filter (due t) ?rows \<noteq> []" using some by (auto simp: list_ex_iff filter_empty_conv)
    then have "sort_key dl_next_attempt_at (filter (due t) ?rows) \<noteq> []"
      by (metis length_0_conv length_sort)
    then have "due_ids t n ?rows \<noteq> []" using assms(3) by (simp add: due_ids_def)
    then obtain i where i: "i \<in> ids" unfolding ids_def by (cases "due_ids t n ?rows") auto
    then obtain x where "x \<in> set ?rows" "dl_id x = i" using due_ids_due unfolding ids_def by blast
    then have "x \<in> set taken" using i by (simp add: taken_def)
    then show ?thesis by (cases taken) simp_all
  qed
  moreover have "healthy u"
    unfolding healthy_def
  proof (intro conjI ballI impI)
    fix y
    assume y: "y \<in> set (deliveries (db u))" "unsettled y"
    then obtain x where x: "x \<in> set ?rows" "y = f (lock x)" unfolding rows by auto
    have cong: "deliverable (db u) z = deliverable (db w) z" for z
      using deliverable_cong[of "db u" "db w"] u(5,6) v(3,4) by simp
    show "deliverable (db u) y" "dl_state y = DPending \<or> dl_state y = DFailed"
    proof (atomize (full), cases "dl_id x \<in> ids")
      case True
      then show "deliverable (db u) y \<and> (dl_state y = DPending \<or> dl_state y = DFailed)"
        using taken_row[OF x(1) True] due_open[OF x(1) True] y(2) unfolding cong x(2)
        by (auto simp: served_def deliverable_def)
    next
      case False
      then show "deliverable (db u) y \<and> (dl_state y = DPending \<or> dl_state y = DFailed)"
        using other_row[OF x(1) False] assms(1) x y(2) unfolding cong by (auto simp: healthy_def)
    qed
  qed (use u(2,3) dist ids_same in simp_all)
  moreover have "mints_fresh (work (db u)) u"
    by (rule mints_fresh_mono[OF u(4)]) (use \<open>work (db u) + length taken \<le> work (db w)\<close> in linarith)
  ultimately show ?thesis unfolding turn using ids_same by (intro exI[of _ "length taken"]) simp
qed

subsection \<open>The queue settles\<close>

lemma healthy_settled:
  assumes "healthy w"
  shows "work (db w) = 0 \<longleftrightarrow> (\<forall>x \<in> set (deliveries (db w)). \<not> unsettled x)"
proof -
  have "attempts_left x = 0 \<longleftrightarrow> \<not> unsettled x" if "x \<in> set (deliveries (db w))" for x
    using assms that unfolding healthy_def attempts_left_def deliverable_def by fastforce
  then show ?thesis by (simp add: work_def)
qed

lemma turns_run:
  assumes "healthy w" "mints_fresh (work (db w)) w" "0 < n" "timely send jitter worker n ts w"
  shows "healthy (turns send jitter worker n ts w) \<and>
    work (db (turns send jitter worker n ts w)) \<le> work (db w) - length ts \<and>
    map dl_id (deliveries (db (turns send jitter worker n ts w))) = map dl_id (deliveries (db w))"
  using assms(1,2,4)
proof (induction ts arbitrary: w)
  case (Cons t ts)
  let ?v = "turn send jitter worker n t w"
  obtain k where k: "healthy ?v" "mints_fresh (work (db ?v)) ?v" "work (db ?v) + k \<le> work (db w)"
      "list_ex (due t) (deliveries (db w)) \<longrightarrow> 0 < k" "map dl_id (deliveries (db ?v)) = map dl_id (deliveries (db w))"
    using turn_run[OF Cons.prems(1,2) assms(3)] by blast
  have "work (db ?v) \<le> work (db w) - 1"
  proof (cases "list_ex unsettled (deliveries (db w))")
    case True
    then have "0 < k" using k(4) Cons.prems(3) by simp
    then show ?thesis using k(3) by linarith
  next
    case False
    then have "work (db w) = 0" using healthy_settled[OF Cons.prems(1)] by (auto simp: list_ex_iff)
    then show ?thesis using k(3) by simp
  qed
  moreover have "timely send jitter worker n ts ?v" using Cons.prems(3) by simp
  ultimately show ?case using Cons.IH[OF k(1,2)] k(5) by auto
qed simp

lemma timely_exists:
  assumes "healthy w" "mints_fresh (work (db w)) w" "0 < n"
  shows "\<exists>ts. length ts = k \<and> timely send jitter worker n ts w"
  using assms(1,2)
proof (induction k arbitrary: w)
  case (Suc k)
  let ?t = "Max (insert 0 (dl_next_attempt_at ` set (deliveries (db w))))"
  let ?v = "turn send jitter worker n ?t w"
  have "healthy ?v" "mints_fresh (work (db ?v)) ?v"
    using turn_run[OF Suc.prems assms(3)] by blast+
  then obtain ts where ts: "length ts = k" "timely send jitter worker n ts ?v" using Suc.IH by blast
  have "due ?t x" if "x \<in> set (deliveries (db w))" "unsettled x" for x
    using that Suc.prems(1) by (auto simp: healthy_def due_def)
  then have "list_ex unsettled (deliveries (db w)) \<longrightarrow> list_ex (due ?t) (deliveries (db w))"
    unfolding list_ex_iff by blast
  then show ?case using ts by (intro exI[of _ "?t # ts"]) simp
qed simp

text \<open>C19. Every delivery is settled in the end. With a database that works, and whatever the
  destinations answer, a worker that wakes whenever something is due has delivered, or given up,
  every delivery of the queue after at most as many wake-ups as attempts were left; none is lost,
  and there always are times to wake at.\<close>

theorem queue_settles:
  assumes "healthy w" "mints_fresh (work (db w)) w" "0 < n"
  shows "(\<exists>ts. length ts = work (db w) \<and> timely send jitter worker n ts w) \<and>
    (\<forall>ts. timely send jitter worker n ts w \<and> work (db w) \<le> length ts \<longrightarrow>
      map dl_id (deliveries (db (turns send jitter worker n ts w))) = map dl_id (deliveries (db w)) \<and>
      (\<forall>x \<in> set (deliveries (db (turns send jitter worker n ts w))). dstate_terminal (dl_state x)))"
proof (intro conjI allI impI)
  show "\<exists>ts. length ts = work (db w) \<and> timely send jitter worker n ts w"
    by (rule timely_exists[OF assms])
  fix ts
  assume ts: "timely send jitter worker n ts w \<and> work (db w) \<le> length ts"
  note run = turns_run[OF assms conjunct1[OF ts]]
  show "map dl_id (deliveries (db (turns send jitter worker n ts w))) = map dl_id (deliveries (db w))" using run by blast
  have "work (db (turns send jitter worker n ts w)) = 0" using run ts by simp
  then show "\<forall>x \<in> set (deliveries (db (turns send jitter worker n ts w))). dstate_terminal (dl_state x)"
    using run healthy_settled by blast
qed

theorem queue_settles_witness:
  "let x = zero_delivery\<lparr>dl_id := ''dlv_1'', dl_event_id := ''evt_1'', dl_destination_id := ''dst_1'',
         dl_state := DPending, dl_attempt_count := 6, dl_max_attempts := 7, dl_next_attempt_at := 5\<rparr>;
       w = quiet_world (empty_db\<lparr>deliveries := [x], events := [zero_event\<lparr>ev_id := ''evt_1''\<rparr>],
             destinations := [zero_destination\<lparr>ds_id := ''dst_1''\<rparr>]\<rparr>) ();
       send = (\<lambda>_ g. (\<lparr>sr_status_code = 503, sr_duration = 0, sr_response_body = [], sr_error = None\<rparr>, g));
       v = turns send (\<lambda>_. 1/2) ''worker-a'' 5 [9] w
   in map dl_id (deliveries (db v)) = [''dlv_1''] \<and> (\<forall>x \<in> set (deliveries (db v)). dstate_terminal (dl_state x))"
proof -
  let ?x = "zero_delivery\<lparr>dl_id := ''dlv_1'', dl_event_id := ''evt_1'', dl_destination_id := ''dst_1'',
         dl_state := DPending, dl_attempt_count := 6, dl_max_attempts := 7, dl_next_attempt_at := 5\<rparr>"
  define w where "w = quiet_world (empty_db\<lparr>deliveries := [?x], events := [zero_event\<lparr>ev_id := ''evt_1''\<rparr>],
             destinations := [zero_destination\<lparr>ds_id := ''dst_1''\<rparr>]\<rparr>) ()"
  define send :: "unit sender" where
    "send = (\<lambda>_ g. (\<lparr>sr_status_code = 503, sr_duration = 0, sr_response_body = [], sr_error = None\<rparr>, g))"
  have h: "healthy w" "work (db w) = 1" "mints_fresh (work (db w)) w" "(0::int) < 5"
    by (simp_all add: w_def healthy_def deliverable_def zero_delivery_def zero_event_def zero_destination_def empty_db_def
        work_def attempts_left_def mints_fresh_def)
  have "timely send (\<lambda>_. 1/2) ''worker-a'' 5 [9] w" by (simp add: w_def due_def zero_delivery_def)
  moreover have "map dl_id (deliveries (db w)) = [''dlv_1'']" by (simp add: w_def)
  ultimately show ?thesis
    using conjunct2[OF queue_settles[OF h(1,3,4), of send "\<lambda>_. 1/2" "''worker-a''"], rule_format, of "[9]"] h(2)
    unfolding w_def send_def Let_def by simp
qed

end
