(* ===== verification/Http.thy ===== *)
theory Http
  imports Store
begin

text \<open>
  Package \<open>internal/httpx\<close>: requests and responses, the public error contract, the reading of a
  body, the middleware and the rate limiter. A body comes as what \<open>encoding/json\<close>, told to refuse
  unknown fields, made of it; a response's body is a JSON value. The token bucket of
  \<open>golang.org/x/time/rate\<close> is a parameter, and so is a clock reading. Logging and metrics are left
  out.
\<close>

subsection \<open>Requests and responses\<close>

record request =
  rq_method :: string
  rq_header :: "string \<Rightarrow> string"
  rq_cookie :: "string \<Rightarrow> string option"
  rq_remote_addr :: string
  rq_query :: "string \<Rightarrow> string"
  rq_param :: "string \<Rightarrow> string"
  rq_id :: string

record response =
  rs_status :: int
  rs_headers :: "(string \<times> string) list"
  rs_body :: "json option"

definition write_json :: "int \<Rightarrow> json \<Rightarrow> response" where
  "write_json status v = \<lparr>rs_status = status, rs_headers = [(''Content-Type'', ''application/json; charset=utf-8'')],
     rs_body = Some v\<rparr>"

definition no_content :: response where
  "no_content = \<lparr>rs_status = 204, rs_headers = [], rs_body = None\<rparr>"

definition add_header :: "string \<Rightarrow> string \<Rightarrow> response \<Rightarrow> response" where
  "add_header name v r = r\<lparr>rs_headers := (name, v) # rs_headers r\<rparr>"

subsection \<open>The error contract\<close>

definition code_invalid_request :: string where "code_invalid_request = ''INVALID_REQUEST''"
definition code_validation_failed :: string where "code_validation_failed = ''VALIDATION_FAILED''"
definition code_unauthorized :: string where "code_unauthorized = ''UNAUTHORIZED''"
definition code_forbidden :: string where "code_forbidden = ''FORBIDDEN''"
definition code_not_found :: string where "code_not_found = ''NOT_FOUND''"
definition code_payment_not_found :: string where "code_payment_not_found = ''PAYMENT_NOT_FOUND''"
definition code_application_not_found :: string where "code_application_not_found = ''APPLICATION_NOT_FOUND''"
definition code_refund_not_found :: string where "code_refund_not_found = ''REFUND_NOT_FOUND''"
definition code_conflict :: string where "code_conflict = ''CONFLICT''"
definition code_idempotency_conflict :: string where "code_idempotency_conflict = ''IDEMPOTENCY_KEY_REUSED''"
definition code_duplicate_order_id :: string where "code_duplicate_order_id = ''DUPLICATE_ORDER_ID''"
definition code_unsupported_gateway :: string where "code_unsupported_gateway = ''UNSUPPORTED_GATEWAY''"
definition code_gateway_not_configured :: string where "code_gateway_not_configured = ''GATEWAY_NOT_CONFIGURED''"
definition code_gateway_error :: string where "code_gateway_error = ''GATEWAY_ERROR''"
definition code_invalid_state :: string where "code_invalid_state = ''INVALID_STATE''"
definition code_not_supported :: string where "code_not_supported = ''NOT_SUPPORTED''"
definition code_rate_limited :: string where "code_rate_limited = ''RATE_LIMITED''"
definition code_payload_too_large :: string where "code_payload_too_large = ''PAYLOAD_TOO_LARGE''"
definition code_internal :: string where "code_internal = ''INTERNAL_ERROR''"

record api_error =
  ap_status :: int
  ap_code :: string
  ap_message :: string
  ap_fields :: "(string \<times> string) list"
  ap_cause :: "error option"

definition new_error :: "int \<Rightarrow> string \<Rightarrow> string \<Rightarrow> api_error" where
  "new_error status code message =
     \<lparr>ap_status = status, ap_code = code, ap_message = message, ap_fields = [], ap_cause = None\<rparr>"

definition with_cause :: "error \<Rightarrow> api_error \<Rightarrow> api_error" where
  "with_cause e a = a\<lparr>ap_cause := Some e\<rparr>"

definition with_field :: "string \<Rightarrow> string \<Rightarrow> api_error \<Rightarrow> api_error" where
  "with_field f m a = a\<lparr>ap_fields := ap_fields a @ [(f, m)]\<rparr>"

definition err_invalid_request :: "string \<Rightarrow> api_error" where
  "err_invalid_request = new_error 400 code_invalid_request"

definition err_validation :: "string \<Rightarrow> api_error" where
  "err_validation = new_error 422 code_validation_failed"

definition err_unauthorized :: "string \<Rightarrow> api_error" where
  "err_unauthorized = new_error 401 code_unauthorized"

definition err_forbidden :: "string \<Rightarrow> api_error" where
  "err_forbidden = new_error 403 code_forbidden"

definition err_not_found :: "string \<Rightarrow> string \<Rightarrow> api_error" where "err_not_found = new_error 404"

definition err_conflict :: "string \<Rightarrow> string \<Rightarrow> api_error" where "err_conflict = new_error 409"

definition err_internal :: "error option \<Rightarrow> api_error" where
  "err_internal cause = (new_error 500 code_internal ''An internal error occurred.'')\<lparr>ap_cause := cause\<rparr>"

text \<open>An \<open>error\<close> value of a handler: one of the domain, or one built for the client.\<close>

datatype failure = Domain error | Typed api_error

definition as_error :: "failure \<Rightarrow> api_error" where
  "as_error f = (case f of Typed a \<Rightarrow> a | Domain e \<Rightarrow> err_internal (Some e))"

definition error_body :: "api_error \<Rightarrow> string \<Rightarrow> json" where
  "error_body a request_id = JObj [(''error'', JObj ([(''code'', JStr (ap_code a)), (''message'', JStr (ap_message a))] @
     (if ap_fields a = [] then [] else [(''fields'', JArr (map (\<lambda>(f, m).
       JObj [(''field'', JStr f), (''message'', JStr m)]) (ap_fields a)))]) @
     (if request_id = [] then [] else [(''request_id'', JStr request_id)])))]"

definition fail_with :: "request \<Rightarrow> failure \<Rightarrow> response" where
  "fail_with rq f = (let a = as_error f in write_json (ap_status a) (error_body a (rq_id rq)))"

subsection \<open>Reading a body\<close>

text \<open>What decoding made of a body: a value, and whether nothing follows it, or the error of the
  decoder.\<close>

datatype 'a decoded = Decoded 'a bool | BodyTooLarge | TypeMismatch string string | SyntaxAt int
  | BodyEmpty | DecodeFailure string

definition is_blank :: "char \<Rightarrow> bool" where "is_blank c \<longleftrightarrow> c = CHR '' '' \<or> c = CHR 9"

definition is_json_content_type :: "string \<Rightarrow> bool" where
  "is_json_content_type ct \<longleftrightarrow> trim_both is_blank (takeWhile (\<lambda>c. c \<noteq> CHR '';'') ct) \<in>
     {''application/json'', ''text/json'', ''application/vnd.api+json''}"

definition truncate_text :: "string \<Rightarrow> nat \<Rightarrow> string" where
  "truncate_text s n = (if length s \<le> n then s else take n s @ [CHR 0xE2, CHR 0x80, CHR 0xA6])"

definition sanitize_decode_message :: "string \<Rightarrow> string" where
  "sanitize_decode_message msg =
     (let prefix = ''json: unknown field '' in
      if length prefix < length msg \<and> take (length prefix) msg = prefix
        then ''unknown field '' @ truncate_text (drop (length prefix) msg) 64
      else ''malformed request body'')"

definition decode_error :: "'a decoded \<Rightarrow> api_error" where
  "decode_error d = (case d of
     BodyTooLarge \<Rightarrow> new_error 413 code_payload_too_large ''Request body is too large.''
   | TypeMismatch field ty \<Rightarrow> err_invalid_request (''Field '' @ [CHR 34] @ (if field = [] then ''body'' else field) @
       [CHR 34] @ '' must be of type '' @ ty @ ''.'')
   | SyntaxAt n \<Rightarrow> err_invalid_request (''Request body contains malformed JSON at byte '' @ format_int n @ ''.'')
   | BodyEmpty \<Rightarrow> err_invalid_request ''Request body must not be empty.''
   | DecodeFailure msg \<Rightarrow> err_invalid_request (''Request body is not valid: '' @ sanitize_decode_message msg)
   | Decoded _ _ \<Rightarrow> err_invalid_request ''Request body must contain a single JSON object.'')"

definition decode_json :: "request \<Rightarrow> 'a decoded \<Rightarrow> api_error + 'a" where
  "decode_json rq d =
     (let ct = rq_header rq ''Content-Type'' in
      if ct \<noteq> [] \<and> \<not> is_json_content_type ct
        then Inl (new_error 415 code_invalid_request ''Content-Type must be application/json.'')
      else (case d of Decoded x True \<Rightarrow> Inr x | _ \<Rightarrow> Inl (decode_error d)))"

subsection \<open>Middleware\<close>

text \<open>\<open>RequestID\<close>: the identifier of a request, given the one a fresh draw would mint.\<close>

definition request_id :: "request \<Rightarrow> string \<Rightarrow> string" where
  "request_id rq fresh =
     (if validate_id ''req'' (rq_header rq ''X-Request-Id'') = None then rq_header rq ''X-Request-Id'' else fresh)"

definition recovered :: "request \<Rightarrow> response" where "recovered rq = fail_with rq (Typed (err_internal None))"

definition secure_headers :: "(string \<times> string) list" where
  "secure_headers = [(''X-Content-Type-Options'', ''nosniff''), (''X-Frame-Options'', ''DENY''),
     (''Referrer-Policy'', ''no-referrer''),
     (''Content-Security-Policy'', ''default-src '' @ [CHR 39] @ ''none'' @ [CHR 39] @ ''; frame-ancestors '' @
       [CHR 39] @ ''none'' @ [CHR 39]),
     (''Cache-Control'', ''no-store'')]"

definition trim_slashes :: "string \<Rightarrow> string" where
  "trim_slashes s = rev (dropWhile (\<lambda>c. c = CHR ''/'') (rev s))"

definition cors_allowed :: "string list \<Rightarrow> string set" where
  "cors_allowed origins = set (filter (\<lambda>s. s \<noteq> []) (map trim_slashes (filter (\<lambda>s. s \<noteq> ''*'') origins)))"

definition cors_headers :: "string list \<Rightarrow> request \<Rightarrow> (string \<times> string) list" where
  "cors_headers origins rq =
     (let origin = trim_slashes (rq_header rq ''Origin'') in
      if origin \<noteq> [] \<and> origin \<in> cors_allowed origins
      then [(''Access-Control-Allow-Origin'', origin), (''Access-Control-Allow-Credentials'', ''true''),
        (''Access-Control-Allow-Headers'', ''Authorization, Content-Type, Idempotency-Key, X-Request-Id''),
        (''Access-Control-Allow-Methods'', ''GET, POST, PATCH, PUT, DELETE, OPTIONS''),
        (''Access-Control-Max-Age'', ''600''), (''Vary'', ''Origin'')]
      else [])"

text \<open>An \<open>OPTIONS\<close> request is answered at once, whatever its origin.\<close>

definition cors :: "string list \<Rightarrow> request \<Rightarrow> ('s \<Rightarrow> response \<times> 's) \<Rightarrow> 's \<Rightarrow> response \<times> 's" where
  "cors origins rq handler s =
     (case (if rq_method rq = ''OPTIONS'' then (no_content, s) else handler s) of
        (r, t) \<Rightarrow> (r\<lparr>rs_headers := cors_headers origins rq @ rs_headers r\<rparr>, t))"

definition client_ip :: "bool \<Rightarrow> request \<Rightarrow> string" where
  "client_ip trust_proxy rq =
     (let xff = rq_header rq ''X-Forwarded-For''; ip = rq_header rq ''X-Real-Ip'';
          host = rq_remote_addr rq; head = takeWhile (\<lambda>c. c \<noteq> CHR '','') xff in
      if trust_proxy \<and> xff \<noteq> []
        then trim_space (if head \<noteq> [] \<and> head \<noteq> xff then head else xff)
      else if trust_proxy \<and> ip \<noteq> [] then trim_space ip
      else if CHR '':'' \<in> set (tl host)
        then (let before = rev (drop 1 (dropWhile (\<lambda>c. c \<noteq> CHR '':'') (rev host)));
                  inner = (if take 1 before = ''['' then drop 1 before else before);
                  trimmed = (if inner \<noteq> [] \<and> last inner = CHR '']'' then butlast inner else inner)
              in if trimmed \<noteq> [] then trimmed else host)
      else host)"

subsection \<open>The rate limiter\<close>

text \<open>\<open>rate.NewLimiter\<close> with the limit of the server, from the burst; \<open>Limiter.Allow\<close> at a time.\<close>

record 'l rate_library =
  lib_new :: "int \<Rightarrow> 'l"
  lib_allow :: "time \<Rightarrow> 'l \<Rightarrow> bool \<times> 'l"

record 'l bucket =
  bk_limiter :: 'l
  bk_seen :: time

record 'l rate_limiter =
  rl_burst :: int
  rl_ttl :: duration
  rl_buckets :: "(string \<times> 'l bucket) list"

definition new_rate_limiter :: "int \<Rightarrow> 'l rate_limiter" where
  "new_rate_limiter burst = \<lparr>rl_burst = (if burst < 1 then 1 else burst), rl_ttl = 10 * minute, rl_buckets = []\<rparr>"

definition evict_locked :: "time \<Rightarrow> 'l rate_limiter \<Rightarrow> 'l rate_limiter" where
  "evict_locked t rl =
     (if length (rl_buckets rl) < 1024 then rl
      else rl\<lparr>rl_buckets := filter (\<lambda>(k, b). t - bk_seen b \<le> rl_ttl rl) (rl_buckets rl)\<rparr>)"

text \<open>A new bucket enters the map with the zero time as the moment it was seen, and is stamped after
  the eviction; the map holds a pointer, so stamping it and drawing a token reach its entry, if it
  still has one.\<close>

definition limiter_allow :: "'l rate_library \<Rightarrow> time \<Rightarrow> string \<Rightarrow> 'l rate_limiter \<Rightarrow> bool \<times> 'l rate_limiter" where
  "limiter_allow lib t key rl =
     (let (b, rl1) = (case map_of (rl_buckets rl) key of
            Some b \<Rightarrow> (b, rl)
          | None \<Rightarrow> (let b = \<lparr>bk_limiter = lib_new lib (rl_burst rl), bk_seen = 0\<rparr>
              in (b, evict_locked t (rl\<lparr>rl_buckets := rl_buckets rl @ [(key, b)]\<rparr>))));
          (ok, l) = lib_allow lib t (bk_limiter b)
      in (ok, rl1\<lparr>rl_buckets := map (\<lambda>(k, x). (k, if k = key then \<lparr>bk_limiter = l, bk_seen = t\<rparr> else x)) (rl_buckets rl1)\<rparr>))"

definition rate_limited :: "request \<Rightarrow> response" where
  "rate_limited rq = add_header ''Retry-After'' ''1''
     (fail_with rq (Typed (new_error 429 code_rate_limited ''Too many requests. Please retry shortly.'')))"

text \<open>The middleware: the limiter, and whether the request goes on.\<close>

definition limit_request :: "'l rate_library \<Rightarrow> time \<Rightarrow> string \<Rightarrow> request \<Rightarrow> 'l rate_limiter \<Rightarrow> response option \<times> 'l rate_limiter" where
  "limit_request lib t key rq rl =
     (if key = [] then (None, rl)
      else case limiter_allow lib t key rl of (ok, rl1) \<Rightarrow> (if ok then None else Some (rate_limited rq), rl1))"

subsection \<open>What the limiter remembers\<close>

text \<open>Requests under one key, at the times given.\<close>

primrec allow_all :: "'l rate_library \<Rightarrow> string \<Rightarrow> time list \<Rightarrow> 'l rate_limiter \<Rightarrow> bool list" where
  "allow_all lib key [] rl = []"
| "allow_all lib key (t # ts) rl =
     (case limiter_allow lib t key rl of (ok, rl1) \<Rightarrow> ok # allow_all lib key ts rl1)"

text \<open>A key with a bucket keeps it, and with fewer than 1023 others a new key gets one that stays.\<close>

lemma map_of_update_key: "map_of (map (\<lambda>(k, x). (k, if k = key then y else x)) bs) key = map_option (\<lambda>_. y) (map_of bs key)"
  by (induction bs) auto

lemma limiter_keeps:
  assumes "map_of (rl_buckets rl) key = Some b \<or> (map_of (rl_buckets rl) key = None \<and> length (rl_buckets rl) < 1023)"
  shows "map_of (rl_buckets (snd (limiter_allow lib t key rl))) key =
    Some \<lparr>bk_limiter = snd (lib_allow lib t (case map_of (rl_buckets rl) key of
        Some b \<Rightarrow> bk_limiter b | None \<Rightarrow> lib_new lib (rl_burst rl))), bk_seen = t\<rparr>"
  using assms
  by (auto simp: limiter_allow_def Let_def map_of_update_key evict_locked_def map_add_def split: prod.split option.split)

text \<open>The others: the entries of the map that are not evicted at any of the times.\<close>

definition crowd :: "string \<Rightarrow> time list \<Rightarrow> 'l rate_limiter \<Rightarrow> (string \<times> 'l bucket) list" where
  "crowd key ts rl = filter (\<lambda>(k, b). k \<noteq> key \<and> (\<forall>t \<in> set ts. t - bk_seen b \<le> rl_ttl rl)) (rl_buckets rl)"

lemma forgets_step:
  assumes "1023 \<le> length (crowd key (t # ts) rl)" "map_of (rl_buckets rl) key = None" "rl_ttl rl < t"
  shows "limiter_allow lib t key rl = (fst (lib_allow lib t (lib_new lib (rl_burst rl))), snd (limiter_allow lib t key rl))"
    and "map_of (rl_buckets (snd (limiter_allow lib t key rl))) key = None"
    and "1023 \<le> length (crowd key ts (snd (limiter_allow lib t key rl)))"
    and "rl_burst (snd (limiter_allow lib t key rl)) = rl_burst rl"
    and "rl_ttl (snd (limiter_allow lib t key rl)) = rl_ttl rl"
proof -
  let ?b = "\<lparr>bk_limiter = lib_new lib (rl_burst rl), bk_seen = 0\<rparr>"
  let ?kept = "filter (\<lambda>(k, b). t - bk_seen b \<le> rl_ttl rl) (rl_buckets rl)"
  have "length (crowd key (t # ts) rl) \<le> length (rl_buckets rl)" by (simp add: crowd_def)
  then have full: "\<not> length (rl_buckets rl @ [(key, ?b)]) < 1024" using assms(1) by simp
  have absent: "\<forall>(k, x) \<in> set (rl_buckets rl). k \<noteq> key"
    using assms(2) by (auto simp: map_of_eq_None_iff image_iff)
  have kept: "map (\<lambda>(k, x). (k, if k = key then y else x)) ?kept = ?kept" for y
    using absent by (auto intro!: map_idI)
  have run: "limiter_allow lib t key rl = (fst (lib_allow lib t (lib_new lib (rl_burst rl))), rl\<lparr>rl_buckets := ?kept\<rparr>)"
    using assms(2,3) full kept
    by (cases "lib_allow lib t (lib_new lib (rl_burst rl))") (simp add: limiter_allow_def evict_locked_def Let_def)
  show "limiter_allow lib t key rl = (fst (lib_allow lib t (lib_new lib (rl_burst rl))), snd (limiter_allow lib t key rl))"
    by (simp add: run)
  show "map_of (rl_buckets (snd (limiter_allow lib t key rl))) key = None"
    using absent by (auto simp: run map_of_eq_None_iff)
  show "rl_burst (snd (limiter_allow lib t key rl)) = rl_burst rl" "rl_ttl (snd (limiter_allow lib t key rl)) = rl_ttl rl"
    by (simp_all add: run)
  have "length (crowd key (t # ts) rl) \<le> length (crowd key ts (rl\<lparr>rl_buckets := ?kept\<rparr>))"
  proof -
    have "crowd key (t # ts) rl = filter (\<lambda>(k, b). k \<noteq> key \<and> (\<forall>t \<in> set ts. t - bk_seen b \<le> rl_ttl rl)) ?kept"
      by (auto simp: crowd_def filter_filter intro!: filter_cong)
    then show ?thesis by (simp add: crowd_def)
  qed
  then show "1023 \<le> length (crowd key ts (snd (limiter_allow lib t key rl)))" using assms(1) by (simp add: run)
qed

text \<open>C25. The rate limiter forgets newcomers once it is crowded: while it holds 1023 buckets of other
  callers that are not idle, a caller without a bucket gets a fresh one with every request and none that
  lasts, so none of its requests is ever refused, however many it sends. (The eviction that runs when a
  bucket is inserted sees the time zero in it and removes it again.)\<close>

theorem crowded_limiter_never_refuses:
  assumes "1023 \<le> length (crowd key ts rl)" "map_of (rl_buckets rl) key = None" "\<forall>t \<in> set ts. rl_ttl rl < t"
    and "\<And>t. fst (lib_allow lib t (lib_new lib (rl_burst rl)))"
  shows "allow_all lib key ts rl = replicate (length ts) True"
  using assms(1-4)
proof (induction ts arbitrary: rl)
  case (Cons t ts)
  note step = forgets_step[OF Cons.prems(1,2), of lib]
  have t: "rl_ttl rl < t" using Cons.prems(3) by simp
  have "allow_all lib key ts (snd (limiter_allow lib t key rl)) = replicate (length ts) True"
    using Cons.prems(3,4) by (intro Cons.IH) (simp_all add: step(2-5)[OF t])
  moreover have "fst (limiter_allow lib t key rl)" using Cons.prems(4)[of t] by (subst step(1)[OF t]) simp
  ultimately show ?case by (simp add: split_beta)
qed simp

text \<open>A library whose limiter never gives a second token, and 1023 callers seen a second ago.\<close>

definition one_shot :: "nat rate_library" where
  "one_shot = \<lparr>lib_new = nat, lib_allow = (\<lambda>t n. (0 < n, n - 1))\<rparr>"

definition crowded :: "nat \<Rightarrow> nat rate_limiter" where
  "crowded n = (new_rate_limiter 1)\<lparr>rl_buckets := map (\<lambda>i. (CHR ''k'' # dec_nat i, \<lparr>bk_limiter = 0, bk_seen = hour\<rparr>)) [0..<n]\<rparr>"

lemma crowded_distinct: "distinct (map fst (rl_buckets (crowded n)))"
  by (auto simp: crowded_def comp_def distinct_map inj_on_def dec_nat_inject)

lemma crowd_crowded: "length (crowd ''ip:203.0.113.7'' (replicate m (hour + second)) (crowded n)) = n"
proof -
  have "crowd ''ip:203.0.113.7'' (replicate m (hour + second)) (crowded n) = rl_buckets (crowded n)"
    unfolding crowd_def by (rule filter_True) (auto simp: crowded_def new_rate_limiter_def duration_defs)
  then show ?thesis by (simp add: crowded_def)
qed

theorem crowded_limiter_never_refuses_witness:
  "distinct (map fst (rl_buckets (crowded 1023))) \<and>
   allow_all one_shot ''ip:203.0.113.7'' (replicate 50 (hour + second)) (crowded 1023) = replicate 50 True \<and>
   allow_all one_shot ''ip:203.0.113.7'' [hour, hour + second] (new_rate_limiter 1) = [True, False]"
proof -
  have "map_of (rl_buckets (crowded 1023)) ''ip:203.0.113.7'' = None"
    by (auto simp: crowded_def map_of_eq_None_iff)
  moreover have "rl_ttl (crowded 1023) < hour + second" "0 < rl_burst (crowded 1023)"
    by (simp_all add: crowded_def new_rate_limiter_def duration_defs)
  ultimately have "allow_all one_shot ''ip:203.0.113.7'' (replicate 50 (hour + second)) (crowded 1023)
      = replicate (length (replicate 50 (hour + second))) True"
    by (intro crowded_limiter_never_refuses) (simp_all only: crowd_crowded, simp_all add: one_shot_def)
  moreover have "allow_all one_shot ''ip:203.0.113.7'' [hour, hour + second] (new_rate_limiter 1) = [True, False]"
    by (simp add: limiter_allow_def one_shot_def new_rate_limiter_def evict_locked_def Let_def)
  ultimately show ?thesis using crowded_distinct by simp
qed

end
