(* ===== verification/Password.thy ===== *)
theory Password
  imports Keys "HOL-Library.Word"
begin

text \<open>
  \<open>internal/crypto/password.go\<close> and \<open>secret.go\<close>: the stored form of a password and the sealing of
  gateway credentials. Argon2id and AES-GCM are parameters, the bytes of \<open>crypto/rand\<close> and the
  number of processors arguments. Base 64 is that of the standard library: line breaks are skipped,
  the strict decoder also refuses trailing bits that are not zero.
\<close>

type_synonym bytes = "8 word list"

subsection \<open>Base 64\<close>

definition base64_std_alphabet :: string where
  "base64_std_alphabet = ''ABCDEFGHIJKLMNOPQRSTUVWXYZabcdefghijklmnopqrstuvwxyz0123456789+/''"

definition base64_url_alphabet :: string where
  "base64_url_alphabet = ''ABCDEFGHIJKLMNOPQRSTUVWXYZabcdefghijklmnopqrstuvwxyz0123456789-_''"

definition sextet :: "string \<Rightarrow> char \<Rightarrow> nat option" where
  "sextet alphabet c = List.find (\<lambda>i. alphabet ! i = c) [0..<length alphabet]"

definition bits6 :: "nat \<Rightarrow> bool list" where "bits6 n = map (\<lambda>i. odd (n div 2 ^ i)) [5, 4, 3, 2, 1, 0]"

definition byte_of :: "bool list \<Rightarrow> 8 word" where "byte_of bs = of_nat (bits_val bs)"

definition line_break :: "char \<Rightarrow> bool" where "line_break c \<longleftrightarrow> c = CHR 10 \<or> c = CHR 13"

definition base64_decode :: "string \<Rightarrow> bool \<Rightarrow> string \<Rightarrow> bytes option" where
  "base64_decode alphabet strict s =
     (let cs = filter (\<lambda>c. \<not> line_break c) s; codes = map (sextet alphabet) cs in
      if None \<in> set codes \<or> length cs mod 4 = 1 then None
      else let bits = concat (map (bits6 \<circ> the) codes); n = 8 * (length bits div 8) in
        if strict \<and> True \<in> set (drop n bits) then None
        else Some (map byte_of (groups 8 (take n bits))))"

subsection \<open>Passwords\<close>

record argon2_params =
  ar_memory :: "32 word"
  ar_iterations :: "32 word"
  ar_parallelism :: "8 word"
  ar_salt_length :: "32 word"
  ar_key_length :: "32 word"

text \<open>\<open>argon2.IDKey\<close>: password, salt, iterations, memory, parallelism, length of the key.\<close>

type_synonym idkey = "string \<Rightarrow> bytes \<Rightarrow> 32 word \<Rightarrow> 32 word \<Rightarrow> 8 word \<Rightarrow> 32 word \<Rightarrow> bytes"

datatype password_error = EmptyPassword | UnsupportedFormat | UnsupportedVersion | MalformedParameters
  | MalformedSalt | MalformedDigest | MismatchedPassword

definition argon2_version :: nat where "argon2_version = 19"

definition default_argon2_params :: "int \<Rightarrow> argon2_params" where
  "default_argon2_params cpus =
     (let p = (word_of_int cpus :: 8 word); p = (if 4 < p then 4 else p); p = (if p < 1 then 1 else p)
      in \<lparr>ar_memory = 64 * 1024, ar_iterations = 3, ar_parallelism = p, ar_salt_length = 16, ar_key_length = 32\<rparr>)"

definition base64_std :: "bytes \<Rightarrow> string" where "base64_std = encode_bits 6 base64_std_alphabet"

definition hash_password_with :: "idkey \<Rightarrow> string \<Rightarrow> argon2_params \<Rightarrow> bytes \<Rightarrow> password_error + string" where
  "hash_password_with idkey password p salt =
     (if password = [] then Inl EmptyPassword
      else let key = idkey password salt (ar_iterations p) (ar_memory p) (ar_parallelism p) (ar_key_length p) in
        Inr (''$argon2id$v='' @ dec_nat argon2_version @ ''$m='' @ dec_nat (unat (ar_memory p)) @
          '',t='' @ dec_nat (unat (ar_iterations p)) @ '',p='' @ dec_nat (unat (ar_parallelism p)) @
          ''$'' @ base64_std salt @ ''$'' @ base64_std key))"

definition hash_password :: "idkey \<Rightarrow> int \<Rightarrow> string \<Rightarrow> bytes \<Rightarrow> password_error + string" where
  "hash_password idkey cpus password salt = hash_password_with idkey password (default_argon2_params cpus) salt"

text \<open>\<open>fmt.Sscanf\<close> with literals and \<open>%d\<close>: white space before a number is skipped, but not a
  line break; what follows the last verb is not looked at. A signed number may have a sign.\<close>

definition scan_space :: "string \<Rightarrow> string option" where
  "scan_space s = (let r = dropWhile (\<lambda>c. is_space c \<and> c \<noteq> CHR 10) s in
     case r of [] \<Rightarrow> None | c # _ \<Rightarrow> if c = CHR 10 then None else Some r)"

definition scan_digits :: "nat \<Rightarrow> string \<Rightarrow> (nat \<times> string) option" where
  "scan_digits limit s =
     (let d = takeWhile is_digit s in
      if d = [] \<or> limit < dec_val d then None else Some (dec_val d, dropWhile is_digit s))"

definition scan_uint :: "nat \<Rightarrow> string \<Rightarrow> (nat \<times> string) option" where
  "scan_uint limit s = (case scan_space s of None \<Rightarrow> None | Some r \<Rightarrow> scan_digits limit r)"

definition scan_int :: "string \<Rightarrow> (int \<times> string) option" where
  "scan_int s = (case scan_space s of
     None \<Rightarrow> None
   | Some [] \<Rightarrow> None
   | Some (c # r) \<Rightarrow>
       if c = CHR ''-'' then map_option (\<lambda>(n, t). (- int n, t)) (scan_digits (2 ^ 63) r)
       else map_option (\<lambda>(n, t). (int n, t)) (scan_digits (2 ^ 63 - 1) (if c = CHR ''+'' then r else c # r)))"

definition scan_literal :: "string \<Rightarrow> string \<Rightarrow> string option" where
  "scan_literal l s = (if take (length l) s = l then Some (drop (length l) s) else None)"

definition scan_version :: "string \<Rightarrow> int option" where
  "scan_version s = (case scan_literal ''v='' s of None \<Rightarrow> None | Some r \<Rightarrow> map_option fst (scan_int r))"

definition scan_field :: "string \<Rightarrow> nat \<Rightarrow> string \<Rightarrow> (nat \<times> string) option" where
  "scan_field l limit s = (case scan_literal l s of None \<Rightarrow> None | Some r \<Rightarrow> scan_uint limit r)"

definition scan_params :: "string \<Rightarrow> (nat \<times> nat \<times> nat) option" where
  "scan_params s = (case scan_field ''m='' (2 ^ 32 - 1) s of
     None \<Rightarrow> None
   | Some (m, s1) \<Rightarrow> (case scan_field '',t='' (2 ^ 32 - 1) s1 of
       None \<Rightarrow> None
     | Some (t, s2) \<Rightarrow> (case scan_field '',p='' (2 ^ 8 - 1) s2 of
         None \<Rightarrow> None
       | Some (p, _) \<Rightarrow> Some (m, t, p))))"

definition decode_argon2_hash :: "string \<Rightarrow> password_error + (argon2_params \<times> bytes \<times> bytes)" where
  "decode_argon2_hash encoded = (case split_on (CHR ''$'') encoded of
     [_, scheme, version, params, salt64, key64] \<Rightarrow>
       if scheme \<noteq> ''argon2id'' then Inl UnsupportedFormat
       else if scan_version version \<noteq> Some (int argon2_version) then Inl UnsupportedVersion
       else (case scan_params params of
         None \<Rightarrow> Inl MalformedParameters
       | Some (m, t, p) \<Rightarrow> (case base64_decode base64_std_alphabet True salt64 of
           None \<Rightarrow> Inl MalformedSalt
         | Some salt \<Rightarrow> (case base64_decode base64_std_alphabet True key64 of
             None \<Rightarrow> Inl MalformedDigest
           | Some key \<Rightarrow> Inr (\<lparr>ar_memory = of_nat m, ar_iterations = of_nat t, ar_parallelism = of_nat p,
               ar_salt_length = of_nat (length salt), ar_key_length = of_nat (length key)\<rparr>, salt, key))))
   | _ \<Rightarrow> Inl UnsupportedFormat)"

definition verify_password :: "idkey \<Rightarrow> string \<Rightarrow> string \<Rightarrow> password_error + unit" where
  "verify_password idkey password encoded = (case decode_argon2_hash encoded of
     Inl e \<Rightarrow> Inl e
   | Inr (p, salt, want) \<Rightarrow>
       if idkey password salt (ar_iterations p) (ar_memory p) (ar_parallelism p) (of_nat (length want)) \<noteq> want
       then Inl MismatchedPassword else Inr ())"

subsection \<open>Sealing\<close>

text \<open>An AEAD is its nonce size, sealing (nonce, plaintext, context) and opening (nonce, ciphertext,
  context).\<close>

record aead =
  ae_nonce_size :: nat
  ae_seal :: "bytes \<Rightarrow> bytes \<Rightarrow> string \<Rightarrow> bytes"
  ae_open :: "bytes \<Rightarrow> bytes \<Rightarrow> string \<Rightarrow> bytes option"

definition seal_version :: string where "seal_version = ''v1''"

text \<open>A sealer needs a key of 32 bytes; \<open>aes\<close> makes the cipher of a key.\<close>

definition new_sealer :: "(bytes \<Rightarrow> aead) \<Rightarrow> bytes \<Rightarrow> string + aead" where
  "new_sealer aes key =
     (if length key \<noteq> 32 then Inl (''crypto: key must be 32 bytes, got '' @ dec_nat (length key)) else Inr (aes key))"

definition seal :: "aead \<Rightarrow> bytes \<Rightarrow> bytes \<Rightarrow> string \<Rightarrow> string" where
  "seal c nonce plaintext ctx = seal_version @ ''.'' @ base64_url (nonce @ ae_seal c nonce plaintext ctx)"

definition unseal :: "aead \<Rightarrow> string \<Rightarrow> string \<Rightarrow> bytes option" where
  "unseal c sealed ctx =
     (if length sealed < length seal_version + 1 \<or> take (length seal_version + 1) sealed \<noteq> seal_version @ ''.'' then None
      else case base64_decode base64_url_alphabet False (drop (length seal_version + 1) sealed) of
        None \<Rightarrow> None
      | Some raw \<Rightarrow> if length raw < ae_nonce_size c then None
          else ae_open c (take (ae_nonce_size c) raw) (drop (ae_nonce_size c) raw) ctx)"

text \<open>A \<open>Secret\<close> prints as a placeholder and encodes as null, whatever it holds.\<close>

definition secret_string :: "string \<Rightarrow> string" where "secret_string s = ''[REDACTED]''"

definition secret_json :: "string \<Rightarrow> json" where "secret_json s = JNull"

definition reveal :: "string \<Rightarrow> string" where "reveal s = s"

subsection \<open>What decodes\<close>

lemma bits_val_horner: "bits_val bs = horner_sum of_bool 2 (rev bs)"
  by (simp add: bits_val_def foldl_conv_foldr horner_sum_foldr of_bool_def comp_def add.commute cong: foldr_cong)

lemma of_nat_horner: "(of_nat (horner_sum of_bool 2 bs) :: 8 word) = horner_sum of_bool 2 bs"
  by (induction bs) simp_all

lemma byte_of_bits [simp]: "byte_of (bits8 b) = b"
proof -
  have "byte_of (bits8 b) = horner_sum of_bool 2 (rev (bits8 b))"
    by (simp only: byte_of_def bits_val_horner of_nat_horner)
  also have "rev (bits8 b) = map (bit b) [0..<8]" by (simp add: bits8_def upt_rec numeral_eq_Suc)
  finally show ?thesis by (simp only: horner_sum_bit_eq_take_bit) (simp add: take_bit_word_eq_self)
qed

lemma length_bits8 [simp]: "length (bits8 b) = 8" by (simp add: bits8_def)

lemma groups_bytes: "map byte_of (groups 8 (concat (map bits8 bytes))) = bytes"
proof (induction bytes)
  case (Cons b bytes)
  have "groups 8 (bits8 b @ concat (map bits8 bytes)) = bits8 b # groups 8 (concat (map bits8 bytes))"
    by (subst groups.simps) (auto simp: bits8_def)
  with Cons show ?case by simp
qed simp

lemma bits6_val: "length bs = 6 \<Longrightarrow> bits6 (bits_val bs) = bs"
proof -
  assume "length bs = 6"
  then obtain a b c d e f where bs: "bs = [a, b, c, d, e, f]"
    by (auto simp: eval_nat_numeral length_Suc_conv)
  show ?thesis unfolding bs
    by (cases a; cases b; cases c; cases d; cases e; cases f) (simp_all add: bits6_def bits_val_def)
qed

lemma groups_padded:
  "0 < n \<Longrightarrow> concat (map (\<lambda>g. g @ replicate (n - length g) False) (groups n bs)) =
     bs @ replicate (n * length (groups n bs) - length bs) False"
proof (induction n bs rule: groups.induct)
  case (1 n bs)
  show ?case
  proof (cases "bs = []")
    case False
    then have g: "groups n bs = take n bs # groups n (drop n bs)" using 1(2) by (subst groups.simps) simp
    have ih: "concat (map (\<lambda>g. g @ replicate (n - length g) False) (groups n (drop n bs))) =
        drop n bs @ replicate (n * length (groups n (drop n bs)) - length (drop n bs)) False"
      using 1 False by simp
    show ?thesis
    proof (cases "n \<le> length bs")
      case True
      then have "n * length (groups n (drop n bs)) - length (drop n bs) = n * length (groups n bs) - length bs"
        by (simp add: g)
      then show ?thesis using True ih by (simp add: g flip: append_assoc)
    qed (simp add: g)
  qed simp
qed

lemma sextet_nth: "distinct alphabet \<Longrightarrow> i < length alphabet \<Longrightarrow> sextet alphabet (alphabet ! i) = Some i"
  by (auto simp: sextet_def find_Some_iff nth_eq_iff_index_eq)

lemma base64_alphabets [simp]:
  "distinct base64_std_alphabet" "length base64_std_alphabet = 64"
  "distinct base64_url_alphabet" "length base64_url_alphabet = 64"
  by (simp_all add: base64_std_alphabet_def base64_url_alphabet_def)

lemma base64_plain:
  "c \<in> set base64_std_alphabet \<Longrightarrow> \<not> line_break c" "c \<in> set base64_url_alphabet \<Longrightarrow> \<not> line_break c"
  "c \<in> set base64_std_alphabet \<Longrightarrow> c \<noteq> CHR ''$''"
  by (auto simp: base64_std_alphabet_def base64_url_alphabet_def line_break_def)

lemma sextets_of_bytes:
  fixes l :: nat
  shows "8 * (6 * ((8 * l + 5) div 6) div 8) = 8 * l" and "(8 * l + 5) div 6 mod 4 \<noteq> 1"
proof -
  have "l mod 3 = 0 \<or> l mod 3 = 1 \<or> l mod 3 = 2" by auto
  then obtain q where "l = 3 * q \<or> l = 3 * q + 1 \<or> l = 3 * q + 2" by (metis add.right_neutral mult_div_mod_eq)
  then have "6 * ((8 * l + 5) div 6) div 8 = l \<and> (8 * l + 5) div 6 mod 4 \<noteq> 1"
  proof (elim disjE)
    assume l: "l = 3 * q"
    have "(8 * (3 * q) + 5) div 6 = 4 * q" by simp
    then show ?thesis by (simp add: l)
  next
    assume l: "l = 3 * q + 1"
    have "(8 * (3 * q + 1) + 5) div 6 = 4 * q + 2" by presburger
    moreover have "6 * (4 * q + 2) div 8 = 3 * q + 1" "(4 * q + 2) mod 4 \<noteq> 1" by presburger+
    ultimately show ?thesis unfolding l by simp
  next
    assume l: "l = 3 * q + 2"
    have "(8 * (3 * q + 2) + 5) div 6 = 4 * q + 3" by presburger
    moreover have "6 * (4 * q + 3) div 8 = 3 * q + 2" "(4 * q + 3) mod 4 \<noteq> 1" by presburger+
    ultimately show ?thesis unfolding l by simp
  qed
  then show "8 * (6 * ((8 * l + 5) div 6) div 8) = 8 * l" and "(8 * l + 5) div 6 mod 4 \<noteq> 1" by simp_all
qed

text \<open>The sextets of an encoding are the bits of the bytes, padded with zeros.\<close>

lemma encoded_sextets:
  assumes "distinct alphabet" "length alphabet = 64"
  shows "map (sextet alphabet) (encode_bits 6 alphabet bytes) =
    map (\<lambda>g. Some (bits_val (g @ replicate (6 - length g) False))) (groups 6 (concat (map bits8 bytes)))"
proof -
  have "sextet alphabet (alphabet ! bits_val (g @ replicate (6 - length g) False)) =
      Some (bits_val (g @ replicate (6 - length g) False))" if "g \<in> set (groups 6 (concat (map bits8 bytes)))" for g
  proof (rule sextet_nth[OF assms(1)])
    have "bits_val (g @ replicate (6 - length g) False) < 2 ^ 6"
      using bits_val_less[of "g @ replicate (6 - length g) False"] groups_short[OF that] by simp
    then show "bits_val (g @ replicate (6 - length g) False) < length alphabet" by (simp add: assms(2))
  qed
  then show ?thesis by (simp add: encode_bits_def)
qed

lemma encoded_bits:
  assumes "distinct alphabet" "length alphabet = 64"
  shows "\<exists>k. concat (map (bits6 \<circ> the) (map (sextet alphabet) (encode_bits 6 alphabet bytes))) =
    concat (map bits8 bytes) @ replicate k False"
proof -
  let ?pad = "\<lambda>g. g @ replicate (6 - length g) False" and ?G = "groups 6 (concat (map bits8 bytes))"
  have "bits6 (bits_val (?pad g)) = ?pad g" if "g \<in> set ?G" for g
    using groups_short[OF that] by (intro bits6_val) simp
  then have e: "map (bits6 \<circ> the) (map (\<lambda>g. Some (bits_val (?pad g))) ?G) = map ?pad ?G" by simp
  have "concat (map ?pad ?G) = concat (map bits8 bytes) @ replicate (6 * length ?G - length (concat (map bits8 bytes))) False"
    by (rule groups_padded) simp
  then show ?thesis unfolding encoded_sextets[OF assms] e by (rule exI)
qed

lemma base64_roundtrip:
  assumes "distinct alphabet" "length alphabet = 64" "\<And>c. c \<in> set alphabet \<Longrightarrow> \<not> line_break c"
  shows "base64_decode alphabet strict (encode_bits 6 alphabet bytes) = Some bytes"
proof -
  let ?B = "concat (map bits8 bytes)" and ?s = "encode_bits 6 alphabet bytes"
  have plain: "filter (\<lambda>c. \<not> line_break c) ?s = ?s"
    using assms(3) encode_bits_chars[of alphabet 6] assms(2) by (auto simp: filter_id_conv)
  obtain k where bits: "concat (map (bits6 \<circ> the) (map (sextet alphabet) ?s)) = ?B @ replicate k False"
    using encoded_bits[OF assms(1,2)] by blast
  have len: "length ?s = (8 * length bytes + 5) div 6" by (simp add: encode_bits_length)
  have "length (concat (map (bits6 \<circ> the) (map (sextet alphabet) ?s))) = 6 * length ?s"
    by (simp add: length_concat comp_def bits6_def sum_list_triv)
  then have n: "8 * (length (?B @ replicate k False) div 8) = length ?B"
    using sextets_of_bytes(1)[of "length bytes"] by (simp only: bits len length_bits)
  have some: "None \<notin> set (map (sextet alphabet) ?s)" by (auto simp: encoded_sextets[OF assms(1,2)])
  have mod4: "length ?s mod 4 \<noteq> 1" unfolding len by (rule sextets_of_bytes(2))
  show ?thesis
    unfolding base64_decode_def Let_def plain bits n using some mod4
    by (simp only: if_False disj_not1 simp_thms append_eq_conv_conj) (simp add: groups_bytes)
qed

subsection \<open>A hash is read back\<close>

lemma takeWhile_digits: "r = [] \<or> \<not> is_digit (hd r) \<Longrightarrow> takeWhile is_digit (dec_nat n @ r) = dec_nat n"
  by (cases r) (auto simp: takeWhile_append dec_nat_digits)

lemma dropWhile_digits: "r = [] \<or> \<not> is_digit (hd r) \<Longrightarrow> dropWhile is_digit (dec_nat n @ r) = r"
  by (cases r) (auto simp: dropWhile_append dec_nat_digits)

lemma scan_space_digit: "scan_space (dec_nat n @ r) = Some (dec_nat n @ r)"
proof -
  obtain c cs where d: "dec_nat n = c # cs" by (cases "dec_nat n") simp_all
  then have "is_digit c" using dec_nat_digits[of c n] by simp
  moreover from this have "c \<noteq> CHR 10" by (auto simp: is_digit_def)
  ultimately show ?thesis by (simp add: d scan_space_def is_digit_not_space)
qed

lemma scan_number:
  assumes "r = [] \<or> \<not> is_digit (hd r)" "n \<le> limit"
  shows "scan_field l limit (l @ dec_nat n @ r) = Some (n, r)"
  using assms by (simp add: scan_field_def scan_literal_def scan_uint_def scan_space_digit scan_digits_def
      takeWhile_digits dropWhile_digits)

lemma scan_version_written: "scan_version (''v='' @ dec_nat argon2_version) = Some (int argon2_version)"
proof -
  have "dec_nat argon2_version = ''19''"
    by (simp add: argon2_version_def dec_nat.simps digit_char_def char_of_def bit_iff_odd)
  moreover have "scan_version (''v='' @ ''19'') = Some 19"
    by (simp add: scan_version_def scan_literal_def scan_int_def scan_space_def is_space_def scan_digits_def
      is_digit_def dec_val_def digit_val_def)
  ultimately show ?thesis by (simp add: argon2_version_def)
qed

lemma unat_less: "unat (w :: 'a::len word) < 2 ^ LENGTH('a)"
  by (rule unsigned_less)

lemma params_written:
  "scan_params (''m='' @ dec_nat (unat (m :: 32 word)) @ '',t='' @ dec_nat (unat (t :: 32 word)) @ '',p='' @ dec_nat (unat (p :: 8 word)))
    = Some (unat m, unat t, unat p)"
proof -
  have bounds: "unat m \<le> 2 ^ 32 - 1" "unat t \<le> 2 ^ 32 - 1" "unat p \<le> 2 ^ 8 - 1"
    using unat_less[of m] unat_less[of t] unat_less[of p] by simp_all
  have no: "\<not> is_digit CHR '',''" by (simp add: is_digit_def)
  have "scan_field ''m='' (2 ^ 32 - 1) (''m='' @ dec_nat (unat m) @ '',t='' @ dec_nat (unat t) @ '',p='' @ dec_nat (unat p))
      = Some (unat m, '',t='' @ dec_nat (unat t) @ '',p='' @ dec_nat (unat p))"
    using no bounds by (intro scan_number) simp_all
  moreover have "scan_field '',t='' (2 ^ 32 - 1) ('',t='' @ dec_nat (unat t) @ '',p='' @ dec_nat (unat p))
      = Some (unat t, '',p='' @ dec_nat (unat p))"
    using no bounds by (intro scan_number) simp_all
  moreover have "scan_field '',p='' (2 ^ 8 - 1) ('',p='' @ dec_nat (unat p)) = Some (unat p, [])"
    using bounds scan_number[of "[]" "unat p" "2 ^ 8 - 1" "'',p=''"] by simp
  ultimately show ?thesis by (simp only: scan_params_def option.case prod.case)
qed

lemma dollar_free:
  "CHR ''$'' \<notin> set (base64_std bytes)" "CHR ''$'' \<notin> set (dec_nat n)"
proof -
  show "CHR ''$'' \<notin> set (base64_std bytes)"
    using encode_bits_chars[of base64_std_alphabet 6 _ bytes] base64_plain(3) by (auto simp: base64_std_def)
  show "CHR ''$'' \<notin> set (dec_nat n)"
  proof
    assume "CHR ''$'' \<in> set (dec_nat n)"
    then have "is_digit (CHR ''$'')" by (rule dec_nat_digits)
    then show False by (simp add: is_digit_def)
  qed
qed

lemma split_six:
  assumes "sep \<notin> set a" "sep \<notin> set b" "sep \<notin> set c" "sep \<notin> set d" "sep \<notin> set e"
  shows "split_on sep (sep # a @ sep # b @ sep # c @ sep # d @ sep # e) = [[], a, b, c, d, e]"
  using assms split_on_append[of sep "[]"] by (simp add: split_on_append split_on_absent)

lemma base64_std_roundtrip: "base64_decode base64_std_alphabet True (base64_std bytes) = Some bytes"
  unfolding base64_std_def by (rule base64_roundtrip) (simp_all add: base64_plain)

lemma base64_url_roundtrip: "base64_decode base64_url_alphabet False (base64_url bytes) = Some bytes"
  unfolding base64_url_def base64_url_alphabet_def[symmetric] by (rule base64_roundtrip) (simp_all add: base64_plain)

definition hash_key :: "idkey \<Rightarrow> string \<Rightarrow> argon2_params \<Rightarrow> bytes \<Rightarrow> bytes" where
  "hash_key idkey password p salt =
     idkey password salt (ar_iterations p) (ar_memory p) (ar_parallelism p) (ar_key_length p)"

lemma hash_decodes:
  assumes "hash_password_with idkey password p salt = Inr h"
  shows "decode_argon2_hash h = Inr (p\<lparr>ar_salt_length := of_nat (length salt),
      ar_key_length := of_nat (length (hash_key idkey password p salt))\<rparr>, salt, hash_key idkey password p salt)"
proof -
  let ?params = "''m='' @ dec_nat (unat (ar_memory p)) @ '',t='' @ dec_nat (unat (ar_iterations p)) @ '',p='' @ dec_nat (unat (ar_parallelism p))"
  have h: "h = CHR ''$'' # ''argon2id'' @ CHR ''$'' # (''v='' @ dec_nat argon2_version) @ CHR ''$'' # ?params @
      CHR ''$'' # base64_std salt @ CHR ''$'' # base64_std (hash_key idkey password p salt)"
    using assms by (auto simp: hash_password_with_def hash_key_def Let_def split: if_splits)
  have parts: "split_on (CHR ''$'') h =
      [[], ''argon2id'', ''v='' @ dec_nat argon2_version, ?params, base64_std salt, base64_std (hash_key idkey password p salt)]"
    unfolding h by (rule split_six) (simp_all add: dollar_free)
  show ?thesis
    unfolding decode_argon2_hash_def parts
    by (simp only: list.case scan_version_written params_written base64_std_roundtrip option.case prod.case)
       (cases p, simp)
qed

text \<open>C11. A password verifies against its own hash, and any other text exactly when Argon2id gives it the
  same key for the salt and the parameters of the hash; the hash decodes to the parameters, the salt
  and the key it was made from.\<close>

theorem password_roundtrip:
  assumes "\<And>q s m t l n. length (idkey q s m t l n) = unat n" "password \<noteq> []"
  shows "\<exists>h. hash_password_with idkey password p salt = Inr h \<and>
    (\<forall>q. verify_password idkey q h =
      (if hash_key idkey q p salt = hash_key idkey password p salt then Inr () else Inl MismatchedPassword)) \<and>
    decode_argon2_hash h =
      Inr (p\<lparr>ar_salt_length := of_nat (length salt)\<rparr>, salt, hash_key idkey password p salt)"
proof -
  obtain h where h: "hash_password_with idkey password p salt = Inr h"
    using assms(2) by (simp add: hash_password_with_def Let_def)
  have len: "(of_nat (length (hash_key idkey password p salt)) :: 32 word) = ar_key_length p"
    by (simp add: hash_key_def assms(1))
  have "verify_password idkey q h =
      (if hash_key idkey q p salt = hash_key idkey password p salt then Inr () else Inl MismatchedPassword)" for q
    using len unfolding verify_password_def hash_decodes[OF h] by (simp add: hash_key_def)
  moreover have "decode_argon2_hash h =
      Inr (p\<lparr>ar_salt_length := of_nat (length salt)\<rparr>, salt, hash_key idkey password p salt)"
    unfolding hash_decodes[OF h] len by (cases p) simp
  ultimately show ?thesis using h by blast
qed

text \<open>Argon2id replaced by a function that copies the password into a key of the length asked for.\<close>

definition toy_idkey :: idkey where
  "toy_idkey q s m t l n =
     take (unat n) (map (\<lambda>c. of_nat (of_char c)) q @ s @ replicate (unat n) 0)"

lemma length_toy_idkey: "length (toy_idkey q s m t l n) = unat n"
  by (simp add: toy_idkey_def min_def)

theorem password_roundtrip_witness:
  "\<exists>h. hash_password_with toy_idkey ''correct horse'' (default_argon2_params 8) (replicate 16 7) = Inr h \<and>
    verify_password toy_idkey ''correct horse'' h = Inr () \<and>
    verify_password toy_idkey ''battery staple'' h = Inl MismatchedPassword"
proof -
  let ?p = "default_argon2_params 8" and ?s = "replicate 16 7 :: bytes"
  have "hash_key toy_idkey ''battery staple'' ?p ?s \<noteq> hash_key toy_idkey ''correct horse'' ?p ?s"
    by (simp add: hash_key_def default_argon2_params_def Let_def toy_idkey_def take_Cons')
  then show ?thesis
    using password_roundtrip[of toy_idkey "''correct horse''" ?p ?s] length_toy_idkey by auto
qed

text \<open>What \<open>Seal\<close> writes \<open>Open\<close> reads under the same key and context, and a value that was not
  sealed for the context is refused with one error, whatever is wrong with it.\<close>

theorem seal_roundtrip:
  assumes "\<And>n m x. length n = ae_nonce_size c \<Longrightarrow> ae_open c n (ae_seal c n m x) x = Some m"
    and "length nonce = ae_nonce_size c"
  shows "unseal c (seal c nonce plaintext ctx) ctx = Some plaintext"
  using assms by (simp add: unseal_def seal_def seal_version_def base64_url_roundtrip)

end

