(* ===== verification/Auth.thy ===== *)
theory Auth
  imports Application Password
begin

text \<open>
  Packages \<open>internal/auth\<close> (\<open>model.go\<close>, \<open>repository.go\<close>, \<open>service.go\<close>) and
  \<open>internal/audit\<close>: the administrators of the dashboard, their sessions and the record of what they
  did. Argon2id, the SHA-256 digest of a token and \<open>mail.ParseAddress\<close> are parameters; the bytes of
  \<open>crypto/rand\<close> are the next draw of the world. The clock of the program and that of the database
  are the one of the world. Spending the time of a verification for an unknown address is no effect.
\<close>

subsection \<open>Model\<close>

definition admin_active :: "admin \<Rightarrow> bool" where "admin_active a \<longleftrightarrow> adm_disabled_at a = None"

definition session_valid :: "time \<Rightarrow> session \<Rightarrow> bool" where
  "session_valid t s \<longleftrightarrow> ses_revoked_at s = None \<and> t < ses_expires_at s"

record issued_session =
  is_session :: session
  is_admin :: admin
  is_token :: string

definition zero_admin :: admin where
  "zero_admin = \<lparr>adm_id = [], adm_email = [], adm_name = [], adm_password_hash = [], adm_disabled_at = None,
     adm_last_login_at = None, adm_created_at = 0, adm_updated_at = 0\<rparr>"

definition zero_session :: session where
  "zero_session = \<lparr>ses_id = [], ses_admin_id = [], ses_token_hash = [], ses_expires_at = 0, ses_revoked_at = None,
     ses_user_agent = [], ses_ip_address = [], ses_created_at = 0\<rparr>"

subsection \<open>Administrators\<close>

abbreviation set_admins :: "admin list \<Rightarrow> db \<Rightarrow> db" where "set_admins rows d \<equiv> d\<lparr>admins := rows\<rparr>"

abbreviation set_sessions :: "session list \<Rightarrow> db \<Rightarrow> db" where "set_sessions rows d \<equiv> d\<lparr>admin_sessions := rows\<rparr>"

definition admin_constraints :: "admin constraint list" where
  "admin_constraints = [(''admins_pkey'', \<lambda>a x. adm_id a = adm_id x),
     (''admins_email_key'', \<lambda>a x. to_lower (adm_email a) = to_lower (adm_email x))]"

definition repo_create_admin :: "admin \<Rightarrow> ('g, admin) routine" where
  "repo_create_admin a =
     bindE (if adm_id a = [] then fresh_id ''adm'' else succeed (adm_id a)) (\<lambda>i.
     bindE (gets now) (\<lambda>t. insert_row admin_constraints admins set_admins
       (a\<lparr>adm_id := i, adm_email := trim_space (adm_email a), adm_disabled_at := None, adm_last_login_at := None,
         adm_created_at := t, adm_updated_at := t\<rparr>)))"

definition get_admin :: "string \<Rightarrow> ('g, admin) routine" where
  "get_admin i = query_row (\<lambda>d. List.find (\<lambda>a. adm_id a = i) (admins d))"

definition get_admin_by_email :: "string \<Rightarrow> ('g, admin) routine" where
  "get_admin_by_email email =
     query_row (\<lambda>d. List.find (\<lambda>a. to_lower (adm_email a) = to_lower (trim_space email)) (admins d))"

definition count_admins :: "('g, nat) routine" where "count_admins = query (\<lambda>d. length (admins d))"

definition repo_list_admins :: "('g, admin list) routine" where
  "repo_list_admins = query (\<lambda>d. rev (sort_key adm_id (admins d)))"

definition revoke_sessions_of :: "time \<Rightarrow> string \<Rightarrow> db \<Rightarrow> db" where
  "revoke_sessions_of t i d = set_sessions (map (\<lambda>s.
     if ses_admin_id s = i \<and> ses_revoked_at s = None then s\<lparr>ses_revoked_at := Some t\<rparr> else s) (admin_sessions d)) d"

definition update_password :: "string \<Rightarrow> string \<Rightarrow> ('g, unit) routine" where
  "update_password i hash = in_tx (bindE (gets now) (\<lambda>t.
     bindE (update_where admins set_admins (\<lambda>a. adm_id a = i) (\<lambda>a. a\<lparr>adm_password_hash := hash, adm_updated_at := t\<rparr>))
       (\<lambda>rows. if rows = [] then throw NotFound else exec_stmt (revoke_sessions_of t i))))"

definition set_admin_disabled :: "string \<Rightarrow> bool \<Rightarrow> ('g, admin) routine" where
  "set_admin_disabled i disabled = in_tx (bindE (gets now) (\<lambda>t.
     bindE (update_one admins set_admins (\<lambda>a. adm_id a = i) (\<lambda>a. a\<lparr>adm_disabled_at :=
         (if disabled then Some (coalesce (adm_disabled_at a) t) else None), adm_updated_at := t\<rparr>)) (\<lambda>a.
     if disabled then bindE (exec_stmt (revoke_sessions_of t i)) (\<lambda>_. succeed a) else succeed a)))"

definition touch_login :: "string \<Rightarrow> ('g, unit) routine" where
  "touch_login i = bindE (gets now) (\<lambda>t. exec_stmt (\<lambda>d.
     set_admins (map (\<lambda>a. if adm_id a = i then a\<lparr>adm_last_login_at := Some t\<rparr> else a) (admins d)) d))"

subsection \<open>Sessions\<close>

definition session_constraints :: "session constraint list" where
  "session_constraints = [(''admin_sessions_pkey'', \<lambda>s x. ses_id s = ses_id x),
     (''admin_sessions_token_hash_key'', \<lambda>s x. ses_token_hash s = ses_token_hash x)]"

text \<open>The foreign key of \<open>admin_id\<close> is checked after the unique indexes.\<close>

definition repo_create_session :: "session \<Rightarrow> string \<Rightarrow> ('g, session) routine" where
  "repo_create_session s token_hash =
     bindE (if ses_id s = [] then fresh_id ''ses'' else succeed (ses_id s)) (\<lambda>i.
     bindE (gets now) (\<lambda>t. run_stmt (\<lambda>d.
       let row = s\<lparr>ses_id := i, ses_token_hash := token_hash, ses_revoked_at := None, ses_created_at := t\<rparr>
       in case violated session_constraints row (admin_sessions d) of
            Some name \<Rightarrow> Inl (UniqueViolation name)
          | None \<Rightarrow> if list_ex (\<lambda>a. adm_id a = ses_admin_id s) (admins d)
              then Inr (row, set_sessions (admin_sessions d @ [row]) d)
              else Inl (OtherError ''admin_sessions_admin_id_fkey''))))"

definition session_of :: "string \<Rightarrow> db \<Rightarrow> (session \<times> admin) option" where
  "session_of token_hash d = (case List.find (\<lambda>s. ses_token_hash s = token_hash) (admin_sessions d) of
     None \<Rightarrow> None
   | Some s \<Rightarrow> map_option (\<lambda>a. (s, a)) (List.find (\<lambda>a. adm_id a = ses_admin_id s) (admins d)))"

definition session_with_admin :: "string \<Rightarrow> ('g, session \<times> admin) routine" where
  "session_with_admin token_hash = query_row (session_of token_hash)"

definition revoke_session :: "string \<Rightarrow> ('g, unit) routine" where
  "revoke_session token_hash = bindE (gets now) (\<lambda>t. exec_stmt (\<lambda>d. set_sessions (map (\<lambda>s.
     if ses_token_hash s = token_hash \<and> ses_revoked_at s = None then s\<lparr>ses_revoked_at := Some t\<rparr> else s)
       (admin_sessions d)) d))"

definition delete_expired_sessions :: "time \<Rightarrow> ('g, nat) routine" where
  "delete_expired_sessions cutoff = run_stmt (\<lambda>d.
     Inr (length (filter (\<lambda>s. ses_expires_at s < cutoff) (admin_sessions d)),
          set_sessions (filter (\<lambda>s. \<not> ses_expires_at s < cutoff) (admin_sessions d)) d))"

subsection \<open>Validation\<close>

text \<open>\<open>len([]rune(s))\<close>: the code points of a UTF-8 text, a byte that starts none counting as one.\<close>

definition in_range :: "nat \<Rightarrow> nat \<Rightarrow> nat \<Rightarrow> bool" where "in_range lo hi n \<longleftrightarrow> lo \<le> n \<and> n \<le> hi"

definition rune_width :: "nat list \<Rightarrow> nat" where
  "rune_width s = (case s of
     [] \<Rightarrow> 1
   | b # r \<Rightarrow>
     (let ok = (\<lambda>lo hi n. length r \<ge> n \<and> in_range lo hi (r ! 0) \<and> (\<forall>i \<in> set [1..<n]. in_range 128 191 (r ! i))) in
      if in_range 194 223 b \<and> ok 128 191 1 then 2
      else if b = 224 \<and> ok 160 191 2 \<or> b = 237 \<and> ok 128 159 2 \<or>
        in_range 225 239 b \<and> b \<noteq> 237 \<and> ok 128 191 2 then 3
      else if b = 240 \<and> ok 144 191 3 \<or> b = 244 \<and> ok 128 143 3 \<or> in_range 241 243 b \<and> ok 128 191 3 then 4
      else 1))"

lemma rune_width_pos: "0 < rune_width s"
  by (simp add: rune_width_def Let_def split: list.split)

function rune_count_bytes :: "nat list \<Rightarrow> nat" where
  "rune_count_bytes s = (if s = [] then 0 else Suc (rune_count_bytes (drop (rune_width s) s)))"
  by pat_completeness auto

termination rune_count_bytes
  by (relation "measure length") (use rune_width_pos in \<open>auto simp: Suc_le_eq\<close>)

declare rune_count_bytes.simps [simp del]

definition rune_count :: "string \<Rightarrow> nat" where "rune_count s = rune_count_bytes (map of_char s)"

definition min_password_length :: nat where "min_password_length = 12"

definition validate_password :: "string \<Rightarrow> error + unit" where
  "validate_password password =
     (if rune_count password < min_password_length
        then Inl (WeakPassword (''auth: password does not meet the minimum requirements: at least '' @
          dec_nat min_password_length @ '' characters are required''))
      else if 1024 < length password
        then Inl (WeakPassword ''auth: password does not meet the minimum requirements: at most 1024 characters are allowed'')
      else Inr ())"

definition validate_email :: "(string \<Rightarrow> bool) \<Rightarrow> string \<Rightarrow> error + unit" where
  "validate_email address_ok email =
     (if email = [] then Inl (OtherError ''auth: email address must not be empty'')
      else if 320 < length email then Inl (OtherError ''auth: email address is too long'')
      else if \<not> address_ok email then Inl (OtherError ''auth: email address is not valid'')
      else Inr ())"

subsection \<open>The service\<close>

record auth_config =
  au_idkey :: idkey
  au_cpus :: int
  au_hash :: "string \<Rightarrow> string"
  au_address_ok :: "string \<Rightarrow> bool"
  au_session_ttl :: duration

text \<open>A lifetime that is not positive is twelve hours.\<close>

definition new_auth_service :: "auth_config \<Rightarrow> auth_config" where
  "new_auth_service c = c\<lparr>au_session_ttl := (if au_session_ttl c \<le> 0 then 12 * hour else au_session_ttl c)\<rparr>"

definition hashed_password :: "auth_config \<Rightarrow> string \<Rightarrow> ('g, string) routine" where
  "hashed_password c password = bindE random_bytes (\<lambda>salt.
     case hash_password (au_idkey c) (au_cpus c) password salt of
       Inl _ \<Rightarrow> throw (OtherError ''crypto: password must not be empty'')
     | Inr h \<Rightarrow> succeed h)"

definition create_admin :: "auth_config \<Rightarrow> string \<Rightarrow> string \<Rightarrow> string \<Rightarrow> ('g, admin) routine" where
  "create_admin c email0 name password =
     (let email = trim_space email0 in
      bindE (lift_result (validate_email (au_address_ok c) email)) (\<lambda>_.
      bindE (lift_result (validate_password password)) (\<lambda>_.
      bindE (hashed_password c password) (\<lambda>hash.
      catchE (repo_create_admin (zero_admin\<lparr>adm_email := email, adm_name := trim_space name, adm_password_hash := hash\<rparr>))
        (\<lambda>e. if is_unique_violation e [''admins_email_key''] then throw EmailTaken else throw e) succeed))))"

definition ensure_bootstrap_admin :: "auth_config \<Rightarrow> string \<Rightarrow> string \<Rightarrow> ('g, admin option) routine" where
  "ensure_bootstrap_admin c email password =
     (if email = [] \<or> password = [] then succeed None
      else bindE count_admins (\<lambda>n.
        if 0 < n then succeed None
        else bindE (create_admin c email [] password) (\<lambda>a. succeed (Some a))))"

record login_input =
  li_email :: string
  li_password :: string
  li_user_agent :: string
  li_ip_address :: string

definition session_token :: "bytes \<Rightarrow> string" where "session_token buf = base64_url buf"

definition generate_session_token :: "('g, string) routine" where
  "generate_session_token = bindE random_bytes (\<lambda>buf. succeed (session_token buf))"

definition issue_session :: "auth_config \<Rightarrow> admin \<Rightarrow> string \<Rightarrow> string \<Rightarrow> ('g, issued_session) routine" where
  "issue_session c a user_agent ip =
     bindE generate_session_token (\<lambda>token.
     bindE (gets now) (\<lambda>t.
     bindE (repo_create_session (zero_session\<lparr>ses_admin_id := adm_id a, ses_expires_at := t + au_session_ttl c,
         ses_user_agent := clip_text user_agent 400, ses_ip_address := ip\<rparr>) (au_hash c token)) (\<lambda>s.
     succeed \<lparr>is_session = s, is_admin = a, is_token = token\<rparr>)))"

definition login :: "auth_config \<Rightarrow> login_input \<Rightarrow> ('g, issued_session) routine" where
  "login c li =
     catchE (get_admin_by_email (li_email li))
       (\<lambda>e. if is_not_found e then throw InvalidCredentials else throw e)
       (\<lambda>a. case verify_password (au_idkey c) (li_password li) (adm_password_hash a) of
          Inl _ \<Rightarrow> throw InvalidCredentials
        | Inr _ \<Rightarrow>
            if \<not> admin_active a then throw InvalidCredentials
            else bindE (issue_session c a (li_user_agent li) (li_ip_address li)) (\<lambda>i.
              bindE (ignore_error (touch_login (adm_id a))) (\<lambda>_. succeed i)))"

definition authenticate_session :: "auth_config \<Rightarrow> string \<Rightarrow> ('g, admin \<times> session) routine" where
  "authenticate_session c token =
     (if token = [] then throw SessionInvalid
      else catchE (session_with_admin (au_hash c token))
        (\<lambda>e. if is_not_found e then throw SessionInvalid else throw e)
        (\<lambda>(s, a). bindE (gets now) (\<lambda>t.
           if \<not> session_valid t s \<or> \<not> admin_active a then throw SessionInvalid else succeed (a, s))))"

definition logout :: "auth_config \<Rightarrow> string \<Rightarrow> ('g, unit) routine" where
  "logout c token = (if token = [] then succeed () else revoke_session (au_hash c token))"

definition change_password :: "auth_config \<Rightarrow> string \<Rightarrow> string \<Rightarrow> string \<Rightarrow> ('g, unit) routine" where
  "change_password c i current new =
     bindE (get_admin i) (\<lambda>a.
     case verify_password (au_idkey c) current (adm_password_hash a) of
       Inl _ \<Rightarrow> throw InvalidCredentials
     | Inr _ \<Rightarrow>
         bindE (lift_result (validate_password new)) (\<lambda>_.
         bindE (hashed_password c new) (\<lambda>hash. update_password i hash)))"

definition list_admins :: "('g, admin list) routine" where "list_admins = repo_list_admins"

definition set_disabled :: "string \<Rightarrow> bool \<Rightarrow> ('g, admin) routine" where
  "set_disabled i disabled = set_admin_disabled i disabled"

definition prune_sessions :: "('g, nat) routine" where
  "prune_sessions = bindE (gets now) delete_expired_sessions"

subsection \<open>Audit\<close>

definition audit_checks :: "audit_entry check list" where
  "audit_checks = [(''audit_logs_actor_type_check'', \<lambda>e. au_actor_type e \<in> {''admin'', ''application'', ''system''})]"

definition audit_constraints :: "audit_entry constraint list" where
  "audit_constraints = [(''audit_logs_pkey'', \<lambda>e x. au_id e = au_id x)]"

text \<open>\<open>Record\<close>: nil metadata is stored as an empty object.\<close>

definition record_audit :: "audit_entry \<Rightarrow> ('g, unit) routine" where
  "record_audit e = bindE (fresh_id ''aud'') (\<lambda>i.
     bindE (insert_checked audit_checks audit_constraints audit_logs (\<lambda>rows d. d\<lparr>audit_logs := rows\<rparr>)
       (e\<lparr>au_id := i, au_metadata := Some (coalesce (au_metadata e) [])\<rparr>)) (\<lambda>_. succeed ()))"

definition try_record :: "audit_entry \<Rightarrow> ('g, unit) routine" where
  "try_record e = ignore_error (record_audit e)"

subsection \<open>Which statements touch the sessions\<close>

interpretation sess: db_evolution "\<lambda>d e. admin_sessions e = admin_sessions d"
  by unfold_locales auto

lemma sess_random: "sess.safe random_bytes"
  by (rule sess.ev.evolvesI) (simp add: random_bytes_def sess.R_def)

lemmas sess_intros = sess.safe_intros sess_random

lemma sess_reads: "sess.safe (get_admin i)" "sess.safe (get_admin_by_email i)" "sess.safe count_admins"
    "sess.safe (session_with_admin h)" "sess.safe list_admins" "sess.safe generate_session_token"
  unfolding get_admin_def get_admin_by_email_def count_admins_def session_with_admin_def list_admins_def
    repo_list_admins_def generate_session_token_def
  by (intro sess_intros)+

lemma sess_touch: "sess.safe (touch_login i)"
  unfolding touch_login_def by (intro sess_intros sess.safe_exec) simp

lemma sess_authenticate: "sess.safe (authenticate_session c token)"
  unfolding authenticate_session_def by (intro sess_intros sess_reads)

lemma sess_create_admin: "sess.safe (create_admin c email name password)"
  unfolding create_admin_def Let_def repo_create_admin_def hashed_password_def
  by (intro sess_intros sess.safe_insert_row) simp

lemma sess_bootstrap: "sess.safe (ensure_bootstrap_admin c email password)"
  unfolding ensure_bootstrap_admin_def by (intro sess_intros sess_reads sess_create_admin)

lemma sess_audit: "sess.safe (try_record e)"
  unfolding try_record_def record_audit_def by (intro sess_intros sess.safe_insert_checked) simp

subsection \<open>A session that has ended\<close>

text \<open>No session under the hash \<open>h\<close> is valid at \<open>t\<close>: it was revoked, it expired, or there is
  none.\<close>

definition ended :: "string \<Rightarrow> time \<Rightarrow> db \<Rightarrow> bool" where
  "ended h t d \<longleftrightarrow> (\<forall>s \<in> set (admin_sessions d). ses_token_hash s = h \<longrightarrow> \<not> session_valid t s)"

interpretation ends: db_evolution "\<lambda>d e. ended h t d \<longrightarrow> ended h t e" for h t
  by unfold_locales auto

lemma ended_same: "admin_sessions e = admin_sessions d \<Longrightarrow> ended h t d \<longrightarrow> ended h t e"
  by (simp add: ended_def)

lemma ended_later: "ended h t d \<Longrightarrow> t \<le> u \<Longrightarrow> ended h u d"
  by (auto simp: ended_def session_valid_def)

lemma ends_same: "sess.safe m \<Longrightarrow> ends.safe h t m"
  by (rule ends.safe_weaken[OF sess.db_evolution_axioms]) (simp_all add: ended_same)

lemma ends_revoke: "ended h t d \<longrightarrow> ended h t (revoke_sessions_of u i d)"
  by (auto simp: ended_def revoke_sessions_of_def session_valid_def)

lemma ends_update_password: "ends.safe h t (update_password i hash)"
  unfolding update_password_def
  by (intro ends.safe_intros ends.safe_update_where ends.safe_exec ends_revoke) (simp add: ended_def)

lemma ends_change: "ends.safe h t (change_password c i current new)"
  unfolding change_password_def hashed_password_def
  by (intro ends.safe_intros ends_update_password ends_same sess_reads sess_random)

lemma ends_disable: "ends.safe h t (set_disabled i disabled)"
  unfolding set_disabled_def set_admin_disabled_def
  by (intro ends.safe_intros ends.safe_update_one ends.safe_exec ends_revoke) (simp add: ended_def)

lemma ends_logout: "ends.safe h t (logout c token)"
  unfolding logout_def revoke_session_def
  by (intro ends.safe_intros ends.safe_exec) (auto simp: ended_def session_valid_def)

lemma ends_prune: "ends.safe h t prune_sessions"
  unfolding prune_sessions_def delete_expired_sessions_def
  by (intro ends.safe_intros ends.safe_run_stmt) (auto simp: ended_def)

text \<open>A login stores one session, under the hash of the token it returns, or none.\<close>

lemma run_stmt_Inl_db: "run_stmt f w = (Inl e, v) \<Longrightarrow> db v = db w"
  by (auto simp: run_stmt_def next_outcome_def abort_txn_def split: if_splits list.splits option.splits sum.splits)

lemma create_session_adds:
  assumes "repo_create_session s hash w = (r, v)"
  shows "case r of Inl _ \<Rightarrow> admin_sessions (db v) = admin_sessions (db w)
    | Inr _ \<Rightarrow> \<exists>x. admin_sessions (db v) = admin_sessions (db w) @ [x] \<and> ses_token_hash x = hash"
proof -
  obtain i w1 where i: "(if ses_id s = [] then fresh_id ''ses'' else succeed (ses_id s)) w = (Inr i, w1)" "db w1 = db w"
    by (cases "ses_id s = []") (auto simp: fresh_id_def succeed_def)
  note run = assms[unfolded repo_create_session_def bindE_run i(1) gets_def prod.case sum.case]
  show ?thesis
  proof (cases r)
    case (Inl e)
    with run_stmt_Inl_db run i(2) show ?thesis by fastforce
  next
    case (Inr y)
    note e = run_stmt_Inr[OF run[unfolded Inr], THEN conjunct1]
    show ?thesis using e i(2) by (auto simp: Inr Let_def split: option.splits if_splits dest!: sym[of _ "db v"])
  qed
qed

lemma issue_session_adds:
  assumes "issue_session c a ua ip w = (r, v)"
  shows "case r of Inl _ \<Rightarrow> admin_sessions (db v) = admin_sessions (db w)
    | Inr i \<Rightarrow> \<exists>x. admin_sessions (db v) = admin_sessions (db w) @ [x] \<and> ses_token_hash x = au_hash c (is_token i)"
proof -
  let ?tok = "session_token (entropy w (draws w))" and ?w = "w\<lparr>draws := draws w + 1\<rparr>"
  let ?s = "zero_session\<lparr>ses_admin_id := adm_id a, ses_expires_at := now w + au_session_ttl c,
         ses_user_agent := clip_text ua 400, ses_ip_address := ip\<rparr>"
  obtain q u where q: "repo_create_session ?s (au_hash c ?tok) ?w = (q, u)" by fastforce
  then show ?thesis
    using assms create_session_adds[OF q]
    by (cases q) (auto simp: issue_session_def generate_session_token_def random_bytes_def bindE_run gets_def succeed_def)
qed

lemma login_adds:
  assumes "login c li w = (r, v)"
  shows "case r of Inl _ \<Rightarrow> admin_sessions (db v) = admin_sessions (db w)
    | Inr i \<Rightarrow> \<exists>x. admin_sessions (db v) = admin_sessions (db w) @ [x] \<and> ses_token_hash x = au_hash c (is_token i)"
proof -
  obtain q u where q: "get_admin_by_email (li_email li) w = (q, u)" by fastforce
  have u: "admin_sessions (db u) = admin_sessions (db w)"
    using sess.safe_db[OF sess_reads(2), of "li_email li" w] by (simp add: q)
  show ?thesis
  proof (cases q)
    case (Inl e)
    then show ?thesis using assms u by (auto simp: login_def catchE_def q throw_def split: if_splits)
  next
    case (Inr a)
    obtain z x where z: "issue_session c a (li_user_agent li) (li_ip_address li) u = (z, x)" by fastforce
    obtain y s where y: "ignore_error (touch_login (adm_id a)) x = (y, s)" by fastforce
    have s: "admin_sessions (db s) = admin_sessions (db x)"
      using sess.safe_db[OF sess.safe_ignore_error[OF sess_touch], of "adm_id a" x] by (simp add: y)
    have ok: "y = Inr ()" using ignore_error_ok[of "touch_login (adm_id a)" x] by (simp add: y)
    show ?thesis
      using assms u issue_session_adds[OF z] s ok
      by (cases z) (auto simp: login_def catchE_def q Inr z y bindE_run succeed_def throw_def split: sum.splits if_splits)
  qed
qed

lemma ends_login:
  assumes "\<forall>i. fst (login c li w) = Inr i \<longrightarrow> au_hash c (is_token i) \<noteq> h" "ended h t (db w)"
  shows "ended h t (db (snd (login c li w)))"
proof -
  obtain r v where r: "login c li w = (r, v)" by fastforce
  show ?thesis using assms login_adds[OF r] r by (cases r) (auto simp: ended_def)
qed

subsection \<open>Steps\<close>

text \<open>The operations of the package, each one step whatever it returns, and the passing of time.
  Every login issues a token whose hash is not the one looked at: 256 random bits do not repeat.\<close>

inductive auth_step :: "auth_config \<Rightarrow> string \<Rightarrow> 'g world \<Rightarrow> 'g world \<Rightarrow> bool" for c :: auth_config and h :: string where
  create: "auth_step c h w (snd (create_admin c email name password w))"
| bootstrap: "auth_step c h w (snd (ensure_bootstrap_admin c email password w))"
| login: "\<forall>i. fst (login c li w) = Inr i \<longrightarrow> au_hash c (is_token i) \<noteq> h \<Longrightarrow> auth_step c h w (snd (login c li w))"
| authenticate: "auth_step c h w (snd (authenticate_session c token w))"
| logout: "auth_step c h w (snd (logout c token w))"
| change: "auth_step c h w (snd (change_password c i current new w))"
| disable: "auth_step c h w (snd (set_disabled i disabled w))"
| prune: "auth_step c h w (snd (prune_sessions w))"
| audit: "auth_step c h w (snd (try_record e w))"
| tick: "now w \<le> t \<Longrightarrow> auth_step c h w (w\<lparr>now := t\<rparr>)"

lemma inert_random: "inert.evolves random_bytes"
  by (rule inert.evolvesI) (simp add: random_bytes_def inert_rel_def)

lemma inert_auth:
  "inert.evolves (create_admin c email name password)" "inert.evolves (ensure_bootstrap_admin c email password)"
  "inert.evolves (login c li)" "inert.evolves (authenticate_session c token)" "inert.evolves (logout c token)"
  "inert.evolves (change_password c i current new)" "inert.evolves (set_disabled i disabled)"
  "inert.evolves prune_sessions" "inert.evolves (try_record e)"
  unfolding create_admin_def ensure_bootstrap_admin_def login_def authenticate_session_def logout_def change_password_def
    set_disabled_def prune_sessions_def try_record_def Let_def repo_create_admin_def hashed_password_def count_admins_def
    get_admin_by_email_def issue_session_def generate_session_token_def repo_create_session_def touch_login_def
    session_with_admin_def revoke_session_def get_admin_def update_password_def set_admin_disabled_def
    delete_expired_sessions_def record_audit_def
  by (intro inert_intros inert_run_stmt inert_random)+

lemma inert_now: "inert.evolves m \<Longrightarrow> now (snd (m w)) = now w"
  by (simp add: inert.evolves_def inert_rel_def)

lemma auth_step_now: "auth_step c h w v \<Longrightarrow> now w \<le> now v"
  by (induction rule: auth_step.induct) (simp_all add: inert_now[OF inert_auth(1)] inert_now[OF inert_auth(2)]
    inert_now[OF inert_auth(3)] inert_now[OF inert_auth(4)] inert_now[OF inert_auth(5)] inert_now[OF inert_auth(6)]
    inert_now[OF inert_auth(7)] inert_now[OF inert_auth(8)] inert_now[OF inert_auth(9)])

lemma auth_step_ended:
  assumes "auth_step c h w v" "ended h t (db w)" shows "ended h t (db v)"
  using assms
proof (induction rule: auth_step.induct)
  case (create w email name password)
  then show ?case using ends.safe_db[OF ends_same[OF sess_create_admin]] by blast
next
  case (bootstrap w email password)
  then show ?case using ends.safe_db[OF ends_same[OF sess_bootstrap]] by blast
next
  case (login li w)
  then show ?case by (intro ends_login)
next
  case (authenticate w token)
  then show ?case using ends.safe_db[OF ends_same[OF sess_authenticate]] by blast
next
  case (logout w token)
  then show ?case using ends.safe_db[OF ends_logout] by blast
next
  case (change w i current new)
  then show ?case using ends.safe_db[OF ends_change] by blast
next
  case (disable w i disabled)
  then show ?case using ends.safe_db[OF ends_disable] by blast
next
  case (prune w)
  then show ?case using ends.safe_db[OF ends_prune] by blast
next
  case (audit w e)
  then show ?case using ends.safe_db[OF ends_same[OF sess_audit]] by blast
qed simp

lemma auth_steps_ended:
  "(auth_step c h)\<^sup>*\<^sup>* w v \<Longrightarrow> ended h (now w) (db w) \<Longrightarrow> now w \<le> now v \<and> ended h (now w) (db v)"
  by (induction rule: rtranclp_induct) (auto dest: auth_step_now intro: auth_step_ended)

lemma ended_refused:
  assumes "ended (au_hash c token) (now w) (db w)"
  shows "\<exists>e. fst (authenticate_session c token w) = Inl e"
proof -
  obtain r v where r: "authenticate_session c token w = (r, v)" by fastforce
  have False if ok: "r = Inr p" for p
  proof -
    have "catchE (session_with_admin (au_hash c token)) (\<lambda>e. if is_not_found e then throw SessionInvalid else throw e)
        (\<lambda>(s, a). bindE (gets now) (\<lambda>t.
           if \<not> session_valid t s \<or> \<not> admin_active a then throw SessionInvalid else succeed (a, s))) w = (Inr p, v)"
      using r ok by (auto simp: authenticate_session_def throw_def split: if_splits)
    then obtain s a u where q: "session_with_admin (au_hash c token) w = (Inr (s, a), u)" "session_valid (now u) s"
      by (auto simp: catchE_def throw_def bindE_run gets_def split: prod.splits sum.splits if_splits)
    have "session_of (au_hash c token) (db w) = Some (s, a)" "now u = now w"
      using query_row_Inr[OF q(1)[unfolded session_with_admin_def]] by (auto simp: same_context_def)
    then show False using q(2) assms
      by (auto simp: session_of_def ended_def find_Some_iff split: option.splits)
  qed
  then show ?thesis using r by (cases r) auto
qed

text \<open>Logging out ends the session of the token, and a changed password or a disabled account ends
  every session of the administrator.\<close>

lemma logout_ends:
  assumes "logout c token w = (Inr (), v)" "token \<noteq> []"
  shows "ended (au_hash c token) t (db v)"
proof -
  have "revoke_session (au_hash c token) w = (Inr (), v)" using assms by (simp add: logout_def)
  then have "db v = set_sessions (map (\<lambda>s. if ses_token_hash s = au_hash c token \<and> ses_revoked_at s = None
      then s\<lparr>ses_revoked_at := Some (now w)\<rparr> else s) (admin_sessions (db w))) (db w)"
    by (auto simp: revoke_session_def bindE_run gets_def dest: exec_stmt_Inr)
  then show ?thesis by (auto simp: ended_def session_valid_def)
qed

definition owned_by :: "string \<Rightarrow> string \<Rightarrow> db \<Rightarrow> bool" where
  "owned_by i h d \<longleftrightarrow> (\<forall>s \<in> set (admin_sessions d). ses_token_hash s = h \<longrightarrow> ses_admin_id s = i)"

lemma revoked_of_ended: "owned_by i h d \<Longrightarrow> admin_sessions e = admin_sessions d \<Longrightarrow> ended h t (revoke_sessions_of u i e)"
  by (auto simp: owned_by_def ended_def revoke_sessions_of_def session_valid_def)

lemma update_password_ends:
  assumes "update_password i hash w = (Inr (), v)" "txn w = None" "owned_by i h (db w)"
  shows "ended h t (db v)"
  using assms(1)[unfolded update_password_def] assms(2)
proof (cases rule: in_tx_cases)
  case (committed x w1 w2)
  from committed(2) obtain rows u where u:
      "update_where admins set_admins (\<lambda>a. adm_id a = i) (\<lambda>a. a\<lparr>adm_password_hash := hash, adm_updated_at := now w1\<rparr>) w1 = (Inr rows, u)"
      "exec_stmt (revoke_sessions_of (now w1) i) u = (Inr (), w2)"
    by (auto simp: bindE_run gets_def throw_def split: prod.splits sum.splits if_splits)
  have "admin_sessions (db u) = admin_sessions (db w)" using update_where_Inr[OF u(1)] committed by simp
  moreover have "db v = revoke_sessions_of (now w1) i (db u)" using exec_stmt_Inr[OF u(2)] committed by simp
  ultimately show ?thesis using revoked_of_ended[OF assms(3)] by simp
qed simp

lemma change_password_ends:
  assumes "change_password c i current new w = (Inr (), v)" "txn w = None" "owned_by i h (db w)"
  shows "ended h t (db v)"
proof -
  obtain a w1 where a: "get_admin i w = (Inr a, w1)" and rest:
      "(case verify_password (au_idkey c) current (adm_password_hash a) of
          Inl _ \<Rightarrow> throw InvalidCredentials
        | Inr _ \<Rightarrow> bindE (lift_result (validate_password new)) (\<lambda>_.
            bindE (hashed_password c new) (\<lambda>hash. update_password i hash))) w1 = (Inr (), v)"
    using assms(1) unfolding change_password_def by (rule bindE_Inr_E)
  then obtain hash w2 where h: "hashed_password c new w1 = (Inr hash, w2)" and u: "update_password i hash w2 = (Inr (), v)"
    by (auto simp: bindE_run lift_result_def throw_def split: prod.splits sum.splits)
  have "sess.safe (hashed_password c new)" unfolding hashed_password_def by (intro sess_intros)
  then have "sess.R w1 w2" using h by (rule sess.ev.evolvesD)
  moreover have "sess.R w w1" using sess_reads(1) a by (rule sess.ev.evolvesD)
  ultimately have "txn w2 = None" "owned_by i h (db w2)" using assms(2,3) by (auto simp: sess.R_def owned_by_def)
  with u show ?thesis by (rule update_password_ends)
qed

lemma disable_ends:
  assumes "set_disabled i True w = (Inr a, v)" "txn w = None" "owned_by i h (db w)"
  shows "ended h t (db v)"
  using assms(1)[unfolded set_disabled_def set_admin_disabled_def] assms(2)
proof (cases rule: in_tx_cases)
  case (committed x w1 w2)
  from committed(2) obtain y u z where u:
      "update_one admins set_admins (\<lambda>a. adm_id a = i) (\<lambda>a. a\<lparr>adm_disabled_at := Some (coalesce (adm_disabled_at a) (now w1)),
          adm_updated_at := now w1\<rparr>) w1 = (Inr y, u)"
      "exec_stmt (revoke_sessions_of (now w1) i) u = (Inr z, w2)"
    by (auto simp: bindE_run gets_def succeed_def split: prod.splits sum.splits)
  have "admin_sessions (db u) = admin_sessions (db w)" using update_one_Inr[OF u(1)] committed by auto
  moreover have "db v = revoke_sessions_of (now w1) i (db u)" using exec_stmt_Inr[OF u(2)] committed by simp
  ultimately show ?thesis using revoked_of_ended[OF assms(3)] by simp
qed simp

text \<open>What ends the session of a token: it expires, it is logged out, or its owner's password is changed
  or account disabled.\<close>

definition closes_session :: "auth_config \<Rightarrow> string \<Rightarrow> 'g world \<Rightarrow> 'g world \<Rightarrow> bool" where
  "closes_session c token u w \<longleftrightarrow>
     (u = w \<and> (\<forall>s \<in> set (admin_sessions (db w)). ses_token_hash s = au_hash c token \<longrightarrow> ses_expires_at s \<le> now w)) \<or>
     (token \<noteq> [] \<and> logout c token u = (Inr (), w)) \<or>
     (\<exists>i. txn u = None \<and> owned_by i (au_hash c token) (db u) \<and>
       ((\<exists>current new. change_password c i current new u = (Inr (), w)) \<or> (\<exists>a. set_disabled i True u = (Inr a, w))))"

text \<open>C14. A session that has ended never authenticates again: once it has expired, was logged out, or
  its owner changed the password or was disabled, no later operation on administrators and sessions,
  whatever statements fail, lets its token through, not even after the account is enabled again.\<close>

theorem ended_sessions_stay_ended:
  assumes "closes_session c token u w" "(auth_step c (au_hash c token))\<^sup>*\<^sup>* w v"
  shows "\<exists>e. fst (authenticate_session c token v) = Inl e"
proof -
  have "ended (au_hash c token) (now w) (db w)"
    using assms(1) unfolding closes_session_def
  proof (elim disjE conjE exE)
    assume "\<forall>s \<in> set (admin_sessions (db w)). ses_token_hash s = au_hash c token \<longrightarrow> ses_expires_at s \<le> now w"
    then show ?thesis by (auto simp: ended_def session_valid_def)
  next
    assume "logout c token u = (Inr (), w)" "token \<noteq> []"
    then show ?thesis by (rule logout_ends)
  next
    fix i current new
    assume "change_password c i current new u = (Inr (), w)" "txn u = None" "owned_by i (au_hash c token) (db u)"
    then show ?thesis by (rule change_password_ends)
  next
    fix i a
    assume "set_disabled i True u = (Inr a, w)" "txn u = None" "owned_by i (au_hash c token) (db u)"
    then show ?thesis by (rule disable_ends)
  qed
  from auth_steps_ended[OF assms(2) this] have "now w \<le> now v" "ended (au_hash c token) (now w) (db v)" by simp_all
  then show ?thesis by (intro ended_refused) (rule ended_later)
qed

text \<open>An administrator logs in, is disabled and enabled again: the token stays refused.\<close>

definition toy_auth :: auth_config where
  "toy_auth = \<lparr>au_idkey = toy_idkey, au_cpus = 1, au_hash = id, au_address_ok = (\<lambda>_. True), au_session_ttl = hour\<rparr>"

theorem ended_sessions_stay_ended_witness:
  "let d = empty_db\<lparr>admins := [zero_admin\<lparr>adm_id := ''adm_1''\<rparr>],
         admin_sessions := [zero_session\<lparr>ses_admin_id := ''adm_1'', ses_token_hash := ''tok'', ses_expires_at := 10 ^ 30\<rparr>]\<rparr>;
       u = quiet_world d (); w = snd (set_disabled ''adm_1'' True u); v = snd (set_disabled ''adm_1'' False w)
   in (\<exists>p. fst (authenticate_session toy_auth ''tok'' u) = Inr p) \<and>
     (\<exists>a. fst (set_disabled ''adm_1'' False w) = Inr a \<and> admin_active a) \<and>
     (\<exists>e. fst (authenticate_session toy_auth ''tok'' v) = Inl e)"
proof -
  let ?d = "empty_db\<lparr>admins := [zero_admin\<lparr>adm_id := ''adm_1''\<rparr>],
         admin_sessions := [zero_session\<lparr>ses_admin_id := ''adm_1'', ses_token_hash := ''tok'', ses_expires_at := 10 ^ 30\<rparr>]\<rparr>"
  let ?u = "quiet_world ?d ()"
  let ?w = "snd (set_disabled ''adm_1'' True ?u)" and ?v = "\<lambda>w. snd (set_disabled ''adm_1'' False w)"
  have w: "set_disabled ''adm_1'' True ?u = (Inr (zero_admin\<lparr>adm_id := ''adm_1'', adm_disabled_at := Some (now ?u), adm_updated_at := now ?u\<rparr>),
      ?u\<lparr>db := ?d\<lparr>admins := [zero_admin\<lparr>adm_id := ''adm_1'', adm_disabled_at := Some (now ?u), adm_updated_at := now ?u\<rparr>],
        admin_sessions := [zero_session\<lparr>ses_admin_id := ''adm_1'', ses_token_hash := ''tok'', ses_expires_at := 10 ^ 30,
          ses_revoked_at := Some (now ?u)\<rparr>]\<rparr>\<rparr>)"
    by (simp add: set_disabled_def set_admin_disabled_def in_tx_run op_simps update_one_run revoke_sessions_of_def
        zero_admin_def zero_session_def coalesce_def empty_db_def quiet_world_def)
  have "\<exists>a. set_disabled ''adm_1'' True ?u = (Inr a, ?w)" by (simp only: w snd_conv) blast
  moreover have "txn ?u = None \<and> owned_by ''adm_1'' (au_hash toy_auth ''tok'') (db ?u)"
    by (simp add: owned_by_def zero_session_def)
  ultimately have "closes_session toy_auth ''tok'' ?u ?w" unfolding closes_session_def by blast
  moreover have "(auth_step toy_auth (au_hash toy_auth ''tok''))\<^sup>*\<^sup>* ?w (?v ?w)"
    by (intro r_into_rtranclp auth_step.disable)
  ultimately have "\<exists>e. fst (authenticate_session toy_auth ''tok'' (?v ?w)) = Inl e"
    by (rule ended_sessions_stay_ended)
  moreover have "\<exists>p. fst (authenticate_session toy_auth ''tok'' ?u) = Inr p"
    by (simp add: authenticate_session_def session_with_admin_def op_simps session_of_def toy_auth_def catchE_def zero_session_def
        zero_admin_def session_valid_def admin_active_def bindE_run gets_def succeed_def quiet_world_def unix_epoch_def second_def)
  moreover have "\<exists>a. fst (set_disabled ''adm_1'' False ?w) = Inr a \<and> admin_active a"
    unfolding w by (simp add: set_disabled_def set_admin_disabled_def in_tx_run op_simps update_one_run zero_admin_def admin_active_def)
  ultimately show ?thesis by (simp add: Let_def)
qed

end
