(* ===== verification/Render.thy ===== *)
theory Render
  imports Http Json Auth PaymentService Refunds Notification Subscription PayoutService Idempotency
begin

text \<open>
  What the handlers of \<open>internal/api\<close> write: \<open>render.go\<close>, \<open>payment_render.go\<close>, the JSON tags
  of \<open>payout/model.go\<close> and \<open>event/types.go\<close>, and how a domain error becomes the public one,
  \<open>errors.go\<close>. A struct is the object \<open>encoding/json\<close> makes of it, its fields in order. The text
  of a time, which depends on the time zone of the process, is a parameter.
\<close>

subsection \<open>Values\<close>

type_synonym times = "time \<Rightarrow> string"

definition jtime :: "times \<Rightarrow> time \<Rightarrow> json" where "jtime tf t = JStr (tf t)"

definition jtime_opt :: "times \<Rightarrow> time option \<Rightarrow> json" where
  "jtime_opt tf t = (case t of None \<Rightarrow> JNull | Some x \<Rightarrow> jtime tf x)"

definition otime :: "times \<Rightarrow> string \<Rightarrow> time option \<Rightarrow> jmap" where
  "otime tf n t = (case t of None \<Rightarrow> [] | Some x \<Rightarrow> [(n, jtime tf x)])"

definition onum :: "string \<Rightarrow> int option \<Rightarrow> jmap" where
  "onum n v = (case v of None \<Rightarrow> [] | Some x \<Rightarrow> [(n, JNum x)])"

definition ostr_opt :: "string \<Rightarrow> string option \<Rightarrow> jmap" where
  "ostr_opt n v = (case v of None \<Rightarrow> [] | Some x \<Rightarrow> [(n, JStr x)])"

definition jnum_opt :: "int option \<Rightarrow> json" where
  "jnum_opt v = (case v of None \<Rightarrow> JNull | Some x \<Rightarrow> JNum x)"

definition omap :: "string \<Rightarrow> jmap \<Rightarrow> jmap" where "omap n m = (if m = [] then [] else [(n, JObj m)])"

fun refund_status_text :: "refund_status \<Rightarrow> string" where
  "refund_status_text RefundPending = ''PENDING''"
| "refund_status_text RefundSucceeded = ''SUCCEEDED''"
| "refund_status_text RefundFailed = ''FAILED''"
| "refund_status_text (OtherRefund s) = s"

fun dstate_text :: "dstate \<Rightarrow> string" where
  "dstate_text DPending = ''pending''"
| "dstate_text Delivering = ''delivering''"
| "dstate_text DSucceeded = ''succeeded''"
| "dstate_text DFailed = ''failed''"
| "dstate_text DDead = ''dead''"
| "dstate_text DCanceled = ''canceled''"

fun routing_text :: "routing \<Rightarrow> string" where
  "routing_text Routed = ''routed''"
| "routing_text Duplicate = ''duplicate''"
| "routing_text Unrouted = ''unrouted''"
| "routing_text RoutingRejected = ''rejected''"
| "routing_text Ignored = ''ignored''"

fun environment_text :: "environment \<Rightarrow> string" where
  "environment_text Sandbox = ''sandbox''"
| "environment_text Production = ''production''"
| "environment_text (OtherEnvironment s) = s"

subsection \<open>Administration\<close>

definition render_application :: "times \<Rightarrow> application \<Rightarrow> json" where
  "render_application tf a = JObj ([(''id'', JStr (app_id a)), (''name'', JStr (app_name a)), (''slug'', JStr (app_slug a)),
     (''description'', JStr (app_description a))] @ ostr ''gateway_account_id'' (app_gateway_account_id a) @
     [(''status'', JStr (if application_active a then ''active'' else ''disabled'')), (''metadata'', JObj (app_metadata a)),
      (''created_at'', jtime tf (app_created_at a)), (''updated_at'', jtime tf (app_updated_at a))])"

text \<open>The last argument is the plaintext key, empty but in the response that created it.\<close>

definition render_api_key :: "times \<Rightarrow> time \<Rightarrow> api_key \<Rightarrow> string \<Rightarrow> json" where
  "render_api_key tf t k plaintext = JObj ([(''id'', JStr (ak_id k)), (''application_id'', JStr (ak_application_id k)),
     (''name'', JStr (ak_name k)), (''mode'', JStr (key_mode_text (ak_mode k))),
     (''display_prefix'', JStr (ak_display_prefix k)),
     (''status'', JStr (if ak_revoked_at k \<noteq> None then ''revoked''
        else if (case ak_expires_at k of None \<Rightarrow> False | Some e \<Rightarrow> e \<le> t) then ''expired'' else ''active'')),
     (''last_used_at'', jtime_opt tf (ak_last_used_at k)), (''expires_at'', jtime_opt tf (ak_expires_at k)),
     (''revoked_at'', jtime_opt tf (ak_revoked_at k)), (''created_at'', jtime tf (ak_created_at k))] @ ostr ''key'' plaintext)"

definition render_destination :: "times \<Rightarrow> destination \<Rightarrow> string \<Rightarrow> json" where
  "render_destination tf x secret = JObj ([(''id'', JStr (ds_id x)), (''application_id'', JStr (ds_application_id x)),
     (''url'', JStr (ds_url x)), (''description'', JStr (ds_description x)),
     (''event_types'', JArr (map JStr (ds_event_types x))), (''enabled'', JBool (ds_enabled x)),
     (''created_at'', jtime tf (ds_created_at x)), (''updated_at'', jtime tf (ds_updated_at x))] @ ostr ''secret'' secret)"

definition render_capabilities :: "capabilities \<Rightarrow> json" where
  "render_capabilities c = JObj [(''checkout'', JBool (cap_checkout c)), (''refund'', JBool (cap_refund c)),
     (''partial_refund'', JBool (cap_partial_refund c)), (''subscriptions'', JBool (cap_subscriptions c)),
     (''cancel'', JBool (cap_cancel c)), (''expire'', JBool (cap_expire c)), (''disbursement'', JBool (cap_disbursement c))]"

definition render_gateway_account :: "times \<Rightarrow> account \<Rightarrow> json" where
  "render_gateway_account tf a = JObj ([(''id'', JStr (acc_id a)), (''gateway'', JStr (acc_gateway a)),
     (''name'', JStr (acc_name a)), (''environment'', JStr (environment_text (acc_environment a))),
     (''merchant_id'', JStr (acc_merchant_id a)), (''client_key'', JStr (acc_client_key a)),
     (''server_key_set'', JBool (acc_server_key a \<noteq> [])),
     (''disbursement_creator_key_set'', JBool (acc_creator_key a \<noteq> [])),
     (''disbursement_approver_key_set'', JBool (acc_approver_key a \<noteq> [])),
     (''enabled'', JBool (acc_enabled a)), (''is_default'', JBool (acc_is_default a)),
     (''capabilities'', render_capabilities (acc_capabilities a)),
     (''last_checked_at'', jtime_opt tf (acc_last_checked_at a)),
     (''last_check_ok'', (case acc_last_check_ok a of None \<Rightarrow> JNull | Some b \<Rightarrow> JBool b))] @
     ostr ''last_check_error'' (acc_last_check_error a) @
     [(''created_at'', jtime tf (acc_created_at a)), (''updated_at'', jtime tf (acc_updated_at a))])"

definition render_admin :: "times \<Rightarrow> admin \<Rightarrow> json" where
  "render_admin tf a = JObj [(''id'', JStr (adm_id a)), (''email'', JStr (adm_email a)), (''name'', JStr (adm_name a)),
     (''status'', JStr (if admin_active a then ''active'' else ''disabled'')),
     (''last_login_at'', jtime_opt tf (adm_last_login_at a)), (''created_at'', jtime tf (adm_created_at a))]"

definition render_list :: "('a \<Rightarrow> json) \<Rightarrow> 'a list \<Rightarrow> bool \<Rightarrow> int \<Rightarrow> json" where
  "render_list render xs has_more limit = JObj [(''data'', JArr (map render xs)), (''has_more'', JBool has_more), (''limit'', JNum limit)]"

definition render_page :: "('a \<Rightarrow> json) \<Rightarrow> 'a listing \<Rightarrow> json" where
  "render_page render l = render_list render (li_items l) (li_has_more l) (li_limit l)"

text \<open>A listing that is written as it is, not through \<open>renderList\<close>: no row is a nil slice.\<close>

definition write_listing :: "('a \<Rightarrow> json) \<Rightarrow> 'a listing \<Rightarrow> json" where
  "write_listing render l = JObj [(''data'', if li_items l = [] then JNull else JArr (map render (li_items l))),
     (''has_more'', JBool (li_has_more l)), (''limit'', JNum (li_limit l))]"

subsection \<open>Payments\<close>

definition render_customer :: "customer \<Rightarrow> json" where
  "render_customer c = JObj (ostr ''first_name'' (cu_first_name c) @ ostr ''last_name'' (cu_last_name c) @
     ostr ''email'' (cu_email c) @ ostr ''phone'' (cu_phone c))"

definition render_item :: "item \<Rightarrow> json" where
  "render_item x = JObj (ostr ''id'' (it_sku x) @ [(''name'', JStr (it_name x)), (''price'', JNum (it_price x)),
     (''quantity'', JNum (it_quantity x))] @ ostr ''category'' (it_category x))"

definition render_payment :: "times \<Rightarrow> payment \<Rightarrow> json" where
  "render_payment tf p = JObj ([(''id'', JStr (pay_id p)), (''object'', JStr ''payment''),
     (''application_id'', JStr (pay_application_id p)), (''gateway'', JStr (pay_gateway p)),
     (''application_order_id'', JStr (pay_application_order_id p)), (''gateway_order_id'', JStr (pay_gateway_order_id p))] @
     ostr ''gateway_transaction_id'' (pay_gateway_transaction_id p) @
     [(''amount'', JNum (pay_amount p)), (''currency'', JStr (pay_currency p)), (''status'', JStr (status_text (pay_status p)))] @
     ostr ''gateway_status'' (pay_gateway_status p) @ ostr ''fraud_status'' (pay_fraud_status p) @
     ostr ''payment_type'' (pay_type p) @ ostr ''payment_method'' (pay_method p) @
     ostr ''snap_token'' (pay_snap_token p) @ ostr ''redirect_url'' (pay_snap_redirect_url p) @
     [(''refunded_amount'', JNum (pay_refunded_amount p)), (''refundable_amount'', JNum (refundable_amount p)),
      (''metadata'', JObj (pay_metadata p))] @
     oobj ''customer'' (map_option render_customer (pay_customer p)) @ oarr ''items'' (map render_item (pay_items p)) @
     [(''expires_at'', jtime_opt tf (pay_expires_at p))] @ otime tf ''paid_at'' (pay_paid_at p) @
     otime tf ''canceled_at'' (pay_canceled_at p) @ otime tf ''expired_at'' (pay_expired_at p) @
     [(''created_at'', jtime tf (pay_created_at p)), (''updated_at'', jtime tf (pay_updated_at p))])"

definition render_refund :: "times \<Rightarrow> refund \<Rightarrow> json" where
  "render_refund tf r = JObj ([(''id'', JStr (rf_id r)), (''object'', JStr ''refund''), (''payment_id'', JStr (rf_payment_id r))] @
     ostr ''gateway_refund_id'' (rf_gateway_refund_id r) @
     [(''amount'', JNum (rf_amount r)), (''currency'', JStr (rf_currency r))] @ ostr ''reason'' (rf_reason r) @
     [(''status'', JStr (refund_status_text (rf_status r)))] @ ostr ''gateway_status'' (rf_gateway_status r) @
     ostr ''failure_reason'' (rf_failure_reason r) @
     [(''created_at'', jtime tf (rf_created_at r)), (''updated_at'', jtime tf (rf_updated_at r))])"

definition render_payload :: "times \<Rightarrow> payload \<Rightarrow> json" where
  "render_payload tf p = JObj ([(''id'', JStr (pl_id p)), (''type'', JStr (type_name (pl_type p))),
     (''gateway'', JStr (pl_gateway p)), (''application_id'', JStr (pl_application_id p))] @
     ostr ''payment_id'' (pl_payment_id p) @ ostr ''refund_id'' (pl_refund_id p) @
     ostr ''subscription_id'' (pl_subscription_id p) @ ostr ''payout_id'' (pl_payout_id p) @
     ostr ''application_order_id'' (pl_application_order_id p) @ ostr ''application_payout_id'' (pl_application_payout_id p) @
     ostr ''gateway_order_id'' (pl_gateway_order_id p) @ ostr ''gateway_transaction_id'' (pl_gateway_transaction_id p) @
     ostr ''reference_no'' (pl_reference_no p) @ ostr ''status'' (pl_status p) @ ostr ''gateway_status'' (pl_gateway_status p) @
     ostr ''fraud_status'' (pl_fraud_status p) @ ostr ''payment_type'' (pl_payment_type p) @ oint ''amount'' (pl_amount p) @
     oint ''refunded_amount'' (pl_refunded_amount p) @ ostr ''currency'' (pl_currency p) @
     ostr ''beneficiary_name'' (pl_beneficiary_name p) @ ostr ''beneficiary_account'' (pl_beneficiary_account p) @
     ostr ''beneficiary_bank'' (pl_beneficiary_bank p) @ ostr ''notes'' (pl_notes p) @
     ostr ''failure_code'' (pl_failure_code p) @ ostr ''failure_reason'' (pl_failure_reason p) @
     ostr ''reject_reason'' (pl_reject_reason p) @ omap ''metadata'' (pl_metadata p) @
     [(''created_at'', jtime tf (pl_created_at p))] @ otime tf ''completed_at'' (pl_completed_at p) @
     omap ''gateway_data'' (pl_gateway_data p))"

definition render_event :: "times \<Rightarrow> event \<Rightarrow> json" where
  "render_event tf e = JObj ([(''id'', JStr (ev_id e)), (''object'', JStr ''event''), (''type'', JStr (type_name (ev_type e))),
     (''gateway'', JStr (ev_gateway e)), (''application_id'', JStr (ev_application_id e))] @
     ostr ''payment_id'' (ev_payment_id e) @ ostr ''refund_id'' (ev_refund_id e) @
     ostr ''gateway_event_id'' (ev_gateway_event_id e) @
     [(''data'', render_payload tf (ev_payload e)), (''created_at'', jtime tf (ev_created_at e))])"

definition render_delivery :: "times \<Rightarrow> delivery \<Rightarrow> json" where
  "render_delivery tf d = JObj ([(''id'', JStr (dl_id d)), (''object'', JStr ''delivery''), (''event_id'', JStr (dl_event_id d)),
     (''application_id'', JStr (dl_application_id d)), (''destination_id'', JStr (dl_destination_id d)),
     (''url'', JStr (dl_url d)), (''state'', JStr (dstate_text (dl_state d))),
     (''attempt_count'', JNum (dl_attempt_count d)), (''max_attempts'', JNum (dl_max_attempts d))] @
     (if dstate_terminal (dl_state d) then [] else [(''next_attempt_at'', jtime tf (dl_next_attempt_at d))]) @
     otime tf ''last_attempt_at'' (dl_last_attempt_at d) @ onum ''last_status_code'' (dl_last_status_code d) @
     ostr ''last_error'' (dl_last_error d) @ onum ''last_duration_ms'' (dl_last_duration_ms d) @
     otime tf ''succeeded_at'' (dl_succeeded_at d) @ [(''created_at'', jtime tf (dl_created_at d))])"

definition render_attempt :: "times \<Rightarrow> attempt \<Rightarrow> json" where
  "render_attempt tf a = JObj ([(''id'', JStr (at_id a)), (''attempt_number'', JNum (at_number a))] @
     onum ''status_code'' (at_status_code a) @ ostr ''error'' (at_error a) @ [(''duration_ms'', JNum (at_duration_ms a))] @
     ostr ''response_body'' (at_response_body a) @ [(''created_at'', jtime tf (at_created_at a))])"

definition render_gateway_event :: "times \<Rightarrow> gateway_event \<Rightarrow> json" where
  "render_gateway_event tf e = JObj ([(''id'', JStr (ge_id e)), (''object'', JStr ''gateway_event''), (''gateway'', JStr (ge_gateway e))] @
     ostr ''application_id'' (ge_application_id e) @ ostr ''payment_id'' (ge_payment_id e) @
     ostr ''gateway_order_id'' (ge_gateway_order_id e) @ ostr ''gateway_transaction_id'' (ge_gateway_transaction_id e) @
     ostr ''gateway_status'' (ge_gateway_status e) @ ostr ''fraud_status'' (ge_fraud_status e) @
     [(''signature_verified'', JBool (ge_signature_verified e)), (''routing_status'', JStr (routing_text (ge_routing e)))] @
     ostr ''routing_error'' (ge_routing_error e) @ omap ''payload'' (ge_payload e) @
     [(''received_at'', jtime tf (ge_received_at e))] @ otime tf ''processed_at'' (ge_processed_at e))"

subsection \<open>Subscriptions and payouts\<close>

text \<open>The payment token of a subscription is not among its fields.\<close>

definition render_subscription :: "times \<Rightarrow> subscription \<Rightarrow> json" where
  "render_subscription tf s = JObj ([(''id'', JStr (sb_id s)), (''object'', JStr ''subscription''),
     (''application_id'', JStr (sb_application_id s)), (''gateway'', JStr (sb_gateway s))] @
     ostr ''gateway_subscription_id'' (sb_gateway_subscription_id s) @
     [(''name'', JStr (sb_name s)), (''amount'', JNum (sb_amount s)), (''currency'', JStr (sb_currency s)),
      (''status'', JStr (subscription_status_text (sb_status s)))] @ ostr ''gateway_status'' (sb_gateway_status s) @
     [(''interval_unit'', JStr (sb_interval_unit s)), (''interval_count'', JNum (sb_interval_count s))] @
     onum ''max_interval'' (sb_max_interval s) @ otime tf ''start_time'' (sb_start_time s) @
     ostr ''payment_type'' (sb_payment_type s) @
     [(''metadata'', JObj (sb_metadata s)), (''created_at'', jtime tf (sb_created_at s)),
      (''updated_at'', jtime tf (sb_updated_at s))])"

definition payout_json :: "times \<Rightarrow> payout \<Rightarrow> json" where
  "payout_json tf p = JObj ([(''id'', JStr (po_id p)), (''object'', JStr ''payout''), (''application_id'', JStr (po_application_id p)),
     (''gateway'', JStr (po_gateway p)), (''application_payout_id'', JStr (po_application_payout_id p))] @
     ostr_opt ''reference_no'' (po_reference_no p) @ ostr_opt ''beneficiary_id'' (po_beneficiary_id p) @
     [(''beneficiary_name'', JStr (po_beneficiary_name p)), (''beneficiary_account'', JStr (po_beneficiary_account p)),
      (''beneficiary_bank'', JStr (po_beneficiary_bank p))] @ ostr ''beneficiary_email'' (po_beneficiary_email p) @
     [(''amount'', JNum (po_amount p)), (''currency'', JStr (po_currency p))] @ ostr ''notes'' (po_notes p) @
     [(''status'', JStr (payout_status_text (po_status p)))] @ ostr ''gateway_status'' (po_gateway_status p) @
     ostr ''failure_code'' (po_failure_code p) @ ostr ''failure_reason'' (po_failure_reason p) @
     ostr_opt ''requested_by'' (po_requested_by p) @ ostr_opt ''approved_by'' (po_approved_by p) @
     otime tf ''approved_at'' (po_approved_at p) @ ostr_opt ''rejected_by'' (po_rejected_by p) @
     otime tf ''rejected_at'' (po_rejected_at p) @ ostr ''reject_reason'' (po_reject_reason p) @
     otime tf ''submitted_at'' (po_submitted_at p) @ otime tf ''completed_at'' (po_completed_at p) @
     otime tf ''failed_at'' (po_failed_at p) @ otime tf ''last_synced_at'' (po_last_synced_at p) @
     oobj ''metadata'' (po_metadata p) @
     [(''created_at'', jtime tf (po_created_at p)), (''updated_at'', jtime tf (po_updated_at p))])"

definition beneficiary_json :: "times \<Rightarrow> beneficiary \<Rightarrow> json" where
  "beneficiary_json tf b = JObj ([(''id'', JStr (bn_id b)), (''object'', JStr ''beneficiary''),
     (''application_id'', JStr (bn_application_id b)), (''alias'', JStr (bn_alias b)), (''name'', JStr (bn_name b)),
     (''account'', JStr (bn_account b)), (''bank'', JStr (bn_bank b))] @ ostr ''email'' (bn_email b) @
     otime tf ''verified_at'' (bn_verified_at b) @ ostr ''verified_name'' (bn_verified_name b) @
     otime tf ''disabled_at'' (bn_disabled_at b) @ oobj ''metadata'' (bn_metadata b) @
     [(''created_at'', jtime tf (bn_created_at b)), (''updated_at'', jtime tf (bn_updated_at b))])"

definition transition_json :: "times \<Rightarrow> transition \<Rightarrow> json" where
  "transition_json tf x = JObj ([(''id'', JStr (tr_id x)), (''payout_id'', JStr (tr_payout_id x))] @
     ostr ''from_status'' (case tr_from x of None \<Rightarrow> [] | Some s \<Rightarrow> payout_status_text s) @
     [(''to_status'', JStr (payout_status_text (tr_to x))), (''actor_kind'', JStr (tr_actor_kind x))] @
     ostr ''actor_id'' (tr_actor_id x) @ ostr ''reason'' (tr_reason x) @ [(''created_at'', jtime tf (tr_created_at x))])"

definition limits_map :: "limits \<Rightarrow> jmap" where
  "limits_map l = [(''daily_limit'', jnum_opt (lm_daily_limit l)), (''enabled'', JBool (lm_enabled l)),
     (''max_amount'', jnum_opt (lm_max_amount l)), (''requires_approval'', JBool (lm_requires_approval l))]"

subsection \<open>The public form of a domain error\<close>

record missing =
  ms_code :: string
  ms_message :: string

definition application_missing :: missing where
  "application_missing = \<lparr>ms_code = code_application_not_found, ms_message = ''Application was not found.''\<rparr>"

definition payment_missing :: missing where
  "payment_missing = \<lparr>ms_code = code_payment_not_found, ms_message = ''Payment was not found.''\<rparr>"

definition refund_missing :: missing where
  "refund_missing = \<lparr>ms_code = code_refund_not_found, ms_message = ''Refund was not found.''\<rparr>"

definition generic_missing :: missing where
  "generic_missing = \<lparr>ms_code = code_not_found, ms_message = ''The requested resource was not found.''\<rparr>"

definition payout_missing :: missing where
  "payout_missing = \<lparr>ms_code = ''payout_not_found'', ms_message = ''Payout was not found.''\<rparr>"

definition beneficiary_missing :: missing where
  "beneficiary_missing = \<lparr>ms_code = ''beneficiary_not_found'', ms_message = ''Beneficiary was not found.''\<rparr>"

text \<open>\<open>ErrDestinationIn\<close> is found at any depth, wrapped around the text of the guard; the guard's
  explanation is told where the error starts with it.\<close>

definition destination_text :: string where "destination_text = ''application: destination URL is not permitted''"

fun destination_error :: "error \<Rightarrow> bool" where
  "destination_error (Wrap t e) \<longleftrightarrow> t = destination_text \<and> (case e of OtherError _ \<Rightarrow> True | _ \<Rightarrow> False) \<or> destination_error e"
| "destination_error _ \<longleftrightarrow> False"

definition destination_reason :: "error \<Rightarrow> string" where
  "destination_reason e = (let msg = error_text e; prefix = destination_text @ '': '' in
     if length prefix < length msg \<and> take (length prefix) msg = prefix then drop (length prefix) msg
     else ''is not permitted'')"

fun root_error :: "error \<Rightarrow> error" where
  "root_error (Wrap _ e) = root_error e"
| "root_error e = e"

definition invalid_values :: "string \<Rightarrow> string \<Rightarrow> api_error" where
  "invalid_values f m = with_field f m (err_validation ''The request contains invalid values.'')"

definition gateway_failure :: "gw_fault \<Rightarrow> api_error" where
  "gateway_failure g = new_error (if 400 \<le> gf_status g \<and> gf_status g < 500 then 422 else 502) code_gateway_error (gf_message g)"

definition translate_root :: "missing \<Rightarrow> error \<Rightarrow> api_error" where
  "translate_root ms e = (case e of
     Validation f m \<Rightarrow> invalid_values f m
     | NotFound \<Rightarrow> err_not_found (ms_code ms) (ms_message ms)
     | InvalidCredentials \<Rightarrow> err_unauthorized ''Email or password is incorrect.''
     | SessionInvalid \<Rightarrow> err_unauthorized ''Your session has expired. Please sign in again.''
     | EmailTaken \<Rightarrow> err_conflict code_conflict ''That email address is already registered.''
     | WeakPassword t \<Rightarrow> with_field ''password'' t (err_validation ''The password does not meet the minimum requirements.'')
     | DuplicateOrderID \<Rightarrow> err_conflict code_duplicate_order_id ''A payment already exists for this application_order_id.''
     | IdempotencyConflict \<Rightarrow> err_conflict code_idempotency_conflict ''This idempotency key was already used for a different request.''
     | IdempotencyRunning \<Rightarrow> err_conflict code_conflict ''A request with this idempotency key is still in progress. Retry shortly.''
     | StaleTransition \<Rightarrow> err_conflict code_conflict ''The payment has already moved past this state.''
     | NotCancelable s \<Rightarrow> new_error 422 code_invalid_state ''This payment can no longer be canceled.''
     | PayoutsDisabled \<Rightarrow> err_forbidden ''This application is not permitted to disburse. Turn payouts on for it first.''
     | ExceedsMaxAmount n \<Rightarrow> with_field ''amount'' ''exceeds the per-payout limit''
     (err_validation ''The amount exceeds this application's per-payout limit.'')
     | ExceedsDailyLimit n m \<Rightarrow> with_field ''amount'' ''exceeds the daily limit''
     (err_validation ''The amount exceeds this application's daily payout limit.'')
     | DuplicatePayoutID \<Rightarrow> err_conflict code_conflict ''A payout with this application_payout_id already exists.''
     | BeneficiaryNotFound \<Rightarrow> err_not_found ''beneficiary_not_found'' ''No such beneficiary.''
     | BeneficiaryDisabled \<Rightarrow> new_error 422 code_invalid_state ''This beneficiary is disabled and cannot receive payouts.''
     | DuplicateAlias \<Rightarrow> err_conflict code_conflict ''A beneficiary with this alias already exists.''
     | PayoutNotFound \<Rightarrow> err_not_found ''payout_not_found'' ''No such payout.''
     | NotPending s \<Rightarrow> new_error 422 code_invalid_state ''This payout is no longer awaiting approval.''
     | SelfApproval \<Rightarrow> err_forbidden ''A payout cannot be approved by the person who requested it.''
     | PayoutsNotSupported \<Rightarrow> new_error 412 ''disbursement_not_configured'' ''This gateway account has no disbursement credentials.''
     | PayoutStale \<Rightarrow> err_conflict code_conflict ''This payout changed while the request was in flight. Read it again.''
     | OutcomeUnknown t \<Rightarrow> new_error 202 ''outcome_unknown''
     (''The payout was sent but its outcome is not yet known. '' @ ''PayMux is resolving it; do not submit it again.'')
     | NotRefundable \<Rightarrow> new_error 422 code_invalid_state ''This payment cannot be refunded.''
     | RefundExceedsBalance n m \<Rightarrow> with_field ''amount'' ''exceeds the refundable balance''
     (err_validation ''The refund amount exceeds the refundable balance.'')
     | GatewayNotConfigured \<Rightarrow> new_error 503 code_gateway_not_configured ''No gateway account is configured for this application.''
     | KeyModeMismatch k e \<Rightarrow> err_forbidden ''This API key's mode does not match the configured gateway environment.''
     | NotSupported \<Rightarrow> new_error 400 code_not_supported ''This gateway does not support that operation.''
     | TransactionNotFound \<Rightarrow> err_not_found code_payment_not_found ''The gateway does not have a transaction for this payment.''
     | GatewayFault g \<Rightarrow> gateway_failure g
     | _ \<Rightarrow> (if e = err_slug_taken then err_conflict code_conflict ''That slug is already used by another application.''
      else if e = err_disabled then err_forbidden ''This application is disabled.''
      else if e = err_key_not_usable then err_unauthorized ''The API key is invalid, revoked or expired.''
      else err_internal None))"

definition translate :: "missing \<Rightarrow> failure \<Rightarrow> api_error" where
  "translate ms f = (case f of
     Typed a \<Rightarrow> a
   | Domain e \<Rightarrow> with_cause e (
       if destination_error e
         then with_field ''url'' (destination_reason e) (err_validation ''The webhook destination URL is not permitted.'')
       else translate_root ms (root_error e)))"

definition fail :: "missing \<Rightarrow> request \<Rightarrow> failure \<Rightarrow> response" where
  "fail ms rq f = fail_with rq (Typed (translate ms f))"

subsection \<open>What a client learns of a failure\<close>

text \<open>An error without what is for the log alone: the text around it, the text of the database, of
  a driver or of an error nobody named, the amounts of a limit, the codes of a gateway.\<close>

definition redacted_root :: "error \<Rightarrow> error" where
  "redacted_root e = (case e of
     UniqueViolation _ \<Rightarrow> UniqueViolation [] | CheckViolation _ \<Rightarrow> CheckViolation [] | DbFailure _ \<Rightarrow> DbFailure []
   | RegistryError _ \<Rightarrow> RegistryError [] | GatewayError _ \<Rightarrow> GatewayError []
   | OutcomeUnknown _ \<Rightarrow> OutcomeUnknown [] | GwKeyConflict _ \<Rightarrow> GwKeyConflict []
   | InsufficientBalance _ \<Rightarrow> InsufficientBalance [] | BlockedAddress _ \<Rightarrow> BlockedAddress []
   | RefundExceedsBalance _ _ \<Rightarrow> RefundExceedsBalance 0 0 | ExceedsMaxAmount _ \<Rightarrow> ExceedsMaxAmount 0
   | ExceedsDailyLimit _ _ \<Rightarrow> ExceedsDailyLimit 0 0 | Replay _ \<Rightarrow> Replay zero_idem
   | SubscriptionInvalid _ _ \<Rightarrow> SubscriptionInvalid [] []
   | GatewayFault g \<Rightarrow> GatewayFault (g\<lparr>gf_gateway := [], gf_code := [], gf_retryable := False\<rparr>)
   | OtherError t \<Rightarrow> (if e \<in> {err_slug_taken, err_disabled, err_key_not_usable} then e else OtherError [])
   | _ \<Rightarrow> e)"

definition redacted :: "error \<Rightarrow> error" where
  "redacted e = (if destination_error e then e else redacted_root (root_error e))"

lemma root_not_wrap: "root_error e \<noteq> Wrap t x"
  by (induction e) simp_all

lemma redacted_root_translates: "translate_root ms (redacted_root e) = translate_root ms e"
  by (cases e) (simp_all add: redacted_root_def translate_root_def gateway_failure_def
    err_slug_taken_def err_disabled_def err_key_not_usable_def)

lemma redacted_root_shape: "\<nexists>t x. e = Wrap t x \<Longrightarrow> root_error (redacted_root e) = redacted_root e \<and>
  \<not> destination_error (redacted_root e)"
  by (cases e) (simp_all add: redacted_root_def err_slug_taken_def err_disabled_def err_key_not_usable_def)

lemma fail_run: "fail ms rq f = write_json (ap_status (translate ms f)) (error_body (translate ms f) (rq_id rq))"
  by (simp add: fail_def fail_with_def as_error_def Let_def)

lemma with_cause_simps [simp]: "ap_status (with_cause e a) = ap_status a"
  "error_body (with_cause e a) i = error_body a i"
  by (simp_all add: with_cause_def error_body_def)

lemma with_field_status [simp]: "ap_status (with_field f m a) = ap_status a"
  by (simp add: with_field_def)

lemma error_statuses [simp]:
  "ap_status (new_error n c m) = n" "ap_status (err_validation m) = 422" "ap_status (err_invalid_request m) = 400"
  "ap_status (err_unauthorized m) = 401" "ap_status (err_forbidden m) = 403" "ap_status (err_not_found c m) = 404"
  "ap_status (err_conflict c m) = 409" "ap_status (err_internal x) = 500"
  by (simp_all add: new_error_def err_validation_def err_invalid_request_def err_unauthorized_def err_forbidden_def
    err_not_found_def err_conflict_def err_internal_def)

lemma translate_root_status:
  "ap_status (translate_root ms e) < 300 \<longleftrightarrow> (\<exists>t. e = OutcomeUnknown t)"
  by (cases e) (simp_all add: translate_root_def gateway_failure_def invalid_values_def
    err_slug_taken_def err_disabled_def err_key_not_usable_def)

lemma translate_root_accepted:
  "ap_status (translate_root ms e) = 202 \<longleftrightarrow> (\<exists>t. e = OutcomeUnknown t)"
  by (cases e) (simp_all add: translate_root_def gateway_failure_def invalid_values_def
    err_slug_taken_def err_disabled_def err_key_not_usable_def)

lemma destination_root: "destination_error e \<Longrightarrow> \<exists>r. root_error e = OtherError r"
  by (induction e) (auto split: error.splits)


end
