(* ===== verification/Api.thy ===== *)
theory Api
  imports Render
begin

text \<open>
  The API of applications, \<open>internal/api\<close>, behind \<open>internal/auth/middleware.go\<close> and
  \<open>context.go\<close>: who a request acts as, the filters and pages read from the query, and the handlers
  of \<open>payments.go\<close>, \<open>payouts.go\<close>, \<open>subscriptions.go\<close> and \<open>webhooks.go\<close>. A handler is a
  method that always answers. The body of a request comes decoded; the path parameters come from
  the router. The hash of a create request, the readings and writings of times and the digest of a
  key are part of the environment.
\<close>

subsection \<open>Principals\<close>

record principal =
  pr_admin :: "admin option"
  pr_session :: "session option"
  pr_application :: "application option"
  pr_api_key :: "api_key option"

definition nobody :: principal where
  "nobody = \<lparr>pr_admin = None, pr_session = None, pr_application = None, pr_api_key = None\<rparr>"

definition is_admin_principal :: "principal \<Rightarrow> bool" where "is_admin_principal p \<longleftrightarrow> pr_admin p \<noteq> None"

definition is_application_principal :: "principal \<Rightarrow> bool" where
  "is_application_principal p \<longleftrightarrow> pr_application p \<noteq> None"

definition application_id_of :: "principal \<Rightarrow> string" where
  "application_id_of p = (case pr_application p of None \<Rightarrow> [] | Some a \<Rightarrow> app_id a)"

definition actor_type :: "principal \<Rightarrow> string" where
  "actor_type p = (if is_admin_principal p then ''admin'' else if is_application_principal p then ''application'' else ''system'')"

definition actor_id :: "principal \<Rightarrow> string" where
  "actor_id p = (case pr_admin p of Some a \<Rightarrow> adm_id a | None \<Rightarrow> application_id_of p)"

subsection \<open>The environment of the handlers\<close>

record customer_request =
  cq_first_name :: string
  cq_last_name :: string
  cq_email :: string
  cq_phone :: string
  cq_billing :: "address option"
  cq_shipping :: "address option"

record item_request =
  iq_id :: string
  iq_name :: string
  iq_price :: int
  iq_quantity :: int
  iq_category :: string
  iq_merchant :: string
  iq_url :: string

record create_payment_body =
  cb_application_order_id :: string
  cb_amount :: int
  cb_currency :: string
  cb_customer :: "customer_request option"
  cb_items :: "item_request list"
  cb_enabled_methods :: "string list"
  cb_expires_at :: "time option"
  cb_callback_url :: string
  cb_custom_fields :: "string list"
  cb_metadata :: jmap
  cb_gateway :: string
  cb_midtrans_options :: "json option"

record 'g api_env =
  ev_times :: times
  ev_http_date :: times
  ev_parse_time :: "string \<Rightarrow> string \<Rightarrow> time option"
  ev_registry :: "'g registry"
  ev_disbursement :: "'g disbursement"
  ev_checkout_script :: "'g adapter \<Rightarrow> string"
  ev_hash_request :: "create_payment_body \<Rightarrow> string"
  ev_hash_key :: "string \<Rightarrow> string"
  ev_auth :: auth_config
  ev_secure_cookies :: bool
  ev_trust_proxy :: bool
  ev_names :: names
  ev_guard :: guard

text \<open>The shape of most handlers: report an error, or write a value.\<close>

definition respond :: "missing \<Rightarrow> request \<Rightarrow> ('g, 'a) routine \<Rightarrow> ('a \<Rightarrow> response) \<Rightarrow> ('g, response) routine" where
  "respond ms rq m f = catchE m (\<lambda>e. succeed (fail ms rq (Domain e))) (\<lambda>x. succeed (f x))"

definition with_body :: "(api_error \<Rightarrow> response) \<Rightarrow> request \<Rightarrow> 'b decoded \<Rightarrow> ('b \<Rightarrow> ('g, response) routine) \<Rightarrow> ('g, response) routine" where
  "with_body refuse rq body k = (case decode_json rq body of Inl a \<Rightarrow> succeed (refuse a) | Inr b \<Rightarrow> k b)"

subsection \<open>Authentication\<close>

definition session_cookie_name :: string where "session_cookie_name = ''paymux_session''"

text \<open>\<open>http.Cookie.String\<close> for the cookie the middleware sets; a negative age is \<open>Max-Age=0\<close>, zero
  none.\<close>

definition cookie_text :: "bool \<Rightarrow> string \<Rightarrow> string \<Rightarrow> int \<Rightarrow> string" where
  "cookie_text secure v expires max_age = session_cookie_name @ ''='' @ v @ ''; Path=/'' @
     (if expires = [] then [] else ''; Expires='' @ expires) @
     (if 0 < max_age then ''; Max-Age='' @ format_int max_age else if max_age < 0 then ''; Max-Age=0'' else []) @
     ''; HttpOnly'' @ (if secure then ''; Secure'' else []) @ ''; SameSite=Lax''"

definition set_session_cookie :: "'g api_env \<Rightarrow> time \<Rightarrow> string \<Rightarrow> time \<Rightarrow> response \<Rightarrow> response" where
  "set_session_cookie ev t token expires = add_header ''Set-Cookie''
     (cookie_text (ev_secure_cookies ev) token (ev_http_date ev expires) (go_quot (expires - t) second))"

definition clear_session_cookie :: "'g api_env \<Rightarrow> response \<Rightarrow> response" where
  "clear_session_cookie ev = add_header ''Set-Cookie'' (cookie_text (ev_secure_cookies ev) [] [] (-1))"

definition require_admin :: "'g api_env \<Rightarrow> request \<Rightarrow> (principal \<Rightarrow> ('g, response) routine) \<Rightarrow> ('g, response) routine" where
  "require_admin ev rq handler =
     (let token = coalesce (rq_cookie rq session_cookie_name) [] in
      if token = [] then succeed (fail_with rq (Typed (err_unauthorized ''Authentication is required.'')))
      else catchE (authenticate_session (ev_auth ev) token)
        (\<lambda>e. succeed (if e = SessionInvalid
           then clear_session_cookie ev (fail_with rq (Typed (err_unauthorized ''Your session has expired. Please sign in again.'')))
           else fail_with rq (Typed (err_internal (Some e)))))
        (\<lambda>(a, s). handler (nobody\<lparr>pr_admin := Some a, pr_session := Some s\<rparr>)))"

definition bearer_token :: "request \<Rightarrow> string option" where
  "bearer_token rq =
     (let header = rq_header rq ''Authorization'' in
      case cut (CHR '' '') header of (scheme, v, found) \<Rightarrow>
        if header = [] \<or> \<not> found \<or> to_lower scheme \<noteq> ''bearer'' \<or> trim_space v = [] then None
        else Some (trim_space v))"

definition require_application :: "'g api_env \<Rightarrow> request \<Rightarrow> (principal \<Rightarrow> ('g, response) routine) \<Rightarrow> ('g, response) routine" where
  "require_application ev rq handler = (case bearer_token rq of
     None \<Rightarrow> succeed (add_header ''WWW-Authenticate'' (''Bearer realm='' @ [CHR 34] @ ''paymux'' @ [CHR 34])
       (fail_with rq (Typed (err_unauthorized ''An API key is required. Send it as: Authorization: Bearer pmx_live_...''))))
   | Some key \<Rightarrow> catchE (authenticate (ev_hash_key ev) key)
       (\<lambda>e. succeed (fail_with rq (Typed (
          if e = err_key_not_usable then err_unauthorized ''The API key is invalid, revoked or expired.''
          else if e = err_disabled then err_forbidden ''This application is disabled.''
          else err_internal (Some e)))))
       (\<lambda>(a, k). handler (nobody\<lparr>pr_application := Some a, pr_api_key := Some k\<rparr>)))"

definition api_key_rate_limit_key :: "bool \<Rightarrow> principal \<Rightarrow> request \<Rightarrow> string" where
  "api_key_rate_limit_key trust p rq = (case pr_api_key p of
     Some k \<Rightarrow> ''key:'' @ ak_id k | None \<Rightarrow> ''ip:'' @ client_ip trust rq)"

definition audit :: "'g api_env \<Rightarrow> principal \<Rightarrow> request \<Rightarrow> string \<Rightarrow> string \<Rightarrow> string \<Rightarrow> jmap option \<Rightarrow> ('g, unit) routine" where
  "audit ev p rq action target_type target_id metadata = try_record
     \<lparr>au_id = [], au_actor_type = actor_type p, au_actor_id = actor_id p, au_action = action,
      au_target_type = target_type, au_target_id = target_id, au_request_id = rq_id rq,
      au_ip_address = client_ip (ev_trust_proxy ev) rq, au_metadata = metadata\<rparr>"

subsection \<open>Filters and pages\<close>

definition page_from_request :: "request \<Rightarrow> page" where
  "page_from_request rq = normalize_page \<lparr>pg_limit = coalesce (parse_int64 (rq_query rq ''limit'')) 0,
     pg_starting_after = rq_query rq ''starting_after'', pg_ending_before = rq_query rq ''ending_before''\<rparr>"

definition parse_time_param :: "'g api_env \<Rightarrow> string \<Rightarrow> time option" where
  "parse_time_param ev v =
     (if v = [] then None
      else case ev_parse_time ev ''2006-01-02T15:04:05Z07:00'' v of
        Some t \<Rightarrow> Some t | None \<Rightarrow> ev_parse_time ev ''2006-01-02'' v)"

definition payment_filter_from_request :: "'g api_env \<Rightarrow> request \<Rightarrow> payment_filter" where
  "payment_filter_from_request ev rq = \<lparr>pf_application_id = rq_query rq ''application_id'',
     pf_status = (if status_valid (status_of (rq_query rq ''status'')) then rq_query rq ''status'' else []),
     pf_gateway = rq_query rq ''gateway'', pf_application_order_id = rq_query rq ''application_order_id'',
     pf_gateway_order_id = rq_query rq ''gateway_order_id'',
     pf_gateway_transaction_id = rq_query rq ''gateway_transaction_id'',
     pf_created_from = parse_time_param ev (rq_query rq ''created_from''),
     pf_created_to = parse_time_param ev (rq_query rq ''created_to'')\<rparr>"

definition event_filter_from_request :: "'g api_env \<Rightarrow> request \<Rightarrow> event_filter" where
  "event_filter_from_request ev rq = \<lparr>ef_application_id = rq_query rq ''application_id'',
     ef_payment_id = rq_query rq ''payment_id'',
     ef_type = (if type_valid (rq_query rq ''type'') then rq_query rq ''type'' else []),
     ef_created_from = parse_time_param ev (rq_query rq ''created_from''),
     ef_created_to = parse_time_param ev (rq_query rq ''created_to'')\<rparr>"

definition delivery_filter_from_request :: "request \<Rightarrow> delivery_filter" where
  "delivery_filter_from_request rq = \<lparr>df_application_id = rq_query rq ''application_id'',
     df_event_id = rq_query rq ''event_id'',
     df_state = List.find (\<lambda>s. dstate_text s = rq_query rq ''state'') [DPending, Delivering, DSucceeded, DFailed, DDead, DCanceled],
     df_destination_id = rq_query rq ''destination_id''\<rparr>"

definition notification_filter_from_request :: "request \<Rightarrow> notification_filter" where
  "notification_filter_from_request rq = \<lparr>nf_payment_id = rq_query rq ''payment_id'',
     nf_application_id = rq_query rq ''application_id'',
     nf_routing = List.find (\<lambda>s. routing_text s = rq_query rq ''routing_status'') [Routed, Duplicate, Unrouted, RoutingRejected, Ignored],
     nf_gateway = rq_query rq ''gateway''\<rparr>"

definition refund_status_param :: "request \<Rightarrow> refund_status option" where
  "refund_status_param rq = List.find (\<lambda>s. refund_status_text s = rq_query rq ''status'') [RefundPending, RefundSucceeded, RefundFailed]"

subsection \<open>Payments\<close>

definition to_domain_customer :: "customer_request option \<Rightarrow> customer option" where
  "to_domain_customer = map_option (\<lambda>c. \<lparr>cu_first_name = cq_first_name c, cu_last_name = cq_last_name c,
     cu_email = cq_email c, cu_phone = cq_phone c, cu_billing = cq_billing c, cu_shipping = cq_shipping c\<rparr>)"

definition to_domain_items :: "item_request list \<Rightarrow> item list" where
  "to_domain_items = map (\<lambda>x. zero_item\<lparr>it_sku := iq_id x, it_name := iq_name x, it_price := iq_price x,
     it_quantity := iq_quantity x, it_category := iq_category x, it_merchant := iq_merchant x, it_url := iq_url x\<rparr>)"

definition create_payment_input :: "application \<Rightarrow> api_key \<Rightarrow> create_payment_body \<Rightarrow> create_input" where
  "create_payment_input a k b = \<lparr>ci_application = a, ci_key_mode = Some (ak_mode k),
     ci_application_order_id = cb_application_order_id b, ci_amount = cb_amount b, ci_currency = cb_currency b,
     ci_customer = to_domain_customer (cb_customer b), ci_items = to_domain_items (cb_items b),
     ci_enabled_methods = cb_enabled_methods b, ci_expires_at = cb_expires_at b, ci_callback_url = cb_callback_url b,
     ci_custom_fields = cb_custom_fields b, ci_metadata = cb_metadata b, ci_gateway_options = cb_midtrans_options b\<rparr>"

definition payments_endpoint :: string where "payments_endpoint = ''POST /api/v1/payments''"

definition payment_scope :: "application \<Rightarrow> string \<Rightarrow> scope" where
  "payment_scope a key = (app_id a, payments_endpoint, key)"

definition replay_stored :: "idem \<Rightarrow> response" where
  "replay_stored r = \<lparr>rs_status = (if ik_response_status r = 0 then 200 else ik_response_status r),
     rs_headers = [(''Content-Type'', ''application/json; charset=utf-8''), (''Idempotent-Replay'', ''true'')],
     rs_body = ik_response_body r\<rparr>"

text \<open>The work of a create request that owns its key, or has none; \<open>key\<close> is empty then.\<close>

definition create_and_answer :: "'g api_env \<Rightarrow> application \<Rightarrow> api_key \<Rightarrow> request \<Rightarrow> string \<Rightarrow> create_payment_body \<Rightarrow> ('g, response) routine" where
  "create_and_answer ev a k rq key b =
     catchE (create_payment (ev_registry ev) (create_payment_input a k b))
       (\<lambda>e. bindE (if key = [] then succeed () else ignore_error (idem_release (payment_scope a key)))
          (\<lambda>_. succeed (fail payment_missing rq (Domain e))))
       (\<lambda>p. let body = render_payment (ev_times ev) p in
          bindE (if key = [] then succeed () else ignore_error (idem_complete (payment_scope a key) (pay_id p) 201 body))
            (\<lambda>_. succeed (write_json 201 body)))"

definition handle_create_payment ::
  "'g api_env \<Rightarrow> application \<Rightarrow> api_key \<Rightarrow> request \<Rightarrow> create_payment_body decoded \<Rightarrow> ('g, response) routine" where
  "handle_create_payment ev a k rq body = with_body (\<lambda>e. fail_with rq (Typed e)) rq body (\<lambda>b.
     let key = rq_header rq ''Idempotency-Key'' in
     if cb_gateway b \<noteq> [] \<and> cb_gateway b \<noteq> ''midtrans''
       then succeed (fail_with rq (Typed (with_field ''gateway'' ''is not supported''
         (new_error 400 code_unsupported_gateway ''This PayMux instance supports the midtrans gateway.''))))
     else if 255 < length key
       then succeed (fail_with rq (Typed (err_invalid_request ''Idempotency-Key must be at most 255 characters.'')))
     else if key = [] then create_and_answer ev a k rq [] b
     else catchE (idem_claim (payment_scope a key) (ev_hash_request ev b))
       (\<lambda>e. succeed (case replay e of Some r \<Rightarrow> replay_stored r | None \<Rightarrow> fail payment_missing rq (Domain e)))
       (\<lambda>_. create_and_answer ev a k rq key b))"

definition ok_payment :: "'g api_env \<Rightarrow> payment \<Rightarrow> response" where
  "ok_payment ev p = write_json 200 (render_payment (ev_times ev) p)"

definition handle_get_payment :: "'g api_env \<Rightarrow> application \<Rightarrow> request \<Rightarrow> ('g, response) routine" where
  "handle_get_payment ev a rq =
     respond payment_missing rq (service_get (app_id a) (rq_param rq ''paymentID'')) (ok_payment ev)"

definition handle_list_payments :: "'g api_env \<Rightarrow> application \<Rightarrow> request \<Rightarrow> ('g, response) routine" where
  "handle_list_payments ev a rq = respond payment_missing rq
     (service_list ((payment_filter_from_request ev rq)\<lparr>pf_application_id := app_id a\<rparr>) (page_from_request rq))
     (\<lambda>l. write_json 200 (render_page (render_payment (ev_times ev)) l))"

text \<open>An action on one payment, for an application or, without one, for an administrator.\<close>

definition payment_action :: "'g api_env \<Rightarrow> principal \<Rightarrow> request \<Rightarrow> (string \<Rightarrow> string \<Rightarrow> ('g, payment) routine) \<Rightarrow> ('g, response) routine" where
  "payment_action ev p rq act =
     respond payment_missing rq (act (application_id_of p) (rq_param rq ''paymentID'')) (ok_payment ev)"

definition handle_sync_payment :: "'g api_env \<Rightarrow> principal \<Rightarrow> request \<Rightarrow> ('g, response) routine" where
  "handle_sync_payment ev p rq = payment_action ev p rq (sync_payment (ev_registry ev))"

definition handle_cancel_payment :: "'g api_env \<Rightarrow> principal \<Rightarrow> request \<Rightarrow> ('g, response) routine" where
  "handle_cancel_payment ev p rq = payment_action ev p rq (cancel_payment (ev_registry ev))"

definition handle_expire_payment :: "'g api_env \<Rightarrow> principal \<Rightarrow> request \<Rightarrow> ('g, response) routine" where
  "handle_expire_payment ev p rq = payment_action ev p rq (expire_payment (ev_registry ev))"

definition handle_cancel_snap_session :: "'g api_env \<Rightarrow> principal \<Rightarrow> request \<Rightarrow> ('g, response) routine" where
  "handle_cancel_snap_session ev p rq = payment_action ev p rq (cancel_checkout_session (ev_registry ev))"

record create_refund_body =
  rb_amount :: int
  rb_reason :: string

definition handle_create_refund :: "'g api_env \<Rightarrow> principal \<Rightarrow> request \<Rightarrow> create_refund_body decoded \<Rightarrow> ('g, response) routine" where
  "handle_create_refund ev p rq body = with_body (\<lambda>e. fail_with rq (Typed e)) rq body (\<lambda>b.
     respond payment_missing rq (refund_payment (ev_registry ev)
       \<lparr>ri_application_id = application_id_of p, ri_payment_id = rq_param rq ''paymentID'', ri_amount = rb_amount b,
        ri_reason = rb_reason b, ri_key = rq_header rq ''Idempotency-Key''\<rparr>)
       (\<lambda>(r, _). write_json 201 (render_refund (ev_times ev) r)))"

definition handle_list_refunds :: "'g api_env \<Rightarrow> principal \<Rightarrow> request \<Rightarrow> ('g, response) routine" where
  "handle_list_refunds ev p rq = respond payment_missing rq
     (service_list_refunds (application_id_of p) (rq_param rq ''paymentID''))
     (\<lambda>rs. write_json 200 (render_list (render_refund (ev_times ev)) rs False (int (length rs))))"

definition handle_list_application_refunds :: "'g api_env \<Rightarrow> application \<Rightarrow> request \<Rightarrow> ('g, response) routine" where
  "handle_list_application_refunds ev a rq = respond refund_missing rq
     (service_list_all_refunds \<lparr>rff_application_id = app_id a, rff_payment_id = rq_query rq ''payment_id'',
        rff_status = refund_status_param rq\<rparr> (page_from_request rq))
     (\<lambda>l. write_json 200 (render_page (render_refund (ev_times ev)) l))"

definition handle_list_application_events :: "'g api_env \<Rightarrow> application \<Rightarrow> request \<Rightarrow> ('g, response) routine" where
  "handle_list_application_events ev a rq = respond generic_missing rq
     (event_list ((event_filter_from_request ev rq)\<lparr>ef_application_id := app_id a\<rparr>) (page_from_request rq))
     (\<lambda>l. write_json 200 (render_page (render_event (ev_times ev)) l))"

definition handle_list_application_deliveries :: "'g api_env \<Rightarrow> application \<Rightarrow> request \<Rightarrow> ('g, response) routine" where
  "handle_list_application_deliveries ev a rq = respond generic_missing rq
     (delivery_list ((delivery_filter_from_request rq)\<lparr>df_application_id := app_id a\<rparr>) (page_from_request rq))
     (\<lambda>l. write_json 200 (render_page (render_delivery (ev_times ev)) l))"

definition handle_retry_delivery :: "'g api_env \<Rightarrow> principal \<Rightarrow> request \<Rightarrow> ('g, response) routine" where
  "handle_retry_delivery ev p rq =
     catchE (delivery_get (rq_param rq ''deliveryID''))
       (\<lambda>e. succeed (fail generic_missing rq (Domain e)))
       (\<lambda>x. if (case pr_application p of None \<Rightarrow> False | Some a \<Rightarrow> dl_application_id x \<noteq> app_id a)
          then succeed (fail_with rq (Typed (err_not_found code_not_found ''The requested resource was not found.'')))
          else catchE (delivery_retry (rq_param rq ''deliveryID''))
            (\<lambda>e. succeed (if e = DeliveryInFlight
               then fail_with rq (Typed (err_conflict code_conflict ''This delivery is being attempted right now.''))
               else fail generic_missing rq (Domain e)))
            (\<lambda>r. bindE (audit ev p rq ''delivery.retried'' ''delivery'' (dl_id r) None)
               (\<lambda>_. succeed (write_json 200 (render_delivery (ev_times ev) r)))))"

subsection \<open>Gateway notifications\<close>

text \<open>The body, or nothing where it could not be read, cut at 256 KiB.\<close>

definition max_notification_bytes :: nat where "max_notification_bytes = 262144"

definition handle_midtrans_notification ::
  "'g api_env \<Rightarrow> request \<Rightarrow> (string \<times> string) list \<Rightarrow> string option \<Rightarrow> ('g, response) routine" where
  "handle_midtrans_notification ev rq headers body = (case body of
     None \<Rightarrow> succeed (fail_with rq (Typed (err_invalid_request ''Could not read the notification body.'')))
   | Some text \<Rightarrow>
       catchE (process_notification (ev_registry ev) ''midtrans''
           \<lparr>wh_headers = headers, wh_body = take max_notification_bytes text\<rparr>)
         (\<lambda>e. succeed (fail_with rq (Typed (err_internal (Some e)))))
         (\<lambda>oc. succeed (
            if oc_routing oc = RoutingRejected
              then fail_with rq (Typed (err_unauthorized ''The notification could not be verified.''))
            else if oc_routing oc = Unrouted
              then write_json 202 (JObj [(''reason'', JStr (oc_reason oc)), (''received'', JBool True), (''routed'', JBool False)])
            else write_json 200 (JObj [(''received'', JBool True), (''routed'', JBool (oc_routing oc = Routed)),
              (''status'', JStr (routing_text (oc_routing oc)))]))))"

subsection \<open>Subscriptions\<close>

text \<open>The options of a request pass to the adapter alone and are left out, as in the service.\<close>

record create_subscription_body =
  sq_name :: string
  sq_amount :: int
  sq_currency :: string
  sq_payment_type :: string
  sq_payment_token :: string
  sq_interval_unit :: string
  sq_interval_count :: int
  sq_max_interval :: int
  sq_start_time :: "time option"
  sq_customer :: "customer_request option"
  sq_metadata :: jmap

definition to_gateway_customer_request :: "customer_request option \<Rightarrow> customer" where
  "to_gateway_customer_request c = coalesce (to_domain_customer c)
     \<lparr>cu_first_name = [], cu_last_name = [], cu_email = [], cu_phone = [], cu_billing = None, cu_shipping = None\<rparr>"

definition ok_subscription :: "'g api_env \<Rightarrow> subscription \<Rightarrow> response" where
  "ok_subscription ev s = write_json 200 (render_subscription (ev_times ev) s)"

definition handle_create_subscription ::
  "'g api_env \<Rightarrow> application \<Rightarrow> request \<Rightarrow> create_subscription_body decoded \<Rightarrow> ('g, response) routine" where
  "handle_create_subscription ev a rq body = with_body (\<lambda>e. fail_with rq (Typed e)) rq body (\<lambda>b.
     respond generic_missing rq (create_subscription_service (ev_registry ev)
       \<lparr>csi_application = a, csi_name = sq_name b, csi_amount = sq_amount b, csi_currency = sq_currency b,
        csi_payment_type = sq_payment_type b, csi_payment_token = sq_payment_token b,
        csi_interval_unit = sq_interval_unit b, csi_interval_count = sq_interval_count b,
        csi_max_interval = sq_max_interval b, csi_start_time = sq_start_time b,
        csi_customer = to_gateway_customer_request (sq_customer b), csi_metadata = sq_metadata b\<rparr>)
       (\<lambda>s. write_json 201 (render_subscription (ev_times ev) s)))"

definition handle_get_subscription :: "'g api_env \<Rightarrow> principal \<Rightarrow> request \<Rightarrow> ('g, response) routine" where
  "handle_get_subscription ev p rq = respond generic_missing rq
     (service_get_subscription (application_id_of p) (rq_param rq ''subscriptionID'')) (ok_subscription ev)"

definition handle_list_subscriptions :: "'g api_env \<Rightarrow> principal \<Rightarrow> request \<Rightarrow> ('g, response) routine" where
  "handle_list_subscriptions ev p rq =
     (let scope = (if application_id_of p = [] then rq_query rq ''application_id'' else application_id_of p) in
      respond generic_missing rq (service_list_subscriptions scope (page_from_request rq))
        (\<lambda>l. write_json 200 (render_page (render_subscription (ev_times ev)) l)))"

definition handle_update_subscription ::
  "'g api_env \<Rightarrow> principal \<Rightarrow> request \<Rightarrow> update_subscription_request decoded \<Rightarrow> ('g, response) routine" where
  "handle_update_subscription ev p rq body = with_body (\<lambda>e. fail_with rq (Typed e)) rq body (\<lambda>b.
     respond generic_missing rq (update_subscription_service (ev_registry ev) (application_id_of p)
       (rq_param rq ''subscriptionID'') b) (ok_subscription ev))"

definition subscription_action ::
  "'g api_env \<Rightarrow> principal \<Rightarrow> request \<Rightarrow> (string \<Rightarrow> string \<Rightarrow> ('g, subscription) routine) \<Rightarrow> ('g, response) routine" where
  "subscription_action ev p rq act =
     respond generic_missing rq (act (application_id_of p) (rq_param rq ''subscriptionID'')) (ok_subscription ev)"

definition handle_enable_subscription :: "'g api_env \<Rightarrow> principal \<Rightarrow> request \<Rightarrow> ('g, response) routine" where
  "handle_enable_subscription ev p rq = subscription_action ev p rq (enable_subscription (ev_registry ev))"

definition handle_disable_subscription :: "'g api_env \<Rightarrow> principal \<Rightarrow> request \<Rightarrow> ('g, response) routine" where
  "handle_disable_subscription ev p rq = subscription_action ev p rq (disable_subscription (ev_registry ev))"

definition handle_cancel_subscription :: "'g api_env \<Rightarrow> principal \<Rightarrow> request \<Rightarrow> ('g, response) routine" where
  "handle_cancel_subscription ev p rq = subscription_action ev p rq (cancel_subscription (ev_registry ev))"

definition handle_sync_subscription :: "'g api_env \<Rightarrow> principal \<Rightarrow> request \<Rightarrow> ('g, response) routine" where
  "handle_sync_subscription ev p rq = subscription_action ev p rq (sync_subscription (ev_registry ev))"

definition handle_capabilities :: "'g api_env \<Rightarrow> request \<Rightarrow> ('g, response) routine" where
  "handle_capabilities ev rq = respond generic_missing rq
     (bindE (account_default ''midtrans'') (\<lambda>a. bindE (lift_result (registry_for (ev_registry ev) a)) (\<lambda>g. succeed (a, g))))
     (\<lambda>(a, g). write_json 200 (JObj ([(''gateway'', JStr (acc_gateway a)),
        (''environment'', JStr (environment_text (acc_environment a)))] @ ostr ''client_key'' (acc_client_key a) @
        ostr ''checkout_script_url'' (if ga_checkout g = None then [] else ev_checkout_script ev g) @
        [(''capabilities'', render_capabilities (capabilities_for g))])))"

subsection \<open>Payouts and beneficiaries\<close>

text \<open>Methods whose errors a handler built for the client.\<close>

definition in_domain :: "('g, 'a) routine \<Rightarrow> ('g world, failure, 'a) op" where
  "in_domain m = catchE m (\<lambda>e. throw (Domain e)) succeed"

definition answer :: "missing \<Rightarrow> request \<Rightarrow> ('g world, failure, response) op \<Rightarrow> ('g, response) routine" where
  "answer ms rq m = catchE m (\<lambda>f. succeed (fail ms rq f)) succeed"

definition body_of :: "request \<Rightarrow> 'b decoded \<Rightarrow> ('g world, failure, 'b) op" where
  "body_of rq body = (case decode_json rq body of Inl a \<Rightarrow> throw (Typed a) | Inr b \<Rightarrow> succeed b)"

definition payout_account :: "application \<Rightarrow> ('g world, failure, account) op" where
  "payout_account app =
     (let refuse = (\<lambda>m. throw (Typed (new_error 412 ''gateway_not_configured'' m))) in
      if app_gateway_account_id app \<noteq> []
      then catchE (account_get (app_gateway_account_id app))
        (\<lambda>_. refuse ''This application has no usable gateway account.'')
        (\<lambda>a. if usable a then succeed a else refuse ''This application's gateway account is disabled.'')
      else catchE (account_default ''midtrans'')
        (\<lambda>_. refuse ''No gateway account is configured.'')
        (\<lambda>a. if usable a then succeed a else refuse ''No gateway account is configured.''))"

record create_payout_body =
  yb_application_payout_id :: string
  yb_beneficiary_id :: string
  yb_beneficiary_alias :: string
  yb_amount :: int
  yb_currency :: string
  yb_notes :: string
  yb_metadata :: "json option"

definition payout_input :: "application \<Rightarrow> account \<Rightarrow> create_payout_body \<Rightarrow> request_input" where
  "payout_input app a b = \<lparr>rq_application_id = app_id app, rq_gateway_account_id = acc_id a, rq_gateway = acc_gateway a,
     rq_application_payout_id = trim_space (yb_application_payout_id b), rq_beneficiary_id = yb_beneficiary_id b,
     rq_beneficiary_alias = yb_beneficiary_alias b, rq_amount = yb_amount b,
     rq_currency = (if yb_currency b = [] then ''IDR'' else yb_currency b), rq_notes = yb_notes b,
     rq_metadata = yb_metadata b, rq_requested_by = []\<rparr>"

definition handle_create_payout ::
  "'g api_env \<Rightarrow> application \<Rightarrow> api_key \<Rightarrow> request \<Rightarrow> create_payout_body decoded \<Rightarrow> ('g, response) routine" where
  "handle_create_payout ev app k rq body = answer payout_missing rq (
     bindE (body_of rq body) (\<lambda>b.
     bindE (payout_account app) (\<lambda>a.
     if \<not> can_disburse a then throw (Typed (new_error 412 ''disbursement_not_configured''
         (''This gateway account has no disbursement credentials. '' @ ''Add them in Gateways before paying out.'')))
     else if ak_mode k \<noteq> expected_key_mode a then throw (Typed (new_error 403 code_forbidden
         ''This API key's mode does not match the configured gateway environment.''))
     else bindE (in_domain (request_payout (payout_input app a b))) (\<lambda>p.
       succeed (write_json (if po_status p = Requested then 202 else 201) (payout_json (ev_times ev) p))))))"

definition ok_payout :: "'g api_env \<Rightarrow> payout \<Rightarrow> response" where
  "ok_payout ev p = write_json 200 (payout_json (ev_times ev) p)"

definition handle_get_payout :: "'g api_env \<Rightarrow> application \<Rightarrow> request \<Rightarrow> ('g, response) routine" where
  "handle_get_payout ev a rq =
     respond payout_missing rq (service_get_payout (app_id a) (rq_param rq ''payoutID'')) (ok_payout ev)"

definition handle_list_payouts :: "'g api_env \<Rightarrow> application \<Rightarrow> request \<Rightarrow> ('g, response) routine" where
  "handle_list_payouts ev a rq = respond payout_missing rq
     (service_list_payouts \<lparr>pyf_application_id = app_id a, pyf_status = to_upper (rq_query rq ''status''),
        pyf_beneficiary_id = rq_query rq ''beneficiary_id'', pyf_search = []\<rparr> (page_from_request rq))
     (\<lambda>l. write_json 200 (write_listing (payout_json (ev_times ev)) l))"

record beneficiary_body =
  bq_alias :: string
  bq_name :: string
  bq_account :: string
  bq_bank :: string
  bq_email :: string
  bq_metadata :: "json option"

definition validate_beneficiary :: "beneficiary_body \<Rightarrow> api_error + unit" where
  "validate_beneficiary b =
     (let fields = map fst (filter (\<lambda>(n, v). trim_space v = []) [(''alias'', bq_alias b), (''name'', bq_name b),
        (''account'', bq_account b), (''bank'', bq_bank b)]) in
      if fields = [] then Inr ()
      else Inl (fold (\<lambda>n. with_field n ''is required'') fields
        (err_invalid_request ''A beneficiary needs an alias, a name, an account and a bank.'')))"

definition ok_beneficiary :: "'g api_env \<Rightarrow> beneficiary \<Rightarrow> response" where
  "ok_beneficiary ev b = write_json 200 (beneficiary_json (ev_times ev) b)"

definition handle_create_beneficiary ::
  "'g api_env \<Rightarrow> application \<Rightarrow> request \<Rightarrow> beneficiary_body decoded \<Rightarrow> ('g, response) routine" where
  "handle_create_beneficiary ev a rq body = answer beneficiary_missing rq (
     bindE (body_of rq body) (\<lambda>b. case validate_beneficiary b of
       Inl e \<Rightarrow> throw (Typed e)
     | Inr _ \<Rightarrow> bindE (in_domain (create_beneficiary (zero_beneficiary\<lparr>bn_application_id := app_id a,
           bn_alias := trim_space (bq_alias b), bn_name := trim_space (bq_name b),
           bn_account := trim_space (bq_account b), bn_bank := to_lower (trim_space (bq_bank b)),
           bn_email := trim_space (bq_email b), bn_metadata := bq_metadata b\<rparr>))) (\<lambda>x.
         succeed (write_json 201 (beneficiary_json (ev_times ev) x)))))"

definition handle_list_beneficiaries :: "'g api_env \<Rightarrow> application \<Rightarrow> request \<Rightarrow> ('g, response) routine" where
  "handle_list_beneficiaries ev a rq = respond beneficiary_missing rq
     (list_beneficiaries (app_id a) (page_from_request rq))
     (\<lambda>l. write_json 200 (write_listing (beneficiary_json (ev_times ev)) l))"

definition handle_get_beneficiary :: "'g api_env \<Rightarrow> application \<Rightarrow> request \<Rightarrow> ('g, response) routine" where
  "handle_get_beneficiary ev a rq =
     respond beneficiary_missing rq (get_beneficiary (app_id a) (rq_param rq ''beneficiaryID'')) (ok_beneficiary ev)"

definition handle_update_beneficiary ::
  "'g api_env \<Rightarrow> application \<Rightarrow> request \<Rightarrow> beneficiary_update decoded \<Rightarrow> ('g, response) routine" where
  "handle_update_beneficiary ev a rq body = with_body (\<lambda>e. fail beneficiary_missing rq (Typed e)) rq body (\<lambda>u.
     respond beneficiary_missing rq (update_beneficiary (app_id a) (rq_param rq ''beneficiaryID'') u) (ok_beneficiary ev))"

definition handle_delete_beneficiary :: "'g api_env \<Rightarrow> application \<Rightarrow> request \<Rightarrow> ('g, response) routine" where
  "handle_delete_beneficiary ev a rq =
     respond beneficiary_missing rq (delete_beneficiary (app_id a) (rq_param rq ''beneficiaryID'')) (\<lambda>_. no_content)"

definition bank_json :: "bank \<Rightarrow> json" where
  "bank_json b = JObj [(''code'', JStr (fst b)), (''name'', JStr (snd b))]"

definition handle_list_payout_banks :: "'g api_env \<Rightarrow> application \<Rightarrow> request \<Rightarrow> ('g, response) routine" where
  "handle_list_payout_banks ev app rq = answer generic_missing rq (
     bindE (payout_account app) (\<lambda>a.
     bindE (in_domain (payout_banks (ev_disbursement ev) (acc_id a))) (\<lambda>banks.
     succeed (write_json 200 (JObj [(''data'', JArr (map bank_json banks))])))))"

definition handle_verify_beneficiary :: "'g api_env \<Rightarrow> application \<Rightarrow> request \<Rightarrow> ('g, response) routine" where
  "handle_verify_beneficiary ev app rq = answer beneficiary_missing rq (
     bindE (payout_account app) (\<lambda>a.
     bindE (in_domain (verify_beneficiary (ev_disbursement ev) (app_id app) (rq_param rq ''beneficiaryID'') (acc_id a)))
       (\<lambda>b. succeed (ok_beneficiary ev b))))"

subsection \<open>For the witnesses\<close>

definition sample_env :: "string list api_env" where
  "sample_env = \<lparr>ev_times = (\<lambda>_. ''t''), ev_http_date = (\<lambda>_. ''d''), ev_parse_time = (\<lambda>_ _. None),
     ev_registry = sample_registry False Paid, ev_disbursement = None, ev_checkout_script = (\<lambda>_. []),
     ev_hash_request = cb_application_order_id, ev_hash_key = id, ev_auth = toy_auth, ev_secure_cookies = True,
     ev_trust_proxy = False, ev_names = no_names, ev_guard = new_guard False\<rparr>"

definition sample_request :: "string \<Rightarrow> request" where
  "sample_request key = \<lparr>rq_method = ''POST'', rq_header = (\<lambda>n. if n = ''Idempotency-Key'' then key else []),
     rq_cookie = (\<lambda>_. None), rq_remote_addr = [], rq_query = (\<lambda>_. []), rq_param = (\<lambda>_. []), rq_id = ''req_1''\<rparr>"

end
