(* ===== verification/Retry.thy ===== *)
theory Retry
  imports Api
begin

text \<open>
  What an idempotency key promises the client of \<open>POST /api/v1/payments\<close>: the claim of
  \<open>idempotency.go\<close>, the creation of \<open>service.go\<close> and the answer of \<open>payments.go\<close> taken
  together. The rows of a key's scope, its slot, stay as the first request left them while other
  requests come and go.
\<close>

subsection \<open>The slot of a scope\<close>

text \<open>A row without its link to a payment, which the deletion of that payment clears.\<close>

definition unlinked :: "idem \<Rightarrow> idem" where "unlinked r = r\<lparr>ik_payment_id := []\<rparr>"

definition slot :: "scope \<Rightarrow> db \<Rightarrow> idem list" where
  "slot s d = filter (\<lambda>r. idem_scope r = s) (map unlinked (idem_keys d))"

lemma unlinked_simps [simp]:
  "idem_scope (unlinked r) = idem_scope r" "ik_hash (unlinked r) = ik_hash r"
  "ik_expires_at (unlinked r) = ik_expires_at r" "ik_state (unlinked r) = ik_state r"
  "ik_response_status (unlinked r) = ik_response_status r" "ik_response_body (unlinked r) = ik_response_body r"
  by (simp_all add: unlinked_def idem_scope_def)

lemma in_slot: "x \<in> set (slot s d) \<longleftrightarrow> (\<exists>r \<in> set (idem_keys d). idem_scope r = s \<and> x = unlinked r)"
  by (auto simp: slot_def)

lemma held_slot: "held s h until d \<longleftrightarrow> set (slot s d) \<noteq> {} \<and> (\<forall>r \<in> set (slot s d). ik_hash r = h \<and> until \<le> ik_expires_at r)"
  unfolding held_def by (auto simp: slot_def)

lemma slot_keys: "map unlinked (idem_keys e) = map unlinked (idem_keys d) \<Longrightarrow> slot s e = slot s d"
  by (simp add: slot_def)

lemma slot_map:
  assumes "\<And>r. idem_scope (f r) = idem_scope r" "\<And>r. idem_scope r = s \<Longrightarrow> f r = r"
  shows "slot s (set_idem_keys (map f (idem_keys d)) d) = slot s d"
proof -
  have "filter (\<lambda>r. idem_scope r = s) (map unlinked (map f rows)) = filter (\<lambda>r. idem_scope r = s) (map unlinked rows)" for rows
    by (induction rows) (simp_all add: assms)
  then show ?thesis by (simp add: slot_def)
qed

lemma slot_filter:
  assumes "\<And>r. r \<in> set (idem_keys d) \<Longrightarrow> idem_scope r = s \<Longrightarrow> p r"
  shows "slot s (set_idem_keys (filter p (idem_keys d)) d) = slot s d"
proof -
  have "(\<forall>r \<in> set rows. idem_scope r = s \<longrightarrow> p r) \<Longrightarrow>
      filter (\<lambda>r. idem_scope r = s) (map unlinked (filter p rows)) = filter (\<lambda>r. idem_scope r = s) (map unlinked rows)" for rows
    by (induction rows) auto
  then show ?thesis using assms by (simp add: slot_def)
qed

lemma slot_upsert:
  assumes "held s h until d" "t \<le> until" "claim_upsert t c d = Inr (x, e)"
  shows "slot s e = slot s d"
proof (cases "idem_scope c = s")
  case True
  obtain r where "r \<in> set (idem_keys d)" "idem_scope r = s" "until \<le> ik_expires_at r"
    using assms(1) by (auto simp: held_def)
  then have "list_ex (\<lambda>r. idem_scope r = s \<and> \<not> ik_expires_at r < t) (idem_keys d)"
    using assms(2) by (auto simp: list_ex_iff)
  then show ?thesis using assms(3) True by (simp add: claim_upsert_def)
next
  case False
  have "slot s (set_idem_keys (map (\<lambda>r. if idem_scope r = idem_scope c then claim_row c r else r) (idem_keys d)) d) = slot s d"
    by (rule slot_map) (use False in auto)
  moreover have "slot s (set_idem_keys (idem_keys d @ [c]) d) = slot s d"
    using False by (simp add: slot_def)
  ultimately show ?thesis
    using assms(3) by (auto simp: claim_upsert_def Let_def split: if_splits)
qed

lemma slot_claim:
  assumes "held s h until (db w)" "now w \<le> until"
  shows "slot s (db (snd (idem_claim s' h' w))) = slot s (db w)"
proof -
  obtain q u where st: "run_stmt (claim_upsert (now w) (new_claim (claim_id w) (now w) s' h')) (drawn w) = (q, u)"
    by fastforce
  have "slot s (db u) = slot s (db w)"
    using run_stmt_db[OF st] slot_upsert[OF assms] by auto
  then show ?thesis by (simp add: idem_claim_run[OF st] claim_look_db)
qed

lemma slot_exec:
  assumes "slot s (f (db w)) = slot s (db w)"
  shows "slot s (db (snd (exec_stmt f w))) = slot s (db w)"
proof -
  obtain r v where st: "exec_stmt f w = (r, v)" by fastforce
  show ?thesis using run_stmt_db[OF st[unfolded exec_stmt_def]] assms by (auto simp: st)
qed

lemma slot_complete: "s' \<noteq> s \<Longrightarrow> slot s (db (snd (idem_complete s' p n b w))) = slot s (db w)"
  unfolding idem_complete_def now_bind
  by (rule slot_exec, rule slot_map) (auto simp: idem_scope_def completed_row_def)

lemma slot_release: "s' \<noteq> s \<Longrightarrow> slot s (db (snd (idem_release s' w))) = slot s (db w)"
  unfolding idem_release_def by (rule slot_exec, rule slot_filter) (auto simp: slot_def)

lemma slot_prune:
  assumes "held s h until (db w)" "now w \<le> until"
  shows "slot s (db (snd (idem_prune w))) = slot s (db w)"
proof -
  obtain r v where st: "idem_prune w = (r, v)" by fastforce
  have "slot s (set_idem_keys (filter (\<lambda>r. \<not> ik_expires_at r < now w) (idem_keys (db w))) (db w)) = slot s (db w)"
    by (rule slot_filter) (use assms in \<open>auto simp: held_def\<close>)
  then show ?thesis using run_stmt_db[OF st[unfolded idem_prune_def now_bind]] by (auto simp: st)
qed

subsection \<open>A payment is created beside the keys\<close>

interpretation keys: db_evolution "\<lambda>d e. map unlinked (idem_keys e) = map unlinked (idem_keys d)"
  by unfold_locales simp_all

lemma keys_create: "keys.safe (create_payment reg ci)"
proof -
  have publishing: "keys.safe (publish_payment_event p ty i)" for p ty i
    unfolding publish_payment_event_def
    by (intro keys.safe_intros keys.safe_weaken[OF announces_weaken]) (auto simp: announce_rel_def)
  have "keys.safe (payment_create p)" for p
    unfolding payment_create_def create_rows_def insert_customer_def insert_items_def insert_item_def
    by (intro keys.safe_intros keys.safe_insert_checked keys.safe_insert_row) simp_all
  moreover have "keys.safe (open_at_gateway g c p)" for g c p
    unfolding open_at_gateway_def finish_open_def delete_payment_def set_checkout_session_def
    by (intro keys.safe_intros keys.safe_exec publishing) (simp_all add: remove_payment_def unlinked_def)
  ultimately show ?thesis
    unfolding create_payment_def store_payment_def account_for_def account_get_def account_default_def
    by (intro keys.safe_intros)
qed

lemma slot_create: "slot s (db (snd (create_payment reg ci w))) = slot s (db w)"
  by (rule slot_keys, rule keys.safe_db, rule keys_create)

lemma slot_create_and_answer:
  fixes w :: "'g world"
  assumes "key = [] \<or> payment_scope a key \<noteq> s"
  shows "slot s (db (snd (create_and_answer ev a k rq key b w))) = slot s (db w)"
proof -
  obtain r v where c: "create_payment (ev_registry ev) (create_payment_input a k b) w = (r, v)" by fastforce
  have v: "slot s (db v) = slot s (db w)" using slot_create[of s "ev_registry ev" "create_payment_input a k b" w] by (simp add: c)
  show ?thesis
    using assms v slot_release[of "payment_scope a key" s v] slot_complete[of "payment_scope a key" s _ _ _ v]
    by (cases r) (auto simp: create_and_answer_def catchE_def c bindE_run ignore_error_eq Let_def succeed_def)
qed

subsection \<open>One request\<close>

definition key_of :: "request \<Rightarrow> string" where "key_of rq = rq_header rq ''Idempotency-Key''"

text \<open>The request of a client that sent a key, once its body is read.\<close>

definition claim_and_answer ::
  "'g api_env \<Rightarrow> application \<Rightarrow> api_key \<Rightarrow> request \<Rightarrow> create_payment_body \<Rightarrow> ('g, response) routine" where
  "claim_and_answer ev a k rq b = catchE (idem_claim (payment_scope a (key_of rq)) (ev_hash_request ev b))
     (\<lambda>e. succeed (case replay e of Some r \<Rightarrow> replay_stored r | None \<Rightarrow> fail payment_missing rq (Domain e)))
     (\<lambda>_. create_and_answer ev a k rq (key_of rq) b)"

lemma handle_cases:
  obtains (refused) x where "handle_create_payment ev a k rq body w = (Inr x, w)"
      "\<And>b. decode_json rq body = Inr b \<Longrightarrow> cb_gateway b \<notin> {[], ''midtrans''} \<or> 255 < length (key_of rq)"
      "\<And>b. decode_json rq body = Inr b \<Longrightarrow> rs_status x = 400"
  | (plain) b where "key_of rq = []" "handle_create_payment ev a k rq body w = create_and_answer ev a k rq [] b w"
  | (keyed) b where "key_of rq \<noteq> []" "decode_json rq body = Inr b"
      "handle_create_payment ev a k rq body w = claim_and_answer ev a k rq b w"
proof (cases "decode_json rq body")
  case (Inl e)
  then show thesis by (intro refused) (simp_all add: handle_create_payment_def with_body_def succeed_def)
next
  case (Inr b)
  note run = handle_create_payment_def with_body_def Inr sum.case Let_def key_of_def[symmetric]
  consider "cb_gateway b \<notin> {[], ''midtrans''}" | "255 < length (key_of rq)" "cb_gateway b \<in> {[], ''midtrans''}"
    | "key_of rq = []" "cb_gateway b \<in> {[], ''midtrans''}"
    | "key_of rq \<noteq> []" "\<not> 255 < length (key_of rq)" "cb_gateway b \<in> {[], ''midtrans''}" by blast
  then show thesis
  proof cases
    case 1
    then show thesis by (intro refused) (auto simp: run succeed_def fail_with_def as_error_def write_json_def)
  next
    case 2
    then show thesis by (intro refused) (auto simp: run succeed_def fail_with_def as_error_def write_json_def Let_def)
  next
    case 3
    then show thesis by (intro plain) (auto simp: run)
  next
    case 4
    then show thesis by (intro keyed) (auto simp: run claim_and_answer_def)
  qed
qed

lemma claim_and_answer_blocked:
  assumes "held (payment_scope a (key_of rq)) h until (db w)" "now w \<le> until"
    and "claim_id w \<notin> ik_id ` set (idem_keys (db w))"
  obtains e where "idem_claim (payment_scope a (key_of rq)) (ev_hash_request ev b) w
      = (Inl e, snd (idem_claim (payment_scope a (key_of rq)) (ev_hash_request ev b) w))"
    "claim_and_answer ev a k rq b w
      = (Inr (case replay e of Some r \<Rightarrow> replay_stored r | None \<Rightarrow> fail payment_missing rq (Domain e)),
         snd (idem_claim (payment_scope a (key_of rq)) (ev_hash_request ev b) w))"
proof -
  obtain e v where c: "idem_claim (payment_scope a (key_of rq)) (ev_hash_request ev b) w = (Inl e, v)"
    using claim_held[OF assms, of "ev_hash_request ev b"]
    by (cases "idem_claim (payment_scope a (key_of rq)) (ev_hash_request ev b) w") (auto simp: isl_def)
  show thesis by (rule that[of e]) (simp_all add: claim_and_answer_def catchE_def succeed_def c split: option.split)
qed

lemma slot_handle:
  fixes w :: "'g world"
  assumes "held s h until (db w)" "now w \<le> until" "claim_id w \<notin> ik_id ` set (idem_keys (db w))"
  shows "slot s (db (snd (handle_create_payment ev a k rq body w))) = slot s (db w)"
proof (cases rule: handle_cases[of ev a k rq body w])
  case (keyed b)
  let ?c = "idem_claim (payment_scope a (key_of rq)) (ev_hash_request ev b)"
  have claimed: "slot s (db (snd (?c w))) = slot s (db w)" by (rule slot_claim[OF assms(1,2)])
  show ?thesis
  proof (cases "payment_scope a (key_of rq) = s")
    case True
    obtain e where "claim_and_answer ev a k rq b w
        = (Inr (case replay e of Some r \<Rightarrow> replay_stored r | None \<Rightarrow> fail payment_missing rq (Domain e)), snd (?c w))"
      by (rule claim_and_answer_blocked[of a rq h until w ev b k]) (use assms True in auto)
    then show ?thesis using claimed keyed(3) by simp
  next
    case False
    obtain q u where c: "?c w = (q, u)" by fastforce
    show ?thesis
      using claimed slot_create_and_answer[of "key_of rq" a s ev k rq b u] False
      by (cases q) (simp_all add: keyed(3) claim_and_answer_def catchE_def succeed_def c split: option.split)
  qed
qed (simp_all add: slot_create_and_answer)

subsection \<open>Requests over time\<close>

text \<open>What happens between two requests until a time: requests to create payments, by anyone and
  with any key, the job that prunes expired keys, and whatever leaves the keys alone, the passing
  of time included.\<close>

inductive between :: "time \<Rightarrow> 'g world \<Rightarrow> 'g world \<Rightarrow> bool" for until where
  create: "now w \<le> until \<Longrightarrow> claim_id w \<notin> ik_id ` set (idem_keys (db w)) \<Longrightarrow>
    between until w (snd (handle_create_payment ev a k rq body w))"
| prune: "now w \<le> until \<Longrightarrow> between until w (snd (idem_prune w))"
| elsewhere: "idem_keys (db v) = idem_keys (db w) \<Longrightarrow> between until w v"

lemma held_by_slot: "slot s e = slot s d \<Longrightarrow> held s h until d \<Longrightarrow> held s h until e"
  by (simp add: held_slot)

lemma slot_between:
  assumes "(between until)\<^sup>*\<^sup>* v u" "held s h until (db v)"
  shows "slot s (db u) = slot s (db v)"
  using assms(1)
proof induction
  case (step u w)
  have "held s h until (db u)" using held_by_slot[OF step.IH assms(2)] .
  from step.hyps(2) have "slot s (db w) = slot s (db u)"
  proof cases
    case (create ev a k rq body)
    then show ?thesis using slot_handle[OF \<open>held s h until (db u)\<close> create(2,3)] by simp
  next
    case prune
    then show ?thesis using slot_prune[OF \<open>held s h until (db u)\<close> prune(2)] by simp
  next
    case elsewhere
    show ?thesis by (rule slot_keys) (simp add: elsewhere)
  qed
  then show ?case using step.IH by simp
qed simp

subsection \<open>The first request\<close>

lemma claim_row_state: "ik_state (claim_row c r) = ik_state c"
  by (simp add: claim_row_def)

lemma owned_rows:
  assumes "idem_claim s h w = (Inr (), v)" "claim_id w \<notin> ik_id ` set (idem_keys (db w))"
    and "r \<in> set (slot s (db v))"
  shows "ik_state r = InProgress"
proof -
  let ?c = "new_claim (claim_id w) (now w) s h"
  have c: "ik_state ?c = InProgress" by (simp add: new_claim_def split: prod.split)
  obtain q u where st: "run_stmt (claim_upsert (now w) ?c) (drawn w) = (q, u)" by fastforce
  have run: "claim_look s h (claim_id w) q u = (Inr (), v)" using assms(1) by (simp add: idem_claim_run[OF st])
  then obtain x where q: "q = Inr x"
    by (cases q) (auto simp: claim_look_def bindE_run throw_def split: if_splits prod.splits sum.splits)
  obtain r' where r': "idem_scope r' = s" "r' \<in> set (idem_keys (db u))" "ik_id r' = claim_id w" "db v = db u"
    using run unfolding claim_look_def q
    by (auto elim!: bindE_Inr_E dest!: idem_get_Inr simp: throw_def succeed_def split: if_splits)
  have up: "claim_upsert (now w) ?c (db w) = Inr (x, db u)" using run_stmt_Inr[OF st[unfolded q]] by simp
  have "db u \<noteq> db w" using r'(2,3) assms(2) by (metis image_eqI)
  then have "idem_keys (db v) = map (\<lambda>r. if idem_scope r = s then claim_row ?c r else r) (idem_keys (db w)) \<or>
      (idem_keys (db v) = idem_keys (db w) @ [?c] \<and> \<not> list_ex (\<lambda>r. idem_scope r = s) (idem_keys (db w)))"
    using up r'(4) by (auto simp: claim_upsert_def Let_def split: if_splits dest!: arg_cong[where f = idem_keys])
  then show ?thesis
  proof
    assume m: "idem_keys (db v) = map (\<lambda>r. if idem_scope r = s then claim_row ?c r else r) (idem_keys (db w))"
    obtain x y where x: "x \<in> set (idem_keys (db v))" "idem_scope x = s" "r = unlinked x"
      using assms(3) by (auto simp: in_slot)
    moreover from x(1) obtain z where "x = (if idem_scope z = s then claim_row ?c z else z)"
      unfolding m by (auto simp only: set_map)
    ultimately show ?thesis using c by (cases "idem_scope z = s") (simp_all add: claim_row_state)
  next
    assume "idem_keys (db v) = idem_keys (db w) @ [?c] \<and> \<not> list_ex (\<lambda>r. idem_scope r = s) (idem_keys (db w))"
    then show ?thesis using assms(3) c by (auto simp: in_slot list_ex_iff)
  qed
qed

definition answered :: "json \<Rightarrow> idem \<Rightarrow> bool" where
  "answered j r \<longleftrightarrow> (ik_state r = IdemCompleted \<longrightarrow> ik_response_status r = 201 \<and> ik_response_body r = Some j)"

lemma fail_not_created: "rs_status (fail ms rq (Domain e)) \<noteq> 201"
proof (cases "destination_error e")
  case False
  have "rs_status (fail ms rq (Domain e)) = ap_status (translate_root ms (root_error e))"
    by (simp add: fail_run translate_def False write_json_def)
  then show ?thesis
    using translate_root_status[of ms "root_error e"] translate_root_accepted[of ms "root_error e"]
    by (cases "\<exists>t. root_error e = OutcomeUnknown t") auto
qed (simp add: fail_run translate_def write_json_def)

text \<open>The first answer leaves the key held with its own hash, its row waiting or completed with what
  was answered.\<close>

lemma first_answer:
  fixes w :: "'g world"
  assumes "handle_create_payment ev a k rq body w = (Inr (write_json 201 j), v)" "key_of rq \<noteq> []"
    and "decode_json rq body = Inr b" "claim_id w \<notin> ik_id ` set (idem_keys (db w))"
  shows "held (payment_scope a (key_of rq)) (ev_hash_request ev b) (now w + idempotency_ttl) (db v) \<and>
    (\<forall>r \<in> set (slot (payment_scope a (key_of rq)) (db v)). answered j r)"
proof (cases rule: handle_cases[of ev a k rq body w])
  case (refused x)
  then show ?thesis using assms(1,3) by (auto simp: write_json_def)
next
  case (keyed b')
  let ?s = "payment_scope a (key_of rq)" and ?h = "ev_hash_request ev b"
  have b: "b' = b" using keyed(2) assms(3) by simp
  have run: "claim_and_answer ev a k rq b w = (Inr (write_json 201 j), v)" using assms(1) keyed(3) b by simp
  obtain q u where c: "idem_claim ?s ?h w = (q, u)" by fastforce
  have "q = Inr ()"
  proof (cases q)
    case (Inl e)
    then have "(case replay e of Some r \<Rightarrow> replay_stored r | None \<Rightarrow> fail payment_missing rq (Domain e)) = write_json 201 j"
      using run by (simp add: claim_and_answer_def catchE_def c succeed_def)
    moreover have "rs_status (write_json 201 j) = 201" by (simp add: write_json_def)
    ultimately show ?thesis using fail_not_created[of payment_missing rq e]
      by (auto simp: replay_stored_def write_json_def split: option.splits)
  qed simp
  with c have c: "idem_claim ?s ?h w = (Inr (), u)" by simp
  have owned: "held ?s ?h (now w + idempotency_ttl) (db u)" by (rule claim_owned[OF c assms(4)])
  have run2: "create_and_answer ev a k rq (key_of rq) b u = (Inr (write_json 201 j), v)"
    using run by (simp add: claim_and_answer_def catchE_def c)
  obtain r u2 where cp: "create_payment (ev_registry ev) (create_payment_input a k b) u = (r, u2)" by fastforce
  have s2: "slot ?s (db u2) = slot ?s (db u)"
    using slot_create[of ?s "ev_registry ev" "create_payment_input a k b" u] by (simp add: cp)
  obtain p where r: "r = Inr p"
  proof (cases r)
    case (Inl e)
    then have "fail payment_missing rq (Domain e) = write_json 201 j"
      using run2 assms(2) by (simp add: create_and_answer_def catchE_def cp bindE_run ignore_error_eq succeed_def)
    then show ?thesis using fail_not_created[of payment_missing rq e] by (simp add: write_json_def)
  qed (use that in simp)
  have v: "v = snd (idem_complete ?s (pay_id p) 201 j u2)" and j: "render_payment (ev_times ev) p = j"
    using run2 assms(2) by (auto simp: create_and_answer_def catchE_def cp r bindE_run ignore_error_eq Let_def
      succeed_def write_json_def)
  have held2: "held ?s ?h (now w + idempotency_ttl) (db u2)" by (rule held_by_slot[OF s2 owned])
  have waiting: "ik_state x = InProgress" if "x \<in> set (slot ?s (db u2))" for x
    using owned_rows[OF c assms(4)] that s2 by simp
  let ?f = "\<lambda>x. if idem_scope x = ?s \<and> ik_state x = InProgress then completed_row (pay_id p) 201 j (now u2) x else x"
  obtain y z where st: "exec_stmt (\<lambda>d. set_idem_keys (map ?f (idem_keys d)) d) u2 = (y, z)" by fastforce
  have "v = z" using v st by (simp add: idem_complete_def now_bind)
  moreover have "db z = db u2 \<or> db z = set_idem_keys (map ?f (idem_keys (db u2))) (db u2)"
    using run_stmt_db[OF st[unfolded exec_stmt_def]] by (elim conjE disjE exE) simp_all
  moreover have "answered j x" if "x \<in> set (slot ?s (db u2))" for x
    using waiting[OF that] by (simp add: answered_def)
  moreover have "answered j x" if "x \<in> set (slot ?s (set_idem_keys (map ?f (idem_keys (db u2))) (db u2)))" for x
  proof -
    obtain y where y: "y \<in> set (idem_keys (db u2))" "idem_scope (?f y) = ?s" "x = unlinked (?f y)"
      using \<open>x \<in> _\<close> by (auto simp: in_slot)
    have "idem_scope (?f y) = idem_scope y" by (simp add: idem_scope_def completed_row_def)
    with y(2) have "idem_scope y = ?s" by simp
    moreover from this y(1) have "unlinked y \<in> set (slot ?s (db u2))" by (auto simp: in_slot)
    then have "ik_state (unlinked y) = InProgress" by (rule waiting)
    ultimately show ?thesis using y(3) by (simp add: answered_def completed_row_def)
  qed
  ultimately have "\<forall>x \<in> set (slot ?s (db v)). answered j x" by (elim disjE) simp_all
  then show ?thesis using held_complete[OF held2, of ?s "pay_id p" 201 j] v by simp
qed (use assms(2) in simp)

subsection \<open>The retry\<close>

lemma inert_claim: "inert.evolves (idem_claim s h)"
  unfolding idem_claim_def idem_get_def by (intro inert_intros inert_run_stmt)

lemma claim_blocked_same:
  fixes w :: "'g world"
  assumes "held s h until (db w)" "now w \<le> until"
  shows "db (snd (idem_claim s h' w)) = db w" "ext (snd (idem_claim s h' w)) = ext w"
proof -
  let ?c = "new_claim (claim_id w) (now w) s h'"
  obtain r where "r \<in> set (idem_keys (db w))" "idem_scope r = s" "until \<le> ik_expires_at r"
    using assms(1) by (auto simp: held_def)
  then have live: "claim_upsert (now w) ?c (db w) = Inr ((), db w)"
    using assms(2) by (auto simp: claim_upsert_def list_ex_iff)
  obtain q u where st: "run_stmt (claim_upsert (now w) ?c) (drawn w) = (q, u)" by fastforce
  have "db u = db w" using run_stmt_db[OF st] live by auto
  then show "db (snd (idem_claim s h' w)) = db w" by (simp add: idem_claim_run[OF st] claim_look_db)
  show "ext (snd (idem_claim s h' w)) = ext w"
    using inert.evolvesD[OF inert_claim, of s h' w] by (cases "idem_claim s h' w") (simp add: inert_rel_def)
qed

definition replayed :: "json \<Rightarrow> response" where
  "replayed j = \<lparr>rs_status = 201, rs_headers = [(''Content-Type'', ''application/json; charset=utf-8''),
     (''Idempotent-Replay'', ''true'')], rs_body = Some j\<rparr>"

lemma existing_answer:
  assumes "answered j (unlinked r)" "ik_hash r = h"
  shows "(case replay (classify_existing r h') of Some r \<Rightarrow> replay_stored r
      | None \<Rightarrow> fail payment_missing rq (Domain (classify_existing r h'))) \<in>
    (if h' \<noteq> h then {fail payment_missing rq (Domain IdempotencyConflict)}
     else {fail payment_missing rq (Domain IdempotencyRunning), replayed j})"
  using assms by (auto simp: classify_existing_def replay_def answered_def replay_stored_def replayed_def)

text \<open>C21. An idempotency key opens one payment. Once a create request with a key was answered 201,
  any other create request of that application with that key, within 24 hours of the first, leaves
  the payments as they are and does not reach the gateway, whatever its body, whatever requests by
  anyone came in between and whichever statements fail. With a working database it is told why: a
  conflict if its body differs from the first one, and otherwise the first answer again, or that
  the first request is still in progress if its answer could not be recorded.\<close>

theorem key_opens_one_payment:
  fixes w v u :: "'g world"
  assumes "handle_create_payment ev a k rq body w = (Inr (write_json 201 j), v)"
    and "decode_json rq body = Inr b" "key_of rq \<noteq> []" "claim_id w \<notin> ik_id ` set (idem_keys (db w))"
    and "(between (now w + idempotency_ttl))\<^sup>*\<^sup>* v u" "now u \<le> now w + idempotency_ttl"
    and "claim_id u \<notin> ik_id ` set (idem_keys (db u))"
    and "app_id a' = app_id a" "key_of rq' = key_of rq"
  shows "payments (db (snd (handle_create_payment ev' a' k' rq' body' u))) = payments (db u) \<and>
    ext (snd (handle_create_payment ev' a' k' rq' body' u)) = ext u \<and>
    (outcomes u = [] \<and> txn u = None \<and> decode_json rq' body' = Inr b' \<and> cb_gateway b' \<in> {[], ''midtrans''} \<longrightarrow>
     projr (fst (handle_create_payment ev' a' k' rq' body' u)) \<in>
       (if ev_hash_request ev' b' \<noteq> ev_hash_request ev b then {fail payment_missing rq' (Domain IdempotencyConflict)}
        else {fail payment_missing rq' (Domain IdempotencyRunning), replayed j}))"
proof -
  let ?s = "payment_scope a (key_of rq)" and ?until = "now w + idempotency_ttl" and ?h = "ev_hash_request ev b"
  have s: "payment_scope a' (key_of rq') = ?s" by (simp add: payment_scope_def assms(8,9))
  have first: "held ?s ?h ?until (db v)" "\<forall>r \<in> set (slot ?s (db v)). answered j r"
    using first_answer[OF assms(1,3,2,4)] by blast+
  have "slot ?s (db u) = slot ?s (db v)" by (rule slot_between[OF assms(5) first(1)])
  then have held: "held ?s ?h ?until (db u)" and stored: "\<forall>r \<in> set (slot ?s (db u)). answered j r"
    using first held_by_slot by auto
  have short: "\<not> 255 < length (key_of rq)"
    by (rule handle_cases[of ev a k rq body w])
      (use assms(1-3) in \<open>auto simp: write_json_def claim_and_answer_def handle_create_payment_def with_body_def Let_def key_of_def
        succeed_def fail_with_def as_error_def err_invalid_request_def new_error_def split: if_splits\<close>)
  show ?thesis
  proof (cases rule: handle_cases[of ev' a' k' rq' body' u])
    case (refused x)
    then show ?thesis using short assms(9) by auto
  next
    case (keyed b'')
    note blocked = claim_blocked_same[OF held assms(6), of "ev_hash_request ev' b''"]
    have held': "held (payment_scope a' (key_of rq')) ?h ?until (db u)" using held s by simp
    obtain e where e: "claim_and_answer ev' a' k' rq' b'' u =
        (Inr (case replay e of Some r \<Rightarrow> replay_stored r | None \<Rightarrow> fail payment_missing rq' (Domain e)),
         snd (idem_claim ?s (ev_hash_request ev' b'') u))"
      "idem_claim ?s (ev_hash_request ev' b'') u = (Inl e, snd (idem_claim ?s (ev_hash_request ev' b'') u))"
      using claim_and_answer_blocked[OF held' assms(6,7), of ev' b'' k'] unfolding s by metis
    have "projr (fst (handle_create_payment ev' a' k' rq' body' u)) \<in>
        (if ev_hash_request ev' b' \<noteq> ?h then {fail payment_missing rq' (Domain IdempotencyConflict)}
         else {fail payment_missing rq' (Domain IdempotencyRunning), replayed j})"
      if quiet: "outcomes u = []" "txn u = None" and b': "decode_json rq' body' = Inr b'"
    proof -
      obtain r where r: "r \<in> set (idem_keys (db u))" "idem_scope r = ?s"
          "idem_claim ?s (ev_hash_request ev' b'') u = (Inl (classify_existing r (ev_hash_request ev' b'')), drawn u)"
        using claim_held[OF held assms(6,7), of "ev_hash_request ev' b''"] quiet by blast
      have "unlinked r \<in> set (slot ?s (db u))" using r(1,2) by (auto simp: in_slot)
      then have "answered j (unlinked r)" "ik_hash r = ?h" using stored held r(1,2) by (auto simp: held_def)
      note existing_answer[OF this, where h' = "ev_hash_request ev' b'" and rq = rq']
      moreover have "e = classify_existing r (ev_hash_request ev' b')" and "b'' = b'"
        using e(2) r(3) b' keyed(2) by simp_all
      moreover have "projr (fst (handle_create_payment ev' a' k' rq' body' u))
          = (case replay e of Some r \<Rightarrow> replay_stored r | None \<Rightarrow> fail payment_missing rq' (Domain e))"
        by (simp add: keyed(3) e(1))
      ultimately show ?thesis by metis
    qed
    then show ?thesis using blocked by (simp add: keyed(3) e(1))
  qed (use assms(3,9) in simp)
qed

definition sample_body :: "string \<Rightarrow> create_payment_body" where
  "sample_body order = \<lparr>cb_application_order_id = order, cb_amount = 50000, cb_currency = [], cb_customer = None,
     cb_items = [], cb_enabled_methods = [], cb_expires_at = None, cb_callback_url = [], cb_custom_fields = [],
     cb_metadata = [], cb_gateway = [], cb_midtrans_options = None\<rparr>"

definition sample_create :: "string \<Rightarrow> string \<Rightarrow> (string list, response) routine" where
  "sample_create key order = handle_create_payment sample_env (zero_application\<lparr>app_id := ''app_1''\<rparr>)
     (zero_api_key\<lparr>ak_mode := KeyModeTest\<rparr>) (sample_request key) (Decoded (sample_body order) True)"

definition open_shop :: "string list world" where
  "open_shop = quiet_world (empty_db\<lparr>accounts := [sample_account]\<rparr>) []"

definition first_time :: "string list world" where "first_time = snd (sample_create ''k'' ''order-1'' open_shop)"

definition an_hour_later :: "string list world" where "an_hour_later = first_time\<lparr>now := now open_shop + hour\<rparr>"

text \<open>The first request opened one payment, and left the world ready for the next.\<close>

definition opened_once :: "time \<Rightarrow> (error + response) \<times> string list world \<Rightarrow> bool" where
  "opened_once t x \<longleftrightarrow> \<not> isl (fst x) \<and> rs_status (projr (fst x)) = 201 \<and>
     rs_headers (projr (fst x)) = rs_headers (write_json 201 JNull) \<and> rs_body (projr (fst x)) \<noteq> None \<and>
     length (ext (snd x)) = 1 \<and> outcomes (snd x) = [] \<and> txn (snd x) = None \<and>
     claim_id ((snd x)\<lparr>now := t\<rparr>) \<notin> ik_id ` set (idem_keys (db (snd x)))"

lemma sample_opened: "opened_once (now open_shop + hour) (sample_create ''k'' ''order-1'' open_shop)"
  by code_simp

lemma written:
  "\<not> isl (fst x) \<Longrightarrow> rs_status (projr (fst x)) = n \<Longrightarrow> rs_headers (projr (fst x)) = rs_headers (write_json n JNull) \<Longrightarrow>
   rs_body (projr (fst x)) \<noteq> None \<Longrightarrow> x = (Inr (write_json n (the (rs_body (projr (fst x))))), snd x)"
  by (cases x; cases "fst x") (auto simp: write_json_def intro!: response.equality)

theorem key_opens_one_payment_witness:
  "length (ext first_time) = 1 \<and> payments (db (snd (sample_create ''k'' ''order-1'' an_hour_later))) = payments (db an_hour_later) \<and>
   ext (snd (sample_create ''k'' ''order-2'' an_hour_later)) = ext an_hour_later \<and>
   projr (fst (sample_create ''k'' ''order-2'' an_hour_later)) =
     fail payment_missing (sample_request ''k'') (Domain IdempotencyConflict)"
proof -
  let ?j = "the (rs_body (projr (fst (sample_create ''k'' ''order-1'' open_shop))))"
  let ?app = "zero_application\<lparr>app_id := ''app_1''\<rparr>" and ?key = "zero_api_key\<lparr>ak_mode := KeyModeTest\<rparr>"
  note opened = sample_opened[unfolded opened_once_def]
  have first: "sample_create ''k'' ''order-1'' open_shop = (Inr (write_json 201 ?j), first_time)"
    unfolding first_time_def using opened by (intro written) blast+
  have fresh: "claim_id open_shop \<notin> ik_id ` set (idem_keys (db open_shop))"
    "claim_id an_hour_later \<notin> ik_id ` set (idem_keys (db an_hour_later))"
    using opened by (simp_all add: an_hour_later_def first_time_def open_shop_def empty_db_def)
  have quiet: "outcomes an_hour_later = [] \<and> txn an_hour_later = None"
    using opened by (simp add: an_hour_later_def first_time_def)
  have key: "key_of (sample_request ''k'') = ''k''" by (simp add: key_of_def sample_request_def)
  have decoded: "decode_json (sample_request ''k'') (Decoded (sample_body x) True) = Inr (sample_body x)" for x
    by (simp add: decode_json_def sample_request_def)
  have later: "now an_hour_later \<le> now open_shop + idempotency_ttl"
    by (simp add: idempotency_ttl_def duration_defs an_hour_later_def)
  have gap: "(between (now open_shop + idempotency_ttl))\<^sup>*\<^sup>* first_time an_hour_later"
    by (intro r_into_rtranclp elsewhere) (simp add: an_hour_later_def)
  have claim: "payments (db (snd (sample_create ''k'' x an_hour_later))) = payments (db an_hour_later) \<and>
      ext (snd (sample_create ''k'' x an_hour_later)) = ext an_hour_later \<and>
      projr (fst (sample_create ''k'' x an_hour_later)) \<in>
        (if x \<noteq> ''order-1'' then {fail payment_missing (sample_request ''k'') (Domain IdempotencyConflict)}
         else {fail payment_missing (sample_request ''k'') (Domain IdempotencyRunning), replayed ?j})" for x
  proof -
    have parts: "ev_hash_request sample_env (sample_body y) = y" "cb_gateway (sample_body y) = []" for y
      by (simp_all add: sample_env_def sample_body_def)
    have named: "key_of (sample_request ''k'') \<noteq> []" using key by simp
    note retry = key_opens_one_payment[OF first[unfolded sample_create_def] decoded named fresh(1) gap later fresh(2) refl refl,
        of sample_env ?key "Decoded (sample_body x) True" "sample_body x", folded sample_create_def, unfolded parts]
    then show ?thesis using quiet decoded[of x] by simp
  qed
  have "length (ext first_time) = 1" using opened by (simp add: first_time_def)
  then show ?thesis using claim[of "''order-1''"] claim[of "''order-2''"] by simp
qed

end
