(* ===== verification/Admin.thy ===== *)
theory Admin
  imports Api
begin

text \<open>
  The dashboard API of \<open>internal/api\<close>: the handlers of \<open>admin_auth.go\<close>, \<open>admin_applications.go\<close>,
  \<open>admin_gateways.go\<close>, \<open>admin_operations.go\<close> and \<open>admin_payouts.go\<close>, the credential probe of
  \<open>internal/gateway/probe.go\<close>, and \<open>health.go\<close>. A handler gets the principal the middleware found
  and the body as it was decoded; an object the code builds as a Go map is written with its keys in
  order, as \<open>encoding/json\<close> does. A slice built by appending is nil, so \<open>null\<close>, when nothing was
  appended.
\<close>

subsection \<open>Shapes\<close>

definition then_do :: "missing \<Rightarrow> request \<Rightarrow> ('g, 'a) routine \<Rightarrow> ('a \<Rightarrow> ('g, response) routine) \<Rightarrow> ('g, response) routine" where
  "then_do ms rq m k = catchE m (\<lambda>e. succeed (fail ms rq (Domain e))) k"

definition refused :: "request \<Rightarrow> api_error \<Rightarrow> ('g, response) routine" where
  "refused rq a = succeed (fail_with rq (Typed a))"

definition audited :: "'g api_env \<Rightarrow> principal \<Rightarrow> request \<Rightarrow> string \<Rightarrow> string \<Rightarrow> string \<Rightarrow> jmap option \<Rightarrow> response \<Rightarrow> ('g, response) routine" where
  "audited ev p rq action target_type target_id metadata r =
     bindE (audit ev p rq action target_type target_id metadata) (\<lambda>_. succeed r)"

definition body_or_fail :: "request \<Rightarrow> 'b decoded \<Rightarrow> ('b \<Rightarrow> ('g, response) routine) \<Rightarrow> ('g, response) routine" where
  "body_or_fail rq = with_body (\<lambda>a. fail_with rq (Typed a)) rq"

definition appended :: "('a \<Rightarrow> json) \<Rightarrow> 'a list \<Rightarrow> json" where
  "appended render xs = (if xs = [] then JNull else JArr (map render xs))"

definition plain_list :: "('a \<Rightarrow> json) \<Rightarrow> 'a list \<Rightarrow> response" where
  "plain_list render xs = write_json 200 (render_list render xs False (int (length xs)))"

definition acting_admin :: "principal \<Rightarrow> string" where
  "acting_admin p = (case pr_admin p of Some a \<Rightarrow> adm_id a | None \<Rightarrow> [])"

subsection \<open>Signing in\<close>

record login_request =
  lq_email :: string
  lq_password :: string

definition handle_login :: "'g api_env \<Rightarrow> request \<Rightarrow> login_request decoded \<Rightarrow> ('g, response) routine" where
  "handle_login ev rq body = body_or_fail rq body (\<lambda>b.
     bindE (gets now) (\<lambda>t.
     respond generic_missing rq (login (ev_auth ev) \<lparr>li_email = lq_email b, li_password = lq_password b,
         li_user_agent = rq_header rq ''User-Agent'', li_ip_address = client_ip (ev_trust_proxy ev) rq\<rparr>)
       (\<lambda>i. set_session_cookie ev t (is_token i) (ses_expires_at (is_session i))
          (write_json 200 (JObj [(''admin'', render_admin (ev_times ev) (is_admin i)),
             (''expires_at'', jtime (ev_times ev) (ses_expires_at (is_session i)))])))))"

definition handle_logout :: "'g api_env \<Rightarrow> request \<Rightarrow> ('g, response) routine" where
  "handle_logout ev rq =
     (let token = coalesce (rq_cookie rq session_cookie_name) []; bye = clear_session_cookie ev no_content in
      if token = [] then succeed bye
      else catchE (logout (ev_auth ev) token)
        (\<lambda>e. succeed (fail_with rq (Typed (err_internal (Some e))))) (\<lambda>_. succeed bye))"

definition handle_current_admin :: "'g api_env \<Rightarrow> principal \<Rightarrow> request \<Rightarrow> ('g, response) routine" where
  "handle_current_admin ev p rq = (case pr_admin p of
     None \<Rightarrow> refused rq (err_unauthorized ''Authentication is required.'')
   | Some a \<Rightarrow> succeed (write_json 200 (render_admin (ev_times ev) a)))"

record change_password_request =
  cp_current :: string
  cp_new :: string

definition handle_change_password :: "'g api_env \<Rightarrow> principal \<Rightarrow> request \<Rightarrow> change_password_request decoded \<Rightarrow> ('g, response) routine" where
  "handle_change_password ev p rq body = body_or_fail rq body (\<lambda>b.
     respond generic_missing rq (change_password (ev_auth ev) (acting_admin p) (cp_current b) (cp_new b))
       (\<lambda>_. clear_session_cookie ev no_content))"

record create_admin_request =
  ca_email :: string
  ca_name :: string
  ca_password :: string

definition handle_create_admin :: "'g api_env \<Rightarrow> principal \<Rightarrow> request \<Rightarrow> create_admin_request decoded \<Rightarrow> ('g, response) routine" where
  "handle_create_admin ev p rq body = body_or_fail rq body (\<lambda>b.
     then_do generic_missing rq (create_admin (ev_auth ev) (ca_email b) (ca_name b) (ca_password b)) (\<lambda>a.
       audited ev p rq ''admin.created'' ''admin'' (adm_id a) None (write_json 201 (render_admin (ev_times ev) a))))"

definition handle_list_admins :: "'g api_env \<Rightarrow> request \<Rightarrow> ('g, response) routine" where
  "handle_list_admins ev rq = respond generic_missing rq list_admins (plain_list (render_admin (ev_times ev)))"

subsection \<open>Applications\<close>

definition ok_application :: "'g api_env \<Rightarrow> application \<Rightarrow> response" where
  "ok_application ev a = write_json 200 (render_application (ev_times ev) a)"

definition handle_create_application :: "'g api_env \<Rightarrow> principal \<Rightarrow> request \<Rightarrow> create_application_input decoded \<Rightarrow> ('g, response) routine" where
  "handle_create_application ev p rq body = body_or_fail rq body (\<lambda>b.
     then_do application_missing rq (service_create_application b) (\<lambda>a.
       audited ev p rq ''application.created'' ''application'' (app_id a) (Some [(''slug'', JStr (app_slug a))])
         (write_json 201 (render_application (ev_times ev) a))))"

definition handle_list_applications :: "'g api_env \<Rightarrow> request \<Rightarrow> ('g, response) routine" where
  "handle_list_applications ev rq = respond application_missing rq (list_applications (page_from_request rq))
     (\<lambda>l. write_json 200 (render_page (render_application (ev_times ev)) l))"

definition handle_get_application :: "'g api_env \<Rightarrow> request \<Rightarrow> ('g, response) routine" where
  "handle_get_application ev rq =
     respond application_missing rq (get_application (rq_param rq ''applicationID'')) (ok_application ev)"

definition handle_update_application :: "'g api_env \<Rightarrow> principal \<Rightarrow> request \<Rightarrow> application_update decoded \<Rightarrow> ('g, response) routine" where
  "handle_update_application ev p rq body = body_or_fail rq body (\<lambda>b.
     then_do application_missing rq (service_update_application (rq_param rq ''applicationID'') b) (\<lambda>a.
       audited ev p rq ''application.updated'' ''application'' (app_id a) None (ok_application ev a)))"

subsection \<open>API keys\<close>

record create_api_key_request =
  ck_name :: string
  ck_mode :: string
  ck_expires_at :: "time option"

definition handle_create_api_key :: "'g api_env \<Rightarrow> principal \<Rightarrow> request \<Rightarrow> create_api_key_request decoded \<Rightarrow> ('g, response) routine" where
  "handle_create_api_key ev p rq body = body_or_fail rq body (\<lambda>b.
     let mode = (if ck_mode b = [] then KeyModeLive else key_mode_of (ck_mode b));
         app = rq_param rq ''applicationID'' in
     bindE (gets now) (\<lambda>t.
     then_do application_missing rq (issue_api_key (ev_hash_key ev) app (ck_name b) mode (ck_expires_at b)) (\<lambda>(k, plaintext).
       audited ev p rq ''api_key.created'' ''api_key'' (ak_id k)
         (Some [(''application_id'', JStr app), (''mode'', JStr (key_mode_text mode))])
         (write_json 201 (render_api_key (ev_times ev) t k plaintext)))))"

definition handle_list_api_keys :: "'g api_env \<Rightarrow> request \<Rightarrow> ('g, response) routine" where
  "handle_list_api_keys ev rq = bindE (gets now) (\<lambda>t.
     respond application_missing rq (list_api_keys (rq_param rq ''applicationID''))
       (plain_list (\<lambda>k. render_api_key (ev_times ev) t k [])))"

definition handle_revoke_api_key :: "'g api_env \<Rightarrow> principal \<Rightarrow> request \<Rightarrow> ('g, response) routine" where
  "handle_revoke_api_key ev p rq = bindE (gets now) (\<lambda>t.
     then_do generic_missing rq (revoke_api_key (rq_param rq ''applicationID'') (rq_param rq ''keyID'')) (\<lambda>k.
       audited ev p rq ''api_key.revoked'' ''api_key'' (ak_id k)
         (Some [(''application_id'', JStr (rq_param rq ''applicationID''))])
         (write_json 200 (render_api_key (ev_times ev) t k []))))"

subsection \<open>Destinations\<close>

definition handle_create_destination :: "'g api_env \<Rightarrow> principal \<Rightarrow> request \<Rightarrow> create_destination_input decoded \<Rightarrow> ('g, response) routine" where
  "handle_create_destination ev p rq body = body_or_fail rq body (\<lambda>b.
     then_do application_missing rq
       (service_create_destination (ev_names ev) (ev_guard ev) (rq_param rq ''applicationID'') b) (\<lambda>x.
       audited ev p rq ''destination.created'' ''webhook_destination'' (ds_id x)
         (Some [(''application_id'', JStr (rq_param rq ''applicationID''))])
         (write_json 201 (render_destination (ev_times ev) x (ds_secret x)))))"

definition handle_list_destinations :: "'g api_env \<Rightarrow> request \<Rightarrow> ('g, response) routine" where
  "handle_list_destinations ev rq = respond application_missing rq (list_destinations (rq_param rq ''applicationID''))
     (plain_list (\<lambda>x. render_destination (ev_times ev) x []))"

record update_destination_request =
  ud_url :: "string option"
  ud_description :: "string option"
  ud_event_types :: "string list option"
  ud_enabled :: "bool option"

definition handle_update_destination :: "'g api_env \<Rightarrow> principal \<Rightarrow> request \<Rightarrow> update_destination_request decoded \<Rightarrow> ('g, response) routine" where
  "handle_update_destination ev p rq body = body_or_fail rq body (\<lambda>b.
     then_do generic_missing rq (service_update_destination (ev_names ev) (ev_guard ev)
         (rq_param rq ''applicationID'') (rq_param rq ''destinationID'')
         \<lparr>du_url = ud_url b, du_description = ud_description b, du_event_types = ud_event_types b,
          du_enabled = ud_enabled b, du_secret = []\<rparr>) (\<lambda>x.
       audited ev p rq ''destination.updated'' ''webhook_destination'' (ds_id x) None
         (write_json 200 (render_destination (ev_times ev) x []))))"

definition handle_rotate_destination_secret :: "'g api_env \<Rightarrow> principal \<Rightarrow> request \<Rightarrow> ('g, response) routine" where
  "handle_rotate_destination_secret ev p rq =
     then_do generic_missing rq (rotate_destination_secret (rq_param rq ''applicationID'') (rq_param rq ''destinationID'')) (\<lambda>x.
       audited ev p rq ''destination.secret_rotated'' ''webhook_destination'' (ds_id x) None
         (write_json 200 (render_destination (ev_times ev) x (ds_secret x))))"

definition handle_delete_destination :: "'g api_env \<Rightarrow> principal \<Rightarrow> request \<Rightarrow> ('g, response) routine" where
  "handle_delete_destination ev p rq =
     then_do generic_missing rq (delete_destination (rq_param rq ''applicationID'') (rq_param rq ''destinationID'')) (\<lambda>_.
       audited ev p rq ''destination.deleted'' ''webhook_destination'' (rq_param rq ''destinationID'') None no_content)"

subsection \<open>Gateway accounts\<close>

record probe_result =
  pb_ok :: bool
  pb_message :: string
  pb_capabilities :: capabilities

definition probe_order_id :: string where "probe_order_id = ''pmx-connection-probe''"

definition describe_probe_failure :: "error \<Rightarrow> string" where
  "describe_probe_failure e = (case root_error e of
     GatewayFault g \<Rightarrow>
       if gf_status g = 401 \<or> gf_code g = ''401''
         then ''The gateway rejected these credentials. Check the server key, '' @
           ''and that it belongs to the environment selected here.''
       else if gf_status g = 403 \<or> gf_code g = ''403''
         then ''These credentials are not permitted to perform this operation.''
       else if gf_retryable g then ''The gateway is not responding: '' @ gf_message g
       else ''The gateway refused the request: '' @ gf_message g
   | _ \<Rightarrow> ''Could not reach the gateway: '' @ error_text e)"

definition probe :: "'g adapter \<Rightarrow> ('g, probe_result) routine" where
  "probe g = (let found = (\<lambda>ok message. succeed \<lparr>pb_ok = ok, pb_message = message, pb_capabilities = capabilities_for g\<rparr>) in
     catchE (call_out (ga_get_transaction g probe_order_id))
       (\<lambda>e. if root_error e = TransactionNotFound then found True ''Credentials accepted.''
          else found False (describe_probe_failure e))
       (\<lambda>_. found True ''Credentials accepted.''))"

record create_account_request =
  ga_req_gateway :: string
  ga_req_name :: string
  ga_req_environment :: string
  ga_req_merchant_id :: string
  ga_req_client_key :: string
  ga_req_server_key :: string
  ga_req_enabled :: "bool option"
  ga_req_is_default :: "bool option"

definition environment_of :: "string \<Rightarrow> environment" where
  "environment_of s = (if s = ''sandbox'' then Sandbox else if s = ''production'' then Production else OtherEnvironment s)"

definition invalid_environment :: api_error where
  "invalid_environment = invalid_values ''environment''
     (''must be '' @ [CHR 34] @ ''sandbox'' @ [CHR 34] @ '' or '' @ [CHR 34] @ ''production'' @ [CHR 34])"

definition account_saved :: "request \<Rightarrow> ('g, account) routine \<Rightarrow> (account \<Rightarrow> ('g, response) routine) \<Rightarrow> ('g, response) routine" where
  "account_saved rq m k = catchE m
     (\<lambda>e. if is_unique_violation e [''gateway_accounts_name_key'']
        then refused rq (err_conflict code_conflict ''A gateway account with that name already exists.'')
        else succeed (fail generic_missing rq (Domain e))) k"

definition handle_create_gateway_account :: "'g api_env \<Rightarrow> principal \<Rightarrow> request \<Rightarrow> create_account_request decoded \<Rightarrow> ('g, response) routine" where
  "handle_create_gateway_account ev p rq body = body_or_fail rq body (\<lambda>b.
     let name = (if ga_req_gateway b = [] then ''midtrans'' else ga_req_gateway b);
         env = environment_of (ga_req_environment b) in
     if \<not> supports name (ev_registry ev)
       then refused rq (with_field ''gateway'' ''is not supported''
         (new_error 400 code_unsupported_gateway (''No adapter is available for gateway '' @ name @ ''.'')))
     else if \<not> environment_valid env then refused rq invalid_environment
     else if ga_req_server_key b = [] then refused rq (invalid_values ''server_key'' ''must not be empty'')
     else if ga_req_name b = [] then refused rq (invalid_values ''name'' ''must not be empty'')
     else account_saved rq (account_create (zero_account\<lparr>acc_gateway := name, acc_name := ga_req_name b,
         acc_environment := env, acc_merchant_id := ga_req_merchant_id b, acc_client_key := ga_req_client_key b,
         acc_server_key := ga_req_server_key b, acc_enabled := coalesce (ga_req_enabled b) True,
         acc_is_default := coalesce (ga_req_is_default b) False\<rparr>)) (\<lambda>a.
       audited ev p rq ''gateway_account.created'' ''gateway_account'' (acc_id a)
         (Some [(''environment'', JStr (environment_text (acc_environment a))), (''gateway'', JStr (acc_gateway a))])
         (write_json 201 (render_gateway_account (ev_times ev) a))))"

definition ok_account :: "'g api_env \<Rightarrow> account \<Rightarrow> response" where
  "ok_account ev a = write_json 200 (render_gateway_account (ev_times ev) a)"

definition handle_list_gateway_accounts :: "'g api_env \<Rightarrow> request \<Rightarrow> ('g, response) routine" where
  "handle_list_gateway_accounts ev rq =
     respond generic_missing rq account_list (plain_list (render_gateway_account (ev_times ev)))"

definition handle_get_gateway_account :: "'g api_env \<Rightarrow> request \<Rightarrow> ('g, response) routine" where
  "handle_get_gateway_account ev rq =
     respond generic_missing rq (account_get (rq_param rq ''accountID'')) (ok_account ev)"

record update_account_request =
  gu_name :: "string option"
  gu_merchant_id :: "string option"
  gu_client_key :: "string option"
  gu_server_key :: "string option"
  gu_environment :: "string option"
  gu_enabled :: "bool option"
  gu_is_default :: "bool option"
  gu_creator_key :: "string option"
  gu_approver_key :: "string option"

definition handle_update_gateway_account :: "'g api_env \<Rightarrow> principal \<Rightarrow> request \<Rightarrow> update_account_request decoded \<Rightarrow> ('g, response) routine" where
  "handle_update_gateway_account ev p rq body = body_or_fail rq body (\<lambda>b.
     let env = map_option environment_of (gu_environment b) in
     if gu_server_key b = Some [] then refused rq (invalid_values ''server_key'' ''must not be empty'')
     else if (case env of None \<Rightarrow> False | Some x \<Rightarrow> \<not> environment_valid x) then refused rq invalid_environment
     else account_saved rq (account_update (rq_param rq ''accountID'')
         \<lparr>au_name = gu_name b, au_merchant_id = gu_merchant_id b, au_client_key = gu_client_key b,
          au_server_key = coalesce (gu_server_key b) [], au_enabled = gu_enabled b, au_is_default = gu_is_default b,
          au_environment = env, au_creator_key = gu_creator_key b, au_approver_key = gu_approver_key b\<rparr>) (\<lambda>a.
       audited ev p rq ''gateway_account.updated'' ''gateway_account'' (acc_id a) None (ok_account ev a)))"

definition handle_delete_gateway_account :: "'g api_env \<Rightarrow> principal \<Rightarrow> request \<Rightarrow> ('g, response) routine" where
  "handle_delete_gateway_account ev p rq =
     then_do generic_missing rq (account_delete (rq_param rq ''accountID'')) (\<lambda>_.
       audited ev p rq ''gateway_account.deleted'' ''gateway_account'' (rq_param rq ''accountID'') None no_content)"

definition handle_test_gateway_account :: "'g api_env \<Rightarrow> principal \<Rightarrow> request \<Rightarrow> ('g, response) routine" where
  "handle_test_gateway_account ev p rq =
     (let i = rq_param rq ''accountID'' in
      then_do generic_missing rq (account_get i) (\<lambda>a.
      then_do generic_missing rq (lift_result (registry_for (ev_registry ev) a)) (\<lambda>g.
      bindE (probe g) (\<lambda>r.
      then_do generic_missing rq (record_check i (pb_ok r) (pb_message r) (pb_capabilities r)) (\<lambda>_.
      bindE (audit ev p rq ''gateway_account.tested'' ''gateway_account'' i (Some [(''ok'', JBool (pb_ok r))])) (\<lambda>_.
      respond generic_missing rq (account_get i) (ok_account ev)))))))"

definition handle_list_gateways :: "'g api_env \<Rightarrow> ('g, response) routine" where
  "handle_list_gateways ev = succeed (plain_list (\<lambda>n. JObj [(''name'', JStr n)]) (registry_names (ev_registry ev)))"

subsection \<open>Operations\<close>

definition handle_admin_list_payments :: "'g api_env \<Rightarrow> request \<Rightarrow> ('g, response) routine" where
  "handle_admin_list_payments ev rq = respond payment_missing rq
     (service_list (payment_filter_from_request ev rq) (page_from_request rq))
     (\<lambda>l. write_json 200 (render_page (render_payment (ev_times ev)) l))"

definition notification_filter_for_payment :: "string \<Rightarrow> notification_filter" where
  "notification_filter_for_payment i = \<lparr>nf_payment_id = i, nf_application_id = [], nf_routing = None, nf_gateway = []\<rparr>"

definition payment_detail :: "times \<Rightarrow> payment \<Rightarrow> refund list \<Rightarrow> event list \<Rightarrow> delivery list \<Rightarrow> gateway_event list \<Rightarrow> json" where
  "payment_detail tf p rs es ds gs = JObj [(''payment'', render_payment tf p), (''refunds'', appended (render_refund tf) rs),
     (''events'', appended (render_event tf) es),
     (''deliveries'', appended (render_delivery tf) (filter (\<lambda>d. list_ex (\<lambda>e. dl_event_id d = ev_id e) es) ds)),
     (''gateway_events'', appended (render_gateway_event tf) gs)]"

definition handle_admin_get_payment :: "'g api_env \<Rightarrow> request \<Rightarrow> ('g, response) routine" where
  "handle_admin_get_payment ev rq =
     (let i = rq_param rq ''paymentID'' in
      then_do payment_missing rq (service_get_any i) (\<lambda>p.
      then_do payment_missing rq (service_list_refunds [] i) (\<lambda>rs.
      then_do payment_missing rq (event_list_for_payment i) (\<lambda>es.
      then_do payment_missing rq (delivery_list (delivery_filter_from_request rq) (page_from_request rq)) (\<lambda>ds.
      respond payment_missing rq (notification_list (notification_filter_for_payment i) (page_from_request rq)) (\<lambda>gs.
        write_json 200 (payment_detail (ev_times ev) p rs es (li_items ds) (li_items gs))))))))"

definition handle_admin_list_refunds :: "'g api_env \<Rightarrow> request \<Rightarrow> ('g, response) routine" where
  "handle_admin_list_refunds ev rq = respond refund_missing rq
     (service_list_all_refunds \<lparr>rff_application_id = rq_query rq ''application_id'', rff_payment_id = rq_query rq ''payment_id'',
        rff_status = refund_status_param rq\<rparr> (page_from_request rq))
     (\<lambda>l. write_json 200 (render_page (render_refund (ev_times ev)) l))"

definition handle_admin_list_events :: "'g api_env \<Rightarrow> request \<Rightarrow> ('g, response) routine" where
  "handle_admin_list_events ev rq = respond generic_missing rq
     (event_list (event_filter_from_request ev rq) (page_from_request rq))
     (\<lambda>l. write_json 200 (render_page (render_event (ev_times ev)) l))"

definition handle_admin_get_event :: "'g api_env \<Rightarrow> request \<Rightarrow> ('g, response) routine" where
  "handle_admin_get_event ev rq = respond generic_missing rq (event_get (rq_param rq ''eventID''))
     (\<lambda>e. write_json 200 (render_event (ev_times ev) e))"

definition handle_admin_list_deliveries :: "'g api_env \<Rightarrow> request \<Rightarrow> ('g, response) routine" where
  "handle_admin_list_deliveries ev rq = respond generic_missing rq
     (delivery_list (delivery_filter_from_request rq) (page_from_request rq))
     (\<lambda>l. write_json 200 (render_page (render_delivery (ev_times ev)) l))"

definition handle_admin_get_delivery :: "'g api_env \<Rightarrow> request \<Rightarrow> ('g, response) routine" where
  "handle_admin_get_delivery ev rq =
     (let i = rq_param rq ''deliveryID'' in
      then_do generic_missing rq (delivery_get i) (\<lambda>d.
      respond generic_missing rq (list_attempts i) (\<lambda>xs.
        write_json 200 (JObj [(''delivery'', render_delivery (ev_times ev) d),
          (''attempts'', appended (render_attempt (ev_times ev)) xs)]))))"

definition handle_admin_list_gateway_events :: "'g api_env \<Rightarrow> request \<Rightarrow> ('g, response) routine" where
  "handle_admin_list_gateway_events ev rq = respond generic_missing rq
     (notification_list (notification_filter_from_request rq) (page_from_request rq))
     (\<lambda>l. write_json 200 (render_page (render_gateway_event (ev_times ev)) l))"

definition handle_admin_sync_payment :: "'g api_env \<Rightarrow> principal \<Rightarrow> request \<Rightarrow> ('g, response) routine" where
  "handle_admin_sync_payment ev p rq = payment_action ev p rq (sync_payment (ev_registry ev))"

definition handle_admin_cancel_payment :: "'g api_env \<Rightarrow> principal \<Rightarrow> request \<Rightarrow> ('g, response) routine" where
  "handle_admin_cancel_payment ev p rq = payment_action ev p rq (cancel_payment (ev_registry ev))"

definition handle_admin_expire_payment :: "'g api_env \<Rightarrow> principal \<Rightarrow> request \<Rightarrow> ('g, response) routine" where
  "handle_admin_expire_payment ev p rq = payment_action ev p rq (expire_payment (ev_registry ev))"

text \<open>The overview. How a window is read, \<open>time.ParseDuration\<close>, and written, \<open>Duration.String\<close> of
  the rounded value, are parameters.\<close>

record durations =
  du_parse :: "string \<Rightarrow> duration option"
  du_text :: "duration \<Rightarrow> string"

definition overview_window :: "durations \<Rightarrow> request \<Rightarrow> duration" where
  "overview_window du rq = (case du_parse du (rq_query rq ''window'') of
     Some d \<Rightarrow> if rq_query rq ''window'' \<noteq> [] \<and> 0 < d then d else 24 * hour | None \<Rightarrow> 24 * hour)"

definition overview_json :: "string \<Rightarrow> payment_stats \<Rightarrow> delivery_stats \<Rightarrow> int \<Rightarrow> application_activity list \<Rightarrow> json" where
  "overview_json window st ds unrouted activity = JObj [(''window'', JStr window),
     (''payments'', JObj [(''created'', JNum (pt_created st)), (''paid'', JNum (pt_paid st)),
        (''pending'', JNum (pt_pending st)), (''failed'', JNum (pt_failed st))]),
     (''deliveries'', JObj [(''pending'', JNum (st_pending ds)), (''failed'', JNum (st_failed ds)),
        (''succeeded'', JNum (st_succeeded ds)), (''dead'', JNum (st_dead ds))]),
     (''unrouted_notifications'', JNum unrouted),
     (''currency_totals'', appended (\<lambda>c. JObj [(''currency'', JStr (ct_currency c)), (''paid_total'', JNum (ct_paid_total c)),
        (''count'', JNum (ct_count c))]) (pt_currencies st)),
     (''applications'', appended (\<lambda>a. JObj [(''application_id'', JStr (aa_application_id a)), (''name'', JStr (aa_name a)),
        (''payments'', JNum (aa_payments a)), (''paid'', JNum (aa_paid a)), (''pending'', JNum (aa_pending a)),
        (''deliveries_ok'', JNum (aa_deliveries_ok a)), (''deliveries_failed'', JNum (aa_deliveries_failed a)),
        (''deliveries_dead'', JNum (aa_deliveries_dead a))]) activity)]"

definition handle_admin_overview :: "'g api_env \<Rightarrow> durations \<Rightarrow> request \<Rightarrow> ('g, response) routine" where
  "handle_admin_overview ev du rq = bindE (gets now) (\<lambda>t.
     let window = overview_window du rq; since = t - window in
     then_do generic_missing rq (payment_statistics since) (\<lambda>st.
     then_do generic_missing rq (delivery_stats_query since) (\<lambda>ds.
     then_do generic_missing rq (count_unrouted since) (\<lambda>unrouted.
     respond generic_missing rq (activity_by_application since) (\<lambda>activity.
       write_json 200 (overview_json (du_text du window) st ds unrouted activity))))))"

subsection \<open>Payouts\<close>

definition handle_admin_list_payouts :: "'g api_env \<Rightarrow> request \<Rightarrow> ('g, response) routine" where
  "handle_admin_list_payouts ev rq = respond payout_missing rq
     (service_list_payouts \<lparr>pyf_application_id = rq_query rq ''application_id'', pyf_status = to_upper (rq_query rq ''status''),
        pyf_beneficiary_id = rq_query rq ''beneficiary_id'', pyf_search = trim_space (rq_query rq ''search'')\<rparr>
        (page_from_request rq))
     (\<lambda>l. write_json 200 (write_listing (payout_json (ev_times ev)) l))"

definition handle_admin_get_payout :: "'g api_env \<Rightarrow> request \<Rightarrow> ('g, response) routine" where
  "handle_admin_get_payout ev rq =
     (let i = rq_param rq ''payoutID'' in
      then_do payout_missing rq (service_get_payout [] i) (\<lambda>p.
      respond payout_missing rq (service_transitions i) (\<lambda>xs.
        write_json 200 (JObj [(''payout'', payout_json (ev_times ev) p),
          (''transitions'', appended (transition_json (ev_times ev)) xs)]))))"

definition handle_approve_payout :: "'g api_env \<Rightarrow> principal \<Rightarrow> request \<Rightarrow> ('g, response) routine" where
  "handle_approve_payout ev pr rq =
     (let i = rq_param rq ''payoutID'' in
      then_do payout_missing rq (approve_payout i (acting_admin pr)) (\<lambda>p.
        audited ev pr rq ''payout.approved'' ''payout'' i
          (Some [(''amount'', JNum (po_amount p)), (''beneficiary_account'', JStr (po_beneficiary_account p)),
             (''beneficiary_bank'', JStr (po_beneficiary_bank p)), (''currency'', JStr (po_currency p))])
          (ok_payout ev p)))"

definition handle_reject_payout :: "'g api_env \<Rightarrow> principal \<Rightarrow> request \<Rightarrow> string decoded \<Rightarrow> ('g, response) routine" where
  "handle_reject_payout ev pr rq body = with_body (\<lambda>a. fail payout_missing rq (Typed a)) rq body (\<lambda>reason.
     let i = rq_param rq ''payoutID'' in
     then_do payout_missing rq (reject_payout i (acting_admin pr) (trim_space reason)) (\<lambda>p.
       audited ev pr rq ''payout.rejected'' ''payout'' i
         (Some [(''amount'', JNum (po_amount p)), (''reason'', JStr (po_reject_reason p))]) (ok_payout ev p)))"

definition handle_sync_payout :: "'g api_env \<Rightarrow> request \<Rightarrow> ('g, response) routine" where
  "handle_sync_payout ev rq =
     then_do payout_missing rq (service_get_payout [] (rq_param rq ''payoutID'')) (\<lambda>p.
     respond payout_missing rq (reconcile (ev_disbursement ev) p) (ok_payout ev))"

subsection \<open>The limits of an application\<close>

record payout_limits_request =
  lr_enabled :: "bool option"
  lr_requires_approval :: "bool option"
  lr_max_amount :: "int option"
  lr_daily_limit :: "int option"
  lr_clear_max_amount :: bool
  lr_clear_daily_limit :: bool

definition changed_limits :: "payout_limits_request \<Rightarrow> limits \<Rightarrow> limits" where
  "changed_limits b l = l\<lparr>lm_enabled := coalesce (lr_enabled b) (lm_enabled l),
     lm_requires_approval := coalesce (lr_requires_approval b) (lm_requires_approval l),
     lm_max_amount := (if lr_clear_max_amount b then None
        else case lr_max_amount b of None \<Rightarrow> lm_max_amount l | Some n \<Rightarrow> Some n),
     lm_daily_limit := (if lr_clear_daily_limit b then None
        else case lr_daily_limit b of None \<Rightarrow> lm_daily_limit l | Some n \<Rightarrow> Some n)\<rparr>"

definition validate_limits :: "limits \<Rightarrow> api_error + unit" where
  "validate_limits l =
     (let bad = (\<lambda>m f t. Inl (with_field f t (err_invalid_request m))) in
      if \<not> lm_enabled l then Inr ()
      else if (case lm_max_amount l of None \<Rightarrow> False | Some n \<Rightarrow> n \<le> 0)
        then bad ''max_amount must be positive.'' ''max_amount'' ''must be greater than zero''
      else if (case lm_daily_limit l of None \<Rightarrow> False | Some n \<Rightarrow> n \<le> 0)
        then bad ''daily_limit must be positive.'' ''daily_limit'' ''must be greater than zero''
      else if (case (lm_max_amount l, lm_daily_limit l) of (Some m, Some d) \<Rightarrow> d < m | _ \<Rightarrow> False)
        then bad ''max_amount cannot exceed daily_limit, or the daily limit would never apply.''
          ''max_amount'' ''must not exceed daily_limit''
      else if \<not> lm_requires_approval l \<and> lm_max_amount l = None \<and> lm_daily_limit l = None
        then bad (''An application that disburses without approval needs a limit. '' @
            ''Set max_amount or daily_limit, or keep requires_approval on.'')
          ''requires_approval'' ''needs a limit when turned off''
      else Inr ())"

definition handle_get_payout_limits :: "request \<Rightarrow> ('g, response) routine" where
  "handle_get_payout_limits rq = respond payout_missing rq (limits_for (rq_param rq ''applicationID''))
     (\<lambda>l. write_json 200 (JObj (limits_map l)))"

definition handle_set_payout_limits :: "'g api_env \<Rightarrow> principal \<Rightarrow> request \<Rightarrow> payout_limits_request decoded \<Rightarrow> ('g, response) routine" where
  "handle_set_payout_limits ev p rq body = with_body (\<lambda>a. fail payout_missing rq (Typed a)) rq body (\<lambda>b.
     let i = rq_param rq ''applicationID'' in
     then_do payout_missing rq (limits_for i) (\<lambda>current.
       let next = changed_limits b current in
       case validate_limits next of
         Inl a \<Rightarrow> succeed (fail payout_missing rq (Typed a))
       | Inr _ \<Rightarrow> then_do payout_missing rq (set_limits i next) (\<lambda>_.
           audited ev p rq ''payout.limits.updated'' ''application'' i (Some (limits_map next))
             (write_json 200 (JObj (limits_map next))))))"

definition handle_gateway_balance :: "'g api_env \<Rightarrow> request \<Rightarrow> ('g, response) routine" where
  "handle_gateway_balance ev rq = respond generic_missing rq (payout_balance (ev_disbursement ev) (rq_param rq ''accountID''))
     (\<lambda>b. write_json 200 (JObj [(''amount'', JNum (bl_amount b)), (''currency'', JStr (bl_currency b))]))"

definition handle_admin_verify_beneficiary :: "'g api_env \<Rightarrow> principal \<Rightarrow> request \<Rightarrow> ('g, response) routine" where
  "handle_admin_verify_beneficiary ev p rq =
     (let i = rq_param rq ''applicationID'' in
      then_do application_missing rq (get_application i) (\<lambda>app.
      answer beneficiary_missing rq (
        bindE (payout_account app) (\<lambda>a.
        bindE (in_domain (verify_beneficiary (ev_disbursement ev) i (rq_param rq ''beneficiaryID'') (acc_id a))) (\<lambda>b.
        bindE (in_domain (audit ev p rq ''beneficiary.verified'' ''beneficiary'' (bn_id b)
          (Some [(''account'', JStr (bn_account b)), (''bank'', JStr (bn_bank b)),
             (''name_at_bank'', JStr (bn_verified_name b)), (''name_on_file'', JStr (bn_name b))]))) (\<lambda>_.
        succeed (ok_beneficiary ev b)))))))"

definition handle_admin_list_beneficiaries :: "'g api_env \<Rightarrow> request \<Rightarrow> ('g, response) routine" where
  "handle_admin_list_beneficiaries ev rq = respond payout_missing rq
     (list_beneficiaries (rq_param rq ''applicationID'') (page_from_request rq))
     (\<lambda>l. write_json 200 (write_listing (beneficiary_json (ev_times ev)) l))"

subsection \<open>Health\<close>

definition handle_health :: "string \<Rightarrow> ('g, response) routine" where
  "handle_health version = succeed (write_json 200 (JObj [(''status'', JStr ''ok''), (''version'', JStr version)]))"

text \<open>Whether the ping of the database came back is an argument.\<close>

definition handle_ready :: "bool \<Rightarrow> ('g, response) routine" where
  "handle_ready reachable = succeed (
     if reachable then write_json 200 (JObj [(''status'', JStr ''ready''), (''checks'', JObj [(''database'', JStr ''ok'')])])
     else write_json 503 (JObj [(''status'', JStr ''not_ready''), (''checks'', JObj [(''database'', JStr ''unavailable'')])]))"

subsection \<open>Limits stay guarded\<close>

text \<open>An application that may disburse without a person approving has a ceiling, and its ceilings
  are positive and in order.\<close>

definition guarded_limits :: "application \<Rightarrow> bool" where
  "guarded_limits a \<longleftrightarrow> (app_payout_enabled a \<longrightarrow>
     (app_payout_requires_approval a \<or> app_payout_max_amount a \<noteq> None \<or> app_payout_daily_limit a \<noteq> None) \<and>
     limit_positive (app_payout_max_amount a) \<and> limit_positive (app_payout_daily_limit a) \<and>
     (\<forall>m d. app_payout_max_amount a = Some m \<and> app_payout_daily_limit a = Some d \<longrightarrow> m \<le> d))"

definition all_guarded :: "db \<Rightarrow> bool" where
  "all_guarded d \<longleftrightarrow> (\<forall>a \<in> set (applications d). guarded_limits a)"

interpretation guarded: db_evolution "\<lambda>d e. all_guarded d \<longrightarrow> all_guarded e"
  by unfold_locales auto

lemma guarded_same: "applications e = applications d \<Longrightarrow> all_guarded d \<longrightarrow> all_guarded e"
  by (simp add: all_guarded_def)

lemma validate_limits_guards:
  "validate_limits l = Inr () \<Longrightarrow> guarded_limits (with_limits l t a)"
  by (auto simp: validate_limits_def guarded_limits_def with_limits_def limit_positive_def Let_def split: if_splits option.splits)

lemma guarded_set_limits: "validate_limits l = Inr () \<Longrightarrow> guarded.safe (set_limits i l)"
  unfolding set_limits_def
  by (intro guarded.safe_intros guarded.safe_update_checked) (auto simp: all_guarded_def validate_limits_guards)

interpretation apps: db_evolution "\<lambda>d e. applications e = applications d"
  by unfold_locales simp_all

lemma apps_audit: "apps.safe (audit ev p rq a b c m)"
  unfolding audit_def try_record_def record_audit_def
  by (intro apps.safe_intros apps.safe_insert_checked) simp

lemma guarded_apps: "apps.safe m \<Longrightarrow> guarded.safe m"
  by (rule guarded.safe_weaken[OF apps.db_evolution_axioms]) (simp_all add: guarded_same)

lemma guarded_update: "guarded.safe (update_application i u)"
proof -
  have "guarded_limits (updated_application u t a) = guarded_limits a" for t a
    by (simp add: updated_application_def guarded_limits_def)
  then show ?thesis
    unfolding update_application_def
    by (intro guarded.safe_intros guarded.safe_run_stmt) (auto simp: all_guarded_def Let_def split: if_splits)
qed

lemma guarded_create:
  assumes "\<not> app_payout_enabled a" shows "guarded.safe (create_application a)"
  using assms unfolding create_application_def
  by (intro guarded.safe_intros guarded.safe_run_stmt)
    (auto simp: all_guarded_def guarded_limits_def Let_def split: if_splits option.splits)

lemma guarded_slug: "guarded.safe m \<Longrightarrow> guarded.safe (slug_taken m)"
  unfolding slug_taken_def by (intro guarded.safe_intros)

lemmas shapes = body_or_fail_def with_body_def then_do_def audited_def respond_def refused_def

lemma guarded_handlers:
  "guarded.safe (handle_create_application ev p rq ca)" "guarded.safe (handle_update_application ev p rq ua)"
  "guarded.safe (handle_set_payout_limits ev p rq lr)" "guarded.safe (account_delete i)"
proof -
  have known: "guarded.safe (limits_for i)" for i
    unfolding limits_for_def by (intro guarded.safe_intros)
  have "guarded.safe (service_create_application b)" for b
    unfolding service_create_application_def Let_def
    by (intro guarded.safe_intros guarded_slug guarded_create) (simp add: zero_application_def)
  then show "guarded.safe (handle_create_application ev p rq ca)"
    unfolding handle_create_application_def shapes
    by (intro guarded.safe_intros guarded_apps[OF apps_audit])
  have "guarded.safe (service_update_application i b)" for i b
    unfolding service_update_application_def
    by (intro guarded.safe_intros guarded_slug guarded_update)
  then show "guarded.safe (handle_update_application ev p rq ua)"
    unfolding handle_update_application_def shapes
    by (intro guarded.safe_intros guarded_apps[OF apps_audit])
  show "guarded.safe (handle_set_payout_limits ev p rq lr)"
    unfolding handle_set_payout_limits_def shapes Let_def
    by (intro guarded.safe_intros known guarded_set_limits guarded_apps[OF apps_audit]) simp
  show "guarded.safe (account_delete i)"
    unfolding account_delete_def
    by (intro guarded.safe_intros guarded.safe_run_stmt) (auto simp: all_guarded_def guarded_limits_def split: if_splits)
qed

text \<open>Whatever changes the applications: the handlers of the dashboard, the write of a handler whose
  read came before another's write, the removal of a gateway account; and everything else.\<close>

inductive limits_step :: "'g world \<Rightarrow> 'g world \<Rightarrow> bool" where
  create: "limits_step w (snd (handle_create_application ev p rq ca w))"
| update: "limits_step w (snd (handle_update_application ev p rq ua w))"
| set_payout: "limits_step w (snd (handle_set_payout_limits ev p rq lr w))"
| late_write: "validate_limits l = Inr () \<Longrightarrow> limits_step w (snd (set_limits i l w))"
| account_removed: "limits_step w (snd (account_delete i w))"
| elsewhere: "applications (db v) = applications (db w) \<Longrightarrow> limits_step w v"

text \<open>C28. No application is ever left able to disburse unattended without a ceiling: from any state
  in which every application with payouts on has approval on or a limit, its limits positive and the
  single one within the daily one, whatever the dashboard is asked to do, in whatever order, with
  any interleaving of the changes of limits and whichever statements fail, the same holds.\<close>

theorem limits_stay_guarded:
  assumes "all_guarded (db w)" "limits_step\<^sup>*\<^sup>* w v"
  shows "all_guarded (db v)"
  using assms(2,1)
proof induction
  case (step u v)
  have held: "all_guarded (db u)" using step.IH step.prems .
  from step.hyps(2) show ?case
  proof cases
    case (create ev p rq ca)
    then show ?thesis using guarded.safe_db[OF guarded_handlers(1), where w = u] held by simp
  next
    case (update ev p rq ua)
    then show ?thesis using guarded.safe_db[OF guarded_handlers(2), where w = u] held by simp
  next
    case (set_payout ev p rq lr)
    then show ?thesis using guarded.safe_db[OF guarded_handlers(3), where w = u] held by simp
  next
    case (late_write l i)
    then show ?thesis using guarded.safe_db[OF guarded_set_limits, where w = u] held by simp
  next
    case (account_removed i)
    then show ?thesis using guarded.safe_db[OF guarded_handlers(4), where w = u] held by simp
  next
    case elsewhere
    then show ?thesis using held by (simp add: all_guarded_def)
  qed
qed

definition sample_limits :: "int option \<Rightarrow> payout_limits_request decoded" where
  "sample_limits n = Decoded \<lparr>lr_enabled = Some True, lr_requires_approval = Some False, lr_max_amount = n,
     lr_daily_limit = None, lr_clear_max_amount = False, lr_clear_daily_limit = False\<rparr> True"

definition sample_patch :: "int option \<Rightarrow> (string list, response) routine" where
  "sample_patch n = handle_set_payout_limits sample_env nobody
     ((sample_request [])\<lparr>rq_param := (\<lambda>_. ''app_1'')\<rparr>) (sample_limits n)"

definition one_application :: "string list world" where
  "one_application = quiet_world (empty_db\<lparr>applications := [zero_application\<lparr>app_id := ''app_1''\<rparr>]\<rparr>) []"

theorem limits_stay_guarded_witness:
  "rs_status (projr (fst (sample_patch None one_application))) = 400 \<and>
   rs_status (projr (fst (sample_patch (Some 50000) one_application))) = 200 \<and>
   map app_payout_enabled (applications (db (snd (sample_patch (Some 50000) one_application)))) = [True] \<and>
   all_guarded (db (snd (sample_patch (Some 50000) one_application)))"
proof -
  have "all_guarded (db one_application)"
    by (simp add: one_application_def all_guarded_def guarded_limits_def zero_application_def)
  moreover have "limits_step\<^sup>*\<^sup>* one_application (snd (sample_patch (Some 50000) one_application))"
    unfolding sample_patch_def by (intro r_into_rtranclp limits_step.set_payout)
  ultimately have "all_guarded (db (snd (sample_patch (Some 50000) one_application)))"
    by (rule limits_stay_guarded)
  moreover have "rs_status (projr (fst (sample_patch None one_application))) = 400" by code_simp
  moreover have "rs_status (projr (fst (sample_patch (Some 50000) one_application))) = 200 \<and>
      map app_payout_enabled (applications (db (snd (sample_patch (Some 50000) one_application)))) = [True]" by code_simp
  ultimately show ?thesis by blast
qed

end
