(* ===== verification/Server.thy ===== *)
theory Server
  imports Admin
begin

text \<open>
  \<open>internal/api/server.go\<close>: which handler answers which route, behind which authentication. The
  router, \<open>chi\<close>, is third-party code: a request comes with the route it matched, below the prefix
  of its group, and the parameters of the path; whether a request that matches none was taken into a
  router mounted behind the authentication of the dashboard is \<open>chi\<close>'s to say, an argument. The
  outcome of the rate limiter, \<open>Http.limit_request\<close>, is an argument, and so is what
  \<open>encoding/json\<close> made of the body for the type a handler asks for.
\<close>

record bodies =
  bd_create_payment :: "create_payment_body decoded"
  bd_create_refund :: "create_refund_body decoded"
  bd_create_subscription :: "create_subscription_body decoded"
  bd_update_subscription :: "update_subscription_request decoded"
  bd_create_payout :: "create_payout_body decoded"
  bd_beneficiary :: "beneficiary_body decoded"
  bd_update_beneficiary :: "beneficiary_update decoded"
  bd_login :: "login_request decoded"
  bd_change_password :: "change_password_request decoded"
  bd_create_admin :: "create_admin_request decoded"
  bd_create_application :: "create_application_input decoded"
  bd_update_application :: "application_update decoded"
  bd_create_api_key :: "create_api_key_request decoded"
  bd_create_destination :: "create_destination_input decoded"
  bd_update_destination :: "update_destination_request decoded"
  bd_payout_limits :: "payout_limits_request decoded"
  bd_reject_payout :: "string decoded"
  bd_create_account :: "create_account_request decoded"
  bd_update_account :: "update_account_request decoded"

type_synonym 'g routes = "((string \<times> string) \<times> ('g, response) routine) list"

definition not_found_route :: "request \<Rightarrow> response" where
  "not_found_route rq = fail_with rq (Typed (err_not_found code_not_found ''The requested resource was not found.''))"

definition wrong_method :: "request \<Rightarrow> response" where
  "wrong_method rq = fail_with rq (Typed (new_error 405 code_invalid_request ''That method is not allowed on this resource.''))"

definition unmatched :: "((string \<times> string) \<times> 'h) list \<Rightarrow> request \<Rightarrow> string \<Rightarrow> response" where
  "unmatched routes rq route =
     (if list_ex (\<lambda>((m, pattern), h). pattern = route) routes then wrong_method rq else not_found_route rq)"

definition dispatch :: "'g routes \<Rightarrow> request \<Rightarrow> string \<Rightarrow> ('g, response) routine" where
  "dispatch routes rq route = (case map_of routes (rq_method rq, route) of
     Some handler \<Rightarrow> handler
   | None \<Rightarrow> succeed (unmatched routes rq route))"

subsection \<open>The API of applications\<close>

definition application_routes ::
  "'g api_env \<Rightarrow> bodies \<Rightarrow> principal \<Rightarrow> application \<Rightarrow> api_key \<Rightarrow> request \<Rightarrow> 'g routes" where
  "application_routes ev bd p a k rq = [
     ((''POST'', ''/payments''), handle_create_payment ev a k rq (bd_create_payment bd)),
     ((''GET'', ''/payments''), handle_list_payments ev a rq),
     ((''GET'', ''/payments/{paymentID}''), handle_get_payment ev a rq),
     ((''POST'', ''/payments/{paymentID}/sync''), handle_sync_payment ev p rq),
     ((''POST'', ''/payments/{paymentID}/cancel''), handle_cancel_payment ev p rq),
     ((''POST'', ''/payments/{paymentID}/expire''), handle_expire_payment ev p rq),
     ((''POST'', ''/payments/{paymentID}/snap/cancel''), handle_cancel_snap_session ev p rq),
     ((''POST'', ''/payments/{paymentID}/refunds''), handle_create_refund ev p rq (bd_create_refund bd)),
     ((''GET'', ''/payments/{paymentID}/refunds''), handle_list_refunds ev p rq),
     ((''POST'', ''/subscriptions''), handle_create_subscription ev a rq (bd_create_subscription bd)),
     ((''GET'', ''/subscriptions''), handle_list_subscriptions ev p rq),
     ((''GET'', ''/subscriptions/{subscriptionID}''), handle_get_subscription ev p rq),
     ((''PATCH'', ''/subscriptions/{subscriptionID}''), handle_update_subscription ev p rq (bd_update_subscription bd)),
     ((''POST'', ''/subscriptions/{subscriptionID}/sync''), handle_sync_subscription ev p rq),
     ((''POST'', ''/subscriptions/{subscriptionID}/enable''), handle_enable_subscription ev p rq),
     ((''POST'', ''/subscriptions/{subscriptionID}/disable''), handle_disable_subscription ev p rq),
     ((''POST'', ''/subscriptions/{subscriptionID}/cancel''), handle_cancel_subscription ev p rq),
     ((''POST'', ''/payouts''), handle_create_payout ev a k rq (bd_create_payout bd)),
     ((''GET'', ''/payouts''), handle_list_payouts ev a rq),
     ((''GET'', ''/payouts/{payoutID}''), handle_get_payout ev a rq),
     ((''GET'', ''/payout-banks''), handle_list_payout_banks ev a rq),
     ((''POST'', ''/beneficiaries''), handle_create_beneficiary ev a rq (bd_beneficiary bd)),
     ((''GET'', ''/beneficiaries''), handle_list_beneficiaries ev a rq),
     ((''GET'', ''/beneficiaries/{beneficiaryID}''), handle_get_beneficiary ev a rq),
     ((''PATCH'', ''/beneficiaries/{beneficiaryID}''), handle_update_beneficiary ev a rq (bd_update_beneficiary bd)),
     ((''POST'', ''/beneficiaries/{beneficiaryID}/verify''), handle_verify_beneficiary ev a rq),
     ((''DELETE'', ''/beneficiaries/{beneficiaryID}''), handle_delete_beneficiary ev a rq),
     ((''GET'', ''/refunds''), handle_list_application_refunds ev a rq),
     ((''GET'', ''/events''), handle_list_application_events ev a rq),
     ((''GET'', ''/deliveries''), handle_list_application_deliveries ev a rq),
     ((''POST'', ''/deliveries/{deliveryID}/retry''), handle_retry_delivery ev p rq),
     ((''GET'', ''/gateway/capabilities''), handle_capabilities ev rq)]"

text \<open>The limiter runs after the authentication, so that it counts for the key.\<close>

definition serve_application ::
  "'g api_env \<Rightarrow> (principal \<Rightarrow> response option) \<Rightarrow> bodies \<Rightarrow> request \<Rightarrow> string \<Rightarrow> ('g, response) routine" where
  "serve_application ev limited bd rq route = require_application ev rq (\<lambda>p. case limited p of
     Some r \<Rightarrow> succeed r
   | None \<Rightarrow> (case (pr_application p, pr_api_key p) of
       (Some a, Some k) \<Rightarrow> dispatch (application_routes ev bd p a k rq) rq route
     | _ \<Rightarrow> succeed (recovered rq)))"

subsection \<open>The API of the dashboard\<close>

definition admin_routes ::
  "'g api_env \<Rightarrow> durations \<Rightarrow> bodies \<Rightarrow> request \<Rightarrow> ((string \<times> string) \<times> (principal \<Rightarrow> ('g, response) routine)) list" where
  "admin_routes ev du bd rq = [
     ((''GET'', ''/auth/me''), \<lambda>p. handle_current_admin ev p rq),
     ((''POST'', ''/auth/password''), \<lambda>p. handle_change_password ev p rq (bd_change_password bd)),
     ((''GET'', ''/overview''), \<lambda>p. handle_admin_overview ev du rq),
     ((''GET'', ''/admins''), \<lambda>p. handle_list_admins ev rq),
     ((''POST'', ''/admins''), \<lambda>p. handle_create_admin ev p rq (bd_create_admin bd)),
     ((''GET'', ''/applications''), \<lambda>p. handle_list_applications ev rq),
     ((''POST'', ''/applications''), \<lambda>p. handle_create_application ev p rq (bd_create_application bd)),
     ((''GET'', ''/applications/{applicationID}''), \<lambda>p. handle_get_application ev rq),
     ((''PATCH'', ''/applications/{applicationID}''), \<lambda>p. handle_update_application ev p rq (bd_update_application bd)),
     ((''GET'', ''/applications/{applicationID}/keys''), \<lambda>p. handle_list_api_keys ev rq),
     ((''POST'', ''/applications/{applicationID}/keys''), \<lambda>p. handle_create_api_key ev p rq (bd_create_api_key bd)),
     ((''POST'', ''/applications/{applicationID}/keys/{keyID}/revoke''), \<lambda>p. handle_revoke_api_key ev p rq),
     ((''GET'', ''/applications/{applicationID}/destinations''), \<lambda>p. handle_list_destinations ev rq),
     ((''POST'', ''/applications/{applicationID}/destinations''), \<lambda>p. handle_create_destination ev p rq (bd_create_destination bd)),
     ((''PATCH'', ''/applications/{applicationID}/destinations/{destinationID}''), \<lambda>p. handle_update_destination ev p rq (bd_update_destination bd)),
     ((''DELETE'', ''/applications/{applicationID}/destinations/{destinationID}''), \<lambda>p. handle_delete_destination ev p rq),
     ((''POST'', ''/applications/{applicationID}/destinations/{destinationID}/rotate-secret''), \<lambda>p. handle_rotate_destination_secret ev p rq),
     ((''GET'', ''/applications/{applicationID}/payout-limits''), \<lambda>p. handle_get_payout_limits rq),
     ((''PATCH'', ''/applications/{applicationID}/payout-limits''), \<lambda>p. handle_set_payout_limits ev p rq (bd_payout_limits bd)),
     ((''GET'', ''/applications/{applicationID}/beneficiaries''), \<lambda>p. handle_admin_list_beneficiaries ev rq),
     ((''POST'', ''/applications/{applicationID}/beneficiaries/{beneficiaryID}/verify''), \<lambda>p. handle_admin_verify_beneficiary ev p rq),
     ((''GET'', ''/payments''), \<lambda>p. handle_admin_list_payments ev rq),
     ((''GET'', ''/payments/{paymentID}''), \<lambda>p. handle_admin_get_payment ev rq),
     ((''POST'', ''/payments/{paymentID}/sync''), \<lambda>p. handle_admin_sync_payment ev p rq),
     ((''POST'', ''/payments/{paymentID}/cancel''), \<lambda>p. handle_admin_cancel_payment ev p rq),
     ((''POST'', ''/payments/{paymentID}/expire''), \<lambda>p. handle_admin_expire_payment ev p rq),
     ((''POST'', ''/payments/{paymentID}/refunds''), \<lambda>p. handle_create_refund ev p rq (bd_create_refund bd)),
     ((''GET'', ''/payments/{paymentID}/refunds''), \<lambda>p. handle_list_refunds ev p rq),
     ((''GET'', ''/payouts''), \<lambda>p. handle_admin_list_payouts ev rq),
     ((''GET'', ''/payouts/{payoutID}''), \<lambda>p. handle_admin_get_payout ev rq),
     ((''POST'', ''/payouts/{payoutID}/approve''), \<lambda>p. handle_approve_payout ev p rq),
     ((''POST'', ''/payouts/{payoutID}/reject''), \<lambda>p. handle_reject_payout ev p rq (bd_reject_payout bd)),
     ((''POST'', ''/payouts/{payoutID}/sync''), \<lambda>p. handle_sync_payout ev rq),
     ((''GET'', ''/refunds''), \<lambda>p. handle_admin_list_refunds ev rq),
     ((''GET'', ''/events''), \<lambda>p. handle_admin_list_events ev rq),
     ((''GET'', ''/events/{eventID}''), \<lambda>p. handle_admin_get_event ev rq),
     ((''GET'', ''/deliveries''), \<lambda>p. handle_admin_list_deliveries ev rq),
     ((''GET'', ''/deliveries/{deliveryID}''), \<lambda>p. handle_admin_get_delivery ev rq),
     ((''POST'', ''/deliveries/{deliveryID}/retry''), \<lambda>p. handle_retry_delivery ev p rq),
     ((''GET'', ''/subscriptions''), \<lambda>p. handle_list_subscriptions ev p rq),
     ((''GET'', ''/subscriptions/{subscriptionID}''), \<lambda>p. handle_get_subscription ev p rq),
     ((''POST'', ''/subscriptions/{subscriptionID}/sync''), \<lambda>p. handle_sync_subscription ev p rq),
     ((''POST'', ''/subscriptions/{subscriptionID}/enable''), \<lambda>p. handle_enable_subscription ev p rq),
     ((''POST'', ''/subscriptions/{subscriptionID}/disable''), \<lambda>p. handle_disable_subscription ev p rq),
     ((''POST'', ''/subscriptions/{subscriptionID}/cancel''), \<lambda>p. handle_cancel_subscription ev p rq),
     ((''GET'', ''/gateway-events''), \<lambda>p. handle_admin_list_gateway_events ev rq),
     ((''GET'', ''/gateways''), \<lambda>p. handle_list_gateways ev),
     ((''GET'', ''/gateways/accounts''), \<lambda>p. handle_list_gateway_accounts ev rq),
     ((''POST'', ''/gateways/accounts''), \<lambda>p. handle_create_gateway_account ev p rq (bd_create_account bd)),
     ((''GET'', ''/gateways/accounts/{accountID}''), \<lambda>p. handle_get_gateway_account ev rq),
     ((''PATCH'', ''/gateways/accounts/{accountID}''), \<lambda>p. handle_update_gateway_account ev p rq (bd_update_account bd)),
     ((''DELETE'', ''/gateways/accounts/{accountID}''), \<lambda>p. handle_delete_gateway_account ev p rq),
     ((''POST'', ''/gateways/accounts/{accountID}/test''), \<lambda>p. handle_test_gateway_account ev p rq),
     ((''GET'', ''/gateways/accounts/{accountID}/balance''), \<lambda>p. handle_gateway_balance ev rq)]"

text \<open>Signing in and out need no session; signing in is rate limited by address.\<close>

definition sign_in_routes :: "'g api_env \<Rightarrow> response option \<Rightarrow> bodies \<Rightarrow> request \<Rightarrow> 'g routes" where
  "sign_in_routes ev limited bd rq = [
     ((''POST'', ''/auth/login''), case limited of Some r \<Rightarrow> succeed r | None \<Rightarrow> handle_login ev rq (bd_login bd)),
     ((''POST'', ''/auth/logout''), handle_logout ev rq)]"

definition dashboard_routes ::
  "'g api_env \<Rightarrow> durations \<Rightarrow> response option \<Rightarrow> bodies \<Rightarrow> request \<Rightarrow> 'g routes" where
  "dashboard_routes ev du limited bd rq =
     sign_in_routes ev limited bd rq @ map (apsnd (require_admin ev rq)) (admin_routes ev du bd rq)"

definition serve_admin ::
  "'g api_env \<Rightarrow> durations \<Rightarrow> response option \<Rightarrow> bool \<Rightarrow> bodies \<Rightarrow> request \<Rightarrow> string \<Rightarrow> ('g, response) routine" where
  "serve_admin ev du limited mounted bd rq route =
     (let routes = dashboard_routes ev du limited bd rq in
      if mounted \<and> map_of routes (rq_method rq, route) = None
        then require_admin ev rq (\<lambda>p. succeed (unmatched routes rq route))
      else dispatch routes rq route)"

subsection \<open>The whole server\<close>

text \<open>What runs around every handler, given the identifier a fresh draw would mint: a preflight
  request is answered before any of them.\<close>

definition in_middleware ::
  "string list \<Rightarrow> string \<Rightarrow> request \<Rightarrow> (request \<Rightarrow> ('g, response) routine) \<Rightarrow> ('g, response) routine" where
  "in_middleware origins fresh rq handler =
     (let id = request_id rq fresh in
      bindE (if rq_method rq = ''OPTIONS'' then succeed no_content else handler (rq\<lparr>rq_id := id\<rparr>)) (\<lambda>r.
        succeed (r\<lparr>rs_headers := (''X-Request-Id'', id) # secure_headers @ cors_headers origins rq @ rs_headers r\<rparr>)))"

subsection \<open>Only the authenticated are served\<close>

text \<open>Whose key a request carries, and whose session, by the tables.\<close>

definition key_bearer :: "'g api_env \<Rightarrow> request \<Rightarrow> 'g world \<Rightarrow> (application \<times> api_key) option" where
  "key_bearer ev rq w = (case bearer_token rq of None \<Rightarrow> None
   | Some key \<Rightarrow> (case authenticated_key (ev_hash_key ev key) (db w) of
       Some (a, k) \<Rightarrow> if key_usable (now w) k \<and> application_active a then Some (a, k) else None
     | None \<Rightarrow> None))"

definition session_bearer :: "'g api_env \<Rightarrow> request \<Rightarrow> 'g world \<Rightarrow> admin option" where
  "session_bearer ev rq w =
     (let token = coalesce (rq_cookie rq session_cookie_name) [] in
      if token = [] then None
      else case session_of (au_hash (ev_auth ev) token) (db w) of
        Some (s, a) \<Rightarrow> if session_valid (now w) s \<and> admin_active a then Some a else None
      | None \<Rightarrow> None)"

lemma query_row_still: "query_row f w = (r, v) \<Longrightarrow> still_rel w v"
  by (rule still_Inr[OF still_query_row])

lemma authenticate_cases:
  assumes "authenticate hash key w = (r, v)"
  obtains (refused) e where "r = Inl e" "db v = db w" "ext v = ext w"
  | (admitted) a k where "r = Inr (a, k)" "authenticated_key (hash key) (db w) = Some (a, k)"
      "key_usable (now w) k" "application_active a"
proof (cases "parse_api_key_mode key")
  case (Inl e)
  then show thesis using assms refused[of err_key_not_usable] by (simp add: authenticate_def throw_def)
next
  case (Inr m)
  obtain q u where q: "query_row (authenticated_key (hash key)) w = (q, u)" by fastforce
  have u: "db u = db w" "ext u = ext w" "now u = now w"
    using query_row_still[OF q] by (simp_all add: still_rel_def)
  show thesis
  proof (cases q)
    case (Inl e)
    then have "\<exists>e'. r = Inl e'" "v = u"
      using assms Inr by (auto simp: authenticate_def authenticate_api_key_def catchE_def q throw_def split: if_splits)
    then show thesis using refused u by blast
  next
    case (Inr x)
    obtain a k where x: "x = (a, k)" by fastforce
    have found: "authenticated_key (hash key) (db w) = Some (a, k)"
      using query_row_Inr[OF q[unfolded Inr x]] by simp
    show thesis
    proof (cases "key_usable (now u) k \<and> application_active a")
      case True
      obtain z where "ignore_error (touch_api_key_used (ak_id k)) u = (Inr (), z)"
        by (metis ignore_error_ok prod.collapse)
      then have "r = Inr (a, k)"
        using assms True \<open>parse_api_key_mode key = Inr m\<close> Inr x
        by (simp add: authenticate_def authenticate_api_key_def catchE_def q bindE_run gets_def succeed_def)
      then show thesis using admitted found True u by simp
    next
      case False
      then have "\<exists>e'. r = Inl e'" "v = u"
        using assms \<open>parse_api_key_mode key = Inr m\<close> Inr x
        by (auto simp: authenticate_def authenticate_api_key_def catchE_def q bindE_run gets_def throw_def split: if_splits)
      then show thesis using refused u by blast
    qed
  qed
qed

lemma session_cases:
  assumes "authenticate_session c token w = (r, v)"
  obtains (refused) e where "r = Inl e" "db v = db w" "ext v = ext w"
  | (admitted) a s where "r = Inr (a, s)" "session_of (au_hash c token) (db w) = Some (s, a)"
      "session_valid (now w) s" "admin_active a" "token \<noteq> []"
proof (cases "token = []")
  case True
  then show thesis using assms refused[of SessionInvalid] by (simp add: authenticate_session_def throw_def)
next
  case False
  obtain q u where q: "query_row (session_of (au_hash c token)) w = (q, u)" by fastforce
  have u: "db u = db w" "ext u = ext w" "now u = now w"
    using query_row_still[OF q] by (simp_all add: still_rel_def)
  note run = authenticate_session_def session_with_admin_def catchE_def q bindE_run gets_def throw_def succeed_def
  show thesis
  proof (cases q)
    case (Inl e)
    then have "\<exists>e'. r = Inl e'" "v = u" using assms False by (auto simp: run split: if_splits)
    then show thesis using refused u by blast
  next
    case (Inr x)
    obtain s a where x: "x = (s, a)" by fastforce
    have found: "session_of (au_hash c token) (db w) = Some (s, a)"
      using query_row_Inr[OF q[unfolded Inr x]] by simp
    show thesis
    proof (cases "session_valid (now u) s \<and> admin_active a")
      case True
      then have "r = Inr (a, s)" using assms False Inr x by (simp add: run)
      then show thesis using admitted found True u False by simp
    next
      case ended: False
      then have "\<exists>e'. r = Inl e'" "v = u" using assms False Inr x by (auto simp: run split: if_splits)
      then show thesis using refused u by blast
    qed
  qed
qed

lemma failed_status: "rs_status (fail_with rq (Typed a)) = ap_status a"
  by (simp add: fail_with_def as_error_def write_json_def Let_def)

lemma added_status [simp]: "rs_status (add_header n v r) = rs_status r"
  by (simp add: add_header_def)

lemma strangers_at_application:
  fixes w :: "'g world"
  assumes "key_bearer ev rq w = None"
  shows "rs_status (projr (fst (require_application ev rq h w))) \<in> {401, 403, 500} \<and>
    db (snd (require_application ev rq h w)) = db w \<and> ext (snd (require_application ev rq h w)) = ext w"
proof (cases "bearer_token rq")
  case None
  then show ?thesis by (simp add: require_application_def succeed_def failed_status)
next
  case (Some key)
  obtain r v where run: "authenticate (ev_hash_key ev) key w = (r, v)" by fastforce
  then show ?thesis
  proof (cases rule: authenticate_cases)
    case (refused e)
    then show ?thesis using run Some
      by (simp add: require_application_def catchE_def succeed_def failed_status)
  next
    case (admitted a k)
    then show ?thesis using assms Some by (simp add: key_bearer_def)
  qed
qed

lemma strangers_at_dashboard:
  fixes w :: "'g world"
  assumes "session_bearer ev rq w = None"
  shows "rs_status (projr (fst (require_admin ev rq h w))) \<in> {401, 500} \<and>
    db (snd (require_admin ev rq h w)) = db w \<and> ext (snd (require_admin ev rq h w)) = ext w"
proof (cases "coalesce (rq_cookie rq session_cookie_name) [] = []")
  case True
  then show ?thesis by (simp add: require_admin_def succeed_def failed_status)
next
  case False
  obtain r v where run: "authenticate_session (ev_auth ev) (coalesce (rq_cookie rq session_cookie_name) []) w = (r, v)" by fastforce
  then show ?thesis
  proof (cases rule: session_cases)
    case (refused e)
    then show ?thesis using run False
      by (simp add: require_admin_def catchE_def succeed_def failed_status clear_session_cookie_def Let_def)
  next
    case (admitted a s)
    then show ?thesis using assms False by (simp add: session_bearer_def Let_def)
  qed
qed

lemma unmatched_status: "rs_status (unmatched routes rq route) \<in> {404, 405}"
  by (simp add: unmatched_def wrong_method_def not_found_route_def failed_status new_error_def err_not_found_def)

lemma map_of_apsnd: "map_of (map (apsnd f) xs) k = map_option f (map_of xs k)"
  by (induction xs) (auto simp: apsnd_def)

lemma dashboard_route:
  assumes "route \<notin> {''/auth/login'', ''/auth/logout''}"
  shows "map_of (dashboard_routes ev du limited bd rq) (m, route) =
    map_option (require_admin ev rq) (map_of (admin_routes ev du bd rq) (m, route))"
  using assms by (simp add: dashboard_routes_def sign_in_routes_def map_add_def map_of_apsnd split: option.split)

text \<open>Whether the body of a sign-in names an active administrator with the password.\<close>

definition signs_in :: "'g api_env \<Rightarrow> bodies \<Rightarrow> request \<Rightarrow> db \<Rightarrow> bool" where
  "signs_in ev bd rq d = (case decode_json rq (bd_login bd) of Inl _ \<Rightarrow> False
   | Inr b \<Rightarrow> (case List.find (\<lambda>a. to_lower (adm_email a) = to_lower (trim_space (lq_email b))) (admins d) of
       None \<Rightarrow> False
     | Some a \<Rightarrow> admin_active a \<and> \<not> isl (verify_password (au_idkey (ev_auth ev)) (lq_password b) (adm_password_hash a))))"

lemma failing_status: "rs_status (fail ms rq f) = ap_status (translate ms f)"
  by (simp add: fail_def failed_status)

lemma root_status: "ap_status (translate_root ms e) \<noteq> 200"
  by (cases e) (simp_all add: translate_root_def new_error_def err_not_found_def err_conflict_def err_unauthorized_def
    err_validation_def err_forbidden_def err_internal_def with_field_def invalid_values_def gateway_failure_def)

lemma refusals_are_no_success: "rs_status (fail ms rq (Domain e)) \<noteq> 200"
  using root_status by (auto simp: failing_status translate_def with_cause_def with_field_def err_validation_def
      new_error_def split: option.split)

lemma decode_refusal: "decode_json rq d = Inl a \<Longrightarrow> ap_status a \<noteq> 200"
  by (auto simp: decode_json_def Let_def decode_error_def new_error_def err_invalid_request_def
      split: if_splits decoded.splits bool.splits)

lemma login_refused:
  assumes "login c li w = (r, v)"
    and "\<And>a. List.find (\<lambda>a. to_lower (adm_email a) = to_lower (trim_space (li_email li))) (admins (db w)) = Some a \<Longrightarrow>
      admin_active a \<Longrightarrow> isl (verify_password (au_idkey c) (li_password li) (adm_password_hash a))"
  shows "\<exists>e. r = Inl e" "db v = db w" "ext v = ext w"
proof -
  obtain q u where q: "get_admin_by_email (li_email li) w = (q, u)" by fastforce
  note read = q[unfolded get_admin_by_email_def]
  have "(\<exists>e. r = Inl e) \<and> v = u"
  proof (cases q)
    case (Inl e)
    then show ?thesis using assms(1) by (auto simp: login_def catchE_def q throw_def split: if_splits)
  next
    case (Inr a)
    from assms(2)[OF conjunct1[OF query_row_Inr[OF read[unfolded Inr]]]] show ?thesis
      using assms(1) Inr by (auto simp: login_def catchE_def q throw_def isl_def split: if_splits sum.splits)
  qed
  then show "\<exists>e. r = Inl e" "db v = db w" "ext v = ext w"
    using query_row_still[OF read] by (auto simp: still_rel_def)
qed

lemma strangers_signing_in:
  assumes "\<not> signs_in ev bd rq (db w)"
  shows "rs_status (projr (fst (handle_login ev rq (bd_login bd) w))) \<noteq> 200 \<and>
    db (snd (handle_login ev rq (bd_login bd) w)) = db w \<and> ext (snd (handle_login ev rq (bd_login bd) w)) = ext w"
proof (cases "decode_json rq (bd_login bd)")
  case (Inl a)
  then show ?thesis using decode_refusal[OF Inl]
    by (simp add: handle_login_def body_or_fail_def with_body_def succeed_def failed_status)
next
  case (Inr b)
  let ?li = "\<lparr>li_email = lq_email b, li_password = lq_password b, li_user_agent = rq_header rq ''User-Agent'',
    li_ip_address = client_ip (ev_trust_proxy ev) rq\<rparr>"
  obtain r v where run: "login (ev_auth ev) ?li w = (r, v)" by fastforce
  have "isl (verify_password (au_idkey (ev_auth ev)) (lq_password b) (adm_password_hash a))"
    if "List.find (\<lambda>a. to_lower (adm_email a) = to_lower (trim_space (lq_email b))) (admins (db w)) = Some a" "admin_active a" for a
    using assms that Inr by (simp add: signs_in_def)
  then have "\<exists>e. r = Inl e" "db v = db w" "ext v = ext w" using login_refused[OF run] by simp_all
  then show ?thesis
    using Inr run by (auto simp: handle_login_def body_or_fail_def with_body_def respond_def bindE_run gets_def catchE_def
        succeed_def refusals_are_no_success)
qed

text \<open>Signing out.\<close>

interpretation signing: db_evolution "\<lambda>d e. set_sessions [] e = set_sessions [] d"
  by unfold_locales simp_all

lemma sessions_only:
  fixes w :: "'g world"
  shows "set_sessions [] (db (snd (handle_logout ev rq w))) = set_sessions [] (db w)"
    and "ext (snd (handle_logout ev rq w)) = ext w"
proof -
  have "signing.safe (handle_logout ev rq)"
    unfolding handle_logout_def logout_def revoke_session_def Let_def
    by (intro signing.safe_intros signing.safe_exec) simp
  then show "set_sessions [] (db (snd (handle_logout ev rq w))) = set_sessions [] (db w)"
    by (rule signing.safe_db)
  have "inert.evolves (handle_logout ev rq)"
    unfolding handle_logout_def Let_def by (intro inert_intros inert_auth)
  then show "ext (snd (handle_logout ev rq w)) = ext w" by (simp add: inert.evolves_def inert_rel_def)
qed

lemma unmatched_keeps:
  fixes w :: "'g world"
  assumes "session_bearer ev rq w = None" "map_of (dashboard_routes ev du over bd rq) (rq_method rq, route) = None"
  shows "rs_status (projr (fst (serve_admin ev du over mounted bd rq route w))) \<in> {401, 404, 405, 500} \<and>
    db (snd (serve_admin ev du over mounted bd rq route w)) = db w \<and>
    ext (snd (serve_admin ev du over mounted bd rq route w)) = ext w"
  using strangers_at_dashboard[OF assms(1)] unmatched_status[of "dashboard_routes ev du over bd rq" rq route] assms(2)
  by (cases mounted) (auto simp: serve_admin_def dispatch_def succeed_def Let_def)

lemma sign_in_unmatched:
  assumes "route = ''/auth/login'' \<or> route = ''/auth/logout''" "m \<noteq> ''POST''"
  shows "map_of (dashboard_routes ev du over bd rq) (m, route) = None"
proof -
  have "map_of (admin_routes ev du bd rq) (m, route) = None"
    using assms(1) by (elim disjE) (simp_all add: admin_routes_def)
  then show ?thesis using assms(2) by (simp add: dashboard_routes_def sign_in_routes_def map_add_def map_of_apsnd)
qed

lemma strangers_elsewhere:
  fixes w :: "'g world"
  assumes "session_bearer ev rq w = None" "route \<notin> {''/auth/login'', ''/auth/logout''}"
  shows "rs_status (projr (fst (serve_admin ev du over mounted bd rq route w))) \<in>
      (if map_of (admin_routes ev du bd rq) (rq_method rq, route) = None then {401, 404, 405, 500} else {401, 500}) \<and>
    db (snd (serve_admin ev du over mounted bd rq route w)) = db w \<and>
    ext (snd (serve_admin ev du over mounted bd rq route w)) = ext w"
  using unmatched_keeps[OF assms(1)] strangers_at_dashboard[OF assms(1)]
  by (cases "map_of (admin_routes ev du bd rq) (rq_method rq, route)")
    (simp_all add: dashboard_route[OF assms(2)] serve_admin_def dispatch_def)

lemma strangers_at_sign_in:
  fixes w :: "'g world"
  assumes "session_bearer ev rq w = None" "route = ''/auth/login''" "\<not> signs_in ev bd rq (db w)"
  shows "(over = None \<longrightarrow> rs_status (projr (fst (serve_admin ev du over mounted bd rq route w))) \<noteq> 200) \<and>
    db (snd (serve_admin ev du over mounted bd rq route w)) = db w \<and>
    ext (snd (serve_admin ev du over mounted bd rq route w)) = ext w"
proof (cases "rq_method rq = ''POST''")
  case True
  then have "serve_admin ev du over mounted bd rq route w =
      (case over of Some r \<Rightarrow> succeed r | None \<Rightarrow> handle_login ev rq (bd_login bd)) w"
    using assms(2) by (simp add: serve_admin_def dispatch_def dashboard_routes_def sign_in_routes_def)
  then show ?thesis using strangers_signing_in[OF assms(3)] by (cases over) (simp_all add: succeed_def)
next
  case False
  have "rs_status (projr (fst (serve_admin ev du over mounted bd rq route w))) \<in> {401, 404, 405, 500} \<and>
    db (snd (serve_admin ev du over mounted bd rq route w)) = db w \<and>
    ext (snd (serve_admin ev du over mounted bd rq route w)) = ext w"
    by (rule unmatched_keeps[OF assms(1) sign_in_unmatched[OF disjI1[OF assms(2)] False]])
  then show ?thesis by auto
qed

lemma strangers_at_sign_out:
  fixes w :: "'g world"
  assumes "session_bearer ev rq w = None" "route = ''/auth/logout''"
  shows "set_sessions [] (db (snd (serve_admin ev du over mounted bd rq route w))) = set_sessions [] (db w) \<and>
    ext (snd (serve_admin ev du over mounted bd rq route w)) = ext w"
proof (cases "rq_method rq = ''POST''")
  case True
  then have "serve_admin ev du over mounted bd rq route w = handle_logout ev rq w"
    using assms(2) by (simp add: serve_admin_def dispatch_def dashboard_routes_def sign_in_routes_def)
  then show ?thesis using sessions_only[of ev rq w] by simp
next
  case False
  then show ?thesis
    using unmatched_keeps[OF assms(1) sign_in_unmatched[OF disjI2[OF assms(2)] False]] by metis
qed

text \<open>C36. Only the authenticated are served. A request to the API of applications whose bearer is no
  usable key of an active application is refused with 401, 403 or 500. A request to the dashboard whose
  cookie is no valid session of an active administrator is refused with 401 or 500, or by 404 or 405
  where the dashboard has no such route, unless it is to sign in or out: a sign-in whose body does not
  name an active administrator with the password never succeeds. None of these changes a table or calls
  a gateway, whatever its route and body are, whatever the limiter says and whichever statements fail;
  and a request to sign out changes no table but the sessions.\<close>

theorem strangers_change_nothing:
  fixes w :: "'g world"
  shows "let app = serve_application ev limited bd rq route w; dash = serve_admin ev du over mounted bd rq route w in
    (key_bearer ev rq w = None \<longrightarrow>
      rs_status (projr (fst app)) \<in> {401, 403, 500} \<and> db (snd app) = db w \<and> ext (snd app) = ext w) \<and>
    (session_bearer ev rq w = None \<and> route \<notin> {''/auth/login'', ''/auth/logout''} \<longrightarrow>
      rs_status (projr (fst dash)) \<in>
        (if map_of (admin_routes ev du bd rq) (rq_method rq, route) = None then {401, 404, 405, 500} else {401, 500}) \<and>
      db (snd dash) = db w \<and> ext (snd dash) = ext w) \<and>
    (session_bearer ev rq w = None \<and> route = ''/auth/login'' \<and> \<not> signs_in ev bd rq (db w) \<longrightarrow>
      (over = None \<longrightarrow> rs_status (projr (fst dash)) \<noteq> 200) \<and> db (snd dash) = db w \<and> ext (snd dash) = ext w) \<and>
    (session_bearer ev rq w = None \<and> route = ''/auth/logout'' \<longrightarrow>
      set_sessions [] (db (snd dash)) = set_sessions [] (db w) \<and> ext (snd dash) = ext w)"
  unfolding Let_def
proof (intro conjI[of "_ \<longrightarrow> _"])
  show "key_bearer ev rq w = None \<longrightarrow> rs_status (projr (fst (serve_application ev limited bd rq route w))) \<in> {401, 403, 500} \<and>
      db (snd (serve_application ev limited bd rq route w)) = db w \<and> ext (snd (serve_application ev limited bd rq route w)) = ext w"
    using strangers_at_application[of ev rq w] by (auto simp: serve_application_def)
qed (rule impI, elim conjE, rule strangers_elsewhere strangers_at_sign_in strangers_at_sign_out; assumption)+

definition no_bodies :: bodies where
  "no_bodies = \<lparr>bd_create_payment = BodyEmpty, bd_create_refund = BodyEmpty, bd_create_subscription = BodyEmpty,
     bd_update_subscription = BodyEmpty, bd_create_payout = BodyEmpty, bd_beneficiary = BodyEmpty,
     bd_update_beneficiary = BodyEmpty, bd_login = BodyEmpty, bd_change_password = BodyEmpty, bd_create_admin = BodyEmpty,
     bd_create_application = BodyEmpty, bd_update_application = BodyEmpty, bd_create_api_key = BodyEmpty,
     bd_create_destination = BodyEmpty, bd_update_destination = BodyEmpty, bd_payout_limits = BodyEmpty,
     bd_reject_payout = BodyEmpty, bd_create_account = BodyEmpty, bd_update_account = BodyEmpty\<rparr>"

definition sample_key :: string where "sample_key = ''pmx_live_'' @ replicate 43 CHR ''k''"

definition keyed_shop :: "time option \<Rightarrow> string list world" where
  "keyed_shop revoked = quiet_world (empty_db\<lparr>applications := [zero_application\<lparr>app_id := ''app_1''\<rparr>],
     api_keys := [zero_api_key\<lparr>ak_id := ''key_1'', ak_application_id := ''app_1'', ak_mode := KeyModeLive,
       ak_hash := sample_key, ak_revoked_at := revoked\<rparr>]\<rparr>) []"

definition keyed_request :: request where
  "keyed_request = (sample_request [])\<lparr>rq_method := ''GET'',
     rq_header := (\<lambda>n. if n = ''Authorization'' then ''Bearer '' @ sample_key else [])\<rparr>"

definition list_payments_of :: "time option \<Rightarrow> response \<times> string list world" where
  "list_payments_of revoked =
     (let x = serve_application sample_env (\<lambda>_. None) no_bodies keyed_request ''/payments'' (keyed_shop revoked)
      in (projr (fst x), snd x))"

definition no_durations :: durations where "no_durations = \<lparr>du_parse = (\<lambda>_. None), du_text = (\<lambda>_. [])\<rparr>"

theorem strangers_change_nothing_witness:
  "rs_status (fst (list_payments_of None)) = 200 \<and> rs_status (fst (list_payments_of (Some 0))) \<in> {401, 403, 500} \<and>
   db (snd (list_payments_of (Some 0))) = db (keyed_shop (Some 0)) \<and>
   rs_status (projr (fst (serve_admin sample_env no_durations None True no_bodies (keyed_request\<lparr>rq_method := ''POST''\<rparr>)
     ''/payouts/{payoutID}/approve'' (keyed_shop None)))) \<in> {401, 500}"
proof -
  have stranger: "key_bearer sample_env keyed_request (keyed_shop (Some 0)) = None" by code_simp
  have nobody: "session_bearer sample_env (keyed_request\<lparr>rq_method := ''POST''\<rparr>) (keyed_shop None) = None" by code_simp
  obtain y where routed: "map_of (admin_routes sample_env no_durations no_bodies (keyed_request\<lparr>rq_method := ''POST''\<rparr>))
      (rq_method (keyed_request\<lparr>rq_method := ''POST''\<rparr>), ''/payouts/{payoutID}/approve'') = Some y"
    by (simp add: admin_routes_def)
  have served: "rs_status (fst (list_payments_of None)) = 200" by code_simp
  show ?thesis
    using served stranger nobody routed
      strangers_change_nothing[where ev = sample_env and rq = keyed_request and w = "keyed_shop (Some 0)"
        and limited = "\<lambda>_. None" and bd = no_bodies and route = "''/payments''"]
      strangers_change_nothing[where ev = sample_env and rq = "keyed_request\<lparr>rq_method := ''POST''\<rparr>"
        and w = "keyed_shop None" and bd = no_bodies and route = "''/payouts/{payoutID}/approve''" and du = no_durations
        and over = None and mounted = True]
    by (simp add: list_payments_of_def Let_def)
qed

end
