(* ===== verification/Migrate.thy ===== *)
theory Migrate
  imports Prelude "HOL-Library.Char_ord" "HOL-Library.List_Lexorder"
begin

text \<open>
  \<open>internal/storage/migrate.go\<close>: bringing the schema of the database up to the binary. A schema is
  of any type, and what a file does to it is a parameter, as is the digest of a file. The embedded
  files are pairs of a name and a body. Every statement can fail, and a commit can also take effect
  without its answer being heard. The advisory lock makes the runs of several processes follow one
  another.
\<close>

subsection \<open>The files\<close>

record migration =
  mg_name :: string
  mg_sql :: string
  mg_checksum :: string

type_synonym files = "(string \<times> string) list"

definition sql_file :: "string \<Rightarrow> bool" where
  "sql_file n \<longleftrightarrow> suffix ''.sql'' n \<and> CHR ''/'' \<notin> set n"

definition load_migrations :: "(string \<Rightarrow> string) \<Rightarrow> files \<Rightarrow> migration list" where
  "load_migrations digest fs = map (\<lambda>(name, body). \<lparr>mg_name = name, mg_sql = body, mg_checksum = digest body\<rparr>)
     (sort_key fst (filter (sql_file \<circ> fst) fs))"

definition migration_names :: "(string \<Rightarrow> string) \<Rightarrow> files \<Rightarrow> string list" where
  "migration_names digest fs = map mg_name (load_migrations digest fs)"

fun before_dashes :: "string \<Rightarrow> string" where
  "before_dashes (CHR ''-'' # CHR ''-'' # cs) = []"
| "before_dashes (c # cs) = c # before_dashes cs"
| "before_dashes [] = []"

definition strip_comments :: "string \<Rightarrow> string" where
  "strip_comments s = concat (map (\<lambda>line. before_dashes line @ [CHR 10]) (split_on (CHR 10) s))"

definition statement_count :: "string \<Rightarrow> int" where
  "statement_count sql = int (length (filter (\<lambda>s. trim_space (strip_comments s) \<noteq> []) (split_on (CHR '';'') sql)))"

subsection \<open>The database before and while it gets its schema\<close>

datatype ending = Goes | Fails string | Unheard string

record 's schema_db =
  sd_schema :: 's
  sd_ledger :: "(string \<times> string) list option"
  sd_script :: "ending list"

datatype migrate_error = AcquireFailed string | LockFailed string | TableFailed string | ReadFailed string
  | Modified string string string | BeginFailed string string | ApplyFailed string string
  | RecordFailed string string | CommitFailed string string

definition next_ending :: "'s schema_db \<Rightarrow> ending \<times> 's schema_db" where
  "next_ending s = (case sd_script s of [] \<Rightarrow> (Goes, s) | x # xs \<Rightarrow> (x, s\<lparr>sd_script := xs\<rparr>))"

text \<open>One round trip to the server: it may do nothing and fail, and it may do what it was asked to and
  the answer be lost.\<close>

definition trip :: "(string \<Rightarrow> migrate_error) \<Rightarrow> ('s schema_db, migrate_error, 'a) op \<Rightarrow> ('s schema_db, migrate_error, 'a) op" where
  "trip wrap m s = (case next_ending s of
     (Goes, t) \<Rightarrow> m t
   | (Fails e, t) \<Rightarrow> (Inl (wrap e), t)
   | (Unheard e, t) \<Rightarrow> (Inl (wrap e), snd (m t)))"

definition create_ledger :: "('s schema_db, migrate_error, unit) op" where
  "create_ledger = trip TableFailed (modify (\<lambda>s. s\<lparr>sd_ledger := Some (coalesce (sd_ledger s) [])\<rparr>))"

definition applied_migrations :: "('s schema_db, migrate_error, (string \<times> string) list) op" where
  "applied_migrations = trip ReadFailed (gets (\<lambda>s. coalesce (sd_ledger s) []))"

subsection \<open>Applying\<close>

type_synonym 's sql_engine = "string \<Rightarrow> 's \<Rightarrow> string + 's"

definition run_sql :: "'s sql_engine \<Rightarrow> migration \<Rightarrow> ('s schema_db, migrate_error, unit) op" where
  "run_sql exec m = trip (ApplyFailed (mg_name m)) (\<lambda>s. case exec (mg_sql m) (sd_schema s) of
     Inl e \<Rightarrow> (Inl (ApplyFailed (mg_name m) e), s)
   | Inr x \<Rightarrow> (Inr (), s\<lparr>sd_schema := x\<rparr>))"

definition record_migration :: "migration \<Rightarrow> ('s schema_db, migrate_error, unit) op" where
  "record_migration m = trip (RecordFailed (mg_name m)) (\<lambda>s. let rows = coalesce (sd_ledger s) [] in
     if mg_name m \<in> fst ` set rows then (Inl (RecordFailed (mg_name m) ''duplicate key''), s)
     else (Inr (), s\<lparr>sd_ledger := Some (rows @ [(mg_name m, mg_checksum m)])\<rparr>))"

definition rolled_back :: "'s schema_db \<Rightarrow> 's schema_db \<Rightarrow> 's schema_db" where
  "rolled_back s t = s\<lparr>sd_script := sd_script t\<rparr>"

definition apply_migration :: "'s sql_engine \<Rightarrow> migration \<Rightarrow> ('s schema_db, migrate_error, unit) op" where
  "apply_migration exec m = bindE (trip (BeginFailed (mg_name m)) (succeed ())) (\<lambda>_ s.
     case bindE (run_sql exec m) (\<lambda>_. record_migration m) s of
       (Inl e, t) \<Rightarrow> (Inl e, rolled_back s t)
     | (Inr _, t) \<Rightarrow> (case next_ending t of
         (Goes, u) \<Rightarrow> (Inr (), u)
       | (Fails e, u) \<Rightarrow> (Inl (CommitFailed (mg_name m) e), rolled_back s u)
       | (Unheard e, u) \<Rightarrow> (Inl (CommitFailed (mg_name m) e), u)))"

text \<open>The loop of \<open>Migrate\<close>: an error comes with the names of what has run.\<close>

fun apply_missing ::
  "'s sql_engine \<Rightarrow> (string \<times> string) list \<Rightarrow> string list \<Rightarrow> migration list \<Rightarrow>
   ('s schema_db, string list \<times> migrate_error, string list) op" where
  "apply_missing exec applied names [] = succeed names"
| "apply_missing exec applied names (m # ms) = (case map_of applied (mg_name m) of
     Some existing \<Rightarrow>
       if existing \<noteq> mg_checksum m then throw (names, Modified (mg_name m) (mg_checksum m) existing)
       else apply_missing exec applied names ms
   | None \<Rightarrow> catchE (apply_migration exec m) (\<lambda>e. throw (names, e))
       (\<lambda>_. apply_missing exec applied (names @ [mg_name m]) ms))"

definition migrate ::
  "'s sql_engine \<Rightarrow> (string \<Rightarrow> string) \<Rightarrow> files \<Rightarrow> ('s schema_db, string list \<times> migrate_error, string list) op" where
  "migrate exec digest fs =
     catchE (trip AcquireFailed (succeed ())) (\<lambda>e. throw ([], e)) (\<lambda>_.
     catchE (trip LockFailed (succeed ())) (\<lambda>e. throw ([], e)) (\<lambda>_.
     catchE create_ledger (\<lambda>e. throw ([], e)) (\<lambda>_.
     catchE applied_migrations (\<lambda>e. throw ([], e)) (\<lambda>applied.
       apply_missing exec applied [] (load_migrations digest fs)))))"


subsection \<open>Every migration runs once\<close>

text \<open>What files make of a schema, one after the other, and the database on which exactly the files
  \<open>ms\<close> have run, in this order, each recorded with the digest of its body.\<close>

fun schema_after :: "'s sql_engine \<Rightarrow> migration list \<Rightarrow> 's \<Rightarrow> 's option" where
  "schema_after exec [] x = Some x"
| "schema_after exec (m # ms) x = (case exec (mg_sql m) x of Inl _ \<Rightarrow> None | Inr y \<Rightarrow> schema_after exec ms y)"

definition ledger_rows :: "migration list \<Rightarrow> (string \<times> string) list" where
  "ledger_rows ms = map (\<lambda>m. (mg_name m, mg_checksum m)) ms"

definition at_history :: "'s sql_engine \<Rightarrow> (string \<Rightarrow> string) \<Rightarrow> 's \<Rightarrow> migration list \<Rightarrow> 's schema_db \<Rightarrow> bool" where
  "at_history exec digest x ms s \<longleftrightarrow> distinct (map mg_name ms) \<and>
     (\<forall>m \<in> set ms. sql_file (mg_name m) \<and> mg_checksum m = digest (mg_sql m)) \<and>
     coalesce (sd_ledger s) [] = ledger_rows ms \<and> schema_after exec ms x = Some (sd_schema s)"

definition missing_files :: "(string \<Rightarrow> string) \<Rightarrow> migration list \<Rightarrow> files \<Rightarrow> migration list" where
  "missing_files digest ms fs = filter (\<lambda>m. mg_name m \<notin> mg_name ` set ms) (load_migrations digest fs)"

text \<open>A binary with any files is started, and its statements end as they may.\<close>

definition migrating :: "'s sql_engine \<Rightarrow> (string \<Rightarrow> string) \<Rightarrow> 's schema_db \<Rightarrow> 's schema_db \<Rightarrow> bool" where
  "migrating exec digest s t \<longleftrightarrow> (\<exists>fs script. t = snd (migrate exec digest fs (s\<lparr>sd_script := script\<rparr>)))"

lemma schema_after_append:
  "schema_after exec (ms @ ns) x = Option.bind (schema_after exec ms x) (schema_after exec ns)"
  by (induction ms arbitrary: x) (auto split: sum.split)

lemma at_history_script [simp]: "at_history exec digest x ms (s\<lparr>sd_script := z\<rparr>) = at_history exec digest x ms s"
  by (simp add: at_history_def)

lemma next_ending_keeps: "next_ending s = (e, t) \<Longrightarrow> \<exists>z. t = s\<lparr>sd_script := z\<rparr>"
  by (auto simp: next_ending_def split: list.splits intro: exI[of _ "sd_script s"])

lemma trip_cases:
  assumes "trip wrap m s = (r, u)"
  obtains (heard) z where "m (s\<lparr>sd_script := z\<rparr>) = (r, u)"
  | (lost) e z where "r = Inl e" "u = s\<lparr>sd_script := z\<rparr>"
  | (unheard) e z where "r = Inl e" "u = snd (m (s\<lparr>sd_script := z\<rparr>))"
  using assms next_ending_keeps[of s] unfolding trip_def
  by (auto split: prod.splits ending.splits)

lemma apply_migration_cases:
  assumes "apply_migration exec m s = (r, u)"
  obtains (kept) e z where "r = Inl e" "u = s\<lparr>sd_script := z\<rparr>"
  | (moved) y where "exec (mg_sql m) (sd_schema s) = Inr y"
      "mg_name m \<notin> fst ` set (coalesce (sd_ledger s) [])"
      "sd_schema u = y" "sd_ledger u = Some (coalesce (sd_ledger s) [] @ [(mg_name m, mg_checksum m)])"
proof -
  obtain r1 t where t: "trip (BeginFailed (mg_name m)) (succeed ()) s = (r1, t)" by fastforce
  obtain z0 where z0: "t = s\<lparr>sd_script := z0\<rparr>"
    by (cases rule: trip_cases[OF t]) (auto simp: succeed_def)
  show thesis
  proof (cases r1)
    case (Inl e)
    then have "r = Inl e" "u = t" using assms by (auto simp: apply_migration_def bindE_def catchE_def t throw_def)
    then show thesis using kept z0 by blast
  next
    case (Inr x)
    note outer = bindE_def[of "trip (BeginFailed (mg_name m)) (succeed ())"]
    obtain r2 v where v: "bindE (run_sql exec m) (\<lambda>_. record_migration m) t = (r2, v)" by fastforce
    show thesis
    proof (cases r2)
      case (Inl e)
      then have "r = Inl e" "u = rolled_back t v"
        using assms Inr by (simp_all add: apply_migration_def outer catchE_def t v)
      then show thesis using kept by (simp add: rolled_back_def z0)
    next
      case both: (Inr x2)
      obtain a b where ab: "run_sql exec m t = (Inr a, b)" "record_migration m b = (Inr x2, v)"
        using v both by (auto elim: bindE_Inr_E)
      obtain y where y: "exec (mg_sql m) (sd_schema s) = Inr y" "sd_schema b = y" "sd_ledger b = sd_ledger s"
        using ab(1)[unfolded run_sql_def]
        by (cases rule: trip_cases) (auto simp: z0 split: sum.splits)
      have "mg_name m \<notin> fst ` set (coalesce (sd_ledger s) []) \<and> sd_schema v = y \<and>
        sd_ledger v = Some (coalesce (sd_ledger s) [] @ [(mg_name m, mg_checksum m)])"
        using ab(2)[unfolded record_migration_def]
        by (cases rule: trip_cases) (auto simp: y Let_def split: if_splits)
      then have n: "mg_name m \<notin> fst ` set (coalesce (sd_ledger s) [])" "sd_schema v = y"
        "sd_ledger v = Some (coalesce (sd_ledger s) [] @ [(mg_name m, mg_checksum m)])" by auto
      obtain e w where w: "next_ending v = (e, w)" by fastforce
      obtain z3 where z3: "w = v\<lparr>sd_script := z3\<rparr>" using next_ending_keeps[OF w] by blast
      have r: "(r, u) = (case e of Goes \<Rightarrow> (Inr (), w) | Fails f \<Rightarrow> (Inl (CommitFailed (mg_name m) f), rolled_back t w)
          | Unheard f \<Rightarrow> (Inl (CommitFailed (mg_name m) f), w))"
        using assms Inr both by (simp add: apply_migration_def outer catchE_def t v w)
      show thesis
      proof (cases e)
        case (Fails f)
        then show thesis using r kept by (simp add: rolled_back_def z0)
      qed (use r moved[OF y(1) n(1)] n(2,3) z3 in auto)
    qed
  qed
qed

lemma loaded_files:
  "m \<in> set (load_migrations digest fs) \<Longrightarrow> sql_file (mg_name m) \<and> mg_checksum m = digest (mg_sql m)"
  "sorted (map mg_name (load_migrations digest fs))"
  by (auto simp: load_migrations_def comp_def case_prod_beta)

lemma missing_sorted:
  assumes "prefix new (missing_files digest ms fs)"
  shows "sorted (map mg_name new)"
proof -
  obtain zs where "missing_files digest ms fs = new @ zs" using assms by (auto simp: prefix_def)
  moreover have "sorted (map mg_name (missing_files digest ms fs))"
    unfolding missing_files_def by (rule sorted_filter[OF loaded_files(2)])
  ultimately show ?thesis by (simp add: sorted_append)
qed

lemma ledger_rows_append: "ledger_rows (ms @ ns) = ledger_rows ms @ ledger_rows ns"
  by (simp add: ledger_rows_def)

lemma ledger_names: "fst ` set (ledger_rows ms) = mg_name ` set ms"
  by (simp add: ledger_rows_def image_image)

lemma history_next:
  assumes "at_history exec digest x ms s" "sql_file (mg_name m)" "mg_checksum m = digest (mg_sql m)"
    "exec (mg_sql m) (sd_schema s) = Inr y" "mg_name m \<notin> fst ` set (coalesce (sd_ledger s) [])"
    "sd_schema u = y" "sd_ledger u = Some (coalesce (sd_ledger s) [] @ [(mg_name m, mg_checksum m)])"
  shows "at_history exec digest x (ms @ [m]) u"
  using assms by (simp add: at_history_def schema_after_append ledger_rows_append ledger_names)
    (simp add: ledger_rows_def coalesce_def)

text \<open>A run over the files \<open>rest\<close>, when \<open>ms\<close> had run before it and \<open>ns\<close> have run in it.\<close>

definition run_adds ::
  "'s sql_engine \<Rightarrow> (string \<Rightarrow> string) \<Rightarrow> 's \<Rightarrow> migration list \<Rightarrow> migration list \<Rightarrow> migration list \<Rightarrow> string list \<Rightarrow>
   (string list \<times> migrate_error) + string list \<Rightarrow> 's schema_db \<Rightarrow> bool" where
  "run_adds exec digest x ms ns rest names r u \<longleftrightarrow> (let wanted = filter (\<lambda>m. mg_name m \<notin> mg_name ` set ms) rest in
     \<exists>new. prefix new wanted \<and> at_history exec digest x (ms @ ns @ new) u \<and>
       (\<forall>out. r = Inr out \<longrightarrow> new = wanted \<and> out = names @ map mg_name new \<and>
         (\<forall>m \<in> set rest. (mg_name m, mg_checksum m) \<in> set (ledger_rows (ms @ new)))))"

lemma run_adds_nothing: "at_history exec digest x (ms @ ns) u \<Longrightarrow> run_adds exec digest x ms ns rest names (Inl e) u"
  unfolding run_adds_def Let_def by (intro exI[of _ "[]"]) simp

lemma run_adds_one:
  "at_history exec digest x (ms @ ns @ [m]) u \<Longrightarrow> mg_name m \<notin> mg_name ` set ms \<Longrightarrow>
   run_adds exec digest x ms ns (m # rest) names (Inl e) u"
  unfolding run_adds_def Let_def by (intro exI[of _ "[m]"]) simp

lemma run_adds_E:
  assumes "run_adds exec digest x ms ns rest names r u"
  obtains new where "prefix new (filter (\<lambda>m. mg_name m \<notin> mg_name ` set ms) rest)" "at_history exec digest x (ms @ ns @ new) u"
    "\<And>out. r = Inr out \<Longrightarrow> new = filter (\<lambda>m. mg_name m \<notin> mg_name ` set ms) rest"
    "\<And>out. r = Inr out \<Longrightarrow> out = names @ map mg_name new"
    "\<And>out m. r = Inr out \<Longrightarrow> m \<in> set rest \<Longrightarrow> (mg_name m, mg_checksum m) \<in> set (ledger_rows (ms @ new))"
  using assms unfolding run_adds_def Let_def by blast

lemma run_adds_old:
  assumes "run_adds exec digest x ms ns rest names r u" "map_of (ledger_rows ms) (mg_name m) = Some (mg_checksum m)"
  shows "run_adds exec digest x ms ns (m # rest) names r u"
  using assms(1)
proof (rule run_adds_E)
  fix new
  assume new: "prefix new (filter (\<lambda>m. mg_name m \<notin> mg_name ` set ms) rest)" "at_history exec digest x (ms @ ns @ new) u"
    "\<And>out. r = Inr out \<Longrightarrow> new = filter (\<lambda>m. mg_name m \<notin> mg_name ` set ms) rest"
    "\<And>out. r = Inr out \<Longrightarrow> out = names @ map mg_name new"
    "\<And>out m. r = Inr out \<Longrightarrow> m \<in> set rest \<Longrightarrow> (mg_name m, mg_checksum m) \<in> set (ledger_rows (ms @ new))"
  have row: "(mg_name m, mg_checksum m) \<in> set (ledger_rows ms)" using map_of_SomeD[OF assms(2)] .
  then have "mg_name m \<in> mg_name ` set ms" using ledger_names[of ms] by force
  then have same: "filter (\<lambda>m. mg_name m \<notin> mg_name ` set ms) (m # rest) = filter (\<lambda>m. mg_name m \<notin> mg_name ` set ms) rest"
    by simp
  have "(mg_name m, mg_checksum m) \<in> set (ledger_rows (ms @ new))" using row by (simp add: ledger_rows_append)
  then show ?thesis
    unfolding run_adds_def Let_def same
    by (intro exI[of _ new] conjI allI impI ballI new(1,2) new(3) new(4); use new(5) in auto)
qed

lemma run_adds_more:
  assumes "run_adds exec digest x ms (ns @ [m]) rest (names @ [mg_name m]) r u" "mg_name m \<notin> mg_name ` set ms"
  shows "run_adds exec digest x ms ns (m # rest) names r u"
  using assms(1)
proof (rule run_adds_E)
  fix new
  assume new: "prefix new (filter (\<lambda>m. mg_name m \<notin> mg_name ` set ms) rest)" "at_history exec digest x (ms @ (ns @ [m]) @ new) u"
    "\<And>out. r = Inr out \<Longrightarrow> new = filter (\<lambda>m. mg_name m \<notin> mg_name ` set ms) rest"
    "\<And>out. r = Inr out \<Longrightarrow> out = (names @ [mg_name m]) @ map mg_name new"
    "\<And>out m. r = Inr out \<Longrightarrow> m \<in> set rest \<Longrightarrow> (mg_name m, mg_checksum m) \<in> set (ledger_rows (ms @ new))"
  have rows: "set (ledger_rows (ms @ m # new)) = insert (mg_name m, mg_checksum m) (set (ledger_rows (ms @ new)))"
    by (simp add: ledger_rows_def)
  show ?thesis
    unfolding run_adds_def Let_def
  proof (intro exI[of _ "m # new"] conjI allI impI ballI)
    fix out m' assume out: "r = Inr out"
    show "m # new = filter (\<lambda>m. mg_name m \<notin> mg_name ` set ms) (m # rest)" using new(3)[OF out] assms(2) by simp
    show "out = names @ map mg_name (m # new)" using new(4)[OF out] by simp
    show "m' \<in> set (m # rest) \<Longrightarrow> (mg_name m', mg_checksum m') \<in> set (ledger_rows (ms @ m # new))"
      using new(5)[OF out, of m'] by (auto simp: rows)
  qed (use new(1,2) assms(2) in simp_all)
qed

lemma apply_missing_adds:
  assumes "\<And>m. m \<in> set rest \<Longrightarrow> sql_file (mg_name m) \<and> mg_checksum m = digest (mg_sql m)"
  shows "at_history exec digest x (ms @ ns) s \<Longrightarrow> apply_missing exec (ledger_rows ms) names rest s = (r, u) \<Longrightarrow>
    run_adds exec digest x ms ns rest names r u"
  using assms
proof (induction rest arbitrary: ns names s)
  case Nil
  then show ?case by (auto simp: succeed_def run_adds_def)
next
  case (Cons m rest)
  show ?case
  proof (cases "map_of (ledger_rows ms) (mg_name m)")
    case (Some c)
    show ?thesis
    proof (cases "c = mg_checksum m")
      case True
      then show ?thesis using Cons.IH[of ns s names] Cons.prems Some by (intro run_adds_old) auto
    next
      case False
      then show ?thesis using Cons.prems Some by (auto simp: throw_def intro: run_adds_nothing)
    qed
  next
    case None
    then have new: "mg_name m \<notin> mg_name ` set ms" by (simp add: map_of_eq_None_iff ledger_names)
    obtain r1 v where v: "apply_migration exec m s = (r1, v)" by fastforce
    have failed: "r = Inl (names, e) \<and> u = v" if "r1 = Inl e" for e
      using that Cons.prems(2) None by (auto simp: catchE_def v throw_def)
    from v show ?thesis
    proof (cases rule: apply_migration_cases)
      case (kept e z)
      then show ?thesis using failed Cons.prems(1) by (auto intro: run_adds_nothing)
    next
      case (moved y)
      have after: "at_history exec digest x (ms @ ns @ [m]) v"
        using history_next[OF Cons.prems(1) _ _ moved(1,2,3,4)] Cons.prems(3)[of m] by simp
      show ?thesis
      proof (cases r1)
        case (Inl e)
        then show ?thesis using failed after new by (auto intro: run_adds_one)
      next
        case (Inr w)
        then show ?thesis
          using Cons.IH[of "ns @ [m]" v "names @ [mg_name m]"] Cons.prems after new None
          by (intro run_adds_more) (auto simp: catchE_def v)
      qed
    qed
  qed
qed

lemma trip_history:
  assumes "trip wrap m s = (r, u)" "at_history exec digest x ms s"
    "\<And>t. at_history exec digest x ms t \<Longrightarrow> at_history exec digest x ms (snd (m t))"
  shows "at_history exec digest x ms u"
  using assms(1)
proof (cases rule: trip_cases)
  case (heard z)
  then show ?thesis using assms(3)[of "s\<lparr>sd_script := z\<rparr>"] assms(2) by simp
qed (use assms in simp_all)

lemma read_history:
  assumes "applied_migrations s = (Inr rows, u)" "at_history exec digest x ms s"
  shows "rows = ledger_rows ms"
  using assms(1)[unfolded applied_migrations_def]
  by (cases rule: trip_cases) (use assms(2) in \<open>simp_all add: gets_def at_history_def\<close>)

lemma succeed_history: "at_history exec digest x ms s \<Longrightarrow> at_history exec digest x ms (snd (succeed y s))"
  by (simp add: succeed_def)

lemma ledger_history: "at_history exec digest x ms s \<Longrightarrow>
    at_history exec digest x ms (snd (modify (\<lambda>s. s\<lparr>sd_ledger := Some (coalesce (sd_ledger s) [])\<rparr>) s))"
  by (simp add: modify_def at_history_def coalesce_def)

lemma gets_history: "at_history exec digest x ms s \<Longrightarrow> at_history exec digest x ms (snd (gets f s))"
  by (simp add: gets_def)

lemma catch_fails:
  assumes "catchE m (\<lambda>e. throw (names, e)) f s = (r, u)" "m s = (q, v)"
  obtains (fails) e where "r = Inl e" "u = v" | (goes) y where "q = Inr y" "f y v = (r, u)"
  using assms by (cases q) (auto simp: catchE_def throw_def)

lemma migrate_adds:
  assumes "at_history exec digest x ms s" "migrate exec digest fs s = (r, u)"
  shows "run_adds exec digest x ms [] (load_migrations digest fs) [] r u"
proof -
  obtain r1 v1 where 1: "trip AcquireFailed (succeed ()) s = (r1, v1)" by fastforce
  note v1 = trip_history[OF 1 assms(1) succeed_history]
  obtain r2 v2 where 2: "trip LockFailed (succeed ()) v1 = (r2, v2)" by fastforce
  note v2 = trip_history[OF 2 v1 succeed_history]
  obtain r3 v3 where 3: "create_ledger v2 = (r3, v3)" by fastforce
  note v3 = trip_history[OF 3[unfolded create_ledger_def] v2 ledger_history]
  obtain r4 v4 where 4: "applied_migrations v3 = (r4, v4)" by fastforce
  note v4 = trip_history[OF 4[unfolded applied_migrations_def] v3 gets_history]
  have keep: ?thesis if "r = Inl e" "u = v" "at_history exec digest x ms v" for e v
    using that run_adds_nothing[of exec digest x ms "[]"] by simp
  note run = assms(2)[unfolded migrate_def]
  from run 1 show ?thesis
  proof (cases rule: catch_fails)
    case (goes y1)
    from goes(2) 2 show ?thesis
    proof (cases rule: catch_fails)
      case (goes y2)
      from goes(2) 3 show ?thesis
      proof (cases rule: catch_fails)
        case (goes y3)
        from goes(2) 4 show ?thesis
        proof (cases rule: catch_fails)
          case (goes rows)
          have rows: "rows = ledger_rows ms" using read_history[OF 4[unfolded goes(1)] v3] .
          show ?thesis
            using apply_missing_adds[where rest = "load_migrations digest fs" and ns = "[]" and s = v4 and names = "[]"
                and digest = digest and exec = exec and x = x and ms = ms and r = r and u = u]
              loaded_files(1)[where digest = digest and fs = fs] v4 goes(2)
            by (simp add: rows)
        qed (use keep v4 in blast)
      qed (use keep v3 in blast)
    qed (use keep v2 in blast)
  qed (use keep v1 in blast)
qed

lemma migrated_history:
  assumes "sd_ledger s = None" "(migrating exec digest)\<^sup>*\<^sup>* s t"
  shows "\<exists>ms. at_history exec digest (sd_schema s) ms t"
  using assms(2)
proof induction
  case base
  then show ?case
    using assms(1) by (intro exI[of _ "[]"]) (simp add: at_history_def coalesce_def ledger_rows_def)
next
  case (step u v)
  then obtain ms fs script where "at_history exec digest (sd_schema s) ms (u\<lparr>sd_script := script\<rparr>)"
    "v = snd (migrate exec digest fs (u\<lparr>sd_script := script\<rparr>))"
    by (auto simp: migrating_def)
  then show ?case using migrate_adds by (metis (no_types, lifting) prod.collapse run_adds_def)
qed

text \<open>C23. Every migration runs once, completely or not at all, with its record. Whatever binaries are
  started on a new database, older ones and ones whose files were changed or inserted among them, and
  whatever fails in their runs, answers of commits that are lost included: the ledger lists files
  \<open>ms\<close> with different names, each with the digest of the body that ran, and the schema is what
  exactly these bodies, in this order, make of the one there was at first. One more run, of any binary,
  runs a part of the files that are missing, in the order of their names and after all the others; and
  if it reports success it has run all of them, names them, and every file of the binary stands in the
  ledger with its own digest - so a binary with a file that was changed after it ran never succeeds.\<close>

theorem migrations_run_once:
  assumes "sd_ledger s = None" "(migrating exec digest)\<^sup>*\<^sup>* s t"
  shows "\<exists>ms. at_history exec digest (sd_schema s) ms t \<and>
    (\<forall>fs r u. migrate exec digest fs t = (r, u) \<longrightarrow>
      (\<exists>new. prefix new (missing_files digest ms fs) \<and> sorted (map mg_name new) \<and>
        at_history exec digest (sd_schema s) (ms @ new) u \<and>
        (\<forall>names. r = Inr names \<longrightarrow> new = missing_files digest ms fs \<and> names = map mg_name new \<and>
          (\<forall>m \<in> set (load_migrations digest fs). map_of (ledger_rows (ms @ new)) (mg_name m) = Some (mg_checksum m)))))"
proof -
  obtain ms where ms: "at_history exec digest (sd_schema s) ms t" using migrated_history[OF assms] ..
  have keys: "distinct (map fst (ledger_rows ns))" if "at_history exec digest (sd_schema s) ns u" for ns u
    using that by (simp add: at_history_def ledger_rows_def comp_def)
  show ?thesis
  proof (rule exI[of _ ms], intro conjI allI impI ms)
    fix fs r u
    assume "migrate exec digest fs t = (r, u)"
    from migrate_adds[OF ms this] obtain new where new: "prefix new (missing_files digest ms fs)"
      "at_history exec digest (sd_schema s) (ms @ new) u"
      "\<And>out. r = Inr out \<Longrightarrow> new = missing_files digest ms fs \<and> out = map mg_name new \<and>
        (\<forall>m \<in> set (load_migrations digest fs). (mg_name m, mg_checksum m) \<in> set (ledger_rows (ms @ new)))"
      by (auto simp: run_adds_def Let_def missing_files_def)
    from keys[OF new(2)] new(3) have "\<forall>names. r = Inr names \<longrightarrow> new = missing_files digest ms fs \<and> names = map mg_name new \<and>
        (\<forall>m \<in> set (load_migrations digest fs). map_of (ledger_rows (ms @ new)) (mg_name m) = Some (mg_checksum m))"
      by (blast intro: map_of_is_SomeI)
    with new(1,2) missing_sorted[OF new(1)] show "\<exists>new. prefix new (missing_files digest ms fs) \<and> sorted (map mg_name new) \<and>
        at_history exec digest (sd_schema s) (ms @ new) u \<and>
        (\<forall>names. r = Inr names \<longrightarrow> new = missing_files digest ms fs \<and> names = map mg_name new \<and>
          (\<forall>m \<in> set (load_migrations digest fs). map_of (ledger_rows (ms @ new)) (mg_name m) = Some (mg_checksum m)))"
      by blast
  qed
qed

text \<open>A first version of two files whose second commit is lost, then a binary with a file inserted before
  the others, and one whose first file was changed.\<close>

definition sample_files :: files where
  "sample_files = [(''0002_keys.sql'', ''B''), (''0001_init.sql'', ''A'')]"

definition sample_exec :: "string list sql_engine" where "sample_exec sql x = Inr (x @ [sql])"

definition sample_first :: "string list schema_db" where
  "sample_first = \<lparr>sd_schema = [], sd_ledger = None,
     sd_script = [Goes, Goes, Goes, Goes, Goes, Goes, Goes, Goes, Goes, Goes, Goes, Unheard ''connection reset'']\<rparr>"

definition later_files :: files where "later_files = (''0000_notes.sql'', ''C'') # sample_files"

definition changed_files :: files where "changed_files = [(''0001_init.sql'', ''Z'')]"

theorem migrations_run_once_witness:
  "let u = snd (migrate sample_exec id sample_files sample_first); v = migrate sample_exec id later_files u
   in fst (migrate sample_exec id sample_files sample_first) =
        Inl ([''0001_init.sql''], CommitFailed ''0002_keys.sql'' ''connection reset'') \<and>
      fst v = Inr [''0000_notes.sql''] \<and>
      sd_ledger (snd v) = Some [(''0001_init.sql'', ''A''), (''0002_keys.sql'', ''B''), (''0000_notes.sql'', ''C'')] \<and>
      sd_schema (snd v) = [''A'', ''B'', ''C''] \<and> (\<forall>names. fst (migrate sample_exec id changed_files u) \<noteq> Inr names)"
proof -
  let ?u = "snd (migrate sample_exec id sample_files sample_first)"
  let ?v = "migrate sample_exec id later_files ?u"
  let ?w = "migrate sample_exec id changed_files ?u"
  have "migrating sample_exec id sample_first ?u"
    unfolding migrating_def by (intro exI[of _ sample_files] exI[of _ "sd_script sample_first"]) simp
  then have reach: "(migrating sample_exec id)\<^sup>*\<^sup>* sample_first ?u" by (rule r_into_rtranclp)
  have start: "sd_ledger sample_first = None" by (simp add: sample_first_def)
  have first: "fst (migrate sample_exec id sample_files sample_first) =
      Inl ([''0001_init.sql''], CommitFailed ''0002_keys.sql'' ''connection reset'')"
    and known: "sd_ledger ?u = Some [(''0001_init.sql'', ''A''), (''0002_keys.sql'', ''B'')]"
    and second: "fst ?v = Inr [''0000_notes.sql'']"
      "sd_ledger (snd ?v) = Some [(''0001_init.sql'', ''A''), (''0002_keys.sql'', ''B''), (''0000_notes.sql'', ''C'')]"
      "sd_schema (snd ?v) = [''A'', ''B'', ''C'']"
    and loaded: "load_migrations id changed_files = [\<lparr>mg_name = ''0001_init.sql'', mg_sql = ''Z'', mg_checksum = ''Z''\<rparr>]"
    by code_simp+
  obtain ms where ms: "at_history sample_exec id (sd_schema sample_first) ms ?u"
    "\<And>r u. ?w = (r, u) \<Longrightarrow> \<exists>new. at_history sample_exec id (sd_schema sample_first) (ms @ new) u \<and>
      (\<forall>names. r = Inr names \<longrightarrow> map_of (ledger_rows (ms @ new)) ''0001_init.sql'' = Some ''Z'')"
    using migrations_run_once[OF start reach] by (fastforce simp: loaded)
  have "ledger_rows ms = [(''0001_init.sql'', ''A''), (''0002_keys.sql'', ''B'')]"
    using ms(1) by (simp add: at_history_def known coalesce_def)
  then have "fst ?w \<noteq> Inr names" for names
    using ms(2)[of "fst ?w" "snd ?w"] by (auto simp: ledger_rows_append)
  then show ?thesis using first second by (simp add: Let_def)
qed

end
