(* ===== verification/Process.thy ===== *)
theory Process
  imports Auth Idempotency PayoutService Money
begin

text \<open>
  What the processes are configured with and what they do on their own: \<open>internal/config\<close>, the
  seeding of \<open>internal/app/wire.go\<close>, and the periodic work of \<open>apps/worker/main.go\<close>. The environment
  is a function from names to values; the readings of floating-point numbers and of durations are
  parameters.
\<close>

subsection \<open>Reading the environment\<close>

type_synonym environ = "string \<Rightarrow> string option"

datatype float64 = NaN | PlusInf | MinusInf | Finite rat

record readers =
  rd_float :: "string \<Rightarrow> float64 option"
  rd_duration :: "string \<Rightarrow> duration option"

definition set_to :: "environ \<Rightarrow> string \<Rightarrow> string option" where
  "set_to env key = Option.bind (env key) nullif"

definition get_str :: "environ \<Rightarrow> string \<Rightarrow> string \<Rightarrow> string" where
  "get_str env key d = coalesce (set_to env key) d"

definition get_int :: "environ \<Rightarrow> string \<Rightarrow> int \<Rightarrow> int" where
  "get_int env key d = coalesce (Option.bind (set_to env key) parse_int64) d"

definition get_float :: "readers \<Rightarrow> environ \<Rightarrow> string \<Rightarrow> float64 \<Rightarrow> float64" where
  "get_float rd env key d = coalesce (Option.bind (set_to env key) (rd_float rd)) d"

definition parse_bool :: "string \<Rightarrow> bool option" where
  "parse_bool s =
     (if s \<in> {''1'', ''t'', ''T'', ''TRUE'', ''true'', ''True''} then Some True
      else if s \<in> {''0'', ''f'', ''F'', ''FALSE'', ''false'', ''False''} then Some False else None)"

definition get_bool :: "environ \<Rightarrow> string \<Rightarrow> bool \<Rightarrow> bool" where
  "get_bool env key d = coalesce (Option.bind (set_to env key) parse_bool) d"

definition get_duration :: "readers \<Rightarrow> environ \<Rightarrow> string \<Rightarrow> duration \<Rightarrow> duration" where
  "get_duration rd env key d = coalesce (Option.bind (set_to env key) (rd_duration rd)) d"

definition get_list :: "environ \<Rightarrow> string \<Rightarrow> string list \<Rightarrow> string list" where
  "get_list env key d = (case set_to env key of None \<Rightarrow> d
   | Some v \<Rightarrow> filter (\<lambda>p. p \<noteq> []) (map trim_space (split_on (CHR '','') v)))"

subsection \<open>The key of the sealed secrets\<close>

datatype config_error = UnknownEnvironment string | DatabaseURLRequired | KeyRequired | KeyNotEncoded | KeyLength nat
  | RateNotPositive | BurstTooSmall | ConcurrencyTooSmall | ConnectionsOutOfOrder | BootstrapIncomplete

definition key_size :: nat where "key_size = 32"

definition hex_digit :: "char \<Rightarrow> nat option" where
  "hex_digit c = (let n = (of_char c :: nat) in
     if 48 \<le> n \<and> n \<le> 57 then Some (n - 48) else if 97 \<le> n \<and> n \<le> 102 then Some (n - 87)
     else if 65 \<le> n \<and> n \<le> 70 then Some (n - 55) else None)"

fun hex_decode :: "string \<Rightarrow> bytes option" where
  "hex_decode [] = Some []"
| "hex_decode [c] = None"
| "hex_decode (c # d # cs) = (case (hex_digit c, hex_digit d, hex_decode cs) of
     (Some a, Some b, Some bs) \<Rightarrow> Some (of_nat (16 * a + b) # bs)
   | _ \<Rightarrow> None)"

text \<open>\<open>base64.StdEncoding\<close>: the last quantum is padded to four characters.\<close>

definition base64_padded :: "string \<Rightarrow> bytes option" where
  "base64_padded s =
     (let cs = filter (\<lambda>c. \<not> line_break c) s; body = takeWhile (\<lambda>c. c \<noteq> CHR ''='') cs;
          pad = dropWhile (\<lambda>c. c \<noteq> CHR ''='') cs in
      if (length body mod 4, pad) \<in> {(0, ''''), (2, ''==''), (3, ''='')}
        then base64_decode base64_std_alphabet False body else None)"

definition check_key_len :: "bytes \<Rightarrow> config_error + bytes" where
  "check_key_len b = (if length b \<noteq> key_size then Inl (KeyLength (length b)) else Inr b)"

definition decode_key :: "string \<Rightarrow> config_error + bytes" where
  "decode_key raw = (case hex_decode raw of Some b \<Rightarrow> check_key_len b
   | None \<Rightarrow> (case base64_padded raw of Some b \<Rightarrow> check_key_len b
   | None \<Rightarrow> (case base64_decode base64_std_alphabet False raw of Some b \<Rightarrow> check_key_len b
   | None \<Rightarrow> Inl KeyNotEncoded)))"

definition load_encryption_key :: "environ \<Rightarrow> config_error + bytes" where
  "load_encryption_key env = (case coalesce (env ''PAYMUX_ENCRYPTION_KEY'') [] of
     [] \<Rightarrow> Inl KeyRequired | raw \<Rightarrow> decode_key raw)"

subsection \<open>The configuration\<close>

record config =
  cf_env :: string
  cf_http_addr :: string
  cf_base_url :: string
  cf_log_level :: string
  cf_log_json :: bool
  cf_database_url :: string
  cf_database_max_conns :: "32 word"
  cf_database_min_conns :: "32 word"
  cf_database_conn_timeout :: duration
  cf_encryption_key :: bytes
  cf_worker_concurrency :: int
  cf_worker_poll_interval :: duration
  cf_allow_private_destinations :: bool
  cf_trust_proxy_headers :: bool
  cf_rate_limit_per_second :: float64
  cf_rate_limit_burst :: int
  cf_http_client_timeout :: duration
  cf_webhook_timeout :: duration
  cf_max_request_body_bytes :: int
  cf_admin_session_ttl :: duration
  cf_admin_bootstrap_email :: string
  cf_admin_bootstrap_password :: string
  cf_metrics_enabled :: bool
  cf_metrics_addr :: string
  cf_cors_origins :: "string list"

definition is_production :: "string \<Rightarrow> bool" where "is_production e \<longleftrightarrow> e = ''production''"

definition read_config :: "readers \<Rightarrow> environ \<Rightarrow> config" where
  "read_config rd env =
     (let e = get_str env ''PAYMUX_ENV'' ''development'' in \<lparr>
      cf_env = e,
      cf_http_addr = get_str env ''PAYMUX_HTTP_ADDR'' '':8080'',
      cf_base_url = rev (dropWhile (\<lambda>c. c = CHR ''/'') (rev (get_str env ''PAYMUX_BASE_URL'' ''http://localhost:8080''))),
      cf_log_level = get_str env ''PAYMUX_LOG_LEVEL'' ''info'',
      cf_log_json = get_bool env ''PAYMUX_LOG_JSON'' (is_production e),
      cf_database_url = get_str env ''DATABASE_URL'' [],
      cf_database_max_conns = word_of_int (get_int env ''PAYMUX_DB_MAX_CONNS'' 20),
      cf_database_min_conns = word_of_int (get_int env ''PAYMUX_DB_MIN_CONNS'' 2),
      cf_database_conn_timeout = get_duration rd env ''PAYMUX_DB_CONN_TIMEOUT'' (10 * second),
      cf_encryption_key = (case load_encryption_key env of Inr k \<Rightarrow> k | Inl _ \<Rightarrow> []),
      cf_worker_concurrency = get_int env ''PAYMUX_WORKER_CONCURRENCY'' 20,
      cf_worker_poll_interval = get_duration rd env ''PAYMUX_WORKER_POLL_INTERVAL'' (2 * second),
      cf_allow_private_destinations = get_bool env ''PAYMUX_ALLOW_PRIVATE_WEBHOOK_DESTINATIONS'' False,
      cf_trust_proxy_headers = get_bool env ''PAYMUX_TRUST_PROXY_HEADERS'' False,
      cf_rate_limit_per_second = get_float rd env ''PAYMUX_RATE_LIMIT_PER_SECOND'' (Finite 50),
      cf_rate_limit_burst = get_int env ''PAYMUX_RATE_LIMIT_BURST'' 100,
      cf_http_client_timeout = get_duration rd env ''PAYMUX_HTTP_CLIENT_TIMEOUT'' (30 * second),
      cf_webhook_timeout = get_duration rd env ''PAYMUX_WEBHOOK_TIMEOUT'' (15 * second),
      cf_max_request_body_bytes = get_int env ''PAYMUX_MAX_REQUEST_BODY_BYTES'' (2 ^ 20),
      cf_admin_session_ttl = get_duration rd env ''PAYMUX_ADMIN_SESSION_TTL'' (12 * hour),
      cf_admin_bootstrap_email = get_str env ''PAYMUX_ADMIN_EMAIL'' [],
      cf_admin_bootstrap_password = get_str env ''PAYMUX_ADMIN_PASSWORD'' [],
      cf_metrics_enabled = get_bool env ''PAYMUX_METRICS_ENABLED'' True,
      cf_metrics_addr = get_str env ''PAYMUX_METRICS_ADDR'' '':9090'',
      cf_cors_origins = get_list env ''PAYMUX_CORS_ORIGINS'' [''http://localhost:5173'']\<rparr>)"

definition not_positive :: "float64 \<Rightarrow> bool" where
  "not_positive x \<longleftrightarrow> (case x of NaN \<Rightarrow> False | PlusInf \<Rightarrow> False | MinusInf \<Rightarrow> True | Finite r \<Rightarrow> r \<le> 0)"

definition config_errors :: "environ \<Rightarrow> config \<Rightarrow> config_error list" where
  "config_errors env c = concat [
     if cf_env c \<in> {''development'', ''staging'', ''production''} then [] else [UnknownEnvironment (cf_env c)],
     if cf_database_url c = [] then [DatabaseURLRequired] else [],
     case load_encryption_key env of Inl e \<Rightarrow> [e] | Inr _ \<Rightarrow> [],
     if not_positive (cf_rate_limit_per_second c) then [RateNotPositive] else [],
     if cf_rate_limit_burst c < 1 then [BurstTooSmall] else [],
     if cf_worker_concurrency c < 1 then [ConcurrencyTooSmall] else [],
     if cf_database_max_conns c <s cf_database_min_conns c then [ConnectionsOutOfOrder] else [],
     if (cf_admin_bootstrap_email c = []) \<noteq> (cf_admin_bootstrap_password c = []) then [BootstrapIncomplete] else []]"

definition load_config :: "readers \<Rightarrow> environ \<Rightarrow> config_error list + config" where
  "load_config rd env = (let c = read_config rd env; errs = config_errors env c in if errs \<noteq> [] then Inl errs else Inr c)"

text \<open>What a configuration that loads is known to satisfy, and that any key of the right length can be
  given in hexadecimal or in base 64.\<close>

definition runnable :: "config \<Rightarrow> bool" where
  "runnable c \<longleftrightarrow> cf_env c \<in> {''development'', ''staging'', ''production''} \<and> cf_database_url c \<noteq> [] \<and>
     length (cf_encryption_key c) = key_size \<and> \<not> not_positive (cf_rate_limit_per_second c) \<and>
     1 \<le> cf_rate_limit_burst c \<and> 1 \<le> cf_worker_concurrency c \<and>
     sint (cf_database_min_conns c) \<le> sint (cf_database_max_conns c) \<and>
     (cf_admin_bootstrap_email c = [] \<longleftrightarrow> cf_admin_bootstrap_password c = [])"

lemma decode_key_length: "decode_key raw = Inr b \<Longrightarrow> length b = key_size"
  by (auto simp: decode_key_def check_key_len_def split: option.splits if_splits)

lemma load_config_runnable:
  assumes "load_config rd env = Inr c"
  shows "runnable c"
proof -
  have c: "c = read_config rd env" and e: "config_errors env c = []"
    using assms by (auto simp: load_config_def Let_def split: if_splits)
  obtain k where k: "load_encryption_key env = Inr k"
    using e by (cases "load_encryption_key env") (auto simp: config_errors_def)
  have "length k = key_size"
    using k decode_key_length by (auto simp: load_encryption_key_def split: list.splits)
  moreover have "cf_encryption_key c = k" using k by (simp add: c read_config_def Let_def)
  ultimately show ?thesis
    using e k by (auto simp: runnable_def config_errors_def word_sless_alt not_less split: if_splits)
qed

lemma load_config_reports_all: "load_config rd env = Inl errs \<longleftrightarrow> errs = config_errors env (read_config rd env) \<and> errs \<noteq> []"
  by (auto simp: load_config_def Let_def)

text \<open>The check of the rate is written so that what is not a number passes it.\<close>

lemma nan_rate_passes:
  assumes "env ''PAYMUX_RATE_LIMIT_PER_SECOND'' = Some ''NaN''" "rd_float rd ''NaN'' = Some NaN"
  shows "RateNotPositive \<notin> set (config_errors env (read_config rd env))"
  using assms by (auto simp: config_errors_def read_config_def Let_def get_float_def set_to_def nullif_def coalesce_def
      not_positive_def load_encryption_key_def decode_key_def check_key_len_def split: sum.splits list.splits option.splits if_splits)

subsection \<open>Starting and housekeeping\<close>

text \<open>\<open>Container.Bootstrap\<close>, given what \<open>Migrate\<close> returned.\<close>

definition bootstrap :: "auth_config \<Rightarrow> config \<Rightarrow> error + string list \<Rightarrow> ('g, unit) routine" where
  "bootstrap au c migrated = bindE (lift_result migrated) (\<lambda>_.
     bindE (ensure_bootstrap_admin au (cf_admin_bootstrap_email c) (cf_admin_bootstrap_password c)) (\<lambda>_. succeed ()))"

definition max_conns :: "int \<Rightarrow> 32 word \<Rightarrow> 32 word" where
  "max_conns concurrency configured =
     (let needed = word_of_int concurrency + 2 in if needed <s configured then configured else needed)"

record worker_options =
  wo_concurrency :: int
  wo_poll_interval :: duration

definition new_worker_options :: "config \<Rightarrow> worker_options" where
  "new_worker_options c = \<lparr>wo_concurrency = max 1 (cf_worker_concurrency c),
     wo_poll_interval = (if cf_worker_poll_interval c \<le> 0 then 2 * second else cf_worker_poll_interval c)\<rparr>"

definition probe_address :: "environ \<Rightarrow> string \<Rightarrow> string \<Rightarrow> string" where
  "probe_address env key fallback =
     (let addr = (case coalesce (env key) [] of [] \<Rightarrow> fallback | a \<Rightarrow> a) in
      if take 1 addr = '':'' then ''127.0.0.1'' @ addr else addr)"

definition probe_health :: "(string \<Rightarrow> string + int) \<Rightarrow> environ \<Rightarrow> int" where
  "probe_health get env = (case get (''http://'' @ probe_address env ''PAYMUX_HTTP_ADDR'' '':8080'' @ ''/health'') of
     Inl _ \<Rightarrow> 1 | Inr status \<Rightarrow> if status \<noteq> 200 then 1 else 0)"

definition worker_probe_health :: "(string \<Rightarrow> string + int) \<Rightarrow> environ \<Rightarrow> int" where
  "worker_probe_health get env = (case get (''http://'' @ probe_address env ''PAYMUX_METRICS_ADDR'' '':9090'' @ ''/health'') of
     Inl _ \<Rightarrow> 1 | Inr status \<Rightarrow> if status \<noteq> 200 then 1 else 0)"

text \<open>One tick of the two loops of the worker: an error is logged and the loop goes on.\<close>

definition housekeeping_interval :: duration where "housekeeping_interval = hour"

definition payout_interval :: duration where "payout_interval = 30 * second"

definition payout_settle_wait :: duration where "payout_settle_wait = 10 * minute"

definition payout_batch_size :: int where "payout_batch_size = 20"

definition run_housekeeping :: "('g, unit) routine" where
  "run_housekeeping = bindE (ignore_error prune_sessions) (\<lambda>_. ignore_error idem_prune)"

definition run_payout_reconciliation :: "'g disbursement \<Rightarrow> ('g, unit) routine" where
  "run_payout_reconciliation mk = ignore_error (reconcile_batch mk payout_batch_size payout_settle_wait)"

lemma max_conns_room:
  assumes "1 \<le> n" "n < 2 ^ 31 - 2"
  shows "n + 2 \<le> sint (max_conns n m)" "sint m \<le> sint (max_conns n m)"
proof -
  have "(word_of_int n :: 32 word) + 2 = word_of_int (n + 2)" by simp
  then have "sint ((word_of_int n :: 32 word) + 2) = n + 2"
    using assms by (simp only: sint_sbintrunc') (simp add: signed_take_bit_int_eq_self)
  then show "n + 2 \<le> sint (max_conns n m)" "sint m \<le> sint (max_conns n m)"
    by (auto simp: max_conns_def Let_def word_sless_alt)
qed

lemma run_stmt_outcome:
  assumes "run_stmt (\<lambda>d. Inr (x d, f d)) w = (r, v)"
  shows "db v \<in> {db w, f (db w)} \<and> now v = now w"
proof -
  have "now v = now w" using assms
    by (auto simp: run_stmt_def next_outcome_def abort_txn_def split: if_splits list.splits option.splits)
  then show ?thesis using assms by (cases r) (auto dest: run_stmt_Inl_db run_stmt_Inr)
qed

text \<open>Housekeeping never fails, and removes nothing that still counts.\<close>

lemma housekeeping_keeps:
  assumes "run_housekeeping w = (r, v)"
  shows "r = Inr () \<and>
    {s \<in> set (admin_sessions (db w)). now w \<le> ses_expires_at s} \<subseteq> set (admin_sessions (db v)) \<and>
    {k \<in> set (idem_keys (db w)). now w \<le> ik_expires_at k} \<subseteq> set (idem_keys (db v))"
proof -
  obtain q u where u: "prune_sessions w = (q, u)" by fastforce
  obtain p z where z: "idem_prune u = (p, z)" by fastforce
  have "db u \<in> {db w, set_sessions (filter (\<lambda>s. \<not> ses_expires_at s < now w) (admin_sessions (db w))) (db w)} \<and> now u = now w"
    using run_stmt_outcome[OF u[unfolded prune_sessions_def delete_expired_sessions_def bindE_run gets_def prod.case sum.case]] .
  moreover have "db z \<in> {db u, set_idem_keys (filter (\<lambda>r. \<not> ik_expires_at r < now u) (idem_keys (db u))) (db u)}"
    using run_stmt_outcome[OF z[unfolded idem_prune_def bindE_run gets_def prod.case sum.case]] by simp
  moreover have "r = Inr ()" "v = z"
    using assms by (simp_all add: run_housekeeping_def bindE_run ignore_error_eq u z)
  ultimately show ?thesis by auto
qed

end
