(* ===== verification/Spec2Isabelle.thy ===== *)
theory Spec2Isabelle
  imports Sender Application Idempotency Refunds MidtransAdapter Notification PayoutHistory PayoutRows Iris System Queue Retry Server Migrate Process
begin

text \<open>
  PayMux: a model of the Go program under \<open>src/\<close> and the theorems about it.

  \<^bold>\<open>The program.\<close> PayMux stands between applications and a payment gateway, Midtrans. An application
  creates payments, refunds, subscriptions and payouts through \<open>/api/v1\<close>, an administrator watches
  and approves through \<open>/admin/api\<close>. The gateway reports what becomes of a payment to
  \<open>/webhooks/midtrans\<close>, or is asked for it. A change of status is stored together with an event
  (\<open>internal/event\<close>) and one delivery per subscribed destination (\<open>internal/delivery\<close>) in one
  database transaction; a worker then sends the deliveries as signed HTTP requests and retries them.
  All lasting state is in PostgreSQL; the processes keep a rate limiter and the configuration.

  \<^bold>\<open>The theories,\<close> in the order they build on each other. Names of definitions are the names of the
  code in lower case with underscores; a prefix tells methods of the same name in two packages apart
  (\<open>service_get\<close>, \<open>repo_create_admin\<close>).

  \<^item> \<open>Prelude\<close>: Go's \<open>int64\<close> and strings, the routines with errors (\<open>bindE\<close>, \<open>catchE\<close>, \<open>mapE\<close>), and
    the locale \<open>evolution\<close> of the relations a routine can be shown to respect.
  \<^item> \<open>Money\<close> (\<open>internal/money\<close>), \<open>Status\<close> (\<open>internal/gateway/status.go\<close> and the payout statuses of
    \<open>gateway/payout.go\<close>), \<open>Ids\<close> (\<open>internal/ids\<close>): the values. C1, C2, C3, C5, C6.
  \<^item> \<open>Schema\<close>: the structs of the \<open>model.go\<close> files and the rows of \<open>internal/storage/migrations\<close> as
    records. \<open>Store\<close> (\<open>internal/storage/db.go\<close>): the database, statements that may fail, transactions,
    the outside world; the locales \<open>db_evolution\<close> and \<open>row_evolution\<close>. \<open>Paging\<close> (\<open>storage/page.go\<close>):
    the locale \<open>keyset_listing\<close>, interpreted on the listings of events, payments, refunds and
    notifications.
  \<^item> \<open>Events\<close>, \<open>Delivery\<close>, \<open>Worker\<close>, \<open>Sender\<close>, \<open>Queue\<close> (\<open>internal/event\<close>, \<open>internal/delivery\<close>): what is
    announced, to whom, and what becomes of each delivery. C7 to C10, C12, C13, C19.
  \<^item> \<open>Gateway\<close> (\<open>internal/gateway\<close> without the adapters), \<open>Idempotency\<close>, \<open>Payments\<close>,
    \<open>PaymentService\<close>, \<open>Refunds\<close> (\<open>internal/payment\<close>), \<open>Notification\<close> (\<open>internal/notification\<close>),
    \<open>Subscription\<close> (\<open>internal/subscription\<close>): payments from their creation to their end. C16 to C18,
    C20, C22, C24, C29 to C31.
  \<^item> \<open>Payout\<close>, \<open>PayoutService\<close>, \<open>PayoutHistory\<close>, \<open>PayoutRows\<close> (\<open>internal/payout\<close>): money leaving. C32
    to C35, C38.
  \<^item> \<open>Json\<close>, \<open>Midtrans\<close>, \<open>MidtransAdapter\<close>, \<open>Iris\<close> (\<open>internal/gateway/midtrans\<close>): the adapter, from the
    requests it builds to the meaning it gives the answers. C27, C37.
  \<^item> \<open>Keys\<close>, \<open>Password\<close> (\<open>internal/crypto\<close>), \<open>Netsafe\<close> (\<open>internal/netsafe\<close>), \<open>Application\<close>
    (\<open>internal/application\<close>), \<open>Auth\<close> (\<open>internal/auth\<close>, \<open>internal/audit\<close>): who may do what, and
    where requests may go. C11, C14, C39, C40.
  \<^item> \<open>System\<close>: the operations on one database together, and the ledger they refine. C4, C15.
  \<^item> \<open>Http\<close> (\<open>internal/httpx\<close>), \<open>Render\<close>, \<open>Api\<close>, \<open>Retry\<close>, \<open>Admin\<close>, \<open>Server\<close> (\<open>internal/api\<close>): the
    HTTP layer, from the request to the JSON of the answer. C21, C25, C26, C28, C36.

  \<^item> \<open>Migrate\<close> (\<open>internal/storage/migrate.go\<close>), \<open>Process\<close> (\<open>internal/config\<close>, the start and the loops of
    \<open>apps\<close>): how a database gets its schema, and a process its configuration. C23.

  \<^bold>\<open>State and operations.\<close> A \<open>world\<close> holds the tables (\<open>db\<close>, a record with one list of rows per
  table), the clock, the identifiers still to be drawn, the outcomes of the statements still to be
  run, whether a transaction is open or broken, and the outside world (\<open>ext\<close>), of any type. A method
  of the code is a routine: a function from a world to an error or a result and a world. Every
  \<open>return\<close> of an error is a branch, and a statement of SQL a function on the tables, with the unique
  indexes, checks and foreign keys of the migrations that it can run into. The outcomes of the
  statements are part of the world, so a theorem about every world is a theorem about every way in
  which the database can fail. What a client calls is stated for all worlds; what is kept over time
  is stated for all sequences of operations (\<open>inductive\<close> relations in \<open>System\<close>, \<open>PayoutHistory\<close>,
  \<open>Delivery\<close>, \<open>Application\<close>, \<open>Auth\<close>, \<open>Admin\<close>, \<open>Retry\<close>), and for all runs of any binaries in \<open>Migrate\<close>.

  \<^bold>\<open>How the proofs go.\<close> A relation on worlds that is reflexive and transitive and that every statement
  of a kind respects is respected by every routine built from such statements. The locales
  \<open>evolution\<close>, \<open>db_evolution\<close> and \<open>row_evolution\<close> prove this once for sequencing, branching, loops and
  transactions; each component interprets them with its own relation - a payment follows the status
  machine, a payout's history grows, a dead key stays dead, the limits stay guarded - and gets its
  invariants by one rule per operation. Branch lemmas say what an operation returns, step by step;
  safety properties join the two.

  \<^bold>\<open>Parameters.\<close> What is not under \<open>src/\<close> is an argument: the HTTP round trip, the gateway as a
  function on the outside world, Argon2id, HMAC and the digests, AES-GCM, the token bucket of
  \<open>golang.org/x/time/rate\<close>, the router, \<open>mail.ParseAddress\<close>, URL and address parsing, the resolver,
  the readings and writings of times, and the step from text to JSON values. What the theorems rely
  on there is a hypothesis of the theorem: that a key derived by Argon2id has the length asked for
  (C11), that a call to the gateway opens at most the order it names (C20), that the identifiers drawn
  are new (C13, C17, C19 to C21). An error of the gateway may hide that it did what it was asked to: C20
  says what then becomes of the order, C37 which errors of a payout cannot. Argon2id is total here;
  the Go function panics on zero passes or lanes, which the code never asks for when it hashes.

  \<^bold>\<open>Bounds.\<close> Amounts are \<open>int64\<close>, and wrap around where the code computes with them (\<open>Money\<close>,
  \<open>Refunds\<close>, checkout in \<open>MidtransAdapter\<close>). Recursion is structural or has a measure; no fuel is
  used. \<open>Queue\<close> bounds the number of wake-ups by the attempts the deliveries still have, and
  proves that this is enough. Times are integers in nanoseconds, \<open>nat\<close> counters are
  used where the code counts rows.

  \<^bold>\<open>Atomicity.\<close> A routine runs without interleaving, apart from two places where an interleaving
  matters and is written out: the two phases of a refund (C24) and the claim, the creation and the
  completion under an idempotency key (C21, whose first request and retry may have other requests
  between them). PostgreSQL's locks are not modelled: \<open>FOR UPDATE SKIP LOCKED\<close> takes the rows a claim
  would get when it runs alone; the \<open>DELETE\<close> after a refused creation runs
  before any other writer sees the payment. A batch of the worker is processed one delivery after the other. The
  clock stands still inside a routine.

  \<^bold>\<open>Not modelled.\<close> \<open>internal/logging\<close> and \<open>internal/metrics\<close> have no effect on what the program stores
  or answers, so the calls to them are left out everywhere. \<open>internal/app\<close> and \<open>apps\<close> also construct the
  services, listen, and shut down. The connection pool, timeouts and cancellation of contexts appear
  only as failures. The constructors, and the scanning of rows into structs, are the identity here.
  \<open>examples\<close> are programs that call PayMux; the dashboard is TypeScript.
\<close>

end
